(* ===== verification/Prelude.thy ===== *)
theory Prelude
  imports Main "HOL-Library.Finite_Map" "HOL-Library.Word"
begin

text \<open>
  The prelude of the development: the collections the component proofs use, Go values that
  every component shares (slices that may be nil, zero times, durations), and the few
  functions of Go's \<^verbatim>\<open>strconv\<close>, \<^verbatim>\<open>strings\<close> and \<^verbatim>\<open>fmt\<close> packages that the controllers call,
  with generic lemmas on lists.
\<close>

named_theorems consts_simps \<open>definitions of the string constants of the API packages\<close>
named_theorems handler_defs \<open>definitions of the handlers and their helpers\<close>

section \<open>Go values\<close>

text \<open>
  A Go slice whose nil-ness is observable (it is compared with \<^verbatim>\<open>reflect.DeepEqual\<close>, which
  tells a nil slice from an empty one). Ranging over it and \<^verbatim>\<open>len\<close> see only \<open>items\<close>.
  Slices that are never compared that way are plain lists.
\<close>

datatype 'a slice = NilSlice | Slice (items: "'a list")
  where "items NilSlice = []"

type_synonym string_map = "(string, string) fmap"

text \<open>
  \<^verbatim>\<open>time.Time\<close>: an instant, with 0 for Go's zero time; \<^verbatim>\<open>*metav1.Time\<close> is an optional instant,
  and \<^verbatim>\<open>IsZero\<close> on a nil pointer is true.
\<close>

type_synonym time = int

definition IsZero :: "time option \<Rightarrow> bool" where
  "IsZero t = (case t of None \<Rightarrow> True | Some i \<Rightarrow> i = 0)"

lemma IsZero_simps [simp]: "IsZero None" "IsZero (Some i) = (i = 0)"
  by (simp_all add: IsZero_def)

text \<open>\<^verbatim>\<open>time.Duration\<close> counts nanoseconds.\<close>

definition Second :: int where
  "Second = 1000000000"

definition Minute :: int where
  "Minute = 60 * Second"

section \<open>Strings\<close>

definition digit_char :: "nat \<Rightarrow> char" where
  "digit_char d = char_of (48 + d)"

text \<open>Decimal rendering, as \<^verbatim>\<open>strconv.Itoa\<close> and the verb \<^verbatim>\<open>%d\<close> write it.\<close>

fun show_nat :: "nat \<Rightarrow> string" where
  "show_nat n = (if n < 10 then [digit_char n] else show_nat (n div 10) @ [digit_char (n mod 10)])"

declare show_nat.simps [simp del]

definition show_int :: "int \<Rightarrow> string" where
  "show_int i = (if i < 0 then CHR ''-'' # show_nat (nat (- i)) else show_nat (nat i))"

text \<open>\<^verbatim>\<open>strings.Join\<close>.\<close>

fun strings_Join :: "string list \<Rightarrow> string \<Rightarrow> string" where
  "strings_Join [] sep = []"
| "strings_Join [s] sep = s"
| "strings_Join (s # ss) sep = s @ sep @ strings_Join ss sep"

lemma of_char_digit_char: "d < 10 \<Longrightarrow> of_char (digit_char d) = 48 + d"
  by (simp add: digit_char_def)

section \<open>Lists\<close>

text \<open>
  The index of the first element that satisfies a predicate, which the code keeps in a
  variable that starts at -1; \<open>remove_at\<close> is \<^verbatim>\<open>append(xs[:i], xs[i+1:]...)\<close>.
\<close>

fun first_index :: "('a \<Rightarrow> bool) \<Rightarrow> 'a list \<Rightarrow> nat option" where
  "first_index P [] = None"
| "first_index P (x # xs) = (if P x then Some 0 else map_option Suc (first_index P xs))"

definition remove_at :: "nat \<Rightarrow> 'a list \<Rightarrow> 'a list" where
  "remove_at i xs = take i xs @ drop (Suc i) xs"

lemma first_index_None [simp]: "first_index P xs = None \<longleftrightarrow> (\<forall>x \<in> set xs. \<not> P x)"
  by (induction xs) auto

lemma first_index_Some_length: "first_index P xs = Some i \<Longrightarrow> i < length xs \<and> P (xs ! i)"
  by (induction xs arbitrary: i) (auto split: if_splits)

lemma remove_at_first_index:
  "first_index P xs = Some i \<Longrightarrow>
     \<exists>ys x zs. xs = ys @ x # zs \<and> P x \<and> (\<forall>y \<in> set ys. \<not> P y) \<and> remove_at i xs = ys @ zs"
proof (induction xs arbitrary: i)
  case Nil
  then show ?case by simp
next
  case (Cons a xs)
  show ?case
  proof (cases "P a")
    case True
    with Cons.prems have "i = 0" by simp
    with True show ?thesis
      by (intro exI [of _ "[]"] exI [of _ a] exI [of _ xs]) (simp add: remove_at_def)
  next
    case False
    with Cons.prems obtain j where j: "first_index P xs = Some j" "i = Suc j" by auto
    then obtain ys x zs where "xs = ys @ x # zs" "P x" "\<forall>y \<in> set ys. \<not> P y" "remove_at j xs = ys @ zs"
      using Cons.IH by blast
    with False j show ?thesis
      by (intro exI [of _ "a # ys"] exI [of _ x] exI [of _ zs]) (simp add: remove_at_def)
  qed
qed

lemma set_remove_at_subset: "set (remove_at i xs) \<subseteq> set xs"
  by (auto simp: remove_at_def dest: in_set_takeD in_set_dropD)

end
