(* ===== verification/Objects.thy ===== *)
theory Objects
  imports Prelude
begin

text \<open>
  The data model of the API group: \<^verbatim>\<open>apis/meta/v1/types.go\<close>, \<^verbatim>\<open>apis/condition/v1/types.go\<close> and the
  \<^verbatim>\<open>*_types.go\<close> files of \<^verbatim>\<open>api/v1alpha1\<close>. A Go struct that embeds another is a record that
  extends it, so the promoted methods (\<^verbatim>\<open>GetCondition\<close>, \<^verbatim>\<open>GetFinalizers\<close>) apply to every object
  that embeds their receiver. Kubernetes' own structs keep the fields the program reads or
  compares. A \<^verbatim>\<open>resource.Quantity\<close> is its serialised text; what the code asks of it
  (\<^verbatim>\<open>IsZero\<close>, \<^verbatim>\<open>MustParse\<close>) is a parameter of the definitions that ask.
\<close>

section \<open>Kubernetes metadata\<close>

record NamespacedName =
  nn_Namespace :: string
  nn_Name :: string

record OwnerReference =
  owner_APIVersion :: string
  owner_Kind :: string
  owner_Name :: string
  owner_UID :: string
  owner_Controller :: "bool option"
  owner_BlockOwnerDeletion :: "bool option"

record TypeMeta =
  Kind :: string
  APIVersion :: string

record ObjectMeta = TypeMeta +
  Name :: string
  GenerateName :: string
  Namespace :: string
  UID :: string
  ResourceVersion :: string
  Labels :: string_map
  OwnerReferences :: "OwnerReference list"
  Finalizers :: "string list"
  DeletionTimestamp :: "time option"

record Taint =
  taint_Key :: string
  taint_Value :: string
  taint_Effect :: string
  taint_TimeAdded :: "time option"

record Toleration =
  tol_Key :: string
  tol_Operator :: string
  tol_Value :: string
  tol_Effect :: string
  tol_Seconds :: "int option"

definition TaintEffectNoSchedule :: string where
  [consts_simps]: "TaintEffectNoSchedule = ''NoSchedule''"

definition TaintEffectNoExecute :: string where
  [consts_simps]: "TaintEffectNoExecute = ''NoExecute''"

definition key_of :: "'a ObjectMeta_scheme \<Rightarrow> NamespacedName" where
  "key_of obj = \<lparr>nn_Namespace = Namespace obj, nn_Name = Name obj\<rparr>"

section \<open>Group, finalizers and the shared reference and condition types\<close>

definition GroupVersion_Group :: string where
  [consts_simps]: "GroupVersion_Group = ''baremetal.com.rmb938''"

definition FinalizerPrefix :: string where
  [consts_simps]: "FinalizerPrefix = ''finalizer.'' @ GroupVersion_Group"

record ObjectReference =
  ref_Name :: string
  ref_Kind :: string
  ref_Group :: string

type_synonym ConditionType = string
type_synonym ConditionStatus = string

definition ConditionStatusTrue :: ConditionStatus where
  [consts_simps]: "ConditionStatusTrue = ''True''"

definition ConditionStatusFalse :: ConditionStatus where
  [consts_simps]: "ConditionStatusFalse = ''False''"

definition ConditionStatusError :: ConditionStatus where
  [consts_simps]: "ConditionStatusError = ''Error''"

definition ConditionStatusUnknown :: ConditionStatus where
  [consts_simps]: "ConditionStatusUnknown = ''Unknown''"

record StatusCondition =
  cond_Type :: ConditionType
  cond_Status :: ConditionStatus
  cond_LastTransitionTime :: "time option"
  cond_Reason :: string
  cond_Message :: string

record StatusConditions =
  Conditions :: "StatusCondition list"

section \<open>BareMetalDiscovery\<close>

type_synonym Quantity = string

record BareMetalDiscoveryHardwareCPU =
  cpu_ModelName :: string
  cpu_Architecture :: string
  cpu_CPUS :: Quantity

record BareMetalDiscoveryHardwareStorage =
  storage_Name :: string
  storage_Size :: Quantity
  storage_Rotational :: bool
  storage_Trim :: bool
  storage_Serial :: string

record BareMetalDiscoveryHardwareNIC =
  hwnic_Name :: string
  hwnic_MAC :: string
  hwnic_Speed :: Quantity

record BareMetalDiscoveryHardware =
  hw_CPU :: BareMetalDiscoveryHardwareCPU
  hw_Ram :: Quantity
  hw_Storage :: "BareMetalDiscoveryHardwareStorage slice"
  hw_NICS :: "BareMetalDiscoveryHardwareNIC slice"

record BareMetalDiscoverySpec =
  bmd_SystemUUID :: string

record BareMetalDiscoveryStatus =
  bmd_Hardware :: "BareMetalDiscoveryHardware option"

record BareMetalDiscovery = ObjectMeta +
  bmd_Spec :: BareMetalDiscoverySpec
  bmd_Status :: BareMetalDiscoveryStatus

section \<open>BareMetalHardware\<close>

type_synonym BondMode = string

definition BondModeActiveBackup :: BondMode where
  [consts_simps]: "BondModeActiveBackup = ''active-backup''"

definition BareMetalHardwareFinalizer :: string where
  [consts_simps]: "BareMetalHardwareFinalizer = ''bmh.'' @ FinalizerPrefix"

definition BareMetalHardwareTaintKeyNotReady :: string where
  [consts_simps]: "BareMetalHardwareTaintKeyNotReady = ''hardware.'' @ GroupVersion_Group @ ''/not-ready''"

definition BareMetalHardwareTaintKeyNoSchedule :: string where
  [consts_simps]: "BareMetalHardwareTaintKeyNoSchedule = ''hardware.'' @ GroupVersion_Group @ ''/unschedulable''"

record BareMetalHardwareNICBond =
  bond_Interfaces :: "string list"
  bond_Mode :: BondMode

record BareMetalHardwareNIC =
  nic_Name :: string
  nic_Primary :: bool
  nic_Bond :: "BareMetalHardwareNICBond option"
  nic_NetworkRef :: ObjectReference

record BareMetalHardwareSpec =
  bmh_SystemUUID :: string
  bmh_CanProvision :: bool
  bmh_ImageDrive :: string
  bmh_NICS :: "BareMetalHardwareNIC list"
  bmh_Taints :: "Taint list"

record BareMetalHardwareStatusInstanceRef =
  iref_Name :: string
  iref_Namespace :: string
  iref_UID :: string

definition ref_key :: "BareMetalHardwareStatusInstanceRef \<Rightarrow> NamespacedName" where
  "ref_key ref = \<lparr>nn_Namespace = iref_Namespace ref, nn_Name = iref_Name ref\<rparr>"

record BareMetalHardwareStatus = StatusConditions +
  bmh_InstanceRef :: "BareMetalHardwareStatusInstanceRef option"
  bmh_Hardware :: "BareMetalDiscoveryHardware option"

record BareMetalHardware = ObjectMeta +
  bmh_Spec :: BareMetalHardwareSpec
  bmh_Status :: BareMetalHardwareStatus

definition ConditionTypeHardwareSet :: ConditionType where
  [consts_simps]: "ConditionTypeHardwareSet = ''HardwareSet''"

definition ConditionTypeImageDriveValid :: ConditionType where
  [consts_simps]: "ConditionTypeImageDriveValid = ''ImageDriveValid''"

definition ConditionTypeNicsValid :: ConditionType where
  [consts_simps]: "ConditionTypeNicsValid = ''NicsValid''"

definition HardwareIsSetConditionReason :: string where
  [consts_simps]: "HardwareIsSetConditionReason = ''HardwareIsSet''"

definition HardwareIsNotSetConditionReason :: string where
  [consts_simps]: "HardwareIsNotSetConditionReason = ''HardwareIsNotSet''"

definition ValidImageDriveConditionReason :: string where
  [consts_simps]: "ValidImageDriveConditionReason = ''ValidImageDrive''"

definition InvalidImageDriveConditionReason :: string where
  [consts_simps]: "InvalidImageDriveConditionReason = ''InvalidImageDrive''"

definition ImageDriveIsNotSetConditionReason :: string where
  [consts_simps]: "ImageDriveIsNotSetConditionReason = ''ImageDriveIsNotSet''"

definition ValidNicsConditionReason :: string where
  [consts_simps]: "ValidNicsConditionReason = ''ValidNics''"

definition InvalidNicsConditionReason :: string where
  [consts_simps]: "InvalidNicsConditionReason = ''InvalidNics''"

definition NicsAreNotSetConditionReason :: string where
  [consts_simps]: "NicsAreNotSetConditionReason = ''NicsAreNotSet''"

text \<open>Event reasons of the hardware controller.\<close>

definition HardwareNotSchedulableEventReason :: string where
  [consts_simps]: "HardwareNotSchedulableEventReason = ''HardwareNotSchedulable''"

definition HardwareSchedulableEventReason :: string where
  [consts_simps]: "HardwareSchedulableEventReason = ''HardwareSchedulable''"

definition HardwareReadyEventReason :: string where
  [consts_simps]: "HardwareReadyEventReason = ''HardwareReady''"

definition HardwareNotReadyEventReason :: string where
  [consts_simps]: "HardwareNotReadyEventReason = ''HardwareNotReady''"

definition HardwareDiscoveryNotFoundEventReason :: string where
  [consts_simps]: "HardwareDiscoveryNotFoundEventReason = ''DiscoveryNotFound''"

definition HardwareDiscoveryNoHardwareEventReason :: string where
  [consts_simps]: "HardwareDiscoveryNoHardwareEventReason = ''DiscoveryNoHardware''"

definition HardwareManyDiscoveryFoundEventReason :: string where
  [consts_simps]: "HardwareManyDiscoveryFoundEventReason = ''ManyDiscoveryFound''"

definition HardwareDiscoveryFoundEventReason :: string where
  [consts_simps]: "HardwareDiscoveryFoundEventReason = ''DiscoveryFound''"

definition HardwareCleaningEventReason :: string where
  [consts_simps]: "HardwareCleaningEventReason = ''HardwareCleaning''"

definition HardwareCleanedEventReason :: string where
  [consts_simps]: "HardwareCleanedEventReason = ''HardwareCleaned''"

section \<open>BareMetalInstance\<close>

definition BareMetalInstanceFinalizer :: string where
  [consts_simps]: "BareMetalInstanceFinalizer = ''bmi.'' @ FinalizerPrefix"

record BareMetalInstanceSpec =
  bmi_Selector :: "string_map option"
  bmi_Tolerations :: "Toleration slice"

type_synonym BareMetalInstanceStatusPhase = string

definition PhasePending :: BareMetalInstanceStatusPhase where
  [consts_simps]: "PhasePending = ''Pending''"

definition PhaseProvisioning :: BareMetalInstanceStatusPhase where
  [consts_simps]: "PhaseProvisioning = ''Provisioning''"

definition PhaseRunning :: BareMetalInstanceStatusPhase where
  [consts_simps]: "PhaseRunning = ''Running''"

definition PhaseCleaning :: BareMetalInstanceStatusPhase where
  [consts_simps]: "PhaseCleaning = ''Cleaning''"

definition PhaseTerminating :: BareMetalInstanceStatusPhase where
  [consts_simps]: "PhaseTerminating = ''Terminating''"

definition PhaseTerminated :: BareMetalInstanceStatusPhase where
  [consts_simps]: "PhaseTerminated = ''Terminated''"

record BareMetalInstanceStatusAgentInfo =
  agent_IP :: string

record BareMetalInstanceStatus = StatusConditions +
  bmi_AgentInfo :: "BareMetalInstanceStatusAgentInfo option"
  bmi_HardwareName :: string
  bmi_Phase :: BareMetalInstanceStatusPhase

record BareMetalInstance = ObjectMeta +
  bmi_Spec :: BareMetalInstanceSpec
  bmi_Status :: BareMetalInstanceStatus

definition ConditionTypeInstanceScheduled :: ConditionType where
  [consts_simps]: "ConditionTypeInstanceScheduled = ''InstanceScheduled''"

definition ConditionTypeInstanceNetworked :: ConditionType where
  [consts_simps]: "ConditionTypeInstanceNetworked = ''InstanceNetworkConfigured''"

definition ConditionTypeInstanceImaged :: ConditionType where
  [consts_simps]: "ConditionTypeInstanceImaged = ''InstanceImaged''"

definition ConditionTypeInstanceCleaned :: ConditionType where
  [consts_simps]: "ConditionTypeInstanceCleaned = ''InstanceCleaned''"

definition ImagingFailedConditionReason :: string where
  [consts_simps]: "ImagingFailedConditionReason = ''ImagingFailed''"

definition CleaningFailedConditionReason :: string where
  [consts_simps]: "CleaningFailedConditionReason = ''CleaningFailed''"

text \<open>Event reasons of the scheduler and the provisioner.\<close>

definition InstanceScheduleEventReason :: string where
  [consts_simps]: "InstanceScheduleEventReason = ''InstanceScheduled''"

definition InstanceUnscheduleEventReason :: string where
  [consts_simps]: "InstanceUnscheduleEventReason = ''InstanceUnscheduled''"

definition InstanceProvisioningEventReason :: string where
  [consts_simps]: "InstanceProvisioningEventReason = ''InstanceProvisioning''"

definition InstanceNetworkingEventReason :: string where
  [consts_simps]: "InstanceNetworkingEventReason = ''InstanceNetworking''"

definition InstanceNetworkedEventReason :: string where
  [consts_simps]: "InstanceNetworkedEventReason = ''InstanceNetworked''"

definition InstanceNoAgentEventReason :: string where
  [consts_simps]: "InstanceNoAgentEventReason = ''InstanceNoAgent''"

definition InstanceImagingEventReason :: string where
  [consts_simps]: "InstanceImagingEventReason = ''InstanceImaging''"

definition InstanceImagedEventReason :: string where
  [consts_simps]: "InstanceImagedEventReason = ''InstanceImaged''"

definition InstanceNotCleanedEventReason :: string where
  [consts_simps]: "InstanceNotCleanedEventReason = ''InstanceNotCleaned''"

definition InstanceCleaningEventReason :: string where
  [consts_simps]: "InstanceCleaningEventReason = ''InstanceCleaning''"

definition InstanceCleanedEventReason :: string where
  [consts_simps]: "InstanceCleanedEventReason = ''InstanceCleaned''"

section \<open>BareMetalEndpoint and BareMetalNetwork\<close>

definition BareMetalEndpointFinalizer :: string where
  [consts_simps]: "BareMetalEndpointFinalizer = ''bme.'' @ FinalizerPrefix"

definition BareMetalEndpointInstanceLabel :: string where
  [consts_simps]: "BareMetalEndpointInstanceLabel = GroupVersion_Group @ ''/instance''"

definition BareMetalEndpointNICLabel :: string where
  [consts_simps]: "BareMetalEndpointNICLabel = GroupVersion_Group @ ''/nic''"

record BareMetalEndpointBond =
  bme_MACS :: "string slice"
  bme_BondMode :: BondMode

record BareMetalEndpointSpec =
  bme_Primary :: bool
  bme_MAC :: string
  bme_Bond :: "BareMetalEndpointBond option"
  bme_NetworkRef :: ObjectReference

type_synonym BareMetalEndpointStatusPhase = string

definition EndpointPhasePending :: BareMetalEndpointStatusPhase where
  [consts_simps]: "EndpointPhasePending = ''Pending''"

definition EndpointPhaseAddressing :: BareMetalEndpointStatusPhase where
  [consts_simps]: "EndpointPhaseAddressing = ''Addressing''"

definition EndpointPhaseAddressed :: BareMetalEndpointStatusPhase where
  [consts_simps]: "EndpointPhaseAddressed = ''Addressed''"

definition EndpointPhaseDeleting :: BareMetalEndpointStatusPhase where
  [consts_simps]: "EndpointPhaseDeleting = ''Deleting''"

definition EndpointPhaseDeleted :: BareMetalEndpointStatusPhase where
  [consts_simps]: "EndpointPhaseDeleted = ''Deleted''"

record BareMetalEndpointStatusAddress =
  addr_IP :: string
  addr_CIDR :: string
  addr_Gateway :: string
  addr_Nameservers :: "string slice"
  addr_Search :: "string slice"

record BareMetalEndpointStatus = StatusConditions +
  bme_Address :: "BareMetalEndpointStatusAddress option"
  bme_Phase :: BareMetalEndpointStatusPhase

record BareMetalEndpoint = ObjectMeta +
  bme_Spec :: BareMetalEndpointSpec
  bme_Status :: BareMetalEndpointStatus

definition BareMetalNetworkFinalizer :: string where
  [consts_simps]: "BareMetalNetworkFinalizer = ''bmn.'' @ FinalizerPrefix"

record BareMetalNetworkSpec =
  bmn_CIDR :: string
  bmn_Gateway :: string
  bmn_Start :: string
  bmn_End :: string
  bmn_Nameservers :: "string slice"
  bmn_Search :: "string slice"

record BareMetalNetwork = ObjectMeta +
  bmn_Spec :: BareMetalNetworkSpec

end
