(* ===== verification/Conditions.thy ===== *)
theory Conditions
  imports Objects
begin

text \<open>
  Status conditions (\<^verbatim>\<open>apis/condition/v1/condition.go\<close>) and finalizers (\<^verbatim>\<open>api/helpers.go\<close>).
  The Go interface \<^verbatim>\<open>ConditionObject\<close> is the locale \<open>condition_object\<close>: what the reconcilers
  rely on when they set one condition and later read it, or another, back. It is
  interpreted on the methods of \<^verbatim>\<open>StatusConditions\<close>.
\<close>

section \<open>Reading and setting conditions\<close>

datatype condition_error = NotFullyFormed

definition GetConditions :: "'a StatusConditions_scheme \<Rightarrow> StatusCondition list" where
  "GetConditions scs = Conditions scs"

fun find_condition :: "ConditionType \<Rightarrow> StatusCondition list \<Rightarrow> StatusCondition option" where
  "find_condition ct [] = None"
| "find_condition ct (cond # conds) = (if cond_Type cond = ct then Some cond else find_condition ct conds)"

definition GetCondition :: "'a StatusConditions_scheme \<Rightarrow> ConditionType \<Rightarrow> StatusCondition option" where
  "GetCondition scs ct = find_condition ct (Conditions scs)"

definition SetConditions :: "'a StatusConditions_scheme \<Rightarrow> StatusCondition list \<Rightarrow> 'a StatusConditions_scheme" where
  "SetConditions scs conditions = scs\<lparr>Conditions := conditions\<rparr>"

text \<open>The loop over the existing conditions: overwrite the first of the same type, else append.\<close>

fun put_condition :: "StatusCondition \<Rightarrow> StatusCondition list \<Rightarrow> StatusCondition list" where
  "put_condition new [] = [new]"
| "put_condition new (cond # conds) =
     (if cond_Type cond \<noteq> cond_Type new then cond # put_condition new conds
      else (if cond_Status cond = cond_Status new
            then new\<lparr>cond_LastTransitionTime := cond_LastTransitionTime cond\<rparr> else new) # conds)"

definition SetCondition ::
  "'a StatusConditions_scheme \<Rightarrow> StatusCondition \<Rightarrow> condition_error + 'a StatusConditions_scheme" where
  "SetCondition scs new =
     (if length (cond_Type new) = 0 \<or> length (cond_Status new) = 0 \<or> IsZero (cond_LastTransitionTime new)
      then Inl NotFullyFormed
      else Inr (scs\<lparr>Conditions := put_condition new (Conditions scs)\<rparr>))"

definition fully_formed :: "StatusCondition \<Rightarrow> bool" where
  "fully_formed c \<longleftrightarrow> cond_Type c \<noteq> [] \<and> cond_Status c \<noteq> [] \<and> \<not> IsZero (cond_LastTransitionTime c)"

text \<open>What an object ends up holding for a type after a condition is set on it.\<close>

definition merged :: "StatusCondition option \<Rightarrow> StatusCondition \<Rightarrow> StatusCondition" where
  "merged old new = (case old of
     None \<Rightarrow> new
   | Some c \<Rightarrow> if cond_Status c = cond_Status new
               then new\<lparr>cond_LastTransitionTime := cond_LastTransitionTime c\<rparr> else new)"

lemma merged_fields [simp]:
  "cond_Type (merged old new) = cond_Type new" "cond_Status (merged old new) = cond_Status new"
  "cond_Reason (merged old new) = cond_Reason new" "cond_Message (merged old new) = cond_Message new"
  by (auto simp: merged_def split: option.splits)

lemma find_put_same: "find_condition (cond_Type new) (put_condition new cs) =
    Some (merged (find_condition (cond_Type new) cs) new)"
  by (induction cs) (auto simp: merged_def)

lemma find_put_other: "ct \<noteq> cond_Type new \<Longrightarrow> find_condition ct (put_condition new cs) = find_condition ct cs"
  by (induction cs) auto

lemma find_condition_type: "find_condition ct cs = Some c \<Longrightarrow> cond_Type c = ct \<and> c \<in> set cs"
  by (induction cs) (auto split: if_splits)

lemma find_condition_None: "find_condition ct cs = None \<longleftrightarrow> ct \<notin> cond_Type ` set cs"
  by (induction cs) auto

lemma types_put: "map cond_Type (put_condition new cs) =
    (if cond_Type new \<in> cond_Type ` set cs then map cond_Type cs else map cond_Type cs @ [cond_Type new])"
  by (induction cs) auto

section \<open>The interface\<close>

locale condition_object =
  fixes get_condition :: "'s \<Rightarrow> ConditionType \<Rightarrow> StatusCondition option"
    and set_condition :: "'s \<Rightarrow> StatusCondition \<Rightarrow> condition_error + 's"
  assumes set_ok: "(\<exists>s'. set_condition s c = Inr s') \<longleftrightarrow> fully_formed c"
    and get_set_same: "set_condition s c = Inr s' \<Longrightarrow>
      get_condition s' (cond_Type c) = Some (merged (get_condition s (cond_Type c)) c)"
    and get_set_other: "set_condition s c = Inr s' \<Longrightarrow> ct \<noteq> cond_Type c \<Longrightarrow>
      get_condition s' ct = get_condition s ct"
begin

lemma never_removed:
  assumes "set_condition s c = Inr s'" and "get_condition s ct \<noteq> None"
  shows "get_condition s' ct \<noteq> None"
  using assms get_set_same [OF assms(1)] get_set_other [OF assms(1), of ct]
  by (cases "ct = cond_Type c") auto

lemma set_status: "set_condition s c = Inr s' \<Longrightarrow>
    \<exists>c'. get_condition s' (cond_Type c) = Some c' \<and> cond_Status c' = cond_Status c \<and>
         cond_Reason c' = cond_Reason c \<and> cond_Message c' = cond_Message c"
  by (simp add: get_set_same)

lemma transition_time:
  assumes "set_condition s c = Inr s'" and "get_condition s (cond_Type c) = Some old"
  shows "map_option cond_LastTransitionTime (get_condition s' (cond_Type c)) =
    Some (if cond_Status old = cond_Status c then cond_LastTransitionTime old
          else cond_LastTransitionTime c)"
  using assms by (simp add: get_set_same merged_def)

lemma set_twice_get:
  assumes "set_condition s c = Inr s1" and "set_condition s1 d = Inr s2"
    and "cond_Type c \<noteq> cond_Type d"
  shows "get_condition s2 (cond_Type c) = get_condition s1 (cond_Type c)"
  by (rule get_set_other [OF assms(2,3)])

end

interpretation status: condition_object
  "GetCondition :: 'a StatusConditions_scheme \<Rightarrow> _" SetCondition
  by unfold_locales
    (auto simp: SetCondition_def GetCondition_def fully_formed_def find_put_same find_put_other
          split: if_splits)

text \<open>
  Condition types stay distinct: \<open>SetCondition\<close> never makes a second entry for a type.
\<close>

definition distinct_conditions :: "'a StatusConditions_scheme \<Rightarrow> bool" where
  "distinct_conditions scs = distinct (map cond_Type (Conditions scs))"

lemma SetCondition_distinct:
  "SetCondition scs c = Inr scs' \<Longrightarrow> distinct_conditions scs \<Longrightarrow> distinct_conditions scs'"
  by (auto simp: SetCondition_def distinct_conditions_def types_put split: if_splits)

lemma SetCondition_more: "SetCondition scs c = Inr scs' \<Longrightarrow> StatusConditions.more scs' = StatusConditions.more scs"
  by (auto simp: SetCondition_def split: if_splits)

text \<open>Is there a condition of a type, with a status?\<close>

definition has_status :: "'a StatusConditions_scheme \<Rightarrow> ConditionType \<Rightarrow> ConditionStatus \<Rightarrow> bool" where
  "has_status st ct cs \<longleftrightarrow> (case GetCondition st ct of None \<Rightarrow> False | Some c \<Rightarrow> cond_Status c = cs)"

lemma SetCondition_has_status:
  assumes "SetCondition st c = Inr st'"
  shows "has_status st' ct cs \<longleftrightarrow> (if ct = cond_Type c then cs = cond_Status c else has_status st ct cs)"
    "GetCondition st' ct = None \<longleftrightarrow> ct \<noteq> cond_Type c \<and> GetCondition st ct = None"
  using status.get_set_same [OF assms] status.get_set_other [OF assms, of ct]
  by (cases "ct = cond_Type c"; auto simp: has_status_def)+

section \<open>Finalizers\<close>

fun has_finalizer :: "string list \<Rightarrow> string \<Rightarrow> bool" where
  "has_finalizer [] finalizer = False"
| "has_finalizer (f # fs) finalizer = (if f = finalizer then True else has_finalizer fs finalizer)"

definition HasFinalizer :: "'a ObjectMeta_scheme \<Rightarrow> string \<Rightarrow> bool" where
  "HasFinalizer obj finalizer = has_finalizer (Finalizers obj) finalizer"

fun without_finalizer :: "string list \<Rightarrow> string \<Rightarrow> string list" where
  "without_finalizer [] finalizer = []"
| "without_finalizer (f # fs) finalizer =
     (if f = finalizer then without_finalizer fs finalizer else f # without_finalizer fs finalizer)"

definition RemoveFinalizer :: "'a ObjectMeta_scheme \<Rightarrow> string \<Rightarrow> 'a ObjectMeta_scheme" where
  "RemoveFinalizer obj finalizer = obj\<lparr>Finalizers := without_finalizer (Finalizers obj) finalizer\<rparr>"

lemma has_finalizer_iff [simp]: "has_finalizer fs f \<longleftrightarrow> f \<in> set fs"
  by (induction fs) auto

lemma without_finalizer_filter [simp]: "without_finalizer fs f = filter (\<lambda>g. g \<noteq> f) fs"
  by (induction fs) auto

lemma HasFinalizer_RemoveFinalizer [simp]:
  "HasFinalizer (RemoveFinalizer obj f) g \<longleftrightarrow> g \<noteq> f \<and> HasFinalizer obj g"
  by (auto simp: HasFinalizer_def RemoveFinalizer_def)

lemma RemoveFinalizer_more [simp]: "ObjectMeta.more (RemoveFinalizer obj f) = ObjectMeta.more obj"
  by (simp add: RemoveFinalizer_def)

section \<open>Taints\<close>

text \<open>The loop that looks a taint up by its key; the controllers have it in several places.\<close>

fun has_taint :: "string \<Rightarrow> Taint list \<Rightarrow> bool" where
  "has_taint key [] = False"
| "has_taint key (t # ts) = (if taint_Key t = key then True else has_taint key ts)"

lemma has_taint_iff: "has_taint key ts \<longleftrightarrow> (\<exists>t \<in> set ts. taint_Key t = key)"
  by (induction ts) auto

end
