(* ===== verification/Program.thy ===== *)
theory Program
  imports Conditions
begin

text \<open>
  The effects of the controllers, the servers and the webhooks. What they call is the
  controller-runtime client, the event recorder, the clock, the random generator, mutexes,
  an HTTP client and the file system: code outside the repository, whose answers the model
  must not guess. So a handler is an interaction tree: it returns, panics, spins for ever,
  or makes a call and goes on with the answer, whatever it is. Theorems about a handler hold
  for every sequence of answers, errors and stale reads included.
\<close>

section \<open>Errors and results\<close>

text \<open>
  An error of the API client is a \<^verbatim>\<open>StatusError\<close> (is it NotFound, its HTTP code, its text);
  every other Go error is its text.
\<close>

datatype go_error = StatusError (err_NotFound: bool) (err_Code: int) (err_Text: string)
  | PlainError (err_Text: string)
  where "err_NotFound (PlainError t) = False"
      | "err_Code (PlainError t) = 0"

definition IsNotFound :: "go_error \<Rightarrow> bool" where
  "IsNotFound e = err_NotFound e"

definition IgnoreNotFound :: "go_error \<Rightarrow> go_error option" where
  "IgnoreNotFound e = (if IsNotFound e then None else Some e)"

record Result =
  Requeue :: bool
  RequeueAfter :: int

section \<open>Calls and answers\<close>

datatype list_option = InNamespace string | MatchingFields string string | MatchingLabels string_map

datatype event_object = OnBMI BareMetalInstance | OnBMH BareMetalHardware | OnBME BareMetalEndpoint

datatype event_type = EventTypeNormal | EventTypeWarning

text \<open>
  What the agent asks of the machine it runs on: commands, the image download, the partition
  tables and the file system of a disk (\<^verbatim>\<open>go-diskfs\<close>, \<^verbatim>\<open>archiver\<close>), what it is made of
  (\<^verbatim>\<open>gopsutil\<close>), files, sockets, and to wait. Of the partition
  types only the two the agent names are told apart; sector numbers have the widths of the
  two table formats.
\<close>

datatype gpt_type = GptUnused | GptLinuxFilesystem | GptOther string

datatype mbr_type = MbrEmpty | MbrLinux | MbrOther "8 word"

record gpt_partition =
  gpt_Type :: gpt_type
  gpt_Start :: "64 word"
  gpt_Size :: "64 word"

record mbr_partition =
  mbr_Bootable :: bool
  mbr_Type :: mbr_type
  mbr_Start :: "32 word"
  mbr_Size :: "32 word"

datatype partition_table =
    GPT (table_LogicalSectorSize: int) (gpt_Partitions: "gpt_partition list")
  | MBR (table_LogicalSectorSize: int) (mbr_Partitions: "mbr_partition list")

datatype archive = Decompressor | ArchiveReader | OtherArchive

datatype host_call =
    Exec "string list"
  | ArchiverByExtension string | HttpGet string | OpenDiskFile string
  | CopyImage "archive option" | CloseDiskFile
  | DiskOpen string | GetPartitionTable | WritePartitionTable partition_table
  | CreateFilesystem nat string | FsMkdir string | FsOpenFile string | FsWrite string string
  | HostInfo | VirtualMemory | CpuInfo | NetInterfaces | OpenFile string | ReadAllFile string
  | DialUDP string | CloseUDP
  | Listen string | CloseListener | SleepFor int | ServeHttp | AwaitStop | ShutdownHttp int

text \<open>
  The answers: an error or nil; a command's output and error; the host's identifier, its bytes of
  memory, the model name of every processor, every interface's name and hardware address; the
  bytes of a file; the bytes of an address.
\<close>

datatype host_answer =
    HErr "string option"
  | HExec string "string option"
  | HArchive "string + archive"
  | HDisk "string + (int \<times> int)"
  | HTable "string + partition_table"
  | HText "string + string"
  | HMemory "string + 64 word"
  | HNames "string + string list"
  | HInterfaces "string + (string \<times> string) list"
  | HAddress "string + 8 word list"

datatype call =
    GetBMI NamespacedName | GetBMH NamespacedName | GetBME NamespacedName | GetBMN NamespacedName
  | ListBMI "list_option list" | ListBMH "list_option list" | ListBME "list_option list"
  | ListBMD "list_option list"
  | UpdateBMI BareMetalInstance | UpdateBMH BareMetalHardware | UpdateBME BareMetalEndpoint
  | UpdateBMN BareMetalNetwork
  | StatusUpdateBMI BareMetalInstance | StatusUpdateBMH BareMetalHardware
  | StatusUpdateBME BareMetalEndpoint | StatusUpdateBMD BareMetalDiscovery
  | CreateBME BareMetalEndpoint | CreateBMD BareMetalDiscovery
  | DeleteBMI BareMetalInstance
  | Eventf event_object event_type string string
  | ClockNow
  | RandIntn nat
  | Lock string | Unlock string
  | HttpRequest string string string
  | ReadFile string
  | Host host_call

text \<open>
  An HTTP exchange fails when the request is built, when it is sent, or when the body is
  read; otherwise there is a status code and a body.
\<close>

datatype http_answer = RequestError string | TransportError string | BodyError int string
  | Reply int string

datatype answer =
    ABMI "go_error + BareMetalInstance" | ABMH "go_error + BareMetalHardware"
  | ABME "go_error + BareMetalEndpoint" | ABMN "go_error + BareMetalNetwork"
  | ABMD "go_error + BareMetalDiscovery"
  | ABMIs "go_error + BareMetalInstance list" | ABMHs "go_error + BareMetalHardware list"
  | ABMEs "go_error + BareMetalEndpoint list" | ABMDs "go_error + BareMetalDiscovery list"
  | AErr "go_error option" | ATime time | ANat nat | AHttp http_answer
  | AFile "go_error + string" | AHost host_answer | AUnit

text \<open>
  Reading an answer at the type the call expects. An answer of another kind, which no client
  gives, counts as an error, so that every tree is total.
\<close>

definition wrong_kind :: go_error where
  "wrong_kind = PlainError ''answer of the wrong kind''"

definition as_BMI :: "answer \<Rightarrow> go_error + BareMetalInstance" where
  "as_BMI a = (case a of ABMI x \<Rightarrow> x | _ \<Rightarrow> Inl wrong_kind)"

definition as_BMH :: "answer \<Rightarrow> go_error + BareMetalHardware" where
  "as_BMH a = (case a of ABMH x \<Rightarrow> x | _ \<Rightarrow> Inl wrong_kind)"

definition as_BME :: "answer \<Rightarrow> go_error + BareMetalEndpoint" where
  "as_BME a = (case a of ABME x \<Rightarrow> x | _ \<Rightarrow> Inl wrong_kind)"

definition as_BMN :: "answer \<Rightarrow> go_error + BareMetalNetwork" where
  "as_BMN a = (case a of ABMN x \<Rightarrow> x | _ \<Rightarrow> Inl wrong_kind)"

definition as_BMD :: "answer \<Rightarrow> go_error + BareMetalDiscovery" where
  "as_BMD a = (case a of ABMD x \<Rightarrow> x | _ \<Rightarrow> Inl wrong_kind)"

definition as_BMIs :: "answer \<Rightarrow> go_error + BareMetalInstance list" where
  "as_BMIs a = (case a of ABMIs x \<Rightarrow> x | _ \<Rightarrow> Inl wrong_kind)"

definition as_BMHs :: "answer \<Rightarrow> go_error + BareMetalHardware list" where
  "as_BMHs a = (case a of ABMHs x \<Rightarrow> x | _ \<Rightarrow> Inl wrong_kind)"

definition as_BMEs :: "answer \<Rightarrow> go_error + BareMetalEndpoint list" where
  "as_BMEs a = (case a of ABMEs x \<Rightarrow> x | _ \<Rightarrow> Inl wrong_kind)"

definition as_BMDs :: "answer \<Rightarrow> go_error + BareMetalDiscovery list" where
  "as_BMDs a = (case a of ABMDs x \<Rightarrow> x | _ \<Rightarrow> Inl wrong_kind)"

definition as_Err :: "answer \<Rightarrow> go_error option" where
  "as_Err a = (case a of AErr x \<Rightarrow> x | _ \<Rightarrow> Some wrong_kind)"

definition as_Time :: "answer \<Rightarrow> time" where
  "as_Time a = (case a of ATime t \<Rightarrow> t | _ \<Rightarrow> 0)"

definition as_Nat :: "answer \<Rightarrow> nat" where
  "as_Nat a = (case a of ANat n \<Rightarrow> n | _ \<Rightarrow> 0)"

definition as_Http :: "answer \<Rightarrow> http_answer" where
  "as_Http a = (case a of AHttp h \<Rightarrow> h | _ \<Rightarrow> TransportError ''answer of the wrong kind'')"

definition as_Host :: "answer \<Rightarrow> host_answer" where
  "as_Host a = (case a of AHost x \<Rightarrow> x | _ \<Rightarrow> HErr (Some ''answer of the wrong kind''))"

definition as_File :: "answer \<Rightarrow> go_error + string" where
  "as_File a = (case a of AFile x \<Rightarrow> x | _ \<Rightarrow> Inl wrong_kind)"

lemmas answer_simps [simp] =
  as_BMI_def [of "ABMI x" for x, simplified] as_BMH_def [of "ABMH x" for x, simplified]
  as_BME_def [of "ABME x" for x, simplified] as_BMN_def [of "ABMN x" for x, simplified]
  as_BMD_def [of "ABMD x" for x, simplified] as_BMIs_def [of "ABMIs x" for x, simplified]
  as_BMHs_def [of "ABMHs x" for x, simplified] as_BMEs_def [of "ABMEs x" for x, simplified]
  as_BMDs_def [of "ABMDs x" for x, simplified] as_Err_def [of "AErr x" for x, simplified]
  as_Time_def [of "ATime x" for x, simplified] as_Nat_def [of "ANat x" for x, simplified]
  as_Http_def [of "AHttp x" for x, simplified] as_File_def [of "AFile x" for x, simplified]
  as_Host_def [of "AHost x" for x, simplified]

section \<open>Interaction trees\<close>

datatype 'r prog = Ret 'r | Panic string | Hang | Call call "answer \<Rightarrow> 'r prog"

text \<open>Go's \<^verbatim>\<open>defer\<close>: the call is made when the function returns or panics.\<close>

primrec deferred :: "call \<Rightarrow> 'r prog \<Rightarrow> 'r prog" where
  "deferred c (Ret r) = Call c (\<lambda>_. Ret r)"
| "deferred c (Panic m) = Call c (\<lambda>_. Panic m)"
| "deferred c Hang = Hang"
| "deferred c (Call d k) = Call d (\<lambda>a. deferred c (k a))"

datatype 'r outcome = Returned 'r | Panicked string | Hung | Waiting call

text \<open>
  Running a tree against a list of answers: the calls made, each with its answer, and how it
  ended; \<open>Waiting\<close> when the answers ran out.
\<close>

primrec run :: "'r prog \<Rightarrow> answer list \<Rightarrow> (call \<times> answer) list \<times> 'r outcome" where
  "run (Ret r) as = ([], Returned r)"
| "run (Panic m) as = ([], Panicked m)"
| "run Hang as = ([], Hung)"
| "run (Call c k) as = (case as of
     [] \<Rightarrow> ([], Waiting c)
   | a # as' \<Rightarrow> (let (tr, oc) = run (k a) as' in ((c, a) # tr, oc)))"

text \<open>
  \<open>always P h p\<close>: whatever the answers, every call the tree makes satisfies \<open>P\<close> given the
  calls and answers before it (\<open>h\<close> is the history so far).
\<close>

type_synonym history = "(call \<times> answer) list"

primrec always :: "(history \<Rightarrow> call \<Rightarrow> bool) \<Rightarrow> history \<Rightarrow> 'r prog \<Rightarrow> bool" where
  "always P h (Ret r) = True"
| "always P h (Panic m) = True"
| "always P h Hang = True"
| "always P h (Call c k) = (P h c \<and> (\<forall>a. always P (h @ [(c, a)]) (k a)))"

text \<open>\<open>ends Q h p\<close>: whatever the answers, the tree ends in an outcome that satisfies \<open>Q\<close>.\<close>

primrec ends :: "(history \<Rightarrow> 'r outcome \<Rightarrow> bool) \<Rightarrow> history \<Rightarrow> 'r prog \<Rightarrow> bool" where
  "ends Q h (Ret r) = Q h (Returned r)"
| "ends Q h (Panic m) = Q h (Panicked m)"
| "ends Q h Hang = Q h Hung"
| "ends Q h (Call c k) = (\<forall>a. ends Q (h @ [(c, a)]) (k a))"

lemma always_run:
  assumes "always P h p" and "run p as = (pre @ (c, a) # post, oc)"
  shows "P (h @ pre) c"
  using assms
proof (induction p arbitrary: h as pre)
  case (Call d k)
  show ?case
  proof (cases as)
    case Nil
    with Call.prems show ?thesis by simp
  next
    case (Cons b as')
    with Call.prems obtain tr where tr: "run (k b) as' = (tr, oc)" "(d, b) # tr = pre @ (c, a) # post"
      by (auto split: prod.splits)
    show ?thesis
    proof (cases pre)
      case Nil
      with tr Call.prems show ?thesis by simp
    next
      case (Cons x pre')
      with tr have "run (k b) as' = (pre' @ (c, a) # post, oc)" "x = (d, b)" by auto
      with Call.IH [of "k b" "h @ [(d, b)]"] Call.prems(1) Cons show ?thesis by auto
    qed
  qed
qed auto

lemma always_waiting:
  assumes "always P h p" and "run p as = (tr, Waiting c)"
  shows "P (h @ tr) c"
  using assms
proof (induction p arbitrary: h as tr)
  case (Call d k)
  show ?case
  proof (cases as)
    case Nil
    with Call.prems show ?thesis by simp
  next
    case (Cons b as')
    with Call.prems obtain tr' where "run (k b) as' = (tr', Waiting c)" "tr = (d, b) # tr'"
      by (auto split: prod.splits)
    with Call.IH [of "k b" "h @ [(d, b)]" as' tr'] Call.prems(1) show ?thesis by auto
  qed
qed auto

text \<open>
  \<open>performs p h c\<close>: some answers make the tree reach the call \<open>c\<close> with \<open>h\<close> behind it. The history
  holds the answers, so this runs the tree.
\<close>

definition performs :: "'r prog \<Rightarrow> history \<Rightarrow> call \<Rightarrow> bool" where
  "performs p h c \<longleftrightarrow> run p (map snd h) = (h, Waiting c)"

lemma performs_always: "always P [] p \<Longrightarrow> performs p h c \<Longrightarrow> P h c"
  using always_waiting [of P "[]" p "map snd h" h c] by (simp add: performs_def)

lemma performs_simps [simp]:
  "\<not> performs (Ret r) h c" "\<not> performs (Panic m) h c" "\<not> performs Hang h c"
  "performs (Call d k) [] c \<longleftrightarrow> d = c"
  "performs (Call d k) ((d', a) # h) c \<longleftrightarrow> d' = d \<and> performs (k a) h c"
  by (auto simp: performs_def split: prod.splits)

lemma performs_deferred: "performs p h c \<Longrightarrow> performs (deferred d p) h c"
proof (induction p arbitrary: h)
  case (Call d' k)
  then show ?case by (cases h) auto
qed simp_all

lemma ends_run:
  assumes "ends Q h p" and "run p as = (tr, oc)" and "\<forall>c. oc \<noteq> Waiting c"
  shows "Q (h @ tr) oc"
  using assms
proof (induction p arbitrary: h as tr)
  case (Call d k)
  show ?case
  proof (cases as)
    case Nil
    with Call.prems show ?thesis by auto
  next
    case (Cons b as')
    with Call.prems obtain tr' where "run (k b) as' = (tr', oc)" "tr = (d, b) # tr'"
      by (auto split: prod.splits)
    with Call.IH [of "k b" "h @ [(d, b)]" as' tr'] Call.prems(1,3) show ?thesis by auto
  qed
qed auto

lemma always_deferred:
  "always P h p \<Longrightarrow> (\<And>h. P h c) \<Longrightarrow> always P h (deferred c p)"
  by (induction p arbitrary: h) auto

lemma always_mono: "always P h p \<Longrightarrow> (\<And>h c. P h c \<Longrightarrow> Q h c) \<Longrightarrow> always Q h p"
  by (induction p arbitrary: h) auto

lemma always_conj: "always (\<lambda>h c. P h c \<and> Q h c) h p \<longleftrightarrow> always P h p \<and> always Q h p"
  by (induction p arbitrary: h) auto

section \<open>One tree after another\<close>

primrec and_then :: "'a prog \<Rightarrow> ('a \<Rightarrow> 'b prog) \<Rightarrow> 'b prog" where
  "and_then (Ret r) f = f r"
| "and_then (Panic m) f = Panic m"
| "and_then Hang f = Hang"
| "and_then (Call c k) f = Call c (\<lambda>a. and_then (k a) f)"

lemma ends_and_then:
  "ends (\<lambda>h oc. case oc of Returned r \<Rightarrow> ends Q h (f r) | Panicked m \<Rightarrow> Q h (Panicked m)
      | Hung \<Rightarrow> Q h Hung | Waiting c \<Rightarrow> True) h p \<Longrightarrow> ends Q h (and_then p f)"
  by (induction p arbitrary: h) auto

lemma always_and_then:
  assumes "always P h p" and "ends (\<lambda>h oc. \<forall>r. oc = Returned r \<longrightarrow> always P h (f r)) h p"
  shows "always P h (and_then p f)"
  using assms by (induction p arbitrary: h) auto

lemma ends_mono: "ends Q h p \<Longrightarrow> (\<And>h oc. Q h oc \<Longrightarrow> R h oc) \<Longrightarrow> ends R h p"
  by (induction p arbitrary: h) auto

lemma ends_extends: "ends Q (h0 @ h) p \<Longrightarrow> ends (\<lambda>h' oc. (\<exists>g. h' = h0 @ g) \<and> Q h' oc) (h0 @ h) p"
proof (induction p arbitrary: h)
  case (Call c k)
  then show ?case by fastforce
qed auto

lemma ends_all: "(\<And>h oc. Q h oc) \<Longrightarrow> ends Q h p"
  by (induction p arbitrary: h) auto

section \<open>The shapes every reconciler shares\<close>

type_synonym reconcile = "(Result \<times> go_error option) prog"

definition no_requeue :: Result where
  "no_requeue = \<lparr>Requeue = False, RequeueAfter = 0\<rparr>"

text \<open>\<^verbatim>\<open>return ctrl.Result{}, nil\<close>, \<^verbatim>\<open>return ctrl.Result{}, err\<close> and the two requeues.\<close>

definition return_ok :: reconcile where
  "return_ok = Ret (no_requeue, None)"

definition return_err :: "go_error \<Rightarrow> reconcile" where
  "return_err e = Ret (no_requeue, Some e)"

definition return_requeue :: reconcile where
  "return_requeue = Ret (no_requeue\<lparr>Requeue := True\<rparr>, None)"

definition return_after :: "int \<Rightarrow> reconcile" where
  "return_after d = Ret (no_requeue\<lparr>RequeueAfter := d\<rparr>, None)"

text \<open>An event, then on; the recorder answers nothing.\<close>

definition event :: "event_object \<Rightarrow> event_type \<Rightarrow> string \<Rightarrow> string \<Rightarrow> 'r prog \<Rightarrow> 'r prog" where
  "event obj ety reason message p = Call (Eventf obj ety reason message) (\<lambda>_. p)"

text \<open>
  The opening of every reconciler: get the object, swallow NotFound, return any other error.
\<close>

definition fetch_BMI :: "NamespacedName \<Rightarrow> (BareMetalInstance \<Rightarrow> reconcile) \<Rightarrow> reconcile" where
  "fetch_BMI req k = Call (GetBMI req) (\<lambda>a. case as_BMI a of
     Inl err \<Rightarrow> Ret (no_requeue, IgnoreNotFound err) | Inr bmi \<Rightarrow> k bmi)"

definition fetch_BMH :: "NamespacedName \<Rightarrow> (BareMetalHardware \<Rightarrow> reconcile) \<Rightarrow> reconcile" where
  "fetch_BMH req k = Call (GetBMH req) (\<lambda>a. case as_BMH a of
     Inl err \<Rightarrow> Ret (no_requeue, IgnoreNotFound err) | Inr bmh \<Rightarrow> k bmh)"

definition fetch_BME :: "NamespacedName \<Rightarrow> (BareMetalEndpoint \<Rightarrow> reconcile) \<Rightarrow> reconcile" where
  "fetch_BME req k = Call (GetBME req) (\<lambda>a. case as_BME a of
     Inl err \<Rightarrow> Ret (no_requeue, IgnoreNotFound err) | Inr bme \<Rightarrow> k bme)"

definition fetch_BMN :: "NamespacedName \<Rightarrow> (BareMetalNetwork \<Rightarrow> reconcile) \<Rightarrow> reconcile" where
  "fetch_BMN req k = Call (GetBMN req) (\<lambda>a. case as_BMN a of
     Inl err \<Rightarrow> Ret (no_requeue, IgnoreNotFound err) | Inr bmn \<Rightarrow> k bmn)"

text \<open>
  A write followed by \<^verbatim>\<open>if err != nil { return ctrl.Result{}, err }\<close>. The client stores the
  server's answer in the object it was given, so the code after a write sees that.
\<close>

definition status_update_BMI :: "BareMetalInstance \<Rightarrow> (BareMetalInstance \<Rightarrow> reconcile) \<Rightarrow> reconcile" where
  "status_update_BMI bmi k = Call (StatusUpdateBMI bmi) (\<lambda>a. case as_BMI a of
     Inl err \<Rightarrow> return_err err | Inr bmi' \<Rightarrow> k bmi')"

definition status_update_BMH :: "BareMetalHardware \<Rightarrow> (BareMetalHardware \<Rightarrow> reconcile) \<Rightarrow> reconcile" where
  "status_update_BMH bmh k = Call (StatusUpdateBMH bmh) (\<lambda>a. case as_BMH a of
     Inl err \<Rightarrow> return_err err | Inr bmh' \<Rightarrow> k bmh')"

definition status_update_BME :: "BareMetalEndpoint \<Rightarrow> (BareMetalEndpoint \<Rightarrow> reconcile) \<Rightarrow> reconcile" where
  "status_update_BME bme k = Call (StatusUpdateBME bme) (\<lambda>a. case as_BME a of
     Inl err \<Rightarrow> return_err err | Inr bme' \<Rightarrow> k bme')"

definition update_BMI :: "BareMetalInstance \<Rightarrow> (BareMetalInstance \<Rightarrow> reconcile) \<Rightarrow> reconcile" where
  "update_BMI bmi k = Call (UpdateBMI bmi) (\<lambda>a. case as_BMI a of
     Inl err \<Rightarrow> return_err err | Inr bmi' \<Rightarrow> k bmi')"

definition update_BMH :: "BareMetalHardware \<Rightarrow> (BareMetalHardware \<Rightarrow> reconcile) \<Rightarrow> reconcile" where
  "update_BMH bmh k = Call (UpdateBMH bmh) (\<lambda>a. case as_BMH a of
     Inl err \<Rightarrow> return_err err | Inr bmh' \<Rightarrow> k bmh')"

definition update_BME :: "BareMetalEndpoint \<Rightarrow> (BareMetalEndpoint \<Rightarrow> reconcile) \<Rightarrow> reconcile" where
  "update_BME bme k = Call (UpdateBME bme) (\<lambda>a. case as_BME a of
     Inl err \<Rightarrow> return_err err | Inr bme' \<Rightarrow> k bme')"

definition update_BMN :: "BareMetalNetwork \<Rightarrow> (BareMetalNetwork \<Rightarrow> reconcile) \<Rightarrow> reconcile" where
  "update_BMN bmn k = Call (UpdateBMN bmn) (\<lambda>a. case as_BMN a of
     Inl err \<Rightarrow> return_err err | Inr bmn' \<Rightarrow> k bmn')"

text \<open>
  \<^verbatim>\<open>nowTime := metav1.NewTime(r.Clock.Now()); err := obj.Status.SetCondition(...)\<close> and the
  early return of its error.
\<close>

definition set_condition_now ::
  "'a StatusConditions_scheme \<Rightarrow> ConditionType \<Rightarrow> ConditionStatus \<Rightarrow> string \<Rightarrow> string \<Rightarrow>
   ('a StatusConditions_scheme \<Rightarrow> reconcile) \<Rightarrow> reconcile" where
  "set_condition_now st ct cs reason message k =
     Call ClockNow (\<lambda>a.
       case SetCondition st \<lparr>cond_Type = ct, cond_Status = cs,
              cond_LastTransitionTime = Some (as_Time a), cond_Reason = reason, cond_Message = message\<rparr> of
         Inl NotFullyFormed \<Rightarrow> return_err (PlainError ''condition is not fully formed'')
       | Inr st' \<Rightarrow> k st')"

lemmas return_defs [handler_defs] =
  return_ok_def return_err_def return_requeue_def return_after_def

lemmas step_defs [handler_defs] =
  event_def fetch_BMI_def fetch_BMH_def fetch_BME_def fetch_BMN_def
  status_update_BMI_def status_update_BMH_def status_update_BME_def
  update_BMI_def update_BMH_def update_BME_def update_BMN_def set_condition_now_def

text \<open>Calls that change objects of the API server.\<close>

definition is_write :: "call \<Rightarrow> bool" where
  "is_write c = (case c of
     UpdateBMI _ \<Rightarrow> True | UpdateBMH _ \<Rightarrow> True | UpdateBME _ \<Rightarrow> True | UpdateBMN _ \<Rightarrow> True
   | StatusUpdateBMI _ \<Rightarrow> True | StatusUpdateBMH _ \<Rightarrow> True | StatusUpdateBME _ \<Rightarrow> True
   | StatusUpdateBMD _ \<Rightarrow> True | CreateBME _ \<Rightarrow> True | CreateBMD _ \<Rightarrow> True | DeleteBMI _ \<Rightarrow> True
   | _ \<Rightarrow> False)"

definition no_writes :: "history \<Rightarrow> bool" where
  "no_writes h = (\<forall>(c, a) \<in> set h. \<not> is_write c)"

lemma is_write_simps [simp]:
  "is_write (UpdateBMI bmi)" "is_write (UpdateBMH bmh)" "is_write (UpdateBME bme)" "is_write (UpdateBMN bmn)"
  "is_write (StatusUpdateBMI bmi)" "is_write (StatusUpdateBMH bmh)" "is_write (StatusUpdateBME bme)"
  "is_write (StatusUpdateBMD bmd)" "is_write (CreateBME bme)" "is_write (CreateBMD bmd)" "is_write (DeleteBMI bmi)"
  "\<not> is_write (GetBMI n)" "\<not> is_write (GetBMH n)" "\<not> is_write (GetBME n)" "\<not> is_write (GetBMN n)"
  "\<not> is_write (ListBMI os)" "\<not> is_write (ListBMH os)" "\<not> is_write (ListBME os)" "\<not> is_write (ListBMD os)"
  "\<not> is_write (Eventf obj ety r msg)" "\<not> is_write ClockNow" "\<not> is_write (RandIntn m)" "\<not> is_write (Lock l)"
  "\<not> is_write (Unlock l)" "\<not> is_write (HttpRequest x y z)" "\<not> is_write (ReadFile f)" "\<not> is_write (Host hc)"
  by (simp_all add: is_write_def)

lemma no_writes_simps [simp]:
  "no_writes []" "no_writes (h @ h') \<longleftrightarrow> no_writes h \<and> no_writes h'"
  "no_writes ((c, a) # h) \<longleftrightarrow> \<not> is_write c \<and> no_writes h"
  by (auto simp: no_writes_def)

text \<open>A tree that writes nothing, whatever it is answered.\<close>

primrec quiet :: "'r prog \<Rightarrow> bool" where
  "quiet (Ret r) = True"
| "quiet (Panic m) = True"
| "quiet Hang = True"
| "quiet (Call c k) = (\<not> is_write c \<and> (\<forall>a. quiet (k a)))"

lemma quiet_always:
  "quiet p \<Longrightarrow> (\<And>h c. \<not> is_write c \<Longrightarrow> P h c) \<Longrightarrow> always P h p"
  by (induction p arbitrary: h) auto

lemma quiet_and_then: "quiet p \<Longrightarrow> (\<And>r. quiet (f r)) \<Longrightarrow> quiet (and_then p f)"
  by (induction p) auto

lemma quiet_simps [simp]:
  "quiet return_ok" "quiet (return_err e)" "quiet return_requeue" "quiet (return_after d)"
  "quiet (event obj ety r m p) \<longleftrightarrow> quiet p"
  by (simp_all add: return_defs event_def)

lemma always_event [simp]:
  "always P h (event obj ety r m p) \<longleftrightarrow>
     P h (Eventf obj ety r m) \<and> (\<forall>a. always P (h @ [(Eventf obj ety r m, a)]) p)"
  by (simp add: event_def)

lemma always_returns [simp]:
  "always P h return_ok" "always P h (return_err e)" "always P h return_requeue" "always P h (return_after d)"
  by (simp_all add: return_defs)

text \<open>Taking and giving back a mutex.\<close>

definition call_count :: "call \<Rightarrow> history \<Rightarrow> nat" where
  "call_count c h = length (filter (\<lambda>(d, a). d = c) h)"

lemma call_count_simps [simp]:
  "call_count c [] = 0" "call_count c (h @ h') = call_count c h + call_count c h'"
  "call_count c ((d, a) # h) = (if d = c then Suc (call_count c h) else call_count c h)"
  by (auto simp: call_count_def)

definition lock_balanced :: "string \<Rightarrow> history \<Rightarrow> 'r outcome \<Rightarrow> bool" where
  "lock_balanced l h oc \<longleftrightarrow> oc = Hung \<or>
     call_count (Lock l) h = call_count (Unlock l) h \<and> call_count (Lock l) h \<le> 1"

definition lock_untouched :: "string \<Rightarrow> history \<Rightarrow> call \<Rightarrow> bool" where
  "lock_untouched l h c \<longleftrightarrow> c \<noteq> Lock l \<and> c \<noteq> Unlock l"

lemma ends_lock_untouched:
  "always (lock_untouched l) h p \<Longrightarrow> call_count (Lock l) h = call_count (Unlock l) h \<Longrightarrow>
     call_count (Lock l) h \<le> 1 \<Longrightarrow> ends (lock_balanced l) h p"
  by (induction p arbitrary: h) (auto simp: lock_balanced_def lock_untouched_def)

lemma ends_lock_deferred:
  "always (lock_untouched l) h p \<Longrightarrow> call_count (Lock l) h = 1 \<Longrightarrow> call_count (Unlock l) h = 0 \<Longrightarrow>
     ends (lock_balanced l) h (deferred (Unlock l) p)"
  by (induction p arbitrary: h) (auto simp: lock_balanced_def lock_untouched_def)

end
