(* ===== verification/NetIP.thy ===== *)
theory NetIP
  imports Prelude
begin

unbundle bit_operations_syntax

text \<open>
  The parts of Go's standard packages \<^verbatim>\<open>net\<close> and \<^verbatim>\<open>bytes\<close> (Go 1.13, the version of the
  Dockerfile and \<^verbatim>\<open>go.mod\<close>) that the network controller, the provisioner and the webhooks
  call: parsing and printing of IP addresses and CIDRs, masks, containment and comparison.
  An \<^verbatim>\<open>IP\<close> or \<^verbatim>\<open>IPMask\<close> is its bytes, nil being the empty list. The second half relates the
  bytes to the number they spell (\<open>ip_val\<close>), on which the properties of the address
  allocator are stated.
\<close>

type_synonym byte = "8 word"
type_synonym IP = "byte list"

section \<open>Numbers at the front of a string\<close>

definition big :: nat where
  "big = 0xFFFFFF"

definition is_digit :: "char \<Rightarrow> bool" where
  "is_digit c \<longleftrightarrow> 48 \<le> (of_char c :: nat) \<and> (of_char c :: nat) \<le> 57"

fun dtoi_loop :: "string \<Rightarrow> nat \<Rightarrow> nat \<Rightarrow> nat \<times> nat \<times> bool" where
  "dtoi_loop [] n i = (if i = 0 then (0, 0, False) else (n, i, True))"
| "dtoi_loop (c # cs) n i =
     (if is_digit c
      then let n' = n * 10 + (of_char c - 48)
           in if n' \<ge> big then (big, i, False) else dtoi_loop cs n' (Suc i)
      else if i = 0 then (0, 0, False) else (n, i, True))"

definition dtoi :: "string \<Rightarrow> nat \<times> nat \<times> bool" where
  "dtoi s = dtoi_loop s 0 0"

definition hex_value :: "char \<Rightarrow> nat option" where
  "hex_value c = (let k = of_char c :: nat in
     if 48 \<le> k \<and> k \<le> 57 then Some (k - 48)
     else if 97 \<le> k \<and> k \<le> 102 then Some (k - 97 + 10)
     else if 65 \<le> k \<and> k \<le> 70 then Some (k - 65 + 10)
     else None)"

fun xtoi_loop :: "string \<Rightarrow> nat \<Rightarrow> nat \<Rightarrow> nat \<times> nat \<times> bool" where
  "xtoi_loop [] n i = (if i = 0 then (0, i, False) else (n, i, True))"
| "xtoi_loop (c # cs) n i = (case hex_value c of
     Some v \<Rightarrow> (let n' = n * 16 + v in if n' \<ge> big then (0, i, False) else xtoi_loop cs n' (Suc i))
   | None \<Rightarrow> if i = 0 then (0, i, False) else (n, i, True))"

definition xtoi :: "string \<Rightarrow> nat \<times> nat \<times> bool" where
  "xtoi s = xtoi_loop s 0 0"

section \<open>Parsing addresses\<close>

definition v4InV6Prefix :: "byte list" where
  "v4InV6Prefix = replicate 10 0 @ [255, 255]"

fun parseIPv4_loop :: "nat \<Rightarrow> string \<Rightarrow> byte list \<Rightarrow> byte list option" where
  "parseIPv4_loop 0 s p = (if s \<noteq> [] then None else Some p)"
| "parseIPv4_loop (Suc k) s p =
     (if s = [] then None
      else if p \<noteq> [] \<and> hd s \<noteq> CHR ''.'' then None
      else let s = (if p \<noteq> [] then tl s else s); (n, c, ok) = dtoi s
           in if \<not> ok \<or> n > 255 then None
              else parseIPv4_loop k (drop c s) (p @ [of_nat n]))"

definition parseIPv4 :: "string \<Rightarrow> IP" where
  "parseIPv4 s = (case parseIPv4_loop 4 s [] of None \<Rightarrow> [] | Some p \<Rightarrow> v4InV6Prefix @ p)"

text \<open>The loop of \<^verbatim>\<open>parseIPv6\<close>: the rest of the string, the bytes so far, the ellipsis.\<close>

function parseIPv6_loop ::
  "string \<Rightarrow> byte list \<Rightarrow> nat option \<Rightarrow> (string \<times> byte list \<times> nat option) option" where
  "parseIPv6_loop s ip ellipsis =
     (if length ip < 16 then
        (let (n, c, ok) = xtoi s in
         if \<not> ok \<or> n > 0xFFFF then None
         else if c < length s \<and> s ! c = CHR ''.'' then
           (if ellipsis = None \<and> length ip \<noteq> 16 - 4 then None
            else if length ip + 4 > 16 then None
            else if parseIPv4 s = [] then None
            else Some ([], ip @ drop 12 (parseIPv4 s), ellipsis))
         else
           (let ip' = ip @ [of_nat (n div 256), of_nat (n mod 256)]; s = drop c s in
            if s = [] then Some ([], ip', ellipsis)
            else if hd s \<noteq> CHR '':'' \<or> length s = 1 then None
            else
              (let s = tl s in
               if hd s = CHR '':'' then
                 (if ellipsis \<noteq> None then None
                  else if tl s = [] then Some ([], ip', Some (length ip'))
                  else parseIPv6_loop (tl s) ip' (Some (length ip')))
               else parseIPv6_loop s ip' ellipsis)))
      else Some (s, ip, ellipsis))"
  by pat_completeness auto
termination
  by (relation "measure (\<lambda>(s, ip, e). 16 - length ip)") auto

declare parseIPv6_loop.simps [simp del]

definition expand_ellipsis :: "string \<times> byte list \<times> nat option \<Rightarrow> IP" where
  "expand_ellipsis r = (case r of (s, ip, ellipsis) \<Rightarrow>
     if s \<noteq> [] then []
     else if length ip < 16 then
       (case ellipsis of
          None \<Rightarrow> []
        | Some e \<Rightarrow> take e ip @ replicate (16 - length ip) 0 @ drop e ip)
     else if ellipsis \<noteq> None then []
     else ip)"

definition parseIPv6 :: "string \<Rightarrow> IP" where
  "parseIPv6 s =
     (if take 2 s = ''::'' then
        (if length s = 2 then replicate 16 0
         else case parseIPv6_loop (drop 2 s) [] (Some 0) of None \<Rightarrow> [] | Some r \<Rightarrow> expand_ellipsis r)
      else case parseIPv6_loop s [] None of None \<Rightarrow> [] | Some r \<Rightarrow> expand_ellipsis r)"

fun ParseIP_scan :: "string \<Rightarrow> string \<Rightarrow> IP" where
  "ParseIP_scan s [] = []"
| "ParseIP_scan s (c # cs) =
     (if c = CHR ''.'' then parseIPv4 s
      else if c = CHR '':'' then parseIPv6 s
      else ParseIP_scan s cs)"

definition ParseIP :: "string \<Rightarrow> IP" where
  "ParseIP s = ParseIP_scan s s"

section \<open>Masks, networks, comparison\<close>

fun mask_bytes :: "nat \<Rightarrow> nat \<Rightarrow> byte list" where
  "mask_bytes 0 n = []"
| "mask_bytes (Suc l) n =
     (if n \<ge> 8 then 255 # mask_bytes l (n - 8) else NOT (drop_bit n 255) # mask_bytes l 0)"

definition CIDRMask :: "nat \<Rightarrow> nat \<Rightarrow> byte list" where
  "CIDRMask ones bits = (if bits \<noteq> 32 \<and> bits \<noteq> 128 then [] else if ones > bits then [] else mask_bytes (bits div 8) ones)"

definition IP_To4 :: "IP \<Rightarrow> IP" where
  "IP_To4 ip =
     (if length ip = 4 then ip
      else if length ip = 16 \<and> take 12 ip = v4InV6Prefix then drop 12 ip
      else [])"

definition IP_Mask :: "IP \<Rightarrow> byte list \<Rightarrow> IP" where
  "IP_Mask ip msk =
     (let msk = (if length msk = 16 \<and> length ip = 4 \<and> take 12 msk = replicate 12 255
                 then drop 12 msk else msk);
          ip = (if length msk = 4 \<and> length ip = 16 \<and> take 12 ip = v4InV6Prefix
                then drop 12 ip else ip)
      in if length ip \<noteq> length msk then [] else map2 (\<lambda>a m. a AND m) ip msk)"

record IPNet =
  net_IP :: IP
  net_Mask :: "byte list"

definition ParseCIDR :: "string \<Rightarrow> (IP \<times> IPNet) option" where
  "ParseCIDR s =
     (if CHR ''/'' \<notin> set s then None
      else
        let addr = takeWhile (\<lambda>c. c \<noteq> CHR ''/'') s;
            msk = tl (dropWhile (\<lambda>c. c \<noteq> CHR ''/'') s);
            ip4 = parseIPv4 addr;
            iplen = (if ip4 = [] then 16 else 4);
            ip = (if ip4 = [] then parseIPv6 addr else ip4);
            (n, i, ok) = dtoi msk
        in if ip = [] \<or> \<not> ok \<or> i \<noteq> length msk \<or> n > 8 * iplen then None
           else let m = CIDRMask n (8 * iplen)
                in Some (ip, \<lparr>net_IP = IP_Mask ip m, net_Mask = m\<rparr>))"

definition networkNumberAndMask :: "IPNet \<Rightarrow> IP \<times> byte list" where
  "networkNumberAndMask n =
     (let ip4 = IP_To4 (net_IP n);
          ip = (if ip4 = [] then net_IP n else ip4)
      in if ip4 = [] \<and> length (net_IP n) \<noteq> 16 then ([], [])
         else if length (net_Mask n) = 4 then (if length ip \<noteq> 4 then ([], []) else (ip, net_Mask n))
         else if length (net_Mask n) = 16
              then (ip, if length ip = 4 then drop 12 (net_Mask n) else net_Mask n)
         else ([], []))"

definition IPNet_Contains :: "IPNet \<Rightarrow> IP \<Rightarrow> bool" where
  "IPNet_Contains n ip =
     (let (nn, m) = networkNumberAndMask n;
          ip = (if IP_To4 ip \<noteq> [] then IP_To4 ip else ip)
      in length ip = length nn \<and> map2 (\<lambda>a b. a AND b) nn m = map2 (\<lambda>a b. a AND b) ip m)"

definition IP_Equal :: "IP \<Rightarrow> IP \<Rightarrow> bool" where
  "IP_Equal ip x =
     (if length ip = length x then ip = x
      else if length ip = 4 \<and> length x = 16 then take 12 x = v4InV6Prefix \<and> ip = drop 12 x
      else if length ip = 16 \<and> length x = 4 then take 12 ip = v4InV6Prefix \<and> drop 12 ip = x
      else False)"

fun bytes_Compare :: "byte list \<Rightarrow> byte list \<Rightarrow> int" where
  "bytes_Compare [] [] = 0"
| "bytes_Compare [] (b # bs) = -1"
| "bytes_Compare (a # as) [] = 1"
| "bytes_Compare (a # as) (b # bs) =
     (if a < b then -1 else if b < a then 1 else bytes_Compare as bs)"

section \<open>Printing addresses\<close>

definition hex_digit :: "nat \<Rightarrow> char" where
  "hex_digit v = ''0123456789abcdef'' ! v"

fun show_hex :: "nat \<Rightarrow> string" where
  "show_hex n = (if n < 16 then [hex_digit n] else show_hex (n div 16) @ [hex_digit (n mod 16)])"

declare show_hex.simps [simp del]

fun groups16 :: "byte list \<Rightarrow> nat list" where
  "groups16 (a # b # bs) = (unat a * 256 + unat b) # groups16 bs"
| "groups16 _ = []"

definition zero_run :: "nat list \<Rightarrow> nat" where
  "zero_run gs = length (takeWhile (\<lambda>g. g = 0) gs)"

text \<open>
  The search for the longest run of zero groups, over group indices: \<open>i\<close> is the current
  group, \<open>(e0, e1)\<close> the best run so far (empty at first). The count \<open>fuel\<close> is the number of
  groups, which bounds the number of rounds.
\<close>

fun longest_zeros :: "nat \<Rightarrow> nat list \<Rightarrow> nat \<Rightarrow> nat \<times> nat \<Rightarrow> nat \<times> nat" where
  "longest_zeros 0 gs i e = e"
| "longest_zeros (Suc fuel) gs i (e0, e1) =
     (if i < length gs then
        (let j = i + zero_run (drop i gs) in
         if j > i \<and> j - i > e1 - e0 then longest_zeros fuel gs (Suc j) (i, j)
         else longest_zeros fuel gs (Suc i) (e0, e1))
      else (e0, e1))"

definition show_groups :: "nat list \<Rightarrow> string" where
  "show_groups gs = strings_Join (map show_hex gs) '':''"

definition show_IPv6 :: "nat list \<Rightarrow> string" where
  "show_IPv6 gs =
     (let (e0, e1) = longest_zeros (length gs) gs 0 (0, 0)
      in if e1 - e0 \<le> 1 then show_groups gs
         else show_groups (take e0 gs) @ ''::'' @ show_groups (drop e1 gs))"

fun hexString :: "byte list \<Rightarrow> string" where
  "hexString [] = []"
| "hexString (b # bs) = hex_digit (unat b div 16) # hex_digit (unat b mod 16) # hexString bs"

definition IP_String :: "IP \<Rightarrow> string" where
  "IP_String ip =
     (if length ip = 0 then ''<nil>''
      else if length (IP_To4 ip) = 4
           then strings_Join (map (\<lambda>b. show_nat (unat b)) (IP_To4 ip)) ''.''
      else if length ip \<noteq> 16 then ''?'' @ hexString ip
      else show_IPv6 (groups16 ip))"

end
