(* ===== verification/NetIP_Facts.thy ===== *)
theory NetIP_Facts
  imports NetIP
begin

unbundle bit_operations_syntax

text \<open>
  Facts on Go's \<^verbatim>\<open>net\<close> model: the number an address spells, comparison and masking as
  comparison and division of those numbers, the shapes parsing can return.
\<close>

section \<open>The number an address spells\<close>


definition ip_val :: "byte list \<Rightarrow> nat" where
  "ip_val bs = foldl (\<lambda>n b. n * 256 + unat b) 0 bs"

lemma foldl_ip_val: "foldl (\<lambda>n b. n * 256 + unat (b :: byte)) n bs = n * 256 ^ length bs + ip_val bs"
proof (induction bs arbitrary: n)
  case Nil
  then show ?case by (simp add: ip_val_def)
next
  case (Cons b bs)
  show ?case
    using Cons.IH [of "n * 256 + unat b"] Cons.IH [of "unat b"]
    by (simp add: ip_val_def algebra_simps)
qed

lemma ip_val_Nil [simp]: "ip_val [] = 0"
  by (simp add: ip_val_def)

lemma ip_val_Cons [simp]: "ip_val (b # bs) = unat b * 256 ^ length bs + ip_val bs"
  using foldl_ip_val [of "unat b" bs] by (simp add: ip_val_def)

lemma ip_val_append: "ip_val (xs @ ys) = ip_val xs * 256 ^ length ys + ip_val ys"
  by (induction xs) (simp_all add: power_add algebra_simps)

lemma unat_byte_less [simp]: "unat (b :: byte) < 256"
  using unsigned_less [of b, where ?'a = nat] by simp

lemma unat_byte_le [simp]: "unat (b :: byte) \<le> 255"
  using unat_byte_less [of b] by linarith

lemma ip_val_less: "ip_val bs < 256 ^ length bs"
proof (induction bs)
  case (Cons b bs)
  have "unat b * 256 ^ length bs + ip_val bs < (unat b + 1) * 256 ^ length bs"
    using Cons.IH by simp
  also have "\<dots> \<le> 256 * 256 ^ length bs"
    using unat_byte_less [of b] by (intro mult_right_mono) (auto simp: Suc_le_eq simp del: unat_byte_less)
  finally show ?case by simp
qed simp

lemma bytes_Compare_val:
  "length as = length bs \<Longrightarrow> bytes_Compare as bs =
     (if ip_val as < ip_val bs then -1 else if ip_val bs < ip_val as then 1 else 0)"
proof (induction as bs rule: list_induct2)
  case (Cons a as b bs)
  have less: "ip_val (x # xs) < ip_val (y # ys)" if "x < y" "length xs = length ys" for x y xs ys
  proof -
    have "ip_val (x # xs) < (unat x + 1) * 256 ^ length xs"
      using ip_val_less [of xs] by simp
    also have "\<dots> \<le> unat y * 256 ^ length ys"
      using that by (intro mult_mono) (auto simp: word_less_nat_alt)
    finally show ?thesis by simp
  qed
  show ?case
    using Cons less [of a b as bs] less [of b a bs as] by (auto simp: not_less_iff_gr_or_eq)
qed simp

lemma bytes_Compare_ge: "length as = length bs \<Longrightarrow> bytes_Compare as bs \<ge> 0 \<longleftrightarrow> ip_val bs \<le> ip_val as"
  by (auto simp: bytes_Compare_val)

lemma ip_val_inj: "length as = length bs \<Longrightarrow> ip_val as = ip_val bs \<Longrightarrow> as = bs"
proof (induction as bs rule: list_induct2)
  case (Cons a as b bs)
  let ?P = "256 ^ length bs :: nat"
  have "(unat a * ?P + ip_val as) div ?P = unat a" "(unat b * ?P + ip_val bs) div ?P = unat b"
    using ip_val_less [of as] ip_val_less [of bs] Cons.hyps by simp_all
  with Cons have "unat a = unat b" by simp
  with Cons have "a = b" "ip_val as = ip_val bs" by (auto simp: word_unat_eq_iff)
  with Cons show ?case by simp
qed simp

section \<open>Masks\<close>


lemma length_mask_bytes [simp]: "length (mask_bytes l n) = l"
  by (induction l n rule: mask_bytes.induct) auto

lemma byte_mask: "n < 8 \<Longrightarrow> NOT (drop_bit n (255 :: byte)) = NOT (mask (8 - n))"
proof -
  assume "n < 8"
  then consider "n = 0" | "n = 1" | "n = 2" | "n = 3" | "n = 4" | "n = 5" | "n = 6" | "n = 7" by linarith
  then show ?thesis by cases (simp_all add: mask_eq_exp_minus_1)
qed

lemma byte_255_eq: "(255 :: byte) = -1" and byte_minus_256: "(-256 :: byte) = 0"
  by simp_all

lemma byte_and_255 [simp]: "(x :: byte) AND 255 = x"
  unfolding byte_255_eq by simp

lemma byte_and_minus_256 [simp]: "(x :: byte) AND -256 = 0"
  unfolding byte_minus_256 by simp

lemma and_not_mask_push: "(a :: byte) AND NOT (mask m) = push_bit m (drop_bit m a)"
  by (rule bit_word_eqI) (auto simp: bit_simps)

lemma drop_bit_and_not_mask: "drop_bit m ((a :: byte) AND NOT (mask m)) = drop_bit m a"
  by (rule bit_word_eqI) (auto simp: bit_simps dest: bit_imp_le_length)

lemma and_not_mask_eq:
  "((a :: byte) AND NOT (mask m) = b AND NOT (mask m)) \<longleftrightarrow> unat a div 2 ^ m = unat b div 2 ^ m"
proof -
  have "(a AND NOT (mask m) = b AND NOT (mask m)) \<longleftrightarrow> drop_bit m a = drop_bit m b"
    by (metis and_not_mask_push drop_bit_and_not_mask)
  also have "\<dots> \<longleftrightarrow> unat (drop_bit m a) = unat (drop_bit m b)"
    by (simp add: word_unat_eq_iff)
  also have "\<dots> \<longleftrightarrow> unat a div 2 ^ m = unat b div 2 ^ m"
    unfolding unat_drop_bit_eq unfolding drop_bit_eq_div ..
  finally show ?thesis .
qed

lemma map2_and_mask_zero: "map2 (\<lambda>a b. (a :: byte) AND b) xs (mask_bytes (length xs) 0) = replicate (length xs) 0"
  by (induction xs) simp_all

lemma div_split:
  fixes a r P k :: nat
  assumes "r < P" and "k dvd P" and "0 < k"
  shows "(a * P + r) div k = a * (P div k) + r div k"
proof -
  obtain q where q: "P = k * q" using assms(2) by (auto elim: dvdE)
  then have "(a * P + r) div k = (k * (a * q) + r) div k" by (simp add: algebra_simps)
  also have "\<dots> = a * q + r div k" using assms(3) by simp
  finally show ?thesis using q assms(3) by simp
qed

lemma masked_eq_iff:
  assumes "length xs = length ys" and "n \<le> 8 * length xs"
  shows "map2 (\<lambda>a b. (a :: byte) AND b) xs (mask_bytes (length xs) n) =
         map2 (\<lambda>a b. a AND b) ys (mask_bytes (length xs) n) \<longleftrightarrow>
         ip_val xs div 2 ^ (8 * length xs - n) = ip_val ys div 2 ^ (8 * length xs - n)"
  using assms
proof (induction xs ys arbitrary: n rule: list_induct2)
  case (Cons x xs y ys)
  let ?P = "256 ^ length xs :: nat"
  have P: "?P = 2 ^ (8 * length xs)" by (simp add: power_mult)
  have lx: "ip_val xs < ?P" "ip_val ys < ?P"
    using ip_val_less [of xs] ip_val_less [of ys] Cons.hyps by simp_all
  show ?case
  proof (cases "n \<ge> 8")
    case True
    define k where "k = 8 * length xs - (n - 8)"
    have k: "8 * length (x # xs) - n = k" "k \<le> 8 * length xs" using True Cons.prems by (auto simp: k_def)
    have dvd: "(2::nat) ^ k dvd ?P" unfolding P using k(2) by (rule le_imp_power_dvd)
    have lt: "ip_val zs div 2 ^ k < ?P div 2 ^ k" if "ip_val zs < ?P" for zs
      using that dvd by (metis dvd_div_mult_self less_mult_imp_div_less)
    have "ip_val (x # xs) div 2 ^ k = unat x * (?P div 2 ^ k) + ip_val xs div 2 ^ k"
      "ip_val (y # ys) div 2 ^ k = unat y * (?P div 2 ^ k) + ip_val ys div 2 ^ k"
      using div_split [OF lx(1) dvd] div_split [OF lx(2) dvd] Cons.hyps by simp_all
    moreover have "(a * Q + r = b * Q + s) \<longleftrightarrow> a = b \<and> r = s" if "r < Q" "s < Q" for a b Q r s :: nat
    proof
      assume eq: "a * Q + r = b * Q + s"
      then have "(a * Q + r) div Q = (b * Q + s) div Q" by simp
      with that have "a = b" by simp
      with eq show "a = b \<and> r = s" by simp
    qed simp
    ultimately have "ip_val (x # xs) div 2 ^ k = ip_val (y # ys) div 2 ^ k \<longleftrightarrow>
      unat x = unat y \<and> ip_val xs div 2 ^ k = ip_val ys div 2 ^ k"
      using lt lx by presburger
    then show ?thesis
      using True Cons.IH [of "n - 8"] Cons.prems k by (simp add: k_def word_unat_eq_iff)
  next
    case False
    then have n: "n < 8" by simp
    define m where "m = 8 - n"
    have e: "8 + 8 * length ys - n = 8 * length ys + m" using n by (simp add: m_def)
    have "ip_val (x # xs) div (?P * 2 ^ m) = unat x div 2 ^ m"
      "ip_val (y # ys) div (?P * 2 ^ m) = unat y div 2 ^ m"
      using lx Cons.hyps by (simp_all add: div_mult2_eq)
    then have "ip_val (x # xs) div 2 ^ (8 * length xs + m) = unat x div 2 ^ m"
      "ip_val (y # ys) div 2 ^ (8 * length xs + m) = unat y div 2 ^ m"
      by (simp_all add: power_add P)
    then show ?thesis
      using n Cons.hyps map2_and_mask_zero [of xs] map2_and_mask_zero [of ys]
      by (simp add: e byte_mask [OF n] and_not_mask_eq flip: m_def)
  qed
qed simp

section \<open>What parsing returns\<close>


lemma length_v4InV6Prefix [simp]: "length v4InV6Prefix = 12"
  by (simp add: v4InV6Prefix_def)

lemma parseIPv4_loop_length: "parseIPv4_loop k s p = Some q \<Longrightarrow> length q = length p + k"
  by (induction k s p rule: parseIPv4_loop.induct) (auto simp: Let_def split: if_splits prod.splits)

lemma parseIPv4_cases: "parseIPv4 s = [] \<or> (\<exists>p. length p = 4 \<and> parseIPv4 s = v4InV6Prefix @ p)"
  by (auto simp: parseIPv4_def dest: parseIPv4_loop_length split: option.splits)

lemma length_parseIPv4: "parseIPv4 s \<noteq> [] \<Longrightarrow> length (parseIPv4 s) = 16"
  using parseIPv4_cases [of s] by auto

definition ok_result :: "(string \<times> byte list \<times> nat option) option \<Rightarrow> bool" where
  "ok_result r = (\<forall>s ip e. r = Some (s, ip, e) \<longrightarrow> length ip \<le> 16 \<and> (\<forall>k. e = Some k \<longrightarrow> k \<le> length ip))"

lemma parseIPv6_loop_ok:
  "length ip \<le> 16 \<Longrightarrow> (\<forall>k. e = Some k \<longrightarrow> k \<le> length ip) \<Longrightarrow> even (length ip) \<Longrightarrow>
     ok_result (parseIPv6_loop s ip e)"
proof (induction "16 - length ip" arbitrary: s ip e rule: less_induct)
  case less
  obtain n c ok where x: "xtoi s = (n, c, ok)" by (cases "xtoi s") auto
  let ?ip = "ip @ [of_nat (n div 256), of_nat (n mod 256)]"
  show ?case
  proof (cases "length ip < 16")
    case True
    then have l: "length ip + 2 \<le> 16" using less.prems(3) by presburger
    have IH: "ok_result (parseIPv6_loop s' ?ip e')" if "\<forall>k. e' = Some k \<longrightarrow> k \<le> length ip + 2" for s' e'
      using l that less.prems(3) by (intro less.hyps) auto
    have e: "\<forall>k. e = Some k \<longrightarrow> k \<le> length ip + 2" using less.prems(2) by (auto intro: trans_le_add1)
    have v4: "ok_result (Some ([], ip @ drop 12 (parseIPv4 s), e))"
      if "parseIPv4 s \<noteq> []" "\<not> length ip + 4 > 16"
      using that length_parseIPv4 [of s] less.prems(2) by (auto simp: ok_result_def)
    have here: "ok_result (Some ([], ?ip, e))" "ok_result (Some ([], ?ip, Some (length ?ip)))" "ok_result None"
      using l e by (auto simp: ok_result_def)
    have "parseIPv6_loop s ip e = r \<Longrightarrow> ok_result r" for r
      using True v4 here IH [OF e] IH [of "Some (length ?ip)"]
      by (subst (asm) parseIPv6_loop.simps) (simp add: x Let_def split: if_splits; blast)
    then show ?thesis by blast
  next
    case False
    then show ?thesis
      using less.prems by (subst parseIPv6_loop.simps) (simp add: ok_result_def)
  qed
qed

lemma length_expand: "ok_result (Some r) \<Longrightarrow> expand_ellipsis r = [] \<or> length (expand_ellipsis r) = 16"
  by (cases r) (auto simp: expand_ellipsis_def ok_result_def split: option.splits)

lemma parseIPv6_length: "parseIPv6 s = [] \<or> length (parseIPv6 s) = 16"
  using parseIPv6_loop_ok [of "[]" "Some 0" "drop 2 s"] parseIPv6_loop_ok [of "[]" None s]
  by (auto simp: parseIPv6_def dest: length_expand split: option.splits)

lemma ParseIP_scan_length: "ParseIP_scan s cs = [] \<or> length (ParseIP_scan s cs) = 16"
  using parseIPv6_length [of s] length_parseIPv4 [of s] by (induction cs) auto

lemma ParseIP_length: "ParseIP s = [] \<or> length (ParseIP s) = 16"
  unfolding ParseIP_def by (rule ParseIP_scan_length)

lemma drop_mask_bytes: "drop k (mask_bytes (k + l) n) = mask_bytes l (n - 8 * k)"
proof (induction k arbitrary: n)
  case (Suc k)
  have "mask_bytes l (0 - 8 * k) = mask_bytes l (n - 8 * Suc k)" if "n < 8" using that by simp
  then show ?case using Suc.IH [of "n - 8"] Suc.IH [of 0] by auto
qed simp

text \<open>What a parsed CIDR looks like: the number and the prefix length that containment uses.\<close>

lemma ParseCIDR_cases:
  assumes "ParseCIDR s = Some (ip, net)"
  obtains n where "n \<le> 32" "length ip = 16" "take 12 ip = v4InV6Prefix"
      "net_Mask net = mask_bytes 4 n" "net_IP net = map2 (\<lambda>a m. a AND m) (drop 12 ip) (mask_bytes 4 n)"
  | n where "n \<le> 128" "length ip = 16"
      "net_Mask net = mask_bytes 16 n" "net_IP net = map2 (\<lambda>a m. a AND m) ip (mask_bytes 16 n)"
proof -
  let ?addr = "takeWhile (\<lambda>c. c \<noteq> CHR ''/'') s"
  let ?mask = "tl (dropWhile (\<lambda>c. c \<noteq> CHR ''/'') s)"
  obtain n i ok where d: "dtoi ?mask = (n, i, ok)" by (cases "dtoi ?mask") auto
  show ?thesis
  proof (cases "parseIPv4 ?addr = []")
    case True
    with assms d that(2) [of n] parseIPv6_length [of ?addr] show ?thesis
      by (auto simp: ParseCIDR_def Let_def CIDRMask_def IP_Mask_def split: if_splits)
  next
    case False
    with parseIPv4_cases [of ?addr] obtain p where "length p = 4" "parseIPv4 ?addr = v4InV6Prefix @ p"
      by blast
    with assms d that(1) [of n] show ?thesis
      by (auto simp: ParseCIDR_def Let_def CIDRMask_def IP_Mask_def split: if_splits)
  qed
qed

lemma IP_To4_length: "IP_To4 ip = [] \<or> length (IP_To4 ip) = 4"
  by (auto simp: IP_To4_def)

lemma ParseCIDR_number_and_mask:
  assumes "ParseCIDR s = Some (ip, net)"
  obtains nn n where "networkNumberAndMask net = (nn, mask_bytes (length nn) n)"
    "length nn = 4 \<or> length nn = 16 \<and> IP_To4 (net_IP net) = []" "n \<le> 8 * length nn"
  using assms
proof (cases rule: ParseCIDR_cases)
  case (1 n)
  then have "networkNumberAndMask net = (net_IP net, mask_bytes 4 n)" "length (net_IP net) = 4"
    by (auto simp: networkNumberAndMask_def IP_To4_def Let_def)
  with that 1(1) show ?thesis by auto
next
  case (2 n)
  then have l: "length (net_IP net) = 16" "length (net_Mask net) = 16" by simp_all
  show ?thesis
  proof (cases "IP_To4 (net_IP net) = []")
    case True
    with 2 l have "networkNumberAndMask net = (net_IP net, mask_bytes 16 n)"
      by (auto simp: networkNumberAndMask_def Let_def)
    with that [of "net_IP net" n] 2(1) l True show ?thesis by simp
  next
    case False
    then have l4: "length (IP_To4 (net_IP net)) = 4" using IP_To4_length by blast
    with False 2(3) l have "networkNumberAndMask net = (IP_To4 (net_IP net), mask_bytes 4 (n - 96))"
      using drop_mask_bytes [of 12 4 n] by (auto simp: networkNumberAndMask_def Let_def)
    with that [of "IP_To4 (net_IP net)" "n - 96"] 2(1) l4 show ?thesis by simp
  qed
qed

definition IP_short :: "IP \<Rightarrow> IP" where
  "IP_short ip = (if IP_To4 ip \<noteq> [] then IP_To4 ip else ip)"

lemma Contains_iff:
  assumes "networkNumberAndMask net = (nn, mask_bytes (length nn) n)" and "n \<le> 8 * length nn"
  shows "IPNet_Contains net ip \<longleftrightarrow> length (IP_short ip) = length nn \<and>
    ip_val (IP_short ip) div 2 ^ (8 * length nn - n) = ip_val nn div 2 ^ (8 * length nn - n)"
  using assms masked_eq_iff [of nn "IP_short ip" n]
  by (auto simp: IPNet_Contains_def IP_short_def [symmetric] Let_def)

section \<open>Evaluating the parsers on literals\<close>

lemma parseIPv4_loop_4: "parseIPv4_loop 4 s p = parseIPv4_loop (Suc (Suc (Suc (Suc 0)))) s p"
  by (simp add: numeral_eq_Suc)

lemma bytes_numeral:
  "mask_bytes (numeral k) n = (if n \<ge> 8 then 255 # mask_bytes (pred_numeral k) (n - 8)
     else NOT (drop_bit n 255) # mask_bytes (pred_numeral k) 0)"
  "replicate (numeral k) x = x # replicate (pred_numeral k) x"
  by (simp_all add: numeral_eq_Suc)

lemmas ip_eval = ParseIP_def parseIPv4_def parseIPv4_loop_4 dtoi_def dtoi_loop.simps is_digit_def big_def
  ParseCIDR_def CIDRMask_def parseIPv6_def xtoi_def hex_value_def parseIPv6_loop.simps expand_ellipsis_def
  v4InV6Prefix_def IP_Mask_def IP_To4_def bytes_numeral Let_def

end
