(* ===== verification/NetIP_String.thy ===== *)
theory NetIP_String
  imports NetIP_Facts
begin

text \<open>
  Printing an address and parsing it back gives the address. The network controller stores
  the address it hands out as text and later compares parsed texts, so this is what makes
  the text it stores stand for the address it chose.
\<close>

section \<open>Decimal\<close>

lemma show_nat_digits: "c \<in> set (show_nat n) \<Longrightarrow> is_digit c"
proof (induction n rule: show_nat.induct)
  case (1 n)
  have d: "is_digit (digit_char d)" if "d < 10" for d
    using that of_char_digit_char [of d] by (simp add: is_digit_def)
  show ?case
    using 1 d [of n] d [of "n mod 10"] by (subst (asm) (2) show_nat.simps) (auto split: if_splits)
qed

lemma show_nat_nonempty [simp]: "show_nat n \<noteq> []"
  by (subst show_nat.simps) simp

lemma dtoi_loop_show:
  "m * 10 ^ length (show_nat n) + n < big \<Longrightarrow>
     dtoi_loop (show_nat n @ r) m i =
     dtoi_loop r (m * 10 ^ length (show_nat n) + n) (i + length (show_nat n))"
proof (induction n arbitrary: r rule: show_nat.induct)
  case (1 n)
  have step: "dtoi_loop (digit_char d # r) m i = dtoi_loop r (m * 10 + d) (Suc i)"
    if "d < 10" "m * 10 + d < big" for d m i r
    using that of_char_digit_char [of d] by (simp add: is_digit_def)
  show ?case
  proof (cases "n < 10")
    case True
    with 1(2) step [of n m r i] show ?thesis by (simp add: show_nat.simps [of n] del: dtoi_loop.simps)
  next
    case False
    let ?l = "length (show_nat (n div 10))"
    have e: "show_nat n = show_nat (n div 10) @ [digit_char (n mod 10)]" "length (show_nat n) = Suc ?l"
      using False by (simp_all add: show_nat.simps [of n])
    have v: "(m * 10 ^ ?l + n div 10) * 10 + n mod 10 = m * 10 ^ length (show_nat n) + n"
      by (simp add: e(2) algebra_simps)
    have lt: "(m * 10 ^ ?l + n div 10) * 10 + n mod 10 < big" using 1(2) by (subst v)
    have "m * 10 ^ ?l + n div 10 < big" using lt by (rule le_less_trans [rotated]) simp
    with 1(1) [OF False] have "dtoi_loop (show_nat n @ r) m i =
        dtoi_loop (digit_char (n mod 10) # r) (m * 10 ^ ?l + n div 10) (i + ?l)"
      by (simp add: e(1))
    also have "\<dots> = dtoi_loop r ((m * 10 ^ ?l + n div 10) * 10 + n mod 10) (Suc (i + ?l))"
      by (rule step [OF _ lt]) simp
    finally show ?thesis unfolding v e(2) by simp
  qed
qed

lemma dtoi_show_nat:
  assumes "n < big" and "r = [] \<or> \<not> is_digit (hd r)"
  shows "dtoi (show_nat n @ r) = (n, length (show_nat n), True)"
proof -
  have "dtoi (show_nat n @ r) = dtoi_loop r n (length (show_nat n))"
    using dtoi_loop_show [of 0 n r 0] assms(1) by (simp add: dtoi_def)
  with assms(2) show ?thesis by (cases r) auto
qed

section \<open>IPv4\<close>

definition show_IPv4 :: "byte list \<Rightarrow> string" where
  "show_IPv4 p = strings_Join (map (\<lambda>b. show_nat (unat b)) p) ''.''"

lemma not_digit_dot: "\<not> is_digit (CHR ''.'')"
  by (simp add: is_digit_def)

lemma parseIPv4_loop_first:
  "n < 256 \<Longrightarrow> r = [] \<or> hd r = CHR ''.'' \<Longrightarrow>
     parseIPv4_loop (Suc k) (show_nat n @ r) [] = parseIPv4_loop k r [of_nat n]"
  using dtoi_show_nat [of n r] not_digit_dot by (auto simp: big_def Let_def)

lemma parseIPv4_loop_next:
  "n < 256 \<Longrightarrow> p \<noteq> [] \<Longrightarrow> r = [] \<or> hd r = CHR ''.'' \<Longrightarrow>
     parseIPv4_loop (Suc k) (CHR ''.'' # show_nat n @ r) p = parseIPv4_loop k r (p @ [of_nat n])"
  using dtoi_show_nat [of n r] not_digit_dot by (auto simp: big_def Let_def)

lemma parseIPv4_show:
  assumes "length p = 4"
  shows "parseIPv4 (show_IPv4 p) = v4InV6Prefix @ p"
proof -
  from assms obtain a b c d where p: "p = [a, b, c, d]"
    by (auto simp: numeral_eq_Suc length_Suc_conv)
  have n: "\<And>w :: byte. unat w < 256" by simp
  have "parseIPv4_loop (Suc (Suc (Suc (Suc 0)))) (show_IPv4 p) [] = Some p"
    unfolding p show_IPv4_def list.map strings_Join.simps append_Cons append_Nil
    by (subst parseIPv4_loop_first, simp, simp, (subst parseIPv4_loop_next, simp, simp, simp)+,
        use parseIPv4_loop_next [of "unat d" "[a, b, c]" "[]" 0] in simp)
  then show ?thesis by (simp add: parseIPv4_def numeral_eq_Suc)
qed

lemma ParseIP_scan_skip: "(\<forall>c \<in> set xs. c \<noteq> CHR ''.'' \<and> c \<noteq> CHR '':'') \<Longrightarrow>
    ParseIP_scan s (xs @ ys) = ParseIP_scan s ys"
  by (induction xs) auto

lemma ParseIP_show_IPv4:
  assumes "length p = 4"
  shows "ParseIP (show_IPv4 p) = v4InV6Prefix @ p"
proof -
  from assms obtain a q where p: "p = a # q" "q \<noteq> []"
    by (auto simp: numeral_eq_Suc length_Suc_conv)
  then obtain r where r: "show_IPv4 p = show_nat (unat a) @ CHR ''.'' # r"
    by (cases q) (auto simp: show_IPv4_def)
  have "\<forall>c \<in> set (show_nat (unat a)). c \<noteq> CHR ''.'' \<and> c \<noteq> CHR '':''"
    using show_nat_digits [of "CHR ''.''" "unat a"] show_nat_digits [of "CHR '':''" "unat a"]
    by (auto simp: is_digit_def)
  then have "ParseIP (show_IPv4 p) = parseIPv4 (show_IPv4 p)"
    unfolding ParseIP_def by (subst (2) r, subst ParseIP_scan_skip) auto
  with parseIPv4_show [OF assms] show ?thesis by simp
qed

section \<open>Hexadecimal\<close>

lemma hex_value_digits: "list_all (\<lambda>v. hex_value (hex_digit v) = Some v) [0..<16]"
  by (simp add: upt_rec hex_value_def hex_digit_def)

lemma hex_value_digit: "v < 16 \<Longrightarrow> hex_value (hex_digit v) = Some v"
  using hex_value_digits by (simp add: list_all_iff del: upt_Suc)

lemma show_hex_digits: "c \<in> set (show_hex n) \<Longrightarrow> hex_value c \<noteq> None"
proof (induction n rule: show_hex.induct)
  case (1 n)
  show ?case
    using 1 hex_value_digit [of n] hex_value_digit [of "n mod 16"]
    by (subst (asm) (2) show_hex.simps) (auto split: if_splits)
qed

lemma show_hex_nonempty [simp]: "show_hex n \<noteq> []"
  by (subst show_hex.simps) simp

lemma xtoi_loop_show:
  "m * 16 ^ length (show_hex n) + n < big \<Longrightarrow>
     xtoi_loop (show_hex n @ r) m i =
     xtoi_loop r (m * 16 ^ length (show_hex n) + n) (i + length (show_hex n))"
proof (induction n arbitrary: r rule: show_hex.induct)
  case (1 n)
  have step: "xtoi_loop (hex_digit d # r) m i = xtoi_loop r (m * 16 + d) (Suc i)"
    if "d < 16" "m * 16 + d < big" for d m i r
    using that hex_value_digit [of d] by simp
  show ?case
  proof (cases "n < 16")
    case True
    with 1(2) step [of n m r i] show ?thesis by (simp add: show_hex.simps [of n] del: xtoi_loop.simps)
  next
    case False
    let ?l = "length (show_hex (n div 16))"
    have e: "show_hex n = show_hex (n div 16) @ [hex_digit (n mod 16)]" "length (show_hex n) = Suc ?l"
      using False by (simp_all add: show_hex.simps [of n])
    have v: "(m * 16 ^ ?l + n div 16) * 16 + n mod 16 = m * 16 ^ length (show_hex n) + n"
      by (simp add: e(2) algebra_simps)
    have lt: "(m * 16 ^ ?l + n div 16) * 16 + n mod 16 < big" using 1(2) by (subst v)
    have "m * 16 ^ ?l + n div 16 < big" using lt by (rule le_less_trans [rotated]) simp
    with 1(1) [OF False] have "xtoi_loop (show_hex n @ r) m i =
        xtoi_loop (hex_digit (n mod 16) # r) (m * 16 ^ ?l + n div 16) (i + ?l)"
      by (simp add: e(1))
    also have "\<dots> = xtoi_loop r ((m * 16 ^ ?l + n div 16) * 16 + n mod 16) (Suc (i + ?l))"
      by (rule step [OF _ lt]) simp
    finally show ?thesis unfolding v e(2) by simp
  qed
qed

lemma xtoi_show_hex:
  assumes "n < 65536" and "r = [] \<or> hd r = CHR '':''"
  shows "xtoi (show_hex n @ r) = (n, length (show_hex n), True)"
proof -
  have "xtoi (show_hex n @ r) = xtoi_loop r n (length (show_hex n))"
    using xtoi_loop_show [of 0 n r 0] assms(1) by (simp add: xtoi_def big_def)
  with assms(2) show ?thesis by (cases r) (auto simp: hex_value_def)
qed

section \<open>IPv6\<close>

fun bytes_of_groups :: "nat list \<Rightarrow> byte list" where
  "bytes_of_groups [] = []"
| "bytes_of_groups (g # gs) = of_nat (g div 256) # of_nat (g mod 256) # bytes_of_groups gs"

lemma length_bytes_of_groups [simp]: "length (bytes_of_groups gs) = 2 * length gs"
  by (induction gs) auto

lemma bytes_of_groups_append: "bytes_of_groups (xs @ ys) = bytes_of_groups xs @ bytes_of_groups ys"
  by (induction xs) auto

lemma bytes_of_groups16: "even (length bs) \<Longrightarrow> bytes_of_groups (groups16 bs) = bs"
  by (induction bs rule: groups16.induct) auto

lemma length_groups16: "length (groups16 bs) = length bs div 2"
  by (induction bs rule: groups16.induct) auto

lemma groups16_less: "g \<in> set (groups16 bs) \<Longrightarrow> g < 65536"
proof (induction bs rule: groups16.induct)
  case (1 a b bs)
  have "unat a * 256 + unat b < 65536" using unat_byte_le [of a] unat_byte_le [of b] by linarith
  with 1 show ?case by auto
qed auto

text \<open>One group, at the end of the string, before a single colon, and before two.\<close>

lemma parse_group_end:
  "g < 65536 \<Longrightarrow> length ip < 16 \<Longrightarrow>
     parseIPv6_loop (show_hex g) ip e = Some ([], ip @ bytes_of_groups [g], e)"
  using xtoi_show_hex [of g "[]"] by (subst parseIPv6_loop.simps) simp

lemma parse_group_colon:
  "g < 65536 \<Longrightarrow> length ip < 16 \<Longrightarrow> r \<noteq> [] \<Longrightarrow> hd r \<noteq> CHR '':'' \<Longrightarrow>
     parseIPv6_loop (show_hex g @ CHR '':'' # r) ip e = parseIPv6_loop r (ip @ bytes_of_groups [g]) e"
  using xtoi_show_hex [of g "CHR '':'' # r"] by (subst parseIPv6_loop.simps) (simp add: Let_def)

lemma parse_group_ellipsis:
  "g < 65536 \<Longrightarrow> length ip < 16 \<Longrightarrow>
     parseIPv6_loop (show_hex g @ ''::'' @ r) ip None =
     (if r = [] then Some ([], ip @ bytes_of_groups [g], Some (length ip + 2))
      else parseIPv6_loop r (ip @ bytes_of_groups [g]) (Some (length ip + 2)))"
  using xtoi_show_hex [of g "''::'' @ r"] by (subst parseIPv6_loop.simps) (simp add: Let_def)

lemma show_hex_hd: "hex_value (hd (show_hex g @ r)) \<noteq> None"
  using show_hex_digits [of "hd (show_hex g)" g] by simp

lemma show_hex_hd_colon: "hd (show_hex g @ r) \<noteq> CHR '':''"
  using show_hex_hd [of g r] by (auto simp: hex_value_def)

lemma show_groups_hd: "gs \<noteq> [] \<Longrightarrow> show_groups gs \<noteq> [] \<and> hd (show_groups gs @ r) \<noteq> CHR '':''"
  using show_hex_hd_colon [of "hd gs"]
  by (cases gs rule: list.exhaust; cases "tl gs") (auto simp: show_groups_def)

lemma show_groups_Cons: "gs \<noteq> [] \<Longrightarrow> show_groups (g # gs) = show_hex g @ CHR '':'' # show_groups gs"
  by (cases gs) (auto simp: show_groups_def)

lemma show_groups_one: "show_groups [g] = show_hex g"
  by (simp add: show_groups_def)

lemma parse_groups_end:
  "gs \<noteq> [] \<Longrightarrow> \<forall>g \<in> set gs. g < 65536 \<Longrightarrow> length ip + 2 * length gs \<le> 16 \<Longrightarrow>
     parseIPv6_loop (show_groups gs) ip e = Some ([], ip @ bytes_of_groups gs, e)"
proof (induction gs arbitrary: ip)
  case (Cons g gs)
  show ?case
  proof (cases "gs = []")
    case True
    with Cons.prems parse_group_end [of g ip e] show ?thesis by (simp add: show_groups_one)
  next
    case False
    with Cons.prems show ?thesis
      using show_groups_hd [OF False, of "[]"] Cons.IH [of "ip @ bytes_of_groups [g]"]
      by (simp add: show_groups_Cons parse_group_colon)
  qed
qed simp

lemma parse_groups_ellipsis:
  "gs \<noteq> [] \<Longrightarrow> \<forall>g \<in> set gs. g < 65536 \<Longrightarrow> length ip + 2 * length gs \<le> 16 \<Longrightarrow>
     parseIPv6_loop (show_groups gs @ ''::'' @ r) ip None =
     (if r = [] then Some ([], ip @ bytes_of_groups gs, Some (length ip + 2 * length gs))
      else parseIPv6_loop r (ip @ bytes_of_groups gs) (Some (length ip + 2 * length gs)))"
proof (induction gs arbitrary: ip)
  case (Cons g gs)
  show ?case
  proof (cases "gs = []")
    case True
    with Cons.prems parse_group_ellipsis [of g ip r] show ?thesis by (simp add: show_groups_one)
  next
    case False
    with Cons.prems
    have "parseIPv6_loop (show_groups (g # gs) @ ''::'' @ r) ip None =
        parseIPv6_loop (show_groups gs @ ''::'' @ r) (ip @ bytes_of_groups [g]) None"
      using show_groups_hd [OF False, of "''::'' @ r"] show_groups_hd [OF False, of "[]"]
        parse_group_colon [of g ip "show_groups gs @ ''::'' @ r" None]
      by (simp add: show_groups_Cons)
    with False Cons.prems Cons.IH [of "ip @ bytes_of_groups [g]"] show ?thesis by simp
  qed
qed simp

definition zero_range :: "nat list \<Rightarrow> nat \<times> nat \<Rightarrow> bool" where
  "zero_range gs e \<longleftrightarrow> fst e \<le> snd e \<and> snd e \<le> length gs \<and>
     (\<forall>k. fst e \<le> k \<and> k < snd e \<longrightarrow> gs ! k = 0)"

lemma zero_range_run:
  assumes "i < length gs"
  shows "zero_range gs (i, i + zero_run (drop i gs))"
proof -
  let ?z = "takeWhile (\<lambda>g. g = 0) (drop i gs)"
  have "length ?z \<le> length gs - i" using length_takeWhile_le [of _ "drop i gs"] by simp
  moreover have "gs ! k = 0" if "i \<le> k" "k < i + length ?z" for k
  proof -
    have m: "k - i < length ?z" using that by simp
    have "?z ! (k - i) \<in> set ?z" using m by (rule nth_mem)
    then have "?z ! (k - i) = 0" by (auto dest: set_takeWhileD)
    moreover have "?z ! (k - i) = drop i gs ! (k - i)" using m by (rule takeWhile_nth)
    ultimately show ?thesis using that assms by simp
  qed
  ultimately show ?thesis using assms by (simp add: zero_range_def zero_run_def)
qed

lemma longest_zeros_ok: "zero_range gs e \<Longrightarrow> zero_range gs (longest_zeros fuel gs i e)"
proof (induction fuel arbitrary: i e)
  case (Suc fuel)
  obtain e0 e1 where e: "e = (e0, e1)" by (cases e)
  show ?case
    using Suc zero_range_run [of i gs] by (simp add: e Let_def)
qed simp

lemma bytes_of_zeros: "\<forall>g \<in> set gs. g = 0 \<Longrightarrow> bytes_of_groups gs = replicate (2 * length gs) 0"
  by (induction gs) auto

lemma split_zero_range:
  assumes "zero_range gs (a, b)"
  shows "bytes_of_groups gs =
    bytes_of_groups (take a gs) @ replicate (2 * (b - a)) 0 @ bytes_of_groups (drop b gs)"
proof -
  from assms have ab: "a \<le> b" "b \<le> length gs" by (auto simp: zero_range_def)
  let ?m = "take (b - a) (drop a gs)"
  have "\<forall>g \<in> set ?m. g = 0" using assms by (auto simp: zero_range_def in_set_conv_nth)
  then have "bytes_of_groups ?m = replicate (2 * (b - a)) 0"
    using ab by (simp add: bytes_of_zeros)
  moreover have "gs = take a gs @ ?m @ drop b gs"
  proof -
    have "drop b gs = drop (b - a) (drop a gs)" using ab by simp
    then show ?thesis by (metis append_take_drop_id)
  qed
  ultimately show ?thesis by (metis bytes_of_groups_append)
qed

lemma take2_show_groups: "gs \<noteq> [] \<Longrightarrow> take 2 (show_groups gs @ r) \<noteq> ''::''"
  using show_groups_hd [of gs r] by (cases "show_groups gs") (auto simp: numeral_2_eq_2)

lemma show_groups_empty: "show_groups gs = [] \<longleftrightarrow> gs = []"
  using show_groups_hd [of gs "[]"] by (cases "gs = []") (auto simp: show_groups_def)

lemma parseIPv6_plain:
  assumes "length gs = 8" and "\<forall>g \<in> set gs. g < 65536"
  shows "parseIPv6 (show_groups gs) = bytes_of_groups gs"
proof -
  have ne: "gs \<noteq> []" using assms(1) by auto
  have "parseIPv6_loop (show_groups gs) [] None = Some ([], bytes_of_groups gs, None)"
    using parse_groups_end [of gs "[]" None] ne assms by simp
  with take2_show_groups [OF ne, of "[]"] assms(1) show ?thesis
    by (simp add: parseIPv6_def expand_ellipsis_def)
qed

lemma parseIPv6_front:
  assumes "length gs < 8" and "\<forall>g \<in> set gs. g < 65536"
  shows "parseIPv6 (''::'' @ show_groups gs) = replicate (16 - 2 * length gs) 0 @ bytes_of_groups gs"
proof (cases "gs = []")
  case True
  then show ?thesis by (simp add: parseIPv6_def show_groups_def)
next
  case False
  have "parseIPv6_loop (show_groups gs) [] (Some 0) = Some ([], bytes_of_groups gs, Some 0)"
    using parse_groups_end [of gs "[]" "Some 0"] False assms by simp
  moreover have "show_groups gs \<noteq> []" using False by (simp add: show_groups_empty)
  ultimately show ?thesis using assms(1) by (simp add: parseIPv6_def expand_ellipsis_def)
qed

lemma parseIPv6_middle:
  assumes "xs \<noteq> []" and "length xs + length ys < 8"
    and "\<forall>g \<in> set xs. g < 65536" and "\<forall>g \<in> set ys. g < 65536"
  shows "parseIPv6 (show_groups xs @ ''::'' @ show_groups ys) =
    bytes_of_groups xs @ replicate (16 - 2 * (length xs + length ys)) 0 @ bytes_of_groups ys"
proof -
  have "parseIPv6_loop (show_groups xs @ ''::'' @ show_groups ys) [] None =
      Some ([], bytes_of_groups xs @ bytes_of_groups ys, Some (2 * length xs))"
  proof (cases "ys = []")
    case True
    with parse_groups_ellipsis [OF assms(1,3), of "[]" "[]"] assms(2) show ?thesis
      by (simp add: show_groups_def [of "[]"])
  next
    case False
    then have "show_groups ys \<noteq> []" by (simp add: show_groups_empty)
    with parse_groups_ellipsis [OF assms(1,3), of "[]" "show_groups ys"] assms(2)
      parse_groups_end [OF False assms(4), of "bytes_of_groups xs" "Some (2 * length xs)"]
    show ?thesis by simp
  qed
  with take2_show_groups [OF assms(1), of "''::'' @ show_groups ys"] assms(2) show ?thesis
    by (simp add: parseIPv6_def expand_ellipsis_def)
qed

lemma parseIPv6_show:
  assumes len: "length gs = 8" and small: "\<forall>g \<in> set gs. g < 65536"
  shows "parseIPv6 (show_IPv6 gs) = bytes_of_groups gs"
proof -
  obtain a b where ab: "longest_zeros (length gs) gs 0 (0, 0) = (a, b)"
    by (cases "longest_zeros (length gs) gs 0 (0, 0)") auto
  have "zero_range gs (0, 0)" by (simp add: zero_range_def)
  then have range: "zero_range gs (a, b)" using longest_zeros_ok ab by metis
  then have le: "a \<le> b" "b \<le> 8" using len by (auto simp: zero_range_def)
  show ?thesis
  proof (cases "b - a \<le> 1")
    case True
    with ab have "show_IPv6 gs = show_groups gs" by (simp add: show_IPv6_def)
    with parseIPv6_plain [OF len small] show ?thesis by simp
  next
    case False
    let ?x = "take a gs" and ?y = "drop b gs"
    have e: "show_IPv6 gs = show_groups ?x @ ''::'' @ show_groups ?y"
      using False ab by (simp add: show_IPv6_def)
    have s: "\<forall>g \<in> set ?x. g < 65536" "\<forall>g \<in> set ?y. g < 65536"
      using small by (auto dest: in_set_takeD in_set_dropD)
    have lx: "length ?x = a" "length ?y = 8 - b" using le len by auto
    have d: "16 - 2 * (a + (8 - b)) = 2 * (b - a)" using le by simp
    have "parseIPv6 (show_IPv6 gs) =
        bytes_of_groups ?x @ replicate (2 * (b - a)) 0 @ bytes_of_groups ?y"
    proof (cases "a = 0")
      case True
      have "length ?y < 8" using lx(2) False by linarith
      from parseIPv6_front [OF this s(2)] show ?thesis
        unfolding e lx using True d by (simp add: show_groups_def [of "[]"])
    next
      case a: False
      then have "?x \<noteq> []" "length ?x + length ?y < 8" using lx False le by auto
      from parseIPv6_middle [OF this s] show ?thesis unfolding e lx d .
    qed
    with split_zero_range [OF range] show ?thesis by simp
  qed
qed

text \<open>The round trip, for every 16-byte address, IPv4-mapped or not.\<close>

lemma ParseIP_scan_hex: "ParseIP_scan s (show_hex g @ CHR '':'' # r) = parseIPv6 s"
proof -
  have "\<forall>c \<in> set (show_hex g). c \<noteq> CHR ''.'' \<and> c \<noteq> CHR '':''"
    using show_hex_digits [of "CHR ''.''" g] show_hex_digits [of "CHR '':''" g]
    by (auto simp: hex_value_def)
  from ParseIP_scan_skip [OF this] show ?thesis by simp
qed

lemma ParseIP_show_IPv6:
  assumes "length gs = 8"
  shows "ParseIP (show_IPv6 gs) = parseIPv6 (show_IPv6 gs)"
proof -
  have two: "\<exists>g r. show_groups hs @ ''::'' @ t = show_hex g @ CHR '':'' # r" if "hs \<noteq> []" for hs t
    using that by (cases hs; cases "tl hs") (auto simp: show_groups_def intro: exI)
  obtain g hs where gs: "gs = g # hs" "hs \<noteq> []"
    using assms by (auto simp: numeral_eq_Suc length_Suc_conv)
  have "(\<exists>g r. show_IPv6 gs = show_hex g @ CHR '':'' # r) \<or> (\<exists>r. show_IPv6 gs = CHR '':'' # r)"
  proof (cases "longest_zeros (length gs) gs 0 (0, 0)")
    case (Pair a b)
    then show ?thesis
      using two [of "take a gs" "show_groups (drop b gs)"] show_groups_Cons [OF gs(2), of g]
      by (cases "a = 0") (auto simp: show_IPv6_def gs(1) show_groups_def [of "[]"])
  qed
  then show ?thesis unfolding ParseIP_def using ParseIP_scan_hex by fastforce
qed

lemma ParseIP_IP_String:
  assumes "length ip = 16"
  shows "ParseIP (IP_String ip) = ip"
proof (cases "IP_To4 ip = []")
  case True
  let ?gs = "groups16 ip"
  have gs: "length ?gs = 8" "\<forall>g \<in> set ?gs. g < 65536"
    using assms by (auto simp: length_groups16 dest: groups16_less)
  have "IP_String ip = show_IPv6 ?gs" using True assms by (simp add: IP_String_def)
  with ParseIP_show_IPv6 [OF gs(1)] parseIPv6_show [OF gs] bytes_of_groups16 [of ip] assms
  show ?thesis by simp
next
  case False
  then have ip: "take 12 ip = v4InV6Prefix" "IP_To4 ip = drop 12 ip"
    using assms by (auto simp: IP_To4_def split: if_splits)
  then have "IP_String ip = show_IPv4 (drop 12 ip)"
    using assms by (simp add: IP_String_def show_IPv4_def)
  moreover have "v4InV6Prefix @ drop 12 ip = ip" using ip(1) by (metis append_take_drop_id)
  ultimately show ?thesis using ParseIP_show_IPv4 [of "drop 12 ip"] assms by simp
qed

end
