(* ===== verification/Encoding.thy ===== *)
theory Encoding
  imports NetIP_String
begin

text \<open>
  The encodings the provisioner, the agent and the discovery server talk in: Go's
  \<^verbatim>\<open>encoding/base64\<close> (the standard alphabet) and the parts of \<^verbatim>\<open>encoding/json\<close> they use. A
  \<^verbatim>\<open>string\<close> is its bytes; writing and reading JSON both replace what is not valid UTF-8 by
  U+FFFD, so a text that is printed and read comes back as its \<open>utf8_text\<close>. \<^verbatim>\<open>strings.TrimSpace\<close>,
  which cuts off Unicode's white space, is here too.
\<close>

section \<open>Base 64\<close>

definition base64_alphabet :: string where
  "base64_alphabet = ''ABCDEFGHIJKLMNOPQRSTUVWXYZabcdefghijklmnopqrstuvwxyz0123456789+/''"

definition base64_char :: "nat \<Rightarrow> char" where
  "base64_char n = base64_alphabet ! n"

definition base64_value :: "char \<Rightarrow> nat option" where
  "base64_value c = first_index (\<lambda>d. d = c) base64_alphabet"

text \<open>\<^verbatim>\<open>EncodeToString\<close>, three bytes at a time, and its two kinds of padded tail.\<close>

fun base64_encode :: "string \<Rightarrow> string" where
  "base64_encode [] = []"
| "base64_encode [a] =
     (let x = of_char a in [base64_char (x div 4), base64_char (x mod 4 * 16), CHR ''='', CHR ''=''])"
| "base64_encode [a, b] =
     (let x = of_char a; y = of_char b in
      [base64_char (x div 4), base64_char (x mod 4 * 16 + y div 16), base64_char (y mod 16 * 4), CHR ''=''])"
| "base64_encode (a # b # c # s) =
     (let x = of_char a; y = of_char b; z = of_char c in
      base64_char (x div 4) # base64_char (x mod 4 * 16 + y div 16) # base64_char (y mod 16 * 4 + z div 64) #
      base64_char (z mod 64) # base64_encode s)"

text \<open>
  \<^verbatim>\<open>DecodeString\<close> after the line breaks, which it skips: groups of four, padding only in the
  last one. \<open>None\<close> is its error.
\<close>

fun base64_quanta :: "string \<Rightarrow> string option" where
  "base64_quanta [] = Some []"
| "base64_quanta (a # b # c # d # s) =
     (case (base64_value a, base64_value b) of
        (Some x, Some y) \<Rightarrow>
          (if c = CHR ''='' then
             (if d = CHR ''='' \<and> s = [] then Some [char_of (x * 4 + y div 16)] else None)
           else case base64_value c of
             None \<Rightarrow> None
           | Some z \<Rightarrow>
               (if d = CHR ''='' then
                  (if s = [] then Some [char_of (x * 4 + y div 16), char_of (y mod 16 * 16 + z div 4)] else None)
                else case base64_value d of
                  None \<Rightarrow> None
                | Some w \<Rightarrow> map_option (\<lambda>t. char_of (x * 4 + y div 16) # char_of (y mod 16 * 16 + z div 4) #
                                    char_of (z mod 4 * 64 + w) # t) (base64_quanta s)))
      | _ \<Rightarrow> None)"
| "base64_quanta s = None"

definition base64_decode :: "string \<Rightarrow> string option" where
  "base64_decode s = base64_quanta (filter (\<lambda>c. c \<noteq> CHR 0x0A \<and> c \<noteq> CHR 0x0D) s)"

lemma base64_alphabet_simps: "length base64_alphabet = 64" "distinct base64_alphabet"
  "CHR ''='' \<notin> set base64_alphabet" "CHR 0x0A \<notin> set base64_alphabet"
  "CHR 0x0D \<notin> set base64_alphabet"
  by (simp_all add: base64_alphabet_def)

lemma first_index_nth: "distinct xs \<Longrightarrow> i < length xs \<Longrightarrow> first_index (\<lambda>y. y = xs ! i) xs = Some i"
  by (induction xs arbitrary: i) (auto simp: nth_Cons split: nat.splits)

lemma base64_value_char [simp]: "n < 64 \<Longrightarrow> base64_value (base64_char n) = Some n"
  by (simp add: base64_value_def base64_char_def first_index_nth base64_alphabet_simps)

lemma base64_char_in: "n < 64 \<Longrightarrow> base64_char n \<in> set base64_alphabet"
  by (simp add: base64_char_def base64_alphabet_simps)

lemma base64_char_neq [simp]:
  assumes "n < 64"
  shows "base64_char n \<noteq> CHR ''=''" "base64_char n \<noteq> CHR 0x0A" "base64_char n \<noteq> CHR 0x0D"
  using base64_char_in [OF assms] base64_alphabet_simps(3-5) by metis+

lemma of_char_256: "(of_char c :: nat) < 256"
  by simp

lemma base64_small:
  fixes x y z :: nat
  assumes "x < 256" "y < 256" "z < 256"
  shows "x div 4 < 64" "x mod 4 * 16 < 64" "x mod 4 * 16 + y div 16 < 64" "y mod 16 * 4 < 64"
    "y mod 16 * 4 + z div 64 < 64" "z mod 64 < 64"
proof -
  have "x div 4 < 64" "x mod 4 < 4" "y div 16 < 16" "y mod 16 < 16" "z div 64 < 4" "z mod 64 < 64"
    using assms by simp_all
  then show "x div 4 < 64" "x mod 4 * 16 < 64" "x mod 4 * 16 + y div 16 < 64" "y mod 16 * 4 < 64"
    "y mod 16 * 4 + z div 64 < 64" "z mod 64 < 64"
    by linarith+
qed

lemma base64_join:
  fixes y z :: nat
  assumes "y < 256" "z < 256"
  shows "y div 16 div 16 = 0" "y div 16 mod 16 = y div 16" "z div 64 div 4 = 0" "z div 64 mod 4 = z div 64"
  using assms by simp_all

lemma base64_quanta_encode: "base64_quanta (base64_encode s) = Some s"
proof (induction s rule: base64_encode.induct)
  case (2 a)
  note b = base64_small [OF of_char_256 [of a] of_char_256 of_char_256]
  show ?case by (simp add: Let_def b)
next
  case (3 a b)
  note b = base64_small [OF of_char_256 [of a] of_char_256 [of b] of_char_256]
    base64_join [OF of_char_256 [of b] of_char_256]
  show ?case by (simp add: Let_def b)
next
  case (4 a b c s)
  note b = base64_small [OF of_char_256 [of a] of_char_256 [of b] of_char_256 [of c]]
    base64_join [OF of_char_256 [of b] of_char_256 [of c]]
  show ?case by (simp add: Let_def b 4)
qed simp

lemma base64_encode_chars:
  "c \<in> set (base64_encode s) \<Longrightarrow> c \<in> set (CHR ''='' # base64_alphabet)"
proof (induction s rule: base64_encode.induct)
  case (2 a)
  then show ?case using base64_small [OF of_char_256 [of a] of_char_256 of_char_256] by (auto simp: Let_def base64_char_in)
next
  case (3 a b)
  then show ?case using base64_small [OF of_char_256 [of a] of_char_256 [of b] of_char_256] by (auto simp: Let_def base64_char_in)
next
  case (4 a b c s)
  then show ?case using base64_small [OF of_char_256 [of a] of_char_256 [of b] of_char_256 [of c]] by (auto simp: Let_def base64_char_in)
qed simp

lemma base64_round_trip: "base64_decode (base64_encode s) = Some s"
proof -
  have "filter (\<lambda>c. c \<noteq> CHR 0x0A \<and> c \<noteq> CHR 0x0D) (base64_encode s) = base64_encode s"
    by (rule filter_True) (use base64_encode_chars base64_alphabet_simps(4,5) in fastforce)
  then show ?thesis by (simp add: base64_decode_def base64_quanta_encode)
qed
section \<open>UTF-8\<close>

definition utf8_encode :: "nat \<Rightarrow> string" where
  "utf8_encode n =
     (if n < 0x80 then [char_of n]
      else if n < 0x800 then [char_of (0xC0 + n div 64), char_of (0x80 + n mod 64)]
      else if n < 0x10000 then
        [char_of (0xE0 + n div 4096), char_of (0x80 + n div 64 mod 64), char_of (0x80 + n mod 64)]
      else [char_of (0xF0 + n div 262144), char_of (0x80 + n div 4096 mod 64),
            char_of (0x80 + n div 64 mod 64), char_of (0x80 + n mod 64)])"

text \<open>
  The length of the code point a text starts with, 0 when \<^verbatim>\<open>utf8.DecodeRune\<close> rejects it. The
  second byte has tighter bounds after four of the first bytes.
\<close>

definition utf8_cont :: "nat \<Rightarrow> nat \<Rightarrow> char \<Rightarrow> bool" where
  "utf8_cont lo hi c \<longleftrightarrow> lo \<le> of_char c \<and> of_char c \<le> hi"

definition utf8_second :: "nat \<Rightarrow> char \<Rightarrow> bool" where
  "utf8_second n = utf8_cont (if n = 0xE0 then 0xA0 else if n = 0xF0 then 0x90 else 0x80)
     (if n = 0xED then 0x9F else if n = 0xF4 then 0x8F else 0xBF)"

fun utf8_len :: "string \<Rightarrow> nat" where
  "utf8_len [] = 0"
| "utf8_len (c # s) =
     (let n = of_char c in
      if n < 0x80 then 1
      else if n < 0xC2 then 0
      else if n < 0xE0 then (case s of x # _ \<Rightarrow> if utf8_second n x then 2 else 0 | _ \<Rightarrow> 0)
      else if n < 0xF0 then
        (case s of x # y # _ \<Rightarrow> if utf8_second n x \<and> utf8_cont 0x80 0xBF y then 3 else 0 | _ \<Rightarrow> 0)
      else if n < 0xF5 then
        (case s of x # y # z # _ \<Rightarrow>
           if utf8_second n x \<and> utf8_cont 0x80 0xBF y \<and> utf8_cont 0x80 0xBF z then 4 else 0
         | _ \<Rightarrow> 0)
      else 0)"

declare utf8_len.simps [simp del]

text \<open>A text with U+FFFD for every byte that starts no code point.\<close>

function utf8_text :: "string \<Rightarrow> string" where
  "utf8_text [] = []"
| "utf8_text (c # s) = (case utf8_len (c # s) of
     0 \<Rightarrow> utf8_encode 0xFFFD @ utf8_text s
   | Suc k \<Rightarrow> c # take k s @ utf8_text (drop k s))"
  by pat_completeness auto
termination
  by (relation "measure length") auto

declare utf8_text.simps(2) [simp del]

lemma utf8_len_take:
  assumes "utf8_len (c # s) = Suc k"
  shows "utf8_len (c # take k s @ r) = Suc k" "k \<le> length s"
  using assms
  by (auto simp: utf8_len.simps Let_def split: if_splits list.splits)

lemma utf8_len_ascii: "(of_char c :: nat) < 128 \<Longrightarrow> utf8_len (c # s) = 1"
  by (simp add: utf8_len.simps)

lemma utf8_len_one: "utf8_len (c # s) = Suc 0 \<longleftrightarrow> (of_char c :: nat) < 128"
  by (auto simp: utf8_len.simps Let_def split: list.splits)

lemma utf8_text_empty [simp]: "utf8_text s = [] \<longleftrightarrow> s = []"
  by (cases s) (auto simp: utf8_text.simps utf8_encode_def split: nat.splits)

lemma utf8_text_ascii: "\<forall>c \<in> set s. (of_char c :: nat) < 128 \<Longrightarrow> utf8_text s = s"
  by (induction s) (simp_all add: utf8_text.simps utf8_len_ascii)

lemma utf8_text_base64 [simp]: "utf8_text (base64_encode s) = base64_encode s"
proof (rule utf8_text_ascii, rule ballI)
  fix c assume "c \<in> set (base64_encode s)"
  then have "c \<in> set (CHR ''='' # base64_alphabet)" by (rule base64_encode_chars)
  moreover have "\<forall>c \<in> set (CHR ''='' # base64_alphabet). (of_char c :: nat) < 128"
    by (simp add: base64_alphabet_def)
  ultimately show "(of_char c :: nat) < 128" by blast
qed

section \<open>White space\<close>

text \<open>
  \<^verbatim>\<open>strings.TrimSpace\<close>: the encodings of Unicode's white space are cut off at both ends; at the
  right end they are found as they are at the left end of the reversed text.
\<close>

definition unicode_spaces :: "string list" where
  "unicode_spaces = map utf8_encode ([9, 10, 11, 12, 13, 0x20, 0x85, 0xA0, 0x1680] @ [0x2000..<0x200B] @
     [0x2028, 0x2029, 0x202F, 0x205F, 0x3000])"

definition prefix_length :: "string list \<Rightarrow> string \<Rightarrow> nat" where
  "prefix_length ws s = (case find (\<lambda>w. w \<noteq> [] \<and> take (length w) s = w) ws of None \<Rightarrow> 0 | Some w \<Rightarrow> length w)"

lemma prefix_length_le: "prefix_length ws s \<le> length s"
proof (cases "find (\<lambda>w. w \<noteq> [] \<and> take (length w) s = w) ws")
  case (Some w)
  then have "take (length w) s = w" by (auto simp: find_Some_iff)
  then have "length w = min (length s) (length w)" by (metis length_take)
  with Some show ?thesis by (simp add: prefix_length_def)
qed (simp add: prefix_length_def)

function trim_prefix :: "string list \<Rightarrow> string \<Rightarrow> string" where
  "trim_prefix ws s = (if prefix_length ws s = 0 then s else trim_prefix ws (drop (prefix_length ws s) s))"
  by pat_completeness auto
termination
proof (relation "measure (\<lambda>(ws, s). length s)")
  fix ws s assume "prefix_length ws s \<noteq> 0"
  then show "((ws, drop (prefix_length ws s) s), (ws, s)) \<in> measure (\<lambda>(ws, s). length s)"
    using prefix_length_le [of ws s] by simp
qed simp

declare trim_prefix.simps [simp del]

definition strings_TrimSpace :: "string \<Rightarrow> string" where
  "strings_TrimSpace s = rev (trim_prefix (map rev unicode_spaces) (rev (trim_prefix unicode_spaces s)))"

section \<open>JSON values\<close>

datatype json = JNull | JBool bool | JNumber string | JString string | JArray "json list"
  | JObject "(string \<times> json) list"

text \<open>\<^verbatim>\<open>json.Marshal\<close>: compact, with the characters HTML minds escaped.\<close>

definition json_escape :: "char \<Rightarrow> string" where
  "json_escape c =
     (if c = CHR 0x22 \<or> c = CHR 0x5C then [CHR 0x5C, c]
      else if c = CHR 0x0A then [CHR 0x5C, CHR ''n'']
      else if c = CHR 0x0D then [CHR 0x5C, CHR ''r'']
      else if c = CHR 0x09 then [CHR 0x5C, CHR ''t'']
      else if (of_char c :: nat) < 32 \<or> c = CHR ''<'' \<or> c = CHR ''>'' \<or> c = CHR ''&'' then
        [CHR 0x5C, CHR ''u'', CHR ''0'', CHR ''0'', hex_digit (of_char c div 16), hex_digit (of_char c mod 16)]
      else [c])"

text \<open>U+2028 and U+2029 are escaped too, and a byte that starts no code point as \<^verbatim>\<open>\ufffd\<close>.\<close>

function json_text :: "string \<Rightarrow> string" where
  "json_text [] = []"
| "json_text (c # s) = (case utf8_len (c # s) of
     0 \<Rightarrow> CHR 0x5C # ''ufffd'' @ json_text s
   | Suc k \<Rightarrow>
       (if k = 0 then json_escape c
        else if c # take k s = utf8_encode 0x2028 then CHR 0x5C # ''u2028''
        else if c # take k s = utf8_encode 0x2029 then CHR 0x5C # ''u2029''
        else c # take k s) @ json_text (drop k s))"
  by pat_completeness auto
termination
  by (relation "measure length") auto

declare json_text.simps(2) [simp del]

definition json_string :: "string \<Rightarrow> string" where
  "json_string s = [CHR 0x22] @ json_text s @ [CHR 0x22]"

fun json_print :: "json \<Rightarrow> string"
  and json_elems :: "json list \<Rightarrow> string"
  and json_members :: "(string \<times> json) list \<Rightarrow> string" where
  "json_print JNull = ''null''"
| "json_print (JBool b) = (if b then ''true'' else ''false'')"
| "json_print (JNumber n) = n"
| "json_print (JString s) = json_string s"
| "json_print (JArray js) = ''['' @ json_elems js @ '']''"
| "json_print (JObject ms) = ''{'' @ json_members ms @ ''}''"
| "json_elems [] = []"
| "json_elems [j] = json_print j"
| "json_elems (j # j' # js) = json_print j @ '','' @ json_elems (j' # js)"
| "json_members [] = []"
| "json_members [(k, v)] = json_string k @ '':'' @ json_print v"
| "json_members ((k, v) # m # ms) = json_string k @ '':'' @ json_print v @ '','' @ json_members (m # ms)"

section \<open>Reading JSON\<close>

text \<open>The four hex digits of an escape, and a pair of surrogates.\<close>

fun hex4 :: "string \<Rightarrow> (nat \<times> string) option" where
  "hex4 (a # b # c # d # s) =
     (case (hex_value a, hex_value b, hex_value c, hex_value d) of
        (Some w, Some x, Some y, Some z) \<Rightarrow> Some (((w * 16 + x) * 16 + y) * 16 + z, s)
      | _ \<Rightarrow> None)"
| "hex4 s = None"

definition is_surrogate :: "nat \<Rightarrow> bool" where
  "is_surrogate n \<longleftrightarrow> 0xD800 \<le> n \<and> n < 0xE000"

text \<open>A code unit and what follows it: the text it stands for and the rest.\<close>

definition json_unit :: "nat \<Rightarrow> string \<Rightarrow> string \<times> string" where
  "json_unit n s =
     (if is_surrogate n then
        (case s of
           x # y # s' \<Rightarrow>
             (if x = CHR 0x5C \<and> y = CHR ''u'' then
                (case hex4 s' of
                   Some (m, r) \<Rightarrow>
                     (if n < 0xDC00 \<and> 0xDC00 \<le> m \<and> m < 0xE000
                      then (utf8_encode ((n - 0xD800) * 1024 + (m - 0xDC00) + 0x10000), r)
                      else (utf8_encode 0xFFFD, s))
                 | None \<Rightarrow> (utf8_encode 0xFFFD, s))
              else (utf8_encode 0xFFFD, s))
         | _ \<Rightarrow> (utf8_encode 0xFFFD, s))
      else (utf8_encode n, s))"

lemma hex4_length: "hex4 s = Some (n, r) \<Longrightarrow> length r < length s"
  by (induction s rule: hex4.induct) (auto split: option.splits)

lemma json_unit_length: "length (snd (json_unit n s)) \<le> length s"
  by (auto simp: json_unit_def split: list.splits option.splits dest!: hex4_length)

text \<open>The rest of a string after its opening quote.\<close>

function json_chars :: "string \<Rightarrow> (string \<times> string) option" where
  "json_chars [] = None"
| "json_chars (c # s) =
     (if c = CHR 0x22 then Some ([], s)
      else if c = CHR 0x5C then
        (case s of [] \<Rightarrow> None
         | e # s' \<Rightarrow>
           (if e = CHR ''u'' then
              (case hex4 s' of
                 None \<Rightarrow> None
               | Some (n, r) \<Rightarrow>
                   map_option (\<lambda>(t, q). (fst (json_unit n r) @ t, q)) (json_chars (snd (json_unit n r))))
            else
              (case (if e = CHR 0x22 \<or> e = CHR 0x5C \<or> e = CHR ''/'' then Some e
                     else if e = CHR ''b'' then Some (CHR 0x08)
                     else if e = CHR ''f'' then Some (CHR 0x0C)
                     else if e = CHR ''n'' then Some (CHR 0x0A)
                     else if e = CHR ''r'' then Some (CHR 0x0D)
                     else if e = CHR ''t'' then Some (CHR 0x09)
                     else None) of
                 None \<Rightarrow> None
               | Some d \<Rightarrow> map_option (\<lambda>(t, q). (d # t, q)) (json_chars s'))))
      else if (of_char c :: nat) < 32 then None
      else (case utf8_len (c # s) of
          0 \<Rightarrow> map_option (\<lambda>(t, q). (utf8_encode 0xFFFD @ t, q)) (json_chars s)
        | Suc k \<Rightarrow> map_option (\<lambda>(t, q). (c # take k s @ t, q)) (json_chars (drop k s))))"
  by pat_completeness auto
termination
  by (relation "measure length")
    (auto dest!: hex4_length intro: le_less_trans [OF json_unit_length])

declare json_chars.simps [simp del]

text \<open>White space, numbers, and values; the fuel bounds the depth of the calls.\<close>

definition json_skip :: "string \<Rightarrow> string" where
  "json_skip s = dropWhile (\<lambda>c. c = CHR 0x20 \<or> c = CHR 0x09 \<or> c = CHR 0x0D \<or> c = CHR 0x0A) s"

definition json_digits :: "string \<Rightarrow> (string \<times> string) option" where
  "json_digits s = (if takeWhile is_digit s = [] then None else Some (takeWhile is_digit s, dropWhile is_digit s))"

definition json_integer :: "string \<Rightarrow> (string \<times> string) option" where
  "json_integer s = (case s of
     [] \<Rightarrow> None
   | c # t \<Rightarrow> if c = CHR ''0'' then Some ([c], t) else json_digits s)"

definition json_fraction :: "string \<Rightarrow> (string \<times> string) option" where
  "json_fraction s = (case s of
     [] \<Rightarrow> Some ([], [])
   | c # t \<Rightarrow> if c = CHR ''.'' then map_option (\<lambda>(d, r). (c # d, r)) (json_digits t) else Some ([], s))"

definition json_exponent :: "string \<Rightarrow> (string \<times> string) option" where
  "json_exponent s = (case s of
     [] \<Rightarrow> Some ([], [])
   | c # t \<Rightarrow>
       if c = CHR ''e'' \<or> c = CHR ''E'' then
         (case t of
            [] \<Rightarrow> None
          | d # u \<Rightarrow> if d = CHR ''+'' \<or> d = CHR ''-'' then map_option (\<lambda>(x, r). (c # d # x, r)) (json_digits u)
                     else map_option (\<lambda>(x, r). (c # x, r)) (json_digits t))
       else Some ([], s))"

definition json_number :: "string \<Rightarrow> (string \<times> string) option" where
  "json_number s =
     (let (sign, t) = (case s of [] \<Rightarrow> ([], s) | c # t \<Rightarrow> if c = CHR ''-'' then ([c], t) else ([], s))
      in case json_integer t of
           None \<Rightarrow> None
         | Some (i, t) \<Rightarrow>
             (case json_fraction t of
                None \<Rightarrow> None
              | Some (f, t) \<Rightarrow>
                  (case json_exponent t of
                     None \<Rightarrow> None
                   | Some (e, t) \<Rightarrow> Some (sign @ i @ f @ e, t))))"

definition json_literal :: "string \<Rightarrow> string \<Rightarrow> json \<Rightarrow> (json \<times> string) option" where
  "json_literal w s j = (if take (length w) s = w then Some (j, drop (length w) s) else None)"

fun json_value :: "nat \<Rightarrow> string \<Rightarrow> (json \<times> string) option"
  and json_array :: "nat \<Rightarrow> string \<Rightarrow> (json list \<times> string) option"
  and json_object :: "nat \<Rightarrow> string \<Rightarrow> ((string \<times> json) list \<times> string) option" where
  "json_value 0 s = None"
| "json_value (Suc k) s =
     (case json_skip s of
        [] \<Rightarrow> None
      | c # t \<Rightarrow>
          if c = CHR 0x22 then map_option (\<lambda>(x, r). (JString x, r)) (json_chars t)
          else if c = CHR ''['' then
            (case json_skip t of
               [] \<Rightarrow> None
             | d # u \<Rightarrow> if d = CHR '']'' then Some (JArray [], u)
                        else map_option (\<lambda>(js, r). (JArray js, r)) (json_array k t))
          else if c = CHR ''{'' then
            (case json_skip t of
               [] \<Rightarrow> None
             | d # u \<Rightarrow> if d = CHR ''}'' then Some (JObject [], u)
                        else map_option (\<lambda>(ms, r). (JObject ms, r)) (json_object k t))
          else if c = CHR ''t'' then json_literal ''true'' (c # t) (JBool True)
          else if c = CHR ''f'' then json_literal ''false'' (c # t) (JBool False)
          else if c = CHR ''n'' then json_literal ''null'' (c # t) JNull
          else map_option (\<lambda>(x, r). (JNumber x, r)) (json_number (c # t)))"
| "json_array 0 s = None"
| "json_array (Suc k) s =
     (case json_value k s of
        None \<Rightarrow> None
      | Some (j, r) \<Rightarrow>
          (case json_skip r of
             [] \<Rightarrow> None
           | c # t \<Rightarrow> if c = CHR '','' then map_option (\<lambda>(js, r). (j # js, r)) (json_array k t)
                      else if c = CHR '']'' then Some ([j], t) else None))"
| "json_object 0 s = None"
| "json_object (Suc k) s =
     (case json_skip s of
        [] \<Rightarrow> None
      | q # t \<Rightarrow>
          if q \<noteq> CHR 0x22 then None
          else case json_chars t of
            None \<Rightarrow> None
          | Some (key, r) \<Rightarrow>
              (case json_skip r of
                 [] \<Rightarrow> None
               | c # t \<Rightarrow>
                   if c \<noteq> CHR '':'' then None
                   else case json_value k t of
                     None \<Rightarrow> None
                   | Some (j, r) \<Rightarrow>
                       (case json_skip r of
                          [] \<Rightarrow> None
                        | c # t \<Rightarrow>
                            if c = CHR '','' then map_option (\<lambda>(ms, r). ((key, j) # ms, r)) (json_object k t)
                            else if c = CHR ''}'' then Some ([(key, j)], t) else None)))"

text \<open>A whole document: a value, then nothing but white space.\<close>

definition json_parse :: "string \<Rightarrow> json option" where
  "json_parse s = (case json_value (2 * length s + 2) s of
     None \<Rightarrow> None
   | Some (j, r) \<Rightarrow> if json_skip r = [] then Some j else None)"
section \<open>What is printed is read back\<close>

lemma json_escape_read:
  assumes "(of_char c :: nat) < 128"
  shows "json_chars (json_escape c @ s) = map_option (\<lambda>(t, q). (c # t, q)) (json_chars s)"
proof (cases "c \<in> {CHR 0x22, CHR 0x5C, CHR 0x0A, CHR 0x0D, CHR 0x09}")
  case True
  then show ?thesis
    by (auto simp: json_escape_def json_chars.simps)
next
  case False
  then have c: "c \<noteq> CHR 0x22" "c \<noteq> CHR 0x5C" "c \<noteq> CHR 0x0A" "c \<noteq> CHR 0x0D" "c \<noteq> CHR 0x09" by auto
  show ?thesis
  proof (cases "(of_char c :: nat) < 32 \<or> c = CHR ''<'' \<or> c = CHR ''>'' \<or> c = CHR ''&''")
    case True
    then have lt: "(of_char c :: nat) < 128" by auto
    then have "(of_char c :: nat) div 16 < 16" by simp
    then have "hex4 (CHR ''0'' # CHR ''0'' # hex_digit (of_char c div 16) # hex_digit (of_char c mod 16) # s) = Some (of_char c, s)"
      using hex_value_digit [of 0] by (simp add: hex_value_digit hex_digit_def [of 0])
    moreover have "json_unit (of_char c) s = ([c], s)"
      using lt by (simp add: json_unit_def is_surrogate_def utf8_encode_def)
    ultimately show ?thesis using True c by (simp add: json_escape_def json_chars.simps(2))
  next
    case False
    with c show ?thesis by (simp add: json_escape_def json_chars.simps(2) utf8_len_ascii [OF assms])
  qed
qed

lemma json_u_read:
  assumes "hex4 (h @ s) = Some (n, s)" and "\<not> is_surrogate n"
  shows "json_chars (CHR 0x5C # CHR ''u'' # h @ s) = map_option (\<lambda>(t, q). (utf8_encode n @ t, q)) (json_chars s)"
  using assms by (simp add: json_chars.simps(2) json_unit_def)

lemma json_long_read:
  assumes "utf8_len (c # s) = Suc k" and "k \<noteq> 0"
  shows "json_chars ((c # take k s) @ r) = map_option (\<lambda>(t, q). (c # take k s @ t, q)) (json_chars r)"
proof -
  have "\<not> (of_char c :: nat) < 128" using assms utf8_len_one [of c s] by auto
  then have "c \<noteq> CHR 0x22" "c \<noteq> CHR 0x5C" "\<not> (of_char c :: nat) < 32" by auto
  then show ?thesis
    using utf8_len_take [OF assms(1)] by (simp add: json_chars.simps(2))
qed

lemma json_string_read: "json_chars (json_text s @ CHR 0x22 # r) = Some (utf8_text s, r)"
proof (induction s rule: json_text.induct)
  case 1
  then show ?case by (simp add: json_chars.simps(2) [of "CHR 0x22"])
next
  case (2 c s)
  show ?case
  proof (cases "utf8_len (c # s)")
    case 0
    then show ?thesis
      using 2(1) [OF 0] json_u_read [of "''fffd''" "json_text s @ CHR 0x22 # r" "0xFFFD"]
      by (simp add: json_text.simps(2) utf8_text.simps(2) is_surrogate_def hex_value_def)
  next
    case (Suc k)
    note IH = 2(2) [OF Suc]
    have whole: "utf8_text (c # s) = c # take k s @ utf8_text (drop k s)"
      using Suc by (simp add: utf8_text.simps(2))
    consider "k = 0" | "k \<noteq> 0" "c # take k s = utf8_encode 0x2028" | "k \<noteq> 0" "c # take k s = utf8_encode 0x2029"
      | "k \<noteq> 0" "c # take k s \<noteq> utf8_encode 0x2028" "c # take k s \<noteq> utf8_encode 0x2029" by blast
    then show ?thesis
    proof cases
      case 1
      then have "(of_char c :: nat) < 128" using Suc utf8_len_one by simp
      then show ?thesis using 1 IH whole Suc by (simp add: json_text.simps(2) json_escape_read)
    next
      case 2
      then show ?thesis
        using IH whole Suc json_u_read [of "''2028''" "json_text (drop k s) @ CHR 0x22 # r" "0x2028"]
        by (simp add: json_text.simps(2) is_surrogate_def hex_value_def)
    next
      case 3
      moreover have "utf8_encode 0x2029 \<noteq> utf8_encode 0x2028" by (simp add: utf8_encode_def)
      ultimately show ?thesis
        using IH whole Suc json_u_read [of "''2029''" "json_text (drop k s) @ CHR 0x22 # r" "0x2029"]
        by (simp add: json_text.simps(2) is_surrogate_def hex_value_def)
    next
      case 4
      then have "json_text (c # s) = (c # take k s) @ json_text (drop k s)"
        using Suc by (simp add: json_text.simps(2))
      then show ?thesis
        using IH whole json_long_read [OF Suc 4(1), of "json_text (drop k s) @ CHR 0x22 # r"] by simp
    qed
  qed
qed

definition json_end :: "string \<Rightarrow> bool" where
  "json_end r \<longleftrightarrow> r = [] \<or> hd r \<in> {CHR '','', CHR '']'', CHR ''}''}"

lemma show_nat_hd: "hd (show_nat n) = CHR ''0'' \<Longrightarrow> n = 0"
proof (induction n rule: show_nat.induct)
  case (1 n)
  have z: "digit_char d = CHR ''0'' \<Longrightarrow> d = 0" if "d < 10" for d
    using of_char_digit_char [OF that] by (cases d) auto
  show ?case
  proof (cases "n < 10")
    case True
    then show ?thesis using z [of n] 1(2) by (simp add: show_nat.simps [of n])
  next
    case False
    then have "hd (show_nat (n div 10)) = CHR ''0''" using 1(2) by (simp add: show_nat.simps [of n])
    then have "n div 10 = 0" by (rule 1(1) [OF False])
    with False show ?thesis by simp
  qed
qed

lemma json_number_read:
  assumes "json_end r"
  shows "json_number (show_nat n @ r) = Some (show_nat n, r)"
proof -
  have r: "json_fraction r = Some ([], r)" "json_exponent r = Some ([], r)" "takeWhile is_digit r = []" "dropWhile is_digit r = r"
    using assms by (cases r; auto simp: json_end_def json_fraction_def json_exponent_def is_digit_def)+
  obtain c t where ct: "show_nat n = c # t" by (cases "show_nat n") auto
  have d: "is_digit c" "\<forall>d \<in> set t. is_digit d" using show_nat_digits [of _ n] ct by auto
  have "c \<noteq> CHR ''-''" using d(1) by (auto simp: is_digit_def)
  moreover have "json_integer (show_nat n @ r) = Some (show_nat n, r)"
  proof (cases "c = CHR ''0''")
    case True
    then have "n = 0" using show_nat_hd [of n] ct by simp
    moreover have "of_char (digit_char 0) = (of_char (CHR ''0'') :: nat)" using of_char_digit_char [of 0] by simp
    then have "digit_char 0 = CHR ''0''" unfolding of_char_eq_iff .
    ultimately show ?thesis by (simp add: json_integer_def show_nat.simps)
  next
    case False
    then show ?thesis using ct d r by (simp add: json_integer_def json_digits_def takeWhile_append dropWhile_append)
  qed
  ultimately show ?thesis using ct r by (simp add: json_number_def)
qed

text \<open>Values whose numbers are the natural numbers the program writes.\<close>

fun json_ok :: "json \<Rightarrow> bool" and json_oks :: "json list \<Rightarrow> bool" and json_okm :: "(string \<times> json) list \<Rightarrow> bool" where
  "json_ok (JNumber n) \<longleftrightarrow> n \<in> range show_nat"
| "json_ok (JArray js) = json_oks js"
| "json_ok (JObject ms) = json_okm ms"
| "json_ok j = True"
| "json_oks [] = True"
| "json_oks (j # js) = (json_ok j \<and> json_oks js)"
| "json_okm [] = True"
| "json_okm ((k, j) # ms) = (json_ok j \<and> json_okm ms)"

text \<open>What a value is after it was printed and read.\<close>

fun json_clean :: "json \<Rightarrow> json" and json_cleans :: "json list \<Rightarrow> json list"
  and json_cleanm :: "(string \<times> json) list \<Rightarrow> (string \<times> json) list" where
  "json_clean (JString s) = JString (utf8_text s)"
| "json_clean (JArray js) = JArray (json_cleans js)"
| "json_clean (JObject ms) = JObject (json_cleanm ms)"
| "json_clean j = j"
| "json_cleans [] = []"
| "json_cleans (j # js) = json_clean j # json_cleans js"
| "json_cleanm [] = []"
| "json_cleanm ((k, j) # ms) = (utf8_text k, json_clean j) # json_cleanm ms"

definition json_start :: "char \<Rightarrow> bool" where
  "json_start c \<longleftrightarrow> c \<notin> {CHR 0x20, CHR 0x09, CHR 0x0D, CHR 0x0A, CHR '']'', CHR ''}'', CHR '',''}"

lemma digit_start: "is_digit c \<Longrightarrow> json_start c"
  by (auto simp: json_start_def is_digit_def)

lemma json_print_start:
  assumes "json_ok j"
  obtains c t where "json_print j = c # t" "json_start c"
proof (cases j)
  case (JNumber n)
  with assms obtain k where "n = show_nat k" by auto
  moreover obtain c t where "show_nat k = c # t" by (cases "show_nat k") auto
  moreover from this have "is_digit c" using show_nat_digits [of c k] by simp
  ultimately show ?thesis using that JNumber digit_start by auto
next
  case (JBool b)
  then show ?thesis using that by (cases b) (auto simp: json_start_def)
qed (use that in \<open>auto simp: json_start_def json_string_def\<close>)

lemma json_skip_start: "json_start c \<Longrightarrow> json_skip (c # t) = c # t"
  by (simp add: json_skip_def json_start_def)

lemma json_skip_other [simp]:
  "json_skip (CHR '','' # t) = CHR '','' # t" "json_skip (CHR '']'' # t) = CHR '']'' # t"
  "json_skip (CHR ''}'' # t) = CHR ''}'' # t" "json_skip (CHR '':'' # t) = CHR '':'' # t"
  "json_skip (CHR 0x22 # t) = CHR 0x22 # t" "json_skip (CHR ''['' # t) = CHR ''['' # t"
  "json_skip (CHR ''{'' # t) = CHR ''{'' # t" "json_skip (CHR ''t'' # t) = CHR ''t'' # t"
  "json_skip (CHR ''f'' # t) = CHR ''f'' # t" "json_skip (CHR ''n'' # t) = CHR ''n'' # t" "json_skip [] = []"
  by (simp_all add: json_skip_def)

lemma json_print_length: "json_ok j \<Longrightarrow> 1 \<le> length (json_print j)"
  by (erule json_print_start) simp

lemma json_read:
  "json_ok j \<Longrightarrow> 2 * length (json_print j) \<le> k \<Longrightarrow> json_end r \<Longrightarrow>
     json_value k (json_print j @ r) = Some (json_clean j, r)"
  "json_oks js \<Longrightarrow> js \<noteq> [] \<Longrightarrow> 2 * length (json_elems js) + 1 \<le> k \<Longrightarrow>
     json_array k (json_elems js @ CHR '']'' # r) = Some (json_cleans js, r)"
  "json_okm ms \<Longrightarrow> ms \<noteq> [] \<Longrightarrow> 2 * length (json_members ms) + 1 \<le> k \<Longrightarrow>
     json_object k (json_members ms @ CHR ''}'' # r) = Some (json_cleanm ms, r)"
proof (induction j and js and ms arbitrary: k r and k r and k r rule: json_print_json_elems_json_members.induct)
  case (1 k r)
  then obtain k' where "k = Suc k'" by (cases k) auto
  then show ?case by (simp add: json_literal_def)
next
  case (2 b k r)
  then obtain k' where "k = Suc k'" by (cases k; cases b) auto
  then show ?case by (simp add: json_literal_def)
next
  case (3 n k r)
  then obtain m where n: "n = show_nat m" by auto
  obtain c t where ct: "n = c # t" using n by (cases "show_nat m") auto
  then have d: "is_digit c" using show_nat_digits [of c m] n by simp
  then have c: "json_start c" "c \<notin> {CHR 0x22, CHR ''['', CHR ''{'', CHR ''t'', CHR ''f'', CHR ''n''}"
    by (auto simp: json_start_def is_digit_def)
  obtain k' where "k = Suc k'" using 3(2) ct by (cases k) auto
  then show ?case
    using json_number_read [OF 3(3), of m] ct n c by (simp add: json_skip_start)
next
  case (4 s k r)
  then obtain k' where "k = Suc k'" by (cases k) (auto simp: json_string_def)
  then show ?case using json_string_read [of s r] by (simp add: json_string_def)
next
  case (5 js k r)
  then obtain k' where k: "k = Suc k'" "2 * length (json_elems js) + 1 \<le> k'" by (cases k) auto
  show ?case
  proof (cases js)
    case Nil
    then show ?thesis using k by simp
  next
    case (Cons j js')
    have ok: "json_ok j" using 5(2) Cons by simp
    obtain c u where u: "json_print j = c # u" "json_start c" using json_print_start [OF ok] by blast
    then obtain t where ct: "json_elems js @ CHR '']'' # r = c # t" using Cons by (cases js') auto
    note ct = this u(2)
    then have "c \<noteq> CHR '']''" by (auto simp: json_start_def)
    moreover have "json_array k' (c # t) = Some (json_cleans js, r)"
      unfolding ct(1) [symmetric] by (rule 5(1)) (use 5(2) Cons k in auto)
    ultimately show ?thesis using ct k by (simp add: json_skip_start)
  qed
next
  case (6 ms k r)
  then obtain k' where k: "k = Suc k'" "2 * length (json_members ms) + 1 \<le> k'" by (cases k) auto
  show ?case
  proof (cases ms)
    case Nil
    then show ?thesis using k by simp
  next
    case (Cons m ms')
    have "\<exists>t. json_members ms @ CHR ''}'' # r = CHR 0x22 # t"
      using Cons by (cases ms'; cases m) (auto simp: json_string_def)
    then obtain t where t: "json_members ms @ CHR ''}'' # r = CHR 0x22 # t" by blast
    have "json_object k' (CHR 0x22 # t) = Some (json_cleanm ms, r)"
      unfolding t [symmetric] by (rule 6(1)) (use 6(2) Cons k in auto)
    then show ?thesis using t k by simp
  qed
next
  case (8 j k r)
  then obtain k' where k: "k = Suc k'" by (cases k) auto
  then have "json_value k' (json_print j @ CHR '']'' # r) = Some (json_clean j, CHR '']'' # r)"
    using 8 by (simp add: json_end_def)
  then show ?case using k by simp
next
  case (9 j j2 js k r)
  then obtain k' where k: "k = Suc k'" by (cases k) auto
  then have "json_value k' (json_print j @ CHR '','' # json_elems (j2 # js) @ CHR '']'' # r) =
      Some (json_clean j, CHR '','' # json_elems (j2 # js) @ CHR '']'' # r)"
    using 9 by (simp add: json_end_def)
  moreover have "json_array k' (json_elems (j2 # js) @ CHR '']'' # r) = Some (json_cleans (j2 # js), r)"
    using 9 k by simp
  ultimately show ?case using k by simp
next
  case (11 key v k r)
  then obtain k' where k: "k = Suc k'" by (cases k) auto
  then have "json_value k' (json_print v @ CHR ''}'' # r) = Some (json_clean v, CHR ''}'' # r)"
    using 11 by (simp add: json_end_def json_string_def)
  then show ?case using k json_string_read [of key] by (simp add: json_string_def)
next
  case (12 key v m ms k r)
  then obtain k' where k: "k = Suc k'" by (cases k) auto
  then have "json_value k' (json_print v @ CHR '','' # json_members (m # ms) @ CHR ''}'' # r) =
      Some (json_clean v, CHR '','' # json_members (m # ms) @ CHR ''}'' # r)"
    using 12 by (simp add: json_end_def json_string_def)
  moreover have "json_object k' (json_members (m # ms) @ CHR ''}'' # r) = Some (json_cleanm (m # ms), r)"
    using 12 k by (simp add: json_string_def)
  ultimately show ?case using k json_string_read [of key] by (simp add: json_string_def)
qed simp_all

lemma json_round_trip: "json_ok j \<Longrightarrow> json_parse (json_print j) = Some (json_clean j)"
  using json_read(1) [of j "2 * length (json_print j) + 2" "[]"] by (simp add: json_parse_def json_end_def)

end
