(* ===== verification/Agent.thy ===== *)
theory Agent
  imports Objects Encoding
begin

text \<open>
  The agent that runs on a booted machine: the actions' status and request types
  (\<^verbatim>\<open>pkg/agent/action/types.go\<close>, \<^verbatim>\<open>image.go\<close>), the manager that runs at most one action
  (\<^verbatim>\<open>pkg/agent/manager.go\<close>) and the HTTP handlers (\<^verbatim>\<open>pkg/agent/server.go\<close>). The handlers and
  the action's goroutine interleave; the lock of the manager makes \<^verbatim>\<open>DoAction\<close> and
  \<^verbatim>\<open>CurrentStatus\<close> single steps.
\<close>

section \<open>Decoding structs\<close>

text \<open>
  Field names are matched exactly or up to the case of ASCII letters. A \<^verbatim>\<open>null\<close> leaves a field
  as it is; a value of another type is an error, which \<^verbatim>\<open>Unmarshal\<close> reports at the end.
\<close>

definition ascii_lower :: "char \<Rightarrow> char" where
  "ascii_lower c = (if 65 \<le> (of_char c :: nat) \<and> (of_char c :: nat) \<le> 90 then char_of ((of_char c :: nat) + 32) else c)"

definition json_key_eq :: "string \<Rightarrow> string \<Rightarrow> bool" where
  "json_key_eq name k \<longleftrightarrow> name = k \<or> map ascii_lower name = map ascii_lower k"

fun json_field_string :: "string \<Rightarrow> (string \<times> json) list \<Rightarrow> string \<Rightarrow> string option" where
  "json_field_string name [] cur = Some cur"
| "json_field_string name ((k, v) # ms) cur =
     (if json_key_eq name k then
        (case v of JString s \<Rightarrow> json_field_string name ms s
         | JNull \<Rightarrow> json_field_string name ms cur
         | _ \<Rightarrow> None)
      else json_field_string name ms cur)"

fun json_field_bool :: "string \<Rightarrow> (string \<times> json) list \<Rightarrow> bool \<Rightarrow> bool option" where
  "json_field_bool name [] cur = Some cur"
| "json_field_bool name ((k, v) # ms) cur =
     (if json_key_eq name k then
        (case v of JBool b \<Rightarrow> json_field_bool name ms b
         | JNull \<Rightarrow> json_field_bool name ms cur
         | _ \<Rightarrow> None)
      else json_field_bool name ms cur)"

text \<open>A member that \<^verbatim>\<open>omitempty\<close> leaves out when its string is empty.\<close>

definition json_omitempty :: "string \<Rightarrow> string \<Rightarrow> (string \<times> json) list" where
  "json_omitempty name s = (if s = [] then [] else [(name, JString s)])"

section \<open>Action types\<close>

definition ImagingActionType :: string where
  [consts_simps]: "ImagingActionType = ''Imaging''"

definition CleaningActionType :: string where
  [consts_simps]: "CleaningActionType = ''Cleaning''"

record action_Status =
  act_Type :: string
  act_Done :: bool
  act_Error :: string

record ImageRequest =
  img_ImageURL :: string
  img_DiskPath :: string
  img_MetadataContents :: string
  img_NetworkDataContents :: string
  img_UserDataContents :: string

definition marshal_Status :: "action_Status \<Rightarrow> json" where
  "marshal_Status st = JObject ([(''type'', JString (act_Type st)), (''done'', JBool (act_Done st))] @
     json_omitempty ''error'' (act_Error st))"

definition unmarshal_Status :: "string \<Rightarrow> action_Status option" where
  "unmarshal_Status body = (case json_parse body of
     Some JNull \<Rightarrow> Some \<lparr>act_Type = [], act_Done = False, act_Error = []\<rparr>
   | Some (JObject ms) \<Rightarrow>
       (case (json_field_string ''type'' ms [], json_field_bool ''done'' ms False, json_field_string ''error'' ms []) of
          (Some t, Some d, Some e) \<Rightarrow> Some \<lparr>act_Type = t, act_Done = d, act_Error = e\<rparr>
        | _ \<Rightarrow> None)
   | _ \<Rightarrow> None)"

definition marshal_ImageRequest :: "ImageRequest \<Rightarrow> json" where
  "marshal_ImageRequest r = JObject
     [(''image_url'', JString (img_ImageURL r)), (''disk_path'', JString (img_DiskPath r)),
      (''metadata_contents'', JString (img_MetadataContents r)),
      (''network_data_contents'', JString (img_NetworkDataContents r)),
      (''user_data_contents'', JString (img_UserDataContents r))]"

text \<open>
  gin's \<^verbatim>\<open>ShouldBindJSON\<close> decodes the first value of the body and ignores what follows it.
\<close>

definition bind_ImageRequest :: "string \<Rightarrow> ImageRequest option" where
  "bind_ImageRequest body = (case json_value (2 * length body + 2) body of
     Some (JNull, _) \<Rightarrow> Some \<lparr>img_ImageURL = [], img_DiskPath = [], img_MetadataContents = [],
       img_NetworkDataContents = [], img_UserDataContents = []\<rparr>
   | Some (JObject ms, _) \<Rightarrow>
       (case (json_field_string ''image_url'' ms [], json_field_string ''disk_path'' ms [],
              json_field_string ''metadata_contents'' ms [], json_field_string ''network_data_contents'' ms [],
              json_field_string ''user_data_contents'' ms []) of
          (Some a, Some b, Some c, Some d, Some e) \<Rightarrow>
            Some \<lparr>img_ImageURL = a, img_DiskPath = b, img_MetadataContents = c, img_NetworkDataContents = d,
              img_UserDataContents = e\<rparr>
        | _ \<Rightarrow> None)
   | _ \<Rightarrow> None)"

section \<open>The manager\<close>

text \<open>\<^verbatim>\<open>action.Action\<close> has two implementations; both keep a pointer to their status.\<close>

datatype action = cleanAction (action_status: action_Status)
  | imageAction ImageRequest (action_status: action_Status)

definition NewCleanAction :: action where
  "NewCleanAction = cleanAction \<lparr>act_Type = CleaningActionType, act_Done = False, act_Error = []\<rparr>"

definition NewImageAction :: "ImageRequest \<Rightarrow> action" where
  "NewImageAction r = imageAction r \<lparr>act_Type = ImagingActionType, act_Done = False, act_Error = []\<rparr>"

fun set_status :: "(action_Status \<Rightarrow> action_Status) \<Rightarrow> action \<Rightarrow> action" where
  "set_status f (cleanAction st) = cleanAction (f st)"
| "set_status f (imageAction r st) = imageAction r (f st)"

text \<open>\<open>mgr_started\<close> lists the actions a goroutine was started for.\<close>

record Manager =
  mgr_currentAction :: "action option"
  mgr_started :: "action list"

definition NewManager :: Manager where
  "NewManager = \<lparr>mgr_currentAction = None, mgr_started = []\<rparr>"

definition DoAction :: "Manager \<Rightarrow> action \<Rightarrow> bool \<times> Manager" where
  "DoAction m a = (case mgr_currentAction m of
     None \<Rightarrow> (True, m\<lparr>mgr_currentAction := Some a, mgr_started := mgr_started m @ [a]\<rparr>)
   | Some _ \<Rightarrow> (False, m))"

definition CurrentStatus :: "Manager \<Rightarrow> action_Status option" where
  "CurrentStatus m = map_option action_status (mgr_currentAction m)"

section \<open>The server\<close>

datatype agent_request = PostImage string | PostClean | GetStatus

record response =
  resp_Code :: int
  resp_Body :: "json option"

definition reply :: "int \<Rightarrow> response" where
  "reply code = \<lparr>resp_Code = code, resp_Body = None\<rparr>"

definition reply_json :: "int \<Rightarrow> json \<Rightarrow> response" where
  "reply_json code j = \<lparr>resp_Code = code, resp_Body = Some j\<rparr>"

definition json_error_body :: "string \<Rightarrow> json" where
  "json_error_body t = JObject [(''error'', JString t)]"

text \<open>\<open>bind_error\<close> is the text of the decoder's error for a body it rejects.\<close>

definition server_image :: "(string \<Rightarrow> string) \<Rightarrow> Manager \<Rightarrow> string \<Rightarrow> response \<times> Manager" where
  "server_image bind_error m body = (case bind_ImageRequest body of
     None \<Rightarrow> (reply_json 400 (json_error_body (bind_error body)), m)
   | Some input \<Rightarrow>
       (let (doingAction, m') = DoAction m (NewImageAction input)
        in if \<not> doingAction then (reply_json 409 (json_error_body ''cannot run multiple actions''), m')
           else (reply 202, m')))"

definition server_clean :: "Manager \<Rightarrow> response \<times> Manager" where
  "server_clean m =
     (let (doingAction, m') = DoAction m NewCleanAction
      in if \<not> doingAction then (reply_json 409 (json_error_body ''cannot run multiple actions''), m')
         else (reply 202, m'))"

text \<open>\<^verbatim>\<open>Status\<close> of both actions returns a nil error, so the 500 branch is never taken.\<close>

definition server_status :: "Manager \<Rightarrow> response \<times> Manager" where
  "server_status m = (case CurrentStatus m of
     None \<Rightarrow> (reply 204, m)
   | Some st \<Rightarrow> (reply_json 200 (marshal_Status st), m))"

fun agent_handle :: "(string \<Rightarrow> string) \<Rightarrow> Manager \<Rightarrow> agent_request \<Rightarrow> response \<times> Manager" where
  "agent_handle bind_error m (PostImage body) = server_image bind_error m body"
| "agent_handle bind_error m PostClean = server_clean m"
| "agent_handle bind_error m GetStatus = server_status m"

section \<open>The goroutine of an action\<close>

text \<open>
  \<^verbatim>\<open>Do\<close> runs \<^verbatim>\<open>do\<close>, then writes its error if there is one, then sets \<^verbatim>\<open>Done\<close>; a status request
  can see each state in between.
\<close>

datatype worker = Idle | Working | Returned_ok | Returned_error | Finished bool

record agent =
  agent_mgr :: Manager
  agent_worker :: worker

definition agent_start :: agent where
  "agent_start = \<lparr>agent_mgr = NewManager, agent_worker = Idle\<rparr>"

inductive agent_step :: "(string \<Rightarrow> string) \<Rightarrow> agent \<Rightarrow> agent \<Rightarrow> bool" for bind_error where
  serve: "agent_handle bind_error (agent_mgr s) req = (resp, m) \<Longrightarrow>
    agent_step bind_error s
      (s\<lparr>agent_mgr := m,
         agent_worker := if length (mgr_started m) > length (mgr_started (agent_mgr s)) then Working else agent_worker s\<rparr>)"
| ok: "agent_worker s = Working \<Longrightarrow> agent_step bind_error s (s\<lparr>agent_worker := Returned_ok\<rparr>)"
| error: "agent_worker s = Working \<Longrightarrow> e \<noteq> [] \<Longrightarrow> agent_step bind_error s
    (s\<lparr>agent_mgr := (agent_mgr s)\<lparr>mgr_currentAction :=
         map_option (set_status (act_Error_update (\<lambda>_. e))) (mgr_currentAction (agent_mgr s))\<rparr>,
       agent_worker := Returned_error\<rparr>)"
| finish: "agent_worker s = Returned_ok \<or> agent_worker s = Returned_error \<Longrightarrow> agent_step bind_error s
    (s\<lparr>agent_mgr := (agent_mgr s)\<lparr>mgr_currentAction :=
         map_option (set_status (act_Done_update (\<lambda>_. True))) (mgr_currentAction (agent_mgr s))\<rparr>,
       agent_worker := Finished (agent_worker s = Returned_ok)\<rparr>)"

inductive agent_reachable :: "(string \<Rightarrow> string) \<Rightarrow> agent \<Rightarrow> bool" for bind_error where
  start: "agent_reachable bind_error agent_start"
| step: "agent_reachable bind_error s \<Longrightarrow> agent_step bind_error s s' \<Longrightarrow> agent_reachable bind_error s'"

section \<open>What the agent keeps\<close>

definition agent_ok :: "agent \<Rightarrow> bool" where
  "agent_ok s \<longleftrightarrow>
     (case mgr_currentAction (agent_mgr s) of
        None \<Rightarrow> mgr_started (agent_mgr s) = [] \<and> agent_worker s = Idle
      | Some a \<Rightarrow> length (mgr_started (agent_mgr s)) = 1 \<and> agent_worker s \<noteq> Idle \<and>
          act_Type (action_status a) = act_Type (action_status (hd (mgr_started (agent_mgr s)))) \<and>
          (act_Done (action_status a) \<longleftrightarrow> (\<exists>b. agent_worker s = Finished b)) \<and>
          (act_Error (action_status a) \<noteq> [] \<longleftrightarrow>
             agent_worker s = Returned_error \<or> agent_worker s = Finished False))"

lemma action_status_set [simp]: "action_status (set_status f a) = f (action_status a)"
  by (cases a) auto

lemma new_status [simp]:
  "\<not> act_Done (action_status NewCleanAction)" "act_Error (action_status NewCleanAction) = []"
  "\<not> act_Done (action_status (NewImageAction r))" "act_Error (action_status (NewImageAction r)) = []"
  by (simp_all add: NewCleanAction_def NewImageAction_def)

lemma DoAction_ok:
  assumes "agent_ok s" and "DoAction (agent_mgr s) a = (b, m)"
    and "\<not> act_Done (action_status a)" "act_Error (action_status a) = []"
  shows "agent_ok (s\<lparr>agent_mgr := m,
      agent_worker := if length (mgr_started m) > length (mgr_started (agent_mgr s)) then Working else agent_worker s\<rparr>)"
  using assms by (auto simp: agent_ok_def DoAction_def split: option.splits)

lemma agent_mgr_id [simp]: "s\<lparr>agent_mgr := agent_mgr s\<rparr> = s"
  by simp

lemma agent_handle_ok:
  assumes "agent_ok s" and "agent_handle bind_error (agent_mgr s) req = (resp, m)"
  shows "agent_ok (s\<lparr>agent_mgr := m,
      agent_worker := if length (mgr_started m) > length (mgr_started (agent_mgr s)) then Working else agent_worker s\<rparr>)"
proof (cases req)
  case (PostImage body)
  show ?thesis
  proof (cases "bind_ImageRequest body")
    case (Some r)
    then have "DoAction (agent_mgr s) (NewImageAction r) = (fst (DoAction (agent_mgr s) (NewImageAction r)), m)"
      using assms(2) PostImage by (auto simp: server_image_def split: prod.splits if_splits)
    from DoAction_ok [OF assms(1) this] show ?thesis by simp
  qed (use assms PostImage in \<open>auto simp: server_image_def\<close>)
next
  case PostClean
  then have "DoAction (agent_mgr s) NewCleanAction = (fst (DoAction (agent_mgr s) NewCleanAction), m)"
    using assms(2) by (auto simp: server_clean_def split: prod.splits if_splits)
  from DoAction_ok [OF assms(1) this] show ?thesis by simp
next
  case GetStatus
  then show ?thesis using assms by (auto simp: server_status_def split: option.splits)
qed

lemma agent_step_ok: "agent_step bind_error s s' \<Longrightarrow> agent_ok s \<Longrightarrow> agent_ok s'"
proof (induction rule: agent_step.induct)
  case (serve s req resp m)
  then show ?case using agent_handle_ok by blast
qed (auto simp: agent_ok_def split: option.splits)

lemma agent_reachable_ok: "agent_reachable bind_error s \<Longrightarrow> agent_ok s"
proof (induction rule: agent_reachable.induct)
  case start
  then show ?case by (simp add: agent_start_def NewManager_def agent_ok_def)
next
  case (step s s')
  then show ?case using agent_step_ok by blast
qed

lemma agent_step_started:
  "agent_step bind_error s s' \<Longrightarrow> agent_ok s \<Longrightarrow> mgr_started (agent_mgr s) \<noteq> [] \<Longrightarrow>
     mgr_started (agent_mgr s') = mgr_started (agent_mgr s)"
proof (induction rule: agent_step.induct)
  case (serve s req resp m)
  then have "mgr_currentAction (agent_mgr s) \<noteq> None" by (auto simp: agent_ok_def split: option.splits)
  then show ?case
    using serve(1) by (cases req) (auto simp: server_image_def server_clean_def server_status_def DoAction_def
        split: option.splits)
qed auto

section \<open>Properties\<close>

text \<open>
  C26: the agent runs at most one action in its life, and its status tells the truth about it:
  it says there is none exactly while none was started, and says "done without error" exactly
  when the action's \<^verbatim>\<open>do\<close> returned no error and the goroutine has ended.
\<close>

theorem agent_status_truth:
  assumes "agent_reachable bind_error s"
  shows "length (mgr_started (agent_mgr s)) \<le> 1 \<and>
    (case server_status (agent_mgr s) of (resp, m) \<Rightarrow> m = agent_mgr s \<and>
       (resp = reply 204 \<and> mgr_started (agent_mgr s) = [] \<or>
        (\<exists>a st. mgr_started (agent_mgr s) = [a] \<and> resp = reply_json 200 (marshal_Status st) \<and>
           act_Type st = act_Type (action_status a) \<and>
           (act_Done st \<and> act_Error st = [] \<longleftrightarrow> agent_worker s = Finished True))))"
proof -
  have ok: "agent_ok s" using agent_reachable_ok [OF assms] .
  show ?thesis
  proof (cases "mgr_currentAction (agent_mgr s)")
    case None
    with ok show ?thesis by (simp add: agent_ok_def server_status_def CurrentStatus_def)
  next
    case (Some a)
    with ok obtain a0 where "mgr_started (agent_mgr s) = [a0]"
      by (auto simp: agent_ok_def length_Suc_conv)
    with Some ok show ?thesis
      by (auto simp: agent_ok_def server_status_def CurrentStatus_def intro!: exI [of _ "action_status a"])
  qed
qed

lemma agent_status_truth_witness:
  "length (mgr_started (agent_mgr agent_start)) \<le> 1"
  using agent_status_truth [OF agent_reachable.start [of "\<lambda>_. []"]] by blast

text \<open>
  Once an action was started, the agent refuses every later image or clean request with
  409 for the rest of its life, also after the action is done: nothing resets the current
  action, so one boot serves one action.
\<close>

lemma agent_one_action_per_boot:
  assumes "agent_reachable bind_error s" and "mgr_started (agent_mgr s) \<noteq> []"
    and "(agent_step bind_error)\<^sup>*\<^sup>* s s'"
  shows "mgr_started (agent_mgr s') = mgr_started (agent_mgr s) \<and>
    resp_Code (fst (server_clean (agent_mgr s'))) = 409 \<and>
    (\<forall>body. resp_Code (fst (server_image bind_error (agent_mgr s') body)) \<in> {400, 409})"
proof -
  have "agent_ok s' \<and> mgr_started (agent_mgr s') = mgr_started (agent_mgr s)"
    using assms(3)
  proof (induction rule: rtranclp_induct)
    case base
    then show ?case using agent_reachable_ok [OF assms(1)] by simp
  next
    case (step t u)
    then show ?case using agent_step_ok agent_step_started assms(2) by fastforce
  qed
  moreover from this have "mgr_currentAction (agent_mgr s') \<noteq> None"
    using assms(2) by (auto simp: agent_ok_def split: option.splits)
  ultimately show ?thesis
    by (auto simp: server_clean_def server_image_def DoAction_def reply_json_def split: option.splits)
qed

definition cleaning_agent :: agent where
  "cleaning_agent = \<lparr>agent_mgr = \<lparr>mgr_currentAction = Some NewCleanAction, mgr_started = [NewCleanAction]\<rparr>, agent_worker = Working\<rparr>"

lemma cleaning_agent_reachable: "agent_reachable bind_error cleaning_agent"
proof -
  have "agent_step bind_error agent_start cleaning_agent"
    using agent_step.serve [of bind_error agent_start PostClean "reply 202" "agent_mgr cleaning_agent"]
    by (simp add: server_clean_def DoAction_def agent_start_def NewManager_def cleaning_agent_def)
  then show ?thesis using agent_reachable.start agent_reachable.step by blast
qed

lemma agent_one_action_example:
  "resp_Code (fst (server_clean (agent_mgr cleaning_agent))) = 409"
proof -
  have "mgr_started (agent_mgr cleaning_agent) \<noteq> []" by (simp add: cleaning_agent_def)
  from agent_one_action_per_boot [OF cleaning_agent_reachable [of "\<lambda>_. []"] this rtranclp.rtrancl_refl]
  show ?thesis by blast
qed

lemma json_key_eq_simps [simp]:
  "json_key_eq k k"
  by (simp add: json_key_eq_def)

lemma status_keys:
  "\<not> json_key_eq ''type'' ''done''" "\<not> json_key_eq ''type'' ''error''" "\<not> json_key_eq ''done'' ''type''"
  "\<not> json_key_eq ''done'' ''error''" "\<not> json_key_eq ''error'' ''type''" "\<not> json_key_eq ''error'' ''done''"
  by (simp_all add: json_key_eq_def ascii_lower_def)

text \<open>
  What the agent answers to a status request is what the provisioner reads back: the same flag
  and the same texts, with U+FFFD for every byte that is not valid UTF-8 (an error holds the
  output of a command); the error is empty exactly when it was, by \<open>utf8_text_empty\<close>.
\<close>

lemma decoded_Status:
  "unmarshal_Status (json_print (marshal_Status st)) =
     Some \<lparr>act_Type = utf8_text (act_Type st), act_Done = act_Done st, act_Error = utf8_text (act_Error st)\<rparr>"
proof -
  have "json_parse (json_print (marshal_Status st)) = Some (json_clean (marshal_Status st))"
    by (rule json_round_trip) (simp add: marshal_Status_def json_omitempty_def)
  then show ?thesis
    by (cases st) (simp add: unmarshal_Status_def marshal_Status_def json_omitempty_def status_keys utf8_text_ascii)
qed

lemma image_keys:
  "\<not> json_key_eq ''image_url'' ''disk_path''" "\<not> json_key_eq ''image_url'' ''metadata_contents''"
  "\<not> json_key_eq ''image_url'' ''network_data_contents''" "\<not> json_key_eq ''image_url'' ''user_data_contents''"
  "\<not> json_key_eq ''disk_path'' ''image_url''" "\<not> json_key_eq ''disk_path'' ''metadata_contents''"
  "\<not> json_key_eq ''disk_path'' ''network_data_contents''" "\<not> json_key_eq ''disk_path'' ''user_data_contents''"
  "\<not> json_key_eq ''metadata_contents'' ''image_url''" "\<not> json_key_eq ''metadata_contents'' ''disk_path''"
  "\<not> json_key_eq ''metadata_contents'' ''network_data_contents''" "\<not> json_key_eq ''metadata_contents'' ''user_data_contents''"
  "\<not> json_key_eq ''network_data_contents'' ''image_url''" "\<not> json_key_eq ''network_data_contents'' ''disk_path''"
  "\<not> json_key_eq ''network_data_contents'' ''metadata_contents''" "\<not> json_key_eq ''network_data_contents'' ''user_data_contents''"
  "\<not> json_key_eq ''user_data_contents'' ''image_url''" "\<not> json_key_eq ''user_data_contents'' ''disk_path''"
  "\<not> json_key_eq ''user_data_contents'' ''metadata_contents''" "\<not> json_key_eq ''user_data_contents'' ''network_data_contents''"
  by (simp_all add: json_key_eq_def ascii_lower_def)

lemma ImageRequest_bound:
  "bind_ImageRequest (json_print (marshal_ImageRequest
     \<lparr>img_ImageURL = url, img_DiskPath = disk, img_MetadataContents = base64_encode m,
      img_NetworkDataContents = base64_encode n, img_UserDataContents = base64_encode u\<rparr>)) =
   Some \<lparr>img_ImageURL = utf8_text url, img_DiskPath = utf8_text disk, img_MetadataContents = base64_encode m,
      img_NetworkDataContents = base64_encode n, img_UserDataContents = base64_encode u\<rparr>"
proof -
  let ?r = "\<lparr>img_ImageURL = url, img_DiskPath = disk, img_MetadataContents = base64_encode m,
      img_NetworkDataContents = base64_encode n, img_UserDataContents = base64_encode u\<rparr>"
  have "json_value (2 * length (json_print (marshal_ImageRequest ?r)) + 2) (json_print (marshal_ImageRequest ?r) @ []) =
      Some (json_clean (marshal_ImageRequest ?r), [])"
    by (rule json_read) (simp_all add: marshal_ImageRequest_def json_end_def)
  then show ?thesis
    by (simp add: bind_ImageRequest_def marshal_ImageRequest_def image_keys utf8_text_ascii)
qed

end
