(* ===== verification/AgentActions.thy ===== *)
theory AgentActions
  imports Program Agent "HOL-Library.Signed_Division" "HOL-Library.Multiset"
begin

text \<open>
  The two actions of the agent, \<^verbatim>\<open>pkg/agent/action/clean.go\<close> and \<^verbatim>\<open>image.go\<close>: what \<^verbatim>\<open>do\<close> runs on
  the machine, command by command, and the sector arithmetic of the partition tables. A
  result is the text of the returned error, \<open>None\<close> for a nil error. The closing of files, which
  nothing depends on, is left out, except the one whose error is checked.
\<close>

type_synonym action_prog = "string option prog"

section \<open>Steps\<close>

definition exec_cmd :: "string list \<Rightarrow> (string \<Rightarrow> string option \<Rightarrow> action_prog) \<Rightarrow> action_prog" where
  "exec_cmd cmd k = Call (Host (Exec cmd)) (\<lambda>a. case as_Host a of
     HExec out err \<Rightarrow> k out err | _ \<Rightarrow> k [] (Some ''answer of the wrong kind''))"

definition host_step :: "host_call \<Rightarrow> string \<Rightarrow> action_prog \<Rightarrow> action_prog" where
  "host_step c message p = Call (Host c) (\<lambda>a. case as_Host a of
     HErr None \<Rightarrow> p
   | HErr (Some err) \<Rightarrow> Ret (Some (message @ err))
   | _ \<Rightarrow> Ret (Some (message @ ''answer of the wrong kind'')))"

definition open_disk :: "string \<Rightarrow> string \<Rightarrow> (int \<Rightarrow> int \<Rightarrow> action_prog) \<Rightarrow> action_prog" where
  "open_disk path message k = Call (Host (DiskOpen path)) (\<lambda>a. case as_Host a of
     HDisk (Inr (dsize, blocksize)) \<Rightarrow> k dsize blocksize
   | HDisk (Inl err) \<Rightarrow> Ret (Some (message @ err))
   | _ \<Rightarrow> Ret (Some (message @ ''answer of the wrong kind'')))"

definition read_table :: "string \<Rightarrow> (partition_table \<Rightarrow> action_prog) \<Rightarrow> action_prog" where
  "read_table message k = Call (Host GetPartitionTable) (\<lambda>a. case as_Host a of
     HTable (Inr t) \<Rightarrow> k t
   | HTable (Inl err) \<Rightarrow> Ret (Some (message @ err))
   | _ \<Rightarrow> Ret (Some (message @ ''answer of the wrong kind'')))"

section \<open>Cleaning\<close>

definition command_error :: "string \<Rightarrow> string \<Rightarrow> string \<Rightarrow> string \<Rightarrow> string option" where
  "command_error what diskPath out err =
     Some (''error running '' @ what @ '' on '' @ diskPath @ '': output: '' @ out @ '' error: '' @ err)"

definition wipefs_cmd :: "string \<Rightarrow> string list" where
  "wipefs_cmd diskPath = [''wipefs'', ''--force'', ''--all'', diskPath]"

definition wipe_head_cmd :: "string \<Rightarrow> string list" where
  "wipe_head_cmd diskPath = [''dd'', ''bs=512'', ''if=/dev/zero'', ''of='' @ diskPath, ''count=33'']"

definition wipe_tail_cmd :: "string \<Rightarrow> int \<Rightarrow> string list" where
  "wipe_tail_cmd diskPath start =
     [''dd'', ''bs=512'', ''if=/dev/zero'', ''of='' @ diskPath, ''seek='' @ show_int start, ''count=33'']"

definition sgdisk_zap_cmd :: "string \<Rightarrow> string list" where
  "sgdisk_zap_cmd diskPath = [''sgdisk'', ''-Z'', diskPath]"

text \<open>\<^verbatim>\<open>sectorCount - 33\<close>, where \<^verbatim>\<open>dd\<close> starts to write, in blocks of 512 bytes.\<close>

definition gptBackupTableStart :: "int \<Rightarrow> int \<Rightarrow> int" where
  "gptBackupTableStart dsize blocksize = (let sectorCount = dsize sdiv blocksize in sectorCount - 33)"

definition cleanDrive :: "BareMetalDiscoveryHardwareStorage \<Rightarrow> action_prog" where
  "cleanDrive storage =
     (let diskPath = ''/dev/'' @ storage_Name storage in
      if storage_Trim storage then
        exec_cmd [''blkdiscard'', ''-s'', diskPath] (\<lambda>_ err.
          case err of None \<Rightarrow> Ret None
          | Some _ \<Rightarrow> exec_cmd [''blkdiscard'', diskPath] (\<lambda>out err.
              case err of None \<Rightarrow> Ret None | Some e \<Rightarrow> Ret (command_error ''blkdisard'' diskPath out e)))
      else
        open_disk diskPath ''error opening disk to calculate sector count: '' (\<lambda>dsize blocksize.
          exec_cmd (wipefs_cmd diskPath) (\<lambda>out err. case err of
            Some e \<Rightarrow> Ret (command_error ''wipefs'' diskPath out e)
          | None \<Rightarrow> exec_cmd (wipe_head_cmd diskPath) (\<lambda>out err. case err of
            Some e \<Rightarrow> Ret (command_error ''dd to wipe metadata'' diskPath out e)
          | None \<Rightarrow>
              if blocksize = 0 then Panic ''integer divide by zero''
              else
                exec_cmd (wipe_tail_cmd diskPath (gptBackupTableStart dsize blocksize)) (\<lambda>out err. case err of
                  Some e \<Rightarrow> Ret (command_error ''dd to wipe gpt metadata'' diskPath out e)
                | None \<Rightarrow> exec_cmd (sgdisk_zap_cmd diskPath) (\<lambda>out err. case err of
                    Some e \<Rightarrow> Ret (command_error ''sgdisk'' diskPath out e)
                  | None \<Rightarrow> Ret None))))))"

text \<open>
  \<^verbatim>\<open>do\<close> collects the drives' results in the order they finish; \<open>join\<close> is the text of
  \<^verbatim>\<open>multierr.Append\<close> of two errors, and a nil error is neutral for it.
\<close>

definition multierr_Append :: "(string \<Rightarrow> string \<Rightarrow> string) \<Rightarrow> string option \<Rightarrow> string option \<Rightarrow> string option" where
  "multierr_Append join e f = (case e of None \<Rightarrow> f | Some x \<Rightarrow> (case f of None \<Rightarrow> Some x | Some y \<Rightarrow> Some (join x y)))"

definition clean_result :: "(string \<Rightarrow> string \<Rightarrow> string) \<Rightarrow> string option list \<Rightarrow> string option" where
  "clean_result join results = foldl (multierr_Append join) None results"

text \<open>
  A run of \<^verbatim>\<open>do\<close>: each drive's goroutine ran to its end, and the results came back in some
  order.
\<close>

definition clean_do ::
  "(string \<Rightarrow> string \<Rightarrow> string) \<Rightarrow> BareMetalDiscoveryHardwareStorage list \<Rightarrow> history list \<Rightarrow> string option \<Rightarrow> bool" where
  "clean_do join storages traces result \<longleftrightarrow>
     (\<exists>results order. length traces = length storages \<and> length results = length storages \<and>
        (\<forall>i < length storages. \<exists>answers. run (cleanDrive (storages ! i)) answers = (traces ! i, Returned (results ! i))) \<and>
        mset order = mset results \<and> result = clean_result join order)"

section \<open>Imaging\<close>

text \<open>\<^verbatim>\<open>filepath.Ext\<close>: from the last dot of the last path element on.\<close>

fun ext_scan :: "string \<Rightarrow> string \<Rightarrow> string" where
  "ext_scan [] suffix = []"
| "ext_scan (c # cs) suffix =
     (if c = CHR ''/'' then [] else if c = CHR ''.'' then c # suffix else ext_scan cs (c # suffix))"

definition filepath_Ext :: "string \<Rightarrow> string" where
  "filepath_Ext path = ext_scan (rev path) []"

definition cloudInitSize :: int where
  "cloudInitSize = 64 * 1024 * 1024"

text \<open>The last partition in use, -1 when there is none.\<close>

fun last_used :: "int \<Rightarrow> int \<Rightarrow> gpt_partition list \<Rightarrow> int" where
  "last_used lastUsed i [] = lastUsed"
| "last_used lastUsed i (part # parts) =
     last_used (if gpt_Type part \<noteq> GptUnused then i else lastUsed) (i + 1) parts"

text \<open>
  Lines 208 to 233 of \<^verbatim>\<open>image.go\<close> on a GPT: the table with the cloud-init partition in it and
  the partition's number. The results other than a table: the error the code returns for a
  full table, and its two panics.
\<close>

datatype 'a placement = Placed 'a nat | TableFull | IndexOutOfRange | DivideByZero

definition gpt_cloudInitStart :: "int \<Rightarrow> int \<Rightarrow> 64 word" where
  "gpt_cloudInitStart dsize lss =
     word_of_int (dsize sdiv lss) - word_of_int (cloudInitSize sdiv lss) - 33"

definition place_gpt :: "int \<Rightarrow> int \<Rightarrow> gpt_partition list \<Rightarrow> gpt_partition list placement" where
  "place_gpt dsize lss parts =
     (if lss = 0 then DivideByZero
      else
        let lastUsed = last_used (- 1) 0 parts in
        if lastUsed \<ge> int (length parts) then TableFull
        else
          let index = nat (lastUsed + 1) in
          if index \<ge> length parts then IndexOutOfRange
          else Placed (parts[index := \<lparr>gpt_Type = GptLinuxFilesystem, gpt_Start = gpt_cloudInitStart dsize lss,
                                       gpt_Size = word_of_int cloudInitSize\<rparr>]) (index + 1))"

text \<open>Lines 244 to 270 on an MBR.\<close>

definition place_mbr :: "int \<Rightarrow> int \<Rightarrow> mbr_partition list \<Rightarrow> mbr_partition list placement" where
  "place_mbr dsize lss parts =
     (if lss = 0 then DivideByZero
      else
        let sectors = word_of_int (cloudInitSize sdiv lss) :: 32 word;
            start = word_of_int (dsize sdiv lss) - sectors;
            partitions = filter (\<lambda>part. mbr_Type part \<noteq> MbrEmpty) parts
        in if length partitions \<ge> 4 then TableFull
           else
             let parts' = partitions @ [\<lparr>mbr_Bootable = False, mbr_Type = MbrLinux, mbr_Start = start, mbr_Size = sectors\<rparr>]
             in Placed parts' (length parts'))"

text \<open>Lines 181 to 240: the GPT branch, after the table was moved to the end of the disk.\<close>

definition image_gpt :: "string \<Rightarrow> (nat \<Rightarrow> action_prog) \<Rightarrow> action_prog" where
  "image_gpt diskPath k =
     exec_cmd [''sgdisk'', ''-e'', diskPath] (\<lambda>out err. case err of
       Some e \<Rightarrow> Ret (Some (''error running sgdisk to move the GPT partition table '' @ diskPath @ '': '' @ e @ '': '' @ out))
     | None \<Rightarrow>
         open_disk diskPath (''error opening disk '' @ diskPath @ '': '') (\<lambda>dsize blocksize.
           read_table (''error reading partition table from drive '' @ diskPath @ '': '') (\<lambda>rawTable.
             case rawTable of
               MBR _ _ \<Rightarrow> Panic ''interface conversion: partition.Table is *mbr.Table, not *gpt.Table''
             | GPT lss parts \<Rightarrow>
                 (case place_gpt dsize lss parts of
                    DivideByZero \<Rightarrow> Panic ''integer divide by zero''
                  | IndexOutOfRange \<Rightarrow> Panic ''index out of range''
                  | TableFull \<Rightarrow>
                      Ret (Some (''gpt partition table is full, there is no room for cloud-init on drive '' @ diskPath))
                  | Placed parts' number \<Rightarrow>
                      host_step (WritePartitionTable (GPT lss parts'))
                        (''error writing gpt partition table to drive '' @ diskPath @ '': '') (k number)))))"

text \<open>
  Lines 241 to 279: the MBR branch. The error of a full table prints the last \<^verbatim>\<open>err\<close>, which is nil.
\<close>

definition image_mbr :: "string \<Rightarrow> int \<Rightarrow> int \<Rightarrow> mbr_partition list \<Rightarrow> (nat \<Rightarrow> action_prog) \<Rightarrow> action_prog" where
  "image_mbr diskPath dsize lss parts k =
     (case place_mbr dsize lss parts of
        DivideByZero \<Rightarrow> Panic ''integer divide by zero''
      | IndexOutOfRange \<Rightarrow> Panic ''index out of range''
      | TableFull \<Rightarrow>
          Ret (Some (''mbr partition table already has 4 partitions, there is no room for cloud-init on drive ''
            @ diskPath @ '': <nil>''))
      | Placed parts' number \<Rightarrow>
          host_step (WritePartitionTable (MBR lss parts'))
            (''error writing mbr partition table to drive '' @ diskPath @ '': '') (k number))"

definition writeFile :: "string \<Rightarrow> string \<Rightarrow> string \<Rightarrow> action_prog \<Rightarrow> action_prog" where
  "writeFile path contents what p =
     host_step (FsOpenFile path) (what @ ''error opening file '' @ path @ '': '')
       (host_step (FsWrite path contents) (what @ ''error writting file '' @ path @ '': '') p)"

text \<open>Lines 281 to 327: the cloud-init file system.\<close>

definition image_cloud_init :: "string \<Rightarrow> string \<Rightarrow> string \<Rightarrow> string \<Rightarrow> nat \<Rightarrow> action_prog" where
  "image_cloud_init diskPath metadata networkData userData number =
     host_step (CreateFilesystem number ''config-2'') (''error creating cloud-init filesystem on '' @ diskPath @ '': '')
       (host_step (FsMkdir ''/openstack/latest'') ''error creating cloud-init directory structure: ''
         (writeFile ''/openstack/latest/meta_data.json'' metadata ''error writing metadata: ''
           (writeFile ''/openstack/latest/network_data.json'' networkData ''error writing network data: ''
             (writeFile ''/openstack/latest/user_data'' userData ''error writing user data: '' (Ret None)))))"

text \<open>Lines 134 to 180: the download onto the disk, then the branch on the partition table.\<close>

definition image_copy :: "ImageRequest \<Rightarrow> archive option \<Rightarrow> (nat \<Rightarrow> action_prog) \<Rightarrow> action_prog" where
  "image_copy i copyIO k =
     (let diskPath = img_DiskPath i in
      host_step (HttpGet (img_ImageURL i)) ''error downloading image: ''
        (host_step (OpenDiskFile diskPath) (''error opening disk file '' @ diskPath @ '': '')
          (host_step (CopyImage copyIO) (''error copying image to disk '' @ diskPath @ '': '')
            (host_step CloseDiskFile (''error closing disk file '' @ diskPath @ '': '')
              (open_disk diskPath (''error opening disk '' @ diskPath @ '': '') (\<lambda>dsize blocksize.
                read_table (''error reading partition table from drive '' @ diskPath @ '': '') (\<lambda>rawTable.
                  case rawTable of
                    GPT _ _ \<Rightarrow> image_gpt diskPath k
                  | MBR lss parts \<Rightarrow> image_mbr diskPath dsize lss parts k)))))))"

text \<open>
  The whole of \<^verbatim>\<open>do\<close>; \<open>corrupt\<close> is the text of the base 64 decoder's error for an input it
  rejects.
\<close>

definition image_do :: "(string \<Rightarrow> string) \<Rightarrow> ImageRequest \<Rightarrow> action_prog" where
  "image_do corrupt i =
     (case base64_decode (img_MetadataContents i) of
        None \<Rightarrow> Ret (Some (''error base64 decoding metadata: '' @ corrupt (img_MetadataContents i)))
      | Some metadata \<Rightarrow>
     (case base64_decode (img_NetworkDataContents i) of
        None \<Rightarrow> Ret (Some (''error base64 decoding network data: '' @ corrupt (img_NetworkDataContents i)))
      | Some networkData \<Rightarrow>
     (case base64_decode (img_UserDataContents i) of
        None \<Rightarrow> Ret (Some (''error base64 decoding user data: '' @ corrupt (img_UserDataContents i)))
      | Some userData \<Rightarrow>
          let finish = image_cloud_init (img_DiskPath i) metadata networkData userData in
          if filepath_Ext (img_ImageURL i) = ''.raw'' then image_copy i None finish
          else Call (Host (ArchiverByExtension (img_ImageURL i))) (\<lambda>a. case as_Host a of
              HArchive (Inr OtherArchive) \<Rightarrow> Ret (Some ''image url is not a compression or archive format'')
            | HArchive (Inr kind) \<Rightarrow> image_copy i (Some kind) finish
            | HArchive (Inl err) \<Rightarrow> Ret (Some (''error creating archiver from image url: '' @ err))
            | _ \<Rightarrow> Ret (Some ''error creating archiver from image url: answer of the wrong kind'')))))"

lemmas action_defs = exec_cmd_def host_step_def open_disk_def read_table_def command_error_def

section \<open>A clean that reports no error\<close>

text \<open>
  What the machine did, command by command, when a drive was wiped: a discard that succeeded,
  or the four steps for a drive without trim, each of them without an error.
\<close>

definition cmd_ok :: "history \<Rightarrow> string list \<Rightarrow> bool" where
  "cmd_ok h cmd \<longleftrightarrow> (\<exists>a out. (Host (Exec cmd), a) \<in> set h \<and> as_Host a = HExec out None)"

definition wiped :: "BareMetalDiscoveryHardwareStorage \<Rightarrow> history \<Rightarrow> bool" where
  "wiped storage h \<longleftrightarrow>
     (let diskPath = ''/dev/'' @ storage_Name storage in
      if storage_Trim storage then
        cmd_ok h [''blkdiscard'', ''-s'', diskPath] \<or> cmd_ok h [''blkdiscard'', diskPath]
      else
        \<exists>a dsize blocksize. (Host (DiskOpen diskPath), a) \<in> set h \<and> as_Host a = HDisk (Inr (dsize, blocksize)) \<and>
          cmd_ok h (wipefs_cmd diskPath) \<and> cmd_ok h (wipe_head_cmd diskPath) \<and>
          cmd_ok h (wipe_tail_cmd diskPath (gptBackupTableStart dsize blocksize)) \<and> cmd_ok h (sgdisk_zap_cmd diskPath))"

definition clean_contract :: "BareMetalDiscoveryHardwareStorage \<Rightarrow> history \<Rightarrow> string option outcome \<Rightarrow> bool" where
  "clean_contract storage h oc \<longleftrightarrow> oc = Returned None \<longrightarrow> wiped storage h"

lemma cmd_ok_append [simp]: "cmd_ok (h @ h') c \<longleftrightarrow> cmd_ok h c \<or> cmd_ok h' c"
  by (auto simp: cmd_ok_def)

lemma cmd_ok_single [simp]:
  "cmd_ok [(d, a)] c \<longleftrightarrow> d = Host (Exec c) \<and> (\<exists>out. as_Host a = HExec out None)" "\<not> cmd_ok [] c"
  "cmd_ok ((d, a) # h) c \<longleftrightarrow> d = Host (Exec c) \<and> (\<exists>out. as_Host a = HExec out None) \<or> cmd_ok h c"
  by (auto simp: cmd_ok_def)

lemma cleanDrive_contract: "ends (clean_contract storage) [] (cleanDrive storage)"
  by (auto simp: cleanDrive_def action_defs clean_contract_def wiped_def Let_def
      split: host_answer.splits option.splits sum.splits prod.splits)

lemma clean_result_None: "clean_result join rs = None \<longleftrightarrow> (\<forall>r \<in> set rs. r = None)"
proof -
  have "foldl (multierr_Append join) e rs = None \<longleftrightarrow> e = None \<and> (\<forall>r \<in> set rs. r = None)" for e
  proof (induction rs arbitrary: e)
    case (Cons r rs)
    then show ?case by (auto simp: multierr_Append_def split: option.splits)
  qed simp
  then show ?thesis by (simp add: clean_result_def)
qed

text \<open>
  C11: a clean action that reports no error has wiped every drive of the machine: for each one
  a discard succeeded, or file system signatures, the head, the block where the backup table
  is looked for and the GPT and MBR structures were all written over, whatever order the
  drives finished in.
\<close>

theorem clean_do_wipes:
  assumes "clean_do join storages traces None"
  shows "length traces = length storages \<and> (\<forall>i < length storages. wiped (storages ! i) (traces ! i))"
proof -
  obtain results order where r: "length traces = length storages" "length results = length storages"
    "\<forall>i < length storages. \<exists>answers. run (cleanDrive (storages ! i)) answers = (traces ! i, Returned (results ! i))"
    "mset order = mset results" "clean_result join order = None"
    using assms unfolding clean_do_def by metis
  from r(4,5) have none: "\<forall>x \<in> set results. x = None"
    using mset_eq_setD [OF r(4)] clean_result_None [of join order] by simp
  have "wiped (storages ! i) (traces ! i)" if i: "i < length storages" for i
  proof -
    have "results ! i = None" using none nth_mem [of i results] r(2) i by simp
    moreover obtain answers where "run (cleanDrive (storages ! i)) answers = (traces ! i, Returned (results ! i))"
      using r(3) i by blast
    ultimately show ?thesis
      using ends_run [OF cleanDrive_contract [of "storages ! i"]] by (fastforce simp: clean_contract_def)
  qed
  with r(1) show ?thesis by blast
qed

definition trim_disk :: BareMetalDiscoveryHardwareStorage where
  "trim_disk = \<lparr>storage_Name = ''sda'', storage_Size = ''1G'', storage_Rotational = False, storage_Trim = True, storage_Serial = []\<rparr>"

lemma clean_do_wipes_witness:
  "wiped trim_disk [(Host (Exec [''blkdiscard'', ''-s'', ''/dev/sda'']), AHost (HExec [] None))]"
proof -
  let ?t = "[(Host (Exec [''blkdiscard'', ''-s'', ''/dev/sda'']), AHost (HExec [] None))]"
  have "run (cleanDrive trim_disk) [AHost (HExec [] None)] = (?t, Returned None)"
    by (simp add: cleanDrive_def trim_disk_def exec_cmd_def Let_def)
  then have "clean_do (\<lambda>x y. x) [trim_disk] [?t] None"
    unfolding clean_do_def
    by (intro exI [of _ "[None]"] conjI) (auto simp: clean_result_def multierr_Append_def)
  from clean_do_wipes [OF this] show ?thesis by simp
qed

text \<open>
  The place where the backup partition table is wiped, in bytes: with 512-byte sectors it
  is the last 33 sectors of the disk, which hold it; with 4096-byte sectors the 33 blocks
  written lie entirely before the last 33 sectors, so the backup table is left in place.
\<close>

theorem clean_tail_offset:
  assumes "0 \<le> q"
  shows "512 * gptBackupTableStart (512 * q) 512 = 512 * q - 33 * 512 \<and>
    (38 \<le> q \<longrightarrow> 512 * gptBackupTableStart (4096 * q) 4096 + 33 * 512 < 4096 * q - 33 * 4096)"
proof -
  have "(512 * q) sdiv 512 = q" "(4096 * q) sdiv 4096 = q"
    using assms by (simp_all add: signed_divide_int_def sgn_if)
  then show ?thesis by (simp add: gptBackupTableStart_def)
qed

lemma clean_tail_offset_witness:
  "512 * gptBackupTableStart (4096 * 1000) 4096 + 33 * 512 < 4096 * 1000 - 33 * (4096 :: int)"
  using clean_tail_offset [of 1000] by simp

section \<open>Where the cloud-init partition goes\<close>

lemma last_used_cases:
  "(last_used l i parts = l \<and> (\<forall>part \<in> set parts. gpt_Type part = GptUnused)) \<or>
   (\<exists>j < length parts. last_used l i parts = i + int j \<and> gpt_Type (parts ! j) \<noteq> GptUnused \<and>
      (\<forall>k < length parts. j < k \<longrightarrow> gpt_Type (parts ! k) = GptUnused))"
proof (induction parts arbitrary: l i)
  case (Cons part parts)
  let ?l = "if gpt_Type part \<noteq> GptUnused then i else l"
  from Cons [of ?l "i + 1"] show ?case
  proof
    assume h: "last_used ?l (i + 1) parts = ?l \<and> (\<forall>part \<in> set parts. gpt_Type part = GptUnused)"
    show ?thesis
    proof (cases "gpt_Type part = GptUnused")
      case False
      with h show ?thesis by (intro disjI2 exI [of _ 0]) (auto simp: nth_Cons split: nat.splits)
    qed (use h in simp)
  next
    assume "\<exists>j < length parts. last_used ?l (i + 1) parts = i + 1 + int j \<and> gpt_Type (parts ! j) \<noteq> GptUnused \<and>
      (\<forall>k < length parts. j < k \<longrightarrow> gpt_Type (parts ! k) = GptUnused)"
    then obtain j where "j < length parts" "last_used ?l (i + 1) parts = i + 1 + int j"
      "gpt_Type (parts ! j) \<noteq> GptUnused" "\<forall>k < length parts. j < k \<longrightarrow> gpt_Type (parts ! k) = GptUnused" by blast
    then show ?thesis by (intro disjI2 exI [of _ "Suc j"]) (auto simp: nth_Cons split: nat.splits)
  qed
qed simp

text \<open>
  C32: on a GPT the cloud-init partition goes into the first entry after the last one in use,
  and no entry in use is touched; the error for a full table is never returned, because the
  test compares an index with the length: when the last entry is in use (or the table has no
  entry) the agent panics instead.
\<close>

theorem place_gpt_entry:
  assumes "lss \<noteq> 0"
  shows "(case place_gpt dsize lss parts of
      Placed parts' number \<Rightarrow> 0 < number \<and> number \<le> length parts \<and> length parts' = length parts \<and>
        (\<forall>k. number - 1 \<le> k \<and> k < length parts \<longrightarrow> gpt_Type (parts ! k) = GptUnused) \<and>
        (\<forall>k. k \<noteq> number - 1 \<longrightarrow> parts' ! k = parts ! k) \<and>
        gpt_Type (parts' ! (number - 1)) = GptLinuxFilesystem
    | IndexOutOfRange \<Rightarrow> parts = [] \<or> gpt_Type (last parts) \<noteq> GptUnused
    | _ \<Rightarrow> False)"
proof -
  from last_used_cases [of "- 1" 0 parts] show ?thesis
  proof
    assume h: "last_used (- 1) 0 parts = - 1 \<and> (\<forall>part \<in> set parts. gpt_Type part = GptUnused)"
    then have "\<forall>k < length parts. gpt_Type (parts ! k) = GptUnused" by simp
    then show ?thesis using assms h by (cases "parts = []") (auto simp: place_gpt_def Let_def Suc_le_eq)
  next
    assume "\<exists>j < length parts. last_used (- 1) 0 parts = 0 + int j \<and> gpt_Type (parts ! j) \<noteq> GptUnused \<and>
      (\<forall>k < length parts. j < k \<longrightarrow> gpt_Type (parts ! k) = GptUnused)"
    then obtain j where j: "j < length parts" "last_used (- 1) 0 parts = int j" "gpt_Type (parts ! j) \<noteq> GptUnused"
      "\<forall>k < length parts. j < k \<longrightarrow> gpt_Type (parts ! k) = GptUnused" by auto
    have i: "nat (int j + 1) = Suc j" by simp
    show ?thesis
    proof (cases "Suc j < length parts")
      case True
      then show ?thesis using assms j by (auto simp: place_gpt_def Let_def i)
    next
      case False
      then have "last parts = parts ! j" using j(1) by (cases parts rule: rev_cases) (auto simp: nth_append)
      then show ?thesis using assms j False by (simp add: place_gpt_def Let_def i)
    qed
  qed
qed

definition used_gpt :: gpt_partition where
  "used_gpt = \<lparr>gpt_Type = GptOther ''root'', gpt_Start = 2048, gpt_Size = 0\<rparr>"

definition free_gpt :: gpt_partition where
  "free_gpt = \<lparr>gpt_Type = GptUnused, gpt_Start = 0, gpt_Size = 0\<rparr>"

lemma place_gpt_entry_witness:
  "(case place_gpt (2 ^ 30) 512 [used_gpt, free_gpt] of
      Placed parts' number \<Rightarrow> number = 2 \<and> parts' ! 0 = used_gpt
    | _ \<Rightarrow> False) \<and> place_gpt (2 ^ 30) 512 [used_gpt] = IndexOutOfRange"
  using place_gpt_entry [where lss = 512 and dsize = "2 ^ 30" and parts = "[used_gpt, free_gpt]"]
    place_gpt_entry [where lss = 512 and dsize = "2 ^ 30" and parts = "[used_gpt]"]
  by (simp add: place_gpt_def used_gpt_def free_gpt_def Let_def)

lemma sdiv_nonneg: "0 \<le> a \<Longrightarrow> 0 < b \<Longrightarrow> a sdiv b = a div (b :: int)"
  by (auto simp: signed_divide_int_def sgn_if)

text \<open>
  On a GPT the partition ends right before the 33 sectors kept for the backup table: its
  start and its sectors and 33 add up to the sectors of the disk, for every disk that has
  room for it and every sector size.
\<close>

theorem gpt_cloudInit_at_end:
  assumes "0 < lss" and "cloudInitSize div lss + 33 \<le> dsize div lss" and "dsize < 2 ^ 63"
  shows "uint (gpt_cloudInitStart dsize lss) + cloudInitSize div lss + 33 = dsize div lss"
proof -
  have pos: "0 \<le> cloudInitSize div lss" using assms(1) by (simp add: cloudInitSize_def pos_imp_zdiv_nonneg_iff)
  then have "0 < dsize div lss" using assms(2) by linarith
  then have d: "0 \<le> dsize" using assms(1) by (simp add: pos_imp_zdiv_pos_iff)
  have le: "dsize div lss \<le> dsize" using zdiv_mono2 [of dsize 1 lss] d assms(1) by simp
  have "gpt_cloudInitStart dsize lss = word_of_int (dsize div lss - cloudInitSize div lss - 33)"
    using d assms(1) by (simp add: gpt_cloudInitStart_def sdiv_nonneg cloudInitSize_def)
  moreover have "0 \<le> dsize div lss - cloudInitSize div lss - 33" "dsize div lss - cloudInitSize div lss - 33 < 2 ^ 64"
    using assms(2,3) pos le by simp_all
  ultimately have "uint (gpt_cloudInitStart dsize lss) = dsize div lss - cloudInitSize div lss - 33"
    by (simp only: uint_word_of_int_eq) (rule take_bit_int_eq_self, simp_all)
  then show ?thesis by simp
qed

lemma gpt_cloudInit_at_end_witness:
  "uint (gpt_cloudInitStart (2 ^ 40) 512) + cloudInitSize div 512 + 33 = 2 ^ 40 div 512"
  by (rule gpt_cloudInit_at_end) (simp_all add: cloudInitSize_def)

text \<open>
  On an MBR the partition is added after the entries in use, which are all kept in order,
  and there are at most four; it ends with the disk as long as the disk has fewer than
  \<open>2 ^ 32\<close> sectors.
\<close>

lemma place_mbr_spec:
  assumes "0 < lss" and "cloudInitSize div lss \<le> dsize div lss" and "dsize div lss < 2 ^ 32"
    and "place_mbr dsize lss parts = Placed parts' number"
  shows "number = length parts' \<and> number \<le> 4 \<and>
    butlast parts' = filter (\<lambda>part. mbr_Type part \<noteq> MbrEmpty) parts \<and>
    uint (mbr_Start (last parts')) + uint (mbr_Size (last parts')) = dsize div lss"
proof -
  have pos: "0 \<le> cloudInitSize div lss" using assms(1) by (simp add: cloudInitSize_def pos_imp_zdiv_nonneg_iff)
  then have d: "0 \<le> dsize" using assms(1,2) by (smt (verit) pos_imp_zdiv_nonneg_iff)
  have "uint (word_of_int (cloudInitSize div lss) :: 32 word) = cloudInitSize div lss"
    using pos assms(2,3) by (simp add: uint_word_of_int_eq take_bit_int_eq_self)
  moreover have "uint (word_of_int (dsize div lss - cloudInitSize div lss) :: 32 word) =
      dsize div lss - cloudInitSize div lss"
    unfolding uint_word_of_int_eq by (rule take_bit_int_eq_self) (use pos assms(2,3) in simp_all)
  moreover have "cloudInitSize sdiv lss = cloudInitSize div lss" "dsize sdiv lss = dsize div lss"
    using assms(1) d by (simp_all add: sdiv_nonneg cloudInitSize_def)
  ultimately show ?thesis
    using assms(1,4) by (auto simp: place_mbr_def Let_def split: if_splits)
qed

lemma place_mbr_example:
  "uint (mbr_Start (last [\<lparr>mbr_Bootable = False, mbr_Type = MbrLinux, mbr_Start = 1966080, mbr_Size = 131072\<rparr>])) + 131072 = 2 ^ 30 div 512"
proof -
  have "place_mbr (2 ^ 30) 512 [] =
      Placed [\<lparr>mbr_Bootable = False, mbr_Type = MbrLinux, mbr_Start = 1966080, mbr_Size = 131072\<rparr>] 1"
    by (simp add: place_mbr_def Let_def sdiv_nonneg cloudInitSize_def)
  from place_mbr_spec [OF _ _ _ this] show ?thesis by (simp add: cloudInitSize_def)
qed


section \<open>An image action that reports no error\<close>

definition step_ok :: "history \<Rightarrow> host_call \<Rightarrow> bool" where
  "step_ok h c \<longleftrightarrow> (\<exists>a. (Host c, a) \<in> set h \<and> as_Host a = HErr None)"

definition placed_table :: "partition_table \<Rightarrow> nat \<Rightarrow> bool" where
  "placed_table t number \<longleftrightarrow> (\<exists>dsize lss.
     (\<exists>parts parts'. place_gpt dsize lss parts = Placed parts' number \<and> t = GPT lss parts') \<or>
     (\<exists>parts parts'. place_mbr dsize lss parts = Placed parts' number \<and> t = MBR lss parts'))"

definition imaged :: "ImageRequest \<Rightarrow> history \<Rightarrow> bool" where
  "imaged i h \<longleftrightarrow>
     (\<exists>metadata networkData userData kind t number.
        base64_decode (img_MetadataContents i) = Some metadata \<and>
        base64_decode (img_NetworkDataContents i) = Some networkData \<and>
        base64_decode (img_UserDataContents i) = Some userData \<and>
        step_ok h (HttpGet (img_ImageURL i)) \<and> step_ok h (OpenDiskFile (img_DiskPath i)) \<and>
        step_ok h (CopyImage kind) \<and> kind \<noteq> Some OtherArchive \<and>
        step_ok h (WritePartitionTable t) \<and> placed_table t number \<and>
        step_ok h (CreateFilesystem number ''config-2'') \<and>
        step_ok h (FsWrite ''/openstack/latest/meta_data.json'' metadata) \<and>
        step_ok h (FsWrite ''/openstack/latest/network_data.json'' networkData) \<and>
        step_ok h (FsWrite ''/openstack/latest/user_data'' userData))"

definition image_contract :: "ImageRequest \<Rightarrow> history \<Rightarrow> string option outcome \<Rightarrow> bool" where
  "image_contract i h oc \<longleftrightarrow> oc = Returned None \<longrightarrow> imaged i h"

lemma step_ok_simps [simp]:
  "step_ok (h @ h') c \<longleftrightarrow> step_ok h c \<or> step_ok h' c" "\<not> step_ok [] c"
  "step_ok ((d, a) # h) c \<longleftrightarrow> d = Host c \<and> as_Host a = HErr None \<or> step_ok h c"
  by (auto simp: step_ok_def)

lemma host_step_ends:
  assumes "\<And>a. as_Host a = HErr None \<Longrightarrow> ends (image_contract i) (h @ [(Host c, a)]) p"
  shows "ends (image_contract i) h (host_step c message p)"
  using assms by (auto simp: host_step_def image_contract_def split: host_answer.splits option.splits)

lemma open_disk_ends:
  assumes "\<And>h dsize blocksize. Q h \<Longrightarrow> ends (image_contract i) h (k dsize blocksize)" and "Q h"
    and "\<And>h c a. Q h \<Longrightarrow> Q (h @ [(c, a)])"
  shows "ends (image_contract i) h (open_disk path message k)"
  using assms by (auto simp: open_disk_def image_contract_def split: host_answer.splits sum.splits)

lemma read_table_ends:
  assumes "\<And>h t. Q h \<Longrightarrow> ends (image_contract i) h (k t)" and "Q h"
    and "\<And>h c a. Q h \<Longrightarrow> Q (h @ [(c, a)])"
  shows "ends (image_contract i) h (read_table message k)"
  using assms by (auto simp: read_table_def image_contract_def split: host_answer.splits sum.splits)

lemma image_cloud_init_ends:
  assumes "base64_decode (img_MetadataContents i) = Some metadata"
    and "base64_decode (img_NetworkDataContents i) = Some networkData"
    and "base64_decode (img_UserDataContents i) = Some userData"
    and "step_ok h (HttpGet (img_ImageURL i))" "step_ok h (OpenDiskFile (img_DiskPath i))"
    and "step_ok h (CopyImage kind)" "kind \<noteq> Some OtherArchive"
    and "step_ok h (WritePartitionTable t)" "placed_table t number"
  shows "ends (image_contract i) h (image_cloud_init (img_DiskPath i) metadata networkData userData number)"
  unfolding image_cloud_init_def writeFile_def
  by (intro host_step_ends; simp add: image_contract_def imaged_def) (use assms in auto)

text \<open>What the steps before the partition table establish, kept by every later call.\<close>

definition copied :: "ImageRequest \<Rightarrow> archive option \<Rightarrow> history \<Rightarrow> bool" where
  "copied i kind h \<longleftrightarrow> step_ok h (HttpGet (img_ImageURL i)) \<and> step_ok h (OpenDiskFile (img_DiskPath i)) \<and>
     step_ok h (CopyImage kind)"

lemma copied_append: "copied i kind h \<Longrightarrow> copied i kind (h @ h')"
  by (simp add: copied_def)

lemma write_table_ends:
  assumes "copied i kind h" and "placed_table t number"
    and "\<And>h. copied i kind h \<Longrightarrow> step_ok h (WritePartitionTable t) \<Longrightarrow> ends (image_contract i) h (k number)"
  shows "ends (image_contract i) h (host_step (WritePartitionTable t) message (k number))"
  using assms by (intro host_step_ends) (simp add: copied_append)

lemma image_mbr_ends:
  assumes "copied i kind h"
    and "\<And>h t number. copied i kind h \<Longrightarrow> placed_table t number \<Longrightarrow> step_ok h (WritePartitionTable t) \<Longrightarrow>
      ends (image_contract i) h (k number)"
  shows "ends (image_contract i) h (image_mbr diskPath dsize lss parts k)"
proof (cases "place_mbr dsize lss parts")
  case (Placed parts' number)
  then have "placed_table (MBR lss parts') number" by (auto simp: placed_table_def)
  with Placed assms show ?thesis by (simp add: image_mbr_def write_table_ends)
qed (simp_all add: image_mbr_def image_contract_def)

lemma image_gpt_ends:
  assumes "copied i kind h"
    and "\<And>h t number. copied i kind h \<Longrightarrow> placed_table t number \<Longrightarrow> step_ok h (WritePartitionTable t) \<Longrightarrow>
      ends (image_contract i) h (k number)"
  shows "ends (image_contract i) h (image_gpt diskPath k)"
proof -
  have table: "ends (image_contract i) h
      (case rawTable of MBR l p \<Rightarrow> Panic m
       | GPT lss parts \<Rightarrow>
           (case place_gpt dsize lss parts of
              DivideByZero \<Rightarrow> Panic m1 | IndexOutOfRange \<Rightarrow> Panic m2 | TableFull \<Rightarrow> Ret (Some e)
            | Placed parts' number \<Rightarrow> host_step (WritePartitionTable (GPT lss parts')) message (k number)))"
    if "copied i kind h" for h rawTable dsize m m1 m2 e message
  proof (cases rawTable)
    case (GPT lss parts)
    show ?thesis
    proof (cases "place_gpt dsize lss parts")
      case (Placed parts' number)
      then have "placed_table (GPT lss parts') number" by (auto simp: placed_table_def)
      with Placed GPT assms(2) that show ?thesis by (simp add: write_table_ends)
    qed (simp_all add: GPT image_contract_def)
  qed (simp add: image_contract_def)
  have "ends (image_contract i) h'
      (open_disk diskPath m3 (\<lambda>dsize blocksize. read_table m4 (\<lambda>rawTable.
         case rawTable of MBR l p \<Rightarrow> Panic m
         | GPT lss parts \<Rightarrow>
             (case place_gpt dsize lss parts of
                DivideByZero \<Rightarrow> Panic m1 | IndexOutOfRange \<Rightarrow> Panic m2 | TableFull \<Rightarrow> Ret (Some e)
              | Placed parts' number \<Rightarrow> host_step (WritePartitionTable (GPT lss parts')) message (k number)))))"
    if "copied i kind h'" for h' m m1 m2 m3 m4 e message
    by (rule open_disk_ends [where Q = "copied i kind"], rule read_table_ends [where Q = "copied i kind"])
      (simp_all add: table that copied_append)
  then show ?thesis
    using assms(1) by (auto simp: image_gpt_def exec_cmd_def image_contract_def copied_append
        split: host_answer.splits option.splits)
qed

lemma image_copy_ends:
  assumes "\<And>h t number. copied i kind h \<Longrightarrow> placed_table t number \<Longrightarrow> step_ok h (WritePartitionTable t) \<Longrightarrow>
      ends (image_contract i) h (k number)"
  shows "ends (image_contract i) h (image_copy i kind k)"
proof -
  have rest: "ends (image_contract i) h
      (open_disk d m1 (\<lambda>dsize blocksize. read_table m2 (\<lambda>rawTable. case rawTable of
         GPT _ _ \<Rightarrow> image_gpt d k | MBR lss parts \<Rightarrow> image_mbr d dsize lss parts k)))"
    if "copied i kind h" for h d m1 m2
    by (rule open_disk_ends [where Q = "copied i kind"], rule read_table_ends [where Q = "copied i kind"])
      (auto simp: that copied_append intro: image_gpt_ends image_mbr_ends assms split: partition_table.splits)
  show ?thesis
    unfolding image_copy_def Let_def
    by (intro host_step_ends rest) (simp add: copied_def)
qed

text \<open>
  C10: an image action that reports no error has done all it is for: the three payloads
  decoded, the image was downloaded and copied to the disk, a partition table that holds the
  cloud-init partition was written, a file system was made on that very partition, and the
  decoded payloads were written to the paths cloud-init reads.
\<close>

theorem image_do_contract: "ends (image_contract i) [] (image_do corrupt i)"
proof -
  have copy: "ends (image_contract i) h (image_copy i kind (image_cloud_init (img_DiskPath i) m n u))"
    if "base64_decode (img_MetadataContents i) = Some m" "base64_decode (img_NetworkDataContents i) = Some n"
      "base64_decode (img_UserDataContents i) = Some u" "kind \<noteq> Some OtherArchive" for h kind m n u
  proof (rule image_copy_ends)
    fix h t number assume "copied i kind h" "placed_table t number" "step_ok h (WritePartitionTable t)"
    with that show "ends (image_contract i) h (image_cloud_init (img_DiskPath i) m n u number)"
      unfolding copied_def by (intro image_cloud_init_ends) auto
  qed
  show ?thesis
    by (auto simp: image_do_def Let_def image_contract_def copy
        split: option.splits host_answer.splits sum.splits archive.splits)
qed

end
