(* ===== verification/NetworkData.thy ===== *)
theory NetworkData
  imports Agent
begin

text \<open>
  What the provisioner hands to cloud-init: the network data of
  \<^verbatim>\<open>controllers/baremetalinstance/types.go\<close>, built from the instance's endpoints, the metadata
  text and the image request, as \<^verbatim>\<open>controllers/baremetalinstance/provisioner.go\<close> builds them.
\<close>

section \<open>Types\<close>

record NetworkDataLink =
  link_ID :: string
  link_MAC :: string
  link_Type :: string
  link_BondMode :: string
  link_BondMiiMon :: int
  link_BondLinks :: "string slice"

record NetworkDataNetwork =
  net_Link :: string
  net_Type :: string
  net_IPAddress :: string
  net_Netmask :: string
  net_Gateway :: string
  net_Nameservers :: "string slice"
  net_Search :: "string slice"

record NetworkData =
  nd_Links :: "NetworkDataLink list"
  nd_Networks :: "NetworkDataNetwork list"

text \<open>Their JSON tags; \<^verbatim>\<open>omitempty\<close> drops zero numbers and slices without elements too.\<close>

definition json_omitempty_int :: "string \<Rightarrow> int \<Rightarrow> (string \<times> json) list" where
  "json_omitempty_int name i = (if i = 0 then [] else [(name, JNumber (show_int i))])"

definition json_omitempty_list :: "string \<Rightarrow> string slice \<Rightarrow> (string \<times> json) list" where
  "json_omitempty_list name xs =
     (if items xs = [] then [] else [(name, JArray (map JString (items xs)))])"

definition marshal_NetworkDataLink :: "NetworkDataLink \<Rightarrow> json" where
  "marshal_NetworkDataLink l = JObject
     ([(''id'', JString (link_ID l)), (''ethernet_mac_address'', JString (link_MAC l)), (''type'', JString (link_Type l))] @
      json_omitempty ''bond_mode'' (link_BondMode l) @ json_omitempty_int ''bond_miimon'' (link_BondMiiMon l) @
      json_omitempty_list ''bond_links'' (link_BondLinks l))"

definition marshal_NetworkDataNetwork :: "NetworkDataNetwork \<Rightarrow> json" where
  "marshal_NetworkDataNetwork n = JObject
     ([(''link'', JString (net_Link n)), (''type'', JString (net_Type n)), (''ip_address'', JString (net_IPAddress n)),
       (''netmask'', JString (net_Netmask n))] @
      json_omitempty ''gateway'' (net_Gateway n) @ json_omitempty_list ''dns_nameservers'' (net_Nameservers n) @
      json_omitempty_list ''dns_search'' (net_Search n))"

definition marshal_NetworkData :: "NetworkData \<Rightarrow> json" where
  "marshal_NetworkData nd = JObject
     [(''links'', JArray (map marshal_NetworkDataLink (nd_Links nd))),
      (''networks'', JArray (map marshal_NetworkDataNetwork (nd_Networks nd)))]"

section \<open>Building the network data\<close>

text \<open>The loop over the owner references; it has no break.\<close>

fun owned_by :: "string \<Rightarrow> OwnerReference list \<Rightarrow> bool \<Rightarrow> bool" where
  "owned_by uid [] ownedByUs = ownedByUs"
| "owned_by uid (ownerRef # ownerRefs) ownedByUs =
     owned_by uid ownerRefs (if owner_UID ownerRef = uid then True else ownedByUs)"

text \<open>Lines 546 to 571: the links of an endpoint, those of a bond before the bond itself.\<close>

definition bond_link_name :: "string \<Rightarrow> nat \<Rightarrow> string" where
  "bond_link_name linkName i = linkName @ ''-bond-'' @ show_nat i"

fun bond_links :: "string \<Rightarrow> nat \<Rightarrow> string list \<Rightarrow> NetworkDataLink list" where
  "bond_links linkName i [] = []"
| "bond_links linkName i (bondMAC # macs) =
     \<lparr>link_ID = bond_link_name linkName i, link_MAC = bondMAC, link_Type = ''phy'', link_BondMode = [],
      link_BondMiiMon = 0, link_BondLinks = NilSlice\<rparr> # bond_links linkName (Suc i) macs"

definition endpoint_links :: "string \<Rightarrow> BareMetalEndpointSpec \<Rightarrow> NetworkDataLink list" where
  "endpoint_links linkName spec =
     (case bme_Bond spec of
        Some bond \<Rightarrow>
          (let phys = bond_links linkName 0 (items (bme_MACS bond))
           in phys @ [\<lparr>link_ID = linkName, link_MAC = bme_MAC spec, link_Type = ''bond'',
                link_BondMode = bme_BondMode bond, link_BondMiiMon = 100, link_BondLinks = Slice (map link_ID phys)\<rparr>])
      | None \<Rightarrow> [\<lparr>link_ID = linkName, link_MAC = bme_MAC spec, link_Type = ''phy'', link_BondMode = [],
                link_BondMiiMon = 0, link_BondLinks = NilSlice\<rparr>])"

text \<open>Lines 578 to 594.\<close>

definition endpoint_network :: "string \<Rightarrow> bool \<Rightarrow> BareMetalEndpointStatusAddress \<Rightarrow> IPNet \<Rightarrow> NetworkDataNetwork" where
  "endpoint_network linkName primary addr cidrNetwork =
     (let network = \<lparr>net_Link = linkName,
            net_Type = (if IP_To4 (net_IP cidrNetwork) = [] then ''ipv6'' else ''ipv4''),
            net_IPAddress = addr_IP addr, net_Netmask = IP_String (net_Mask cidrNetwork), net_Gateway = [],
            net_Nameservers = NilSlice, net_Search = NilSlice\<rparr>
      in if primary then network\<lparr>net_Gateway := addr_Gateway addr, net_Nameservers := addr_Nameservers addr,
           net_Search := addr_Search addr\<rparr>
         else network)"

text \<open>
  Lines 528 to 598. An endpoint without the label is skipped; a CIDR that does not parse ends
  the reconcile; an endpoint without an address is a nil pointer that is read.
\<close>

datatype built = Built NetworkData | BadAddressCIDR string | NilAddress

fun network_loop ::
  "string \<Rightarrow> BareMetalEndpoint list \<Rightarrow> NetworkDataLink list \<Rightarrow> NetworkDataNetwork list \<Rightarrow> built" where
  "network_loop uid [] networkLinks networks = Built \<lparr>nd_Links = networkLinks, nd_Networks = networks\<rparr>"
| "network_loop uid (bme # bmes) networkLinks networks =
     (if \<not> owned_by uid (OwnerReferences bme) False then network_loop uid bmes networkLinks networks
      else case fmlookup (Labels bme) BareMetalEndpointNICLabel of
        None \<Rightarrow> network_loop uid bmes networkLinks networks
      | Some linkName \<Rightarrow>
          (case bme_Address (bme_Status bme) of
             None \<Rightarrow> NilAddress
           | Some addr \<Rightarrow>
               (case ParseCIDR (addr_CIDR addr) of
                  None \<Rightarrow> BadAddressCIDR (addr_CIDR addr)
                | Some (_, cidrNetwork) \<Rightarrow>
                    network_loop uid bmes (networkLinks @ endpoint_links linkName (bme_Spec bme))
                      (networks @ [endpoint_network linkName (bme_Primary (bme_Spec bme)) addr cidrNetwork]))))"

definition build_network_data :: "BareMetalInstance \<Rightarrow> BareMetalEndpoint list \<Rightarrow> built" where
  "build_network_data bmi bmes = network_loop (UID bmi) bmes [] []"

section \<open>Metadata, user data and the image request\<close>

text \<open>The public key that is written into every metadata file.\<close>

definition rmb938_key :: string where
  "rmb938_key = ''ssh-rsa AAAAB3NzaC1yc2EAAAADAQABAAABgQDGh42fHGzThG+7pA8O6DgSXQYeMHsHMkGVJdZNLvKc43lL2+Ovv8q+fYr2h1TQkHvGb4loRPLfGU6QgF5aJ8gRzwsCyDB58xeakF7otrShhZkLsjws4wKRJuv6svP5zVADSDz4TEEHXNONvoF/KU+PUY4NbS40G6qjlcfSKyp/aHDxtfNY/Q4erh80hYRJjdopA6DHx0UIDR4rSN9mymrVbvoRRnNhHynaUrBPhJ+C7ty7lzg6PhiHr6CK0iCFZHaDobXa9aa7ML1AliXzyB1tOIHU/4mJPXZzvFhmHfM4L+mau32BrxU/W8TwibfenFnaRY1E6ylRdmFDK0U2MdQTDCZDb2F+oGmbcvp8g3BixHL8p7L7yh+D7PuhPsoXKY8W586MZmNlp4MOpPQ8dFd0cCt7X9rc4nmHYtpwRZKyS6+zQRJj9tjAj4/6MzXPrH+AUKdL0pyQkeqUU+32y/LnBskhWjDoq8tg4JsoJtDe2t6XR9KQOWVn/EdNwD+Y9P0=''"

definition quoted :: "string \<Rightarrow> string" where
  "quoted s = [CHR 0x22] @ s @ [CHR 0x22]"

definition metadata_text :: "BareMetalInstance \<Rightarrow> string" where
  "metadata_text bmi =
     [CHR 0x0A] @ ''{'' @ [CHR 0x0A] @
     ''  '' @ quoted ''uuid'' @ '': '' @ quoted (UID bmi) @ '','' @ [CHR 0x0A] @
     ''  '' @ quoted ''public_keys'' @ '': {'' @ [CHR 0x0A] @
     ''    '' @ quoted ''rmb938'' @ '': '' @ quoted rmb938_key @ [CHR 0x0A] @
     ''  },'' @ [CHR 0x0A] @
     ''  '' @ quoted ''hostname'' @ '': '' @ quoted (Name bmi) @ [CHR 0x0A] @
     ''}'' @ [CHR 0x0A]"

text \<open>The raw string literal \<^verbatim>\<open>`#cloud-config\n{}`\<close> holds a backslash and an n, no newline.\<close>

definition userdata_text :: string where
  "userdata_text = ''#cloud-config'' @ [CHR 0x5C] @ ''n{}''"

definition image_url :: string where
  "image_url = ''https://cloud.centos.org/centos/7/images/CentOS-7-x86_64-GenericCloud-2003.raw.tar.gz''"

definition image_request :: "BareMetalInstance \<Rightarrow> BareMetalHardware \<Rightarrow> NetworkData \<Rightarrow> ImageRequest" where
  "image_request bmi bmh nd =
     \<lparr>img_ImageURL = image_url, img_DiskPath = ''/dev/'' @ bmh_ImageDrive (bmh_Spec bmh),
      img_MetadataContents = base64_encode (strings_TrimSpace (metadata_text bmi)),
      img_NetworkDataContents = base64_encode (json_print (marshal_NetworkData nd)),
      img_UserDataContents = base64_encode (strings_TrimSpace userdata_text)\<rparr>"

section \<open>What the network data says\<close>

lemma owned_by_iff: "owned_by uid refs b \<longleftrightarrow> b \<or> (\<exists>r \<in> set refs. owner_UID r = uid)"
  by (induction refs arbitrary: b) auto

text \<open>The endpoints it describes: owned by the instance and labelled with a nic, in their order.\<close>

definition described :: "string \<Rightarrow> BareMetalEndpoint \<Rightarrow> bool" where
  "described uid bme \<longleftrightarrow> (\<exists>r \<in> set (OwnerReferences bme). owner_UID r = uid) \<and>
     fmlookup (Labels bme) BareMetalEndpointNICLabel \<noteq> None"

definition nic_of :: "BareMetalEndpoint \<Rightarrow> string" where
  "nic_of bme = the (fmlookup (Labels bme) BareMetalEndpointNICLabel)"

text \<open>
  A network tells an endpoint's address: its nic and address, the family of the CIDR and its
  mask, and gateway, name servers and search domains for the primary nic only.
\<close>

definition tells_address :: "BareMetalEndpoint \<Rightarrow> NetworkDataNetwork \<Rightarrow> bool" where
  "tells_address bme n \<longleftrightarrow> (\<exists>addr ip cidrNetwork.
     bme_Address (bme_Status bme) = Some addr \<and> ParseCIDR (addr_CIDR addr) = Some (ip, cidrNetwork) \<and>
     net_Link n = nic_of bme \<and> net_IPAddress n = addr_IP addr \<and>
     net_Netmask n = IP_String (net_Mask cidrNetwork) \<and>
     (net_Type n = ''ipv4'' \<longleftrightarrow> IP_To4 (net_IP cidrNetwork) \<noteq> []) \<and>
     (if bme_Primary (bme_Spec bme)
      then net_Gateway n = addr_Gateway addr \<and> net_Nameservers n = addr_Nameservers addr \<and> net_Search n = addr_Search addr
      else net_Gateway n = [] \<and> items (net_Nameservers n) = [] \<and> items (net_Search n) = []))"

text \<open>Every network hangs on a link, and every bond on physical links that are listed.\<close>

definition links_closed :: "NetworkData \<Rightarrow> bool" where
  "links_closed nd \<longleftrightarrow>
     (\<forall>n \<in> set (nd_Networks nd). net_Link n \<in> link_ID ` set (nd_Links nd)) \<and>
     (\<forall>l \<in> set (nd_Links nd). \<forall>b \<in> set (items (link_BondLinks l)).
        \<exists>l' \<in> set (nd_Links nd). link_ID l' = b \<and> link_Type l' = ''phy'')"

lemma bond_links_phy: "l \<in> set (bond_links linkName i macs) \<Longrightarrow> link_Type l = ''phy'' \<and> link_BondLinks l = NilSlice"
  by (induction macs arbitrary: i) auto

lemma endpoint_links_closed:
  "linkName \<in> link_ID ` set (endpoint_links linkName spec)"
  "l \<in> set (endpoint_links linkName spec) \<Longrightarrow> b \<in> set (items (link_BondLinks l)) \<Longrightarrow>
     \<exists>l' \<in> set (endpoint_links linkName spec). link_ID l' = b \<and> link_Type l' = ''phy''"
  by (auto simp: endpoint_links_def Let_def dest: bond_links_phy split: option.splits)
    (blast dest: bond_links_phy)

definition network_data_of :: "BareMetalInstance \<Rightarrow> BareMetalEndpoint list \<Rightarrow> NetworkData \<Rightarrow> bool" where
  "network_data_of bmi bmes nd \<longleftrightarrow>
     list_all2 tells_address (filter (described (UID bmi)) bmes) (nd_Networks nd) \<and>
     nd_Links nd = concat (map (\<lambda>bme. endpoint_links (nic_of bme) (bme_Spec bme)) (filter (described (UID bmi)) bmes)) \<and>
     links_closed nd"

definition has_bad_CIDR :: "string \<Rightarrow> BareMetalEndpoint \<Rightarrow> bool" where
  "has_bad_CIDR t bme \<longleftrightarrow> (\<exists>addr. bme_Address (bme_Status bme) = Some addr \<and> addr_CIDR addr = t) \<and> ParseCIDR t = None"

lemma tells_endpoint_network:
  "bme_Address (bme_Status bme) = Some addr \<Longrightarrow> ParseCIDR (addr_CIDR addr) = Some (ip, cidrNetwork) \<Longrightarrow>
     tells_address bme (endpoint_network (nic_of bme) (bme_Primary (bme_Spec bme)) addr cidrNetwork)"
  by (simp add: tells_address_def endpoint_network_def Let_def)

lemma network_loop_spec:
  assumes "list_all2 tells_address prev networks" "described uid = d"
    and "links = concat (map (\<lambda>bme. endpoint_links (nic_of bme) (bme_Spec bme)) prev)"
  shows "case network_loop uid bmes links networks of
     Built nd \<Rightarrow> list_all2 tells_address (prev @ filter d bmes) (nd_Networks nd) \<and>
       nd_Links nd = concat (map (\<lambda>bme. endpoint_links (nic_of bme) (bme_Spec bme)) (prev @ filter d bmes))
   | BadAddressCIDR t \<Rightarrow> \<exists>bme \<in> set bmes. d bme \<and> has_bad_CIDR t bme
   | NilAddress \<Rightarrow> \<exists>bme \<in> set bmes. d bme \<and> bme_Address (bme_Status bme) = None"
  using assms
proof (induction bmes arbitrary: prev links networks)
  case Nil
  then show ?case by simp
next
  case (Cons bme bmes)
  show ?case
  proof (cases "d bme")
    case False
    then show ?thesis
      using Cons.IH [OF Cons.prems] Cons.prems(2)
      by (auto simp: described_def owned_by_iff split: built.splits option.splits)
  next
    case True
    then have d: "owned_by uid (OwnerReferences bme) False" "fmlookup (Labels bme) BareMetalEndpointNICLabel = Some (nic_of bme)"
      using Cons.prems(2) by (auto simp: described_def owned_by_iff nic_of_def)
    show ?thesis
    proof (cases "bme_Address (bme_Status bme)")
      case None
      then show ?thesis using True d by auto
    next
      case (Some addr)
      note addr = this
      show ?thesis
      proof (cases "ParseCIDR (addr_CIDR addr)")
        case None
        then show ?thesis using True d Some by (auto simp: has_bad_CIDR_def)
      next
        case (Some p)
        obtain ip n where p: "p = (ip, n)" by force
        note tells = tells_endpoint_network [OF addr Some [unfolded p]]
        have "case network_loop uid bmes (links @ endpoint_links (nic_of bme) (bme_Spec bme))
            (networks @ [endpoint_network (nic_of bme) (bme_Primary (bme_Spec bme)) addr n]) of
           Built nd \<Rightarrow> list_all2 tells_address ((prev @ [bme]) @ filter d bmes) (nd_Networks nd) \<and>
             nd_Links nd = concat (map (\<lambda>bme. endpoint_links (nic_of bme) (bme_Spec bme)) ((prev @ [bme]) @ filter d bmes))
         | BadAddressCIDR t \<Rightarrow> \<exists>bme \<in> set bmes. d bme \<and> has_bad_CIDR t bme
         | NilAddress \<Rightarrow> \<exists>bme \<in> set bmes. d bme \<and> bme_Address (bme_Status bme) = None"
          by (rule Cons.IH) (use Cons.prems tells in \<open>auto intro: list_all2_appendI\<close>)
        then show ?thesis
          using True d addr Some p by (auto split: built.splits)
      qed
    qed
  qed
qed

lemma list_all2_right: "list_all2 P xs ys \<Longrightarrow> y \<in> set ys \<Longrightarrow> \<exists>x \<in> set xs. P x y"
  by (induction rule: list_all2_induct) auto

lemma network_data_closed:
  assumes "list_all2 tells_address bmes (nd_Networks nd)"
    and "nd_Links nd = concat (map (\<lambda>bme. endpoint_links (nic_of bme) (bme_Spec bme)) bmes)"
  shows "links_closed nd"
  unfolding links_closed_def
proof (intro conjI ballI)
  fix n assume "n \<in> set (nd_Networks nd)"
  then obtain bme where "bme \<in> set bmes" "tells_address bme n" using list_all2_right [OF assms(1)] by blast
  then show "net_Link n \<in> link_ID ` set (nd_Links nd)"
    using endpoint_links_closed(1) [of "nic_of bme" "bme_Spec bme"] assms(2) by (auto simp: tells_address_def)
next
  fix l b assume "l \<in> set (nd_Links nd)" and b: "b \<in> set (items (link_BondLinks l))"
  then obtain bme where "bme \<in> set bmes" "l \<in> set (endpoint_links (nic_of bme) (bme_Spec bme))"
    using assms(2) by auto
  then show "\<exists>l' \<in> set (nd_Links nd). link_ID l' = b \<and> link_Type l' = ''phy''"
    using endpoint_links_closed(2) [OF _ b] assms(2) by fastforce
qed

lemma build_network_data_Built: "build_network_data bmi bmes = Built nd \<Longrightarrow> network_data_of bmi bmes nd"
  using network_loop_spec [where prev = "[]" and networks = "[]" and links = "[]" and uid = "UID bmi" and bmes = bmes]
  by (auto simp: build_network_data_def network_data_of_def network_data_closed)

text \<open>
  C18: the network data is one network per endpoint the instance owns and a nic label names, in
  the order of the listing, with the endpoint's address and mask and, for the primary nic
  only, gateway and name servers; each network hangs on a link that is listed, and each bond
  on listed physical links. Otherwise there is an owned endpoint whose CIDR does not parse, or
  one without an address, whose nil pointer makes the controller panic.
\<close>

theorem build_network_data_spec:
  "case build_network_data bmi bmes of
     Built nd \<Rightarrow> network_data_of bmi bmes nd
   | BadAddressCIDR t \<Rightarrow> list_ex (\<lambda>bme. described (UID bmi) bme \<and> has_bad_CIDR t bme) bmes
   | NilAddress \<Rightarrow> list_ex (\<lambda>bme. described (UID bmi) bme \<and> bme_Address (bme_Status bme) = None) bmes"
  using network_loop_spec [where prev = "[]" and networks = "[]" and links = "[]" and uid = "UID bmi" and bmes = bmes]
  by (cases "build_network_data bmi bmes")
    (auto simp: build_network_data_Built build_network_data_def list_ex_iff)

section \<open>From the provisioner to the agent\<close>

lemma endpoint_links_miimon: "l \<in> set (endpoint_links linkName spec) \<Longrightarrow> 0 \<le> link_BondMiiMon l"
proof -
  have "l \<in> set (bond_links linkName i macs) \<Longrightarrow> link_BondMiiMon l = 0" for i macs
    by (induction macs arbitrary: i) auto
  then show "l \<in> set (endpoint_links linkName spec) \<Longrightarrow> 0 \<le> link_BondMiiMon l"
    by (force simp: endpoint_links_def Let_def split: option.splits)
qed

lemma json_oks_map: "json_oks (map f xs) \<longleftrightarrow> (\<forall>x \<in> set xs. json_ok (f x))"
  by (induction xs) auto

lemma json_ok_NetworkData:
  assumes "\<forall>l \<in> set (nd_Links nd). 0 \<le> link_BondMiiMon l"
  shows "json_ok (marshal_NetworkData nd)"
proof -
  have "0 \<le> i \<Longrightarrow> show_int i \<in> range show_nat" for i by (simp add: show_int_def)
  with assms show ?thesis
    by (simp add: marshal_NetworkData_def marshal_NetworkDataNetwork_def marshal_NetworkDataLink_def json_oks_map
        json_omitempty_def json_omitempty_list_def json_omitempty_int_def)
qed


end
