(* ===== verification/Admission.thy ===== *)
theory Admission
  imports Program NetIP
begin

text \<open>
  What the five admission webhooks share: the error lists of \<^verbatim>\<open>field.ErrorList\<close>, Go's
  \<^verbatim>\<open>net.ParseMAC\<close>, the loops they have in common, the handlers of \<^verbatim>\<open>webhook/admission\<close> that call
  them, and, as a locale, what follows for an object from a law that every accepted update
  keeps.
\<close>

section \<open>Field errors\<close>

datatype field_error =
    Invalid string string string
  | Duplicate string string
  | Forbidden string string
  | Required string string
  | InternalError string string

text \<open>\<^verbatim>\<open>Path.Child\<close> and \<^verbatim>\<open>Path.Index\<close>, as the path is printed.\<close>

definition child :: "string \<Rightarrow> string \<Rightarrow> string" where
  "child path name = path @ ''.'' @ name"

definition index :: "string \<Rightarrow> nat \<Rightarrow> string" where
  "index path i = path @ ''['' @ show_nat i @ '']''"

text \<open>
  What a validation returns: nil, or \<^verbatim>\<open>apierrors.NewInvalid\<close> with kind and name of the object.
\<close>

datatype validation = NoError | NewInvalid string string "field_error list"

definition verdict :: "'a ObjectMeta_scheme \<Rightarrow> field_error list \<Rightarrow> validation" where
  "verdict r allErrs = (if length allErrs = 0 then NoError else NewInvalid (Kind r) (Name r) allErrs)"

lemma verdict_NoError [simp]: "verdict r errs = NoError \<longleftrightarrow> errs = []"
  by (simp add: verdict_def)

section \<open>MAC addresses\<close>

text \<open>
  \<^verbatim>\<open>xtoi2\<close>: two hex digits, then the end of the string or the given character.
\<close>

definition xtoi2 :: "string \<Rightarrow> char \<Rightarrow> byte option" where
  "xtoi2 s e =
     (if length s > 2 \<and> s ! 2 \<noteq> e then None
      else let (n, ei, ok) = xtoi (take 2 s) in if ok \<and> ei = 2 then Some (of_nat n) else None)"

text \<open>The loops over the bytes: groups of two digits, or of four after a dot.\<close>

fun mac_pairs :: "nat \<Rightarrow> string \<Rightarrow> char \<Rightarrow> byte list option" where
  "mac_pairs 0 s e = Some []"
| "mac_pairs (Suc n) s e = (case xtoi2 s e of
     None \<Rightarrow> None
   | Some b \<Rightarrow> map_option (\<lambda>bs. b # bs) (mac_pairs n (drop 3 s) e))"

fun mac_quads :: "nat \<Rightarrow> string \<Rightarrow> char \<Rightarrow> byte list option" where
  "mac_quads 0 s e = Some []"
| "mac_quads (Suc n) s e = (case xtoi2 (take 2 s) (CHR 0x00) of
     None \<Rightarrow> None
   | Some a \<Rightarrow> (case xtoi2 (drop 2 s) e of
       None \<Rightarrow> None
     | Some b \<Rightarrow> map_option (\<lambda>bs. a # b # bs) (mac_quads n (drop 5 s) e)))"

definition ParseMAC :: "string \<Rightarrow> byte list option" where
  "ParseMAC s =
     (if length s < 14 then None
      else if s ! 2 = CHR '':'' \<or> s ! 2 = CHR ''-'' then
        (let n = (length s + 1) div 3 in
         if (length s + 1) mod 3 \<noteq> 0 \<or> n \<noteq> 6 \<and> n \<noteq> 8 \<and> n \<noteq> 20 then None else mac_pairs n s (s ! 2))
      else if s ! 4 = CHR ''.'' then
        (let n = 2 * (length s + 1) div 5 in
         if (length s + 1) mod 5 \<noteq> 0 \<or> n \<noteq> 6 \<and> n \<noteq> 8 \<and> n \<noteq> 20 then None else mac_quads (n div 2) s (s ! 4))
      else None)"

text \<open>The text of its error.\<close>

definition mac_error :: "string \<Rightarrow> string" where
  "mac_error s = (if s = [] then [] else ''address '' @ s @ '': '') @ ''invalid MAC address''"

lemma mac_pairs_length: "mac_pairs n s e = Some bs \<Longrightarrow> length bs = n"
  by (induction n s e arbitrary: bs rule: mac_pairs.induct) (auto split: option.splits)

lemma mac_quads_length: "mac_quads n s e = Some bs \<Longrightarrow> length bs = 2 * n"
  by (induction n s e arbitrary: bs rule: mac_quads.induct) (auto split: option.splits)

lemma ParseMAC_length: "ParseMAC s = Some bs \<Longrightarrow> length bs \<in> {6, 8, 20}"
  by (auto simp: ParseMAC_def Let_def dest!: mac_pairs_length mac_quads_length split: if_splits)

section \<open>Loops the webhooks share\<close>

text \<open>One error for every earlier name that is the same.\<close>

fun earlier_duplicates :: "field_error \<Rightarrow> string \<Rightarrow> string list \<Rightarrow> field_error list" where
  "earlier_duplicates err name [] = []"
| "earlier_duplicates err name (existingName # names) =
     (if existingName = name then err # earlier_duplicates err name names else earlier_duplicates err name names)"

text \<open>One error for every other position \<open>j\<close> with the same entry as position \<open>i\<close>.\<close>

fun other_duplicates :: "field_error \<Rightarrow> nat \<Rightarrow> string \<Rightarrow> nat \<Rightarrow> string list \<Rightarrow> field_error list" where
  "other_duplicates err i x j [] = []"
| "other_duplicates err i x j (y # ys) =
     (if i = j then other_duplicates err i x (Suc j) ys
      else if x = y then err # other_duplicates err i x (Suc j) ys
      else other_duplicates err i x (Suc j) ys)"

text \<open>The conditions of the old object that the new one lacks.\<close>

fun removed_conditions :: "'a StatusConditions_scheme \<Rightarrow> StatusCondition list \<Rightarrow> field_error list" where
  "removed_conditions st [] = []"
| "removed_conditions st (cond # conds) =
     (if GetCondition st (cond_Type cond) = None
      then Forbidden ''status.conditions'' ''Cannot remove conditions'' # removed_conditions st conds
      else removed_conditions st conds)"

text \<open>The finalizer every defaulter but the one of the discoveries adds.\<close>

definition add_finalizer :: "string \<Rightarrow> 'a ObjectMeta_scheme \<Rightarrow> 'a ObjectMeta_scheme" where
  "add_finalizer finalizer r =
     (if IsZero (DeletionTimestamp r) then
        (if HasFinalizer r finalizer = False then r\<lparr>Finalizers := Finalizers r @ [finalizer]\<rparr> else r)
      else r)"

lemma earlier_duplicates_Nil [simp]: "earlier_duplicates err name names = [] \<longleftrightarrow> name \<notin> set names"
  by (induction names) auto

lemma other_duplicates_Nil:
  "other_duplicates err i x j ys = [] \<longleftrightarrow> (\<forall>k < length ys. j + k \<noteq> i \<longrightarrow> ys ! k \<noteq> x)"
proof (induction ys arbitrary: j)
  case (Cons y ys)
  have "(\<forall>k < length (y # ys). j + k \<noteq> i \<longrightarrow> (y # ys) ! k \<noteq> x) \<longleftrightarrow>
      (j \<noteq> i \<longrightarrow> y \<noteq> x) \<and> (\<forall>k < length ys. Suc j + k \<noteq> i \<longrightarrow> ys ! k \<noteq> x)"
    by (simp add: All_less_Suc2)
  with Cons.IH [of "Suc j"] show ?case by auto
qed simp

lemma removed_conditions_Nil [simp]:
  "removed_conditions st conds = [] \<longleftrightarrow> (\<forall>cond \<in> set conds. GetCondition st (cond_Type cond) \<noteq> None)"
  by (induction conds) auto

lemma add_finalizer_has [simp]:
  "HasFinalizer (add_finalizer f r) g \<longleftrightarrow> HasFinalizer r g \<or> g = f \<and> IsZero (DeletionTimestamp r)"
  by (auto simp: add_finalizer_def HasFinalizer_def)

section \<open>The handlers\<close>

text \<open>
  \<^verbatim>\<open>webhook/admission/validator.go\<close> and \<^verbatim>\<open>defaulter.go\<close>. Decoding a request and encoding an object
  are the controller runtime's, parameters here. A validation may ask the API server, so a
  handler is a tree of calls.
\<close>

datatype operation = OpCreate | OpUpdate | OpDelete | OpConnect

record 'raw admission_request =
  req_Operation :: operation
  req_Object :: 'raw
  req_OldObject :: 'raw

datatype 'raw admission_response = Allowed | Denied validation | Errored int string | PatchResponse 'raw 'raw

record 'o validator =
  ValidateCreate :: "'o \<Rightarrow> validation prog"
  ValidateUpdate :: "'o \<Rightarrow> 'o \<Rightarrow> validation"
  ValidateDelete :: "'o \<Rightarrow> validation"

definition answer_to :: "validation \<Rightarrow> 'raw admission_response" where
  "answer_to v = (if v \<noteq> NoError then Denied v else Allowed)"

definition validating_Handle ::
  "('raw \<Rightarrow> string + 'o) \<Rightarrow> 'o validator option \<Rightarrow> 'raw admission_request \<Rightarrow> 'raw admission_response prog" where
  "validating_Handle decode v req =
     (case v of
        None \<Rightarrow> Panic ''validator should never be nil''
      | Some v \<Rightarrow>
          (case req_Operation req of
             OpCreate \<Rightarrow>
               (case decode (req_Object req) of
                  Inl err \<Rightarrow> Ret (Errored 400 err)
                | Inr obj \<Rightarrow> and_then (ValidateCreate v obj) (\<lambda>r. Ret (answer_to r)))
           | OpUpdate \<Rightarrow>
               (case decode (req_Object req) of
                  Inl err \<Rightarrow> Ret (Errored 400 err)
                | Inr obj \<Rightarrow>
                    (case decode (req_OldObject req) of
                       Inl err \<Rightarrow> Ret (Errored 400 err)
                     | Inr oldObj \<Rightarrow> Ret (answer_to (ValidateUpdate v obj oldObj))))
           | OpDelete \<Rightarrow>
               (case decode (req_OldObject req) of
                  Inl err \<Rightarrow> Ret (Errored 400 err)
                | Inr obj \<Rightarrow> Ret (answer_to (ValidateDelete v obj)))
           | OpConnect \<Rightarrow> Ret Allowed))"

definition mutating_Handle ::
  "('raw \<Rightarrow> string + 'o) \<Rightarrow> ('o \<Rightarrow> string + 'raw) \<Rightarrow> ('o \<Rightarrow> 'o) option \<Rightarrow> 'raw admission_request \<Rightarrow>
   'raw admission_response prog" where
  "mutating_Handle decode marshal d req =
     (case d of
        None \<Rightarrow> Panic ''defaulter should never be nil''
      | Some Default \<Rightarrow>
          (case decode (req_Object req) of
             Inl err \<Rightarrow> Ret (Errored 400 err)
           | Inr obj \<Rightarrow>
               (case marshal (Default obj) of
                  Inl err \<Rightarrow> Ret (Errored 500 err)
                | Inr marshalled \<Rightarrow> Ret (PatchResponse (req_Object req) marshalled))))"

lemma answer_to_Allowed [simp]: "answer_to v = Allowed \<longleftrightarrow> v = NoError"
  by (simp add: answer_to_def)

section \<open>Laws of the updates\<close>

text \<open>
  What clients of the API rely on: a relation that every accepted update keeps between the old
  and the new object holds between an object and everything it is ever updated to.
\<close>

locale update_law =
  fixes update :: "'o \<Rightarrow> 'o \<Rightarrow> validation"
    and keeps :: "'o \<Rightarrow> 'o \<Rightarrow> bool"
  assumes keeps_refl: "keeps old old"
    and keeps_trans: "keeps old mid \<Longrightarrow> keeps mid new \<Longrightarrow> keeps old new"
    and accepted_keeps: "update new old = NoError \<Longrightarrow> keeps old new"
begin

lemma always_keeps: "(\<lambda>old new. update new old = NoError)\<^sup>*\<^sup>* old new \<Longrightarrow> keeps old new"
  by (induction rule: rtranclp_induct) (blast intro: keeps_refl keeps_trans accepted_keeps)+

end

text \<open>A field that no update may change.\<close>

locale frozen_field =
  fixes update :: "'o \<Rightarrow> 'o \<Rightarrow> validation"
    and view :: "'o \<Rightarrow> 'f"
  assumes frozen: "update new old = NoError \<Longrightarrow> view new = view old"
begin

lemma frozen_denied: "view new \<noteq> view old \<Longrightarrow> update new old \<noteq> NoError"
  using frozen by blast

end

sublocale frozen_field \<subseteq> law: update_law update "\<lambda>old new. view new = view old"
  by unfold_locales (auto dest: frozen)

context frozen_field begin

lemma frozen_forever: "(\<lambda>old new. update new old = NoError)\<^sup>*\<^sup>* old new \<Longrightarrow> view new = view old"
  by (rule law.always_keeps)

end

end
