(* ===== verification/Webhooks.thy ===== *)
theory Webhooks
  imports Admission
begin

text \<open>
  The admission webhooks of \<^verbatim>\<open>webhooks/\<close>: defaults and validations of the five kinds. Whether a
  quantity is zero is Kubernetes' to say, a parameter; quantities are compared by their
  canonical text. Deletion is always allowed.
\<close>

definition no_validation :: "'o \<Rightarrow> validation" where
  "no_validation r = NoError"

section \<open>Discovered hardware\<close>

fun storage_errors :: "string \<Rightarrow> nat \<Rightarrow> string list \<Rightarrow> BareMetalDiscoveryHardwareStorage list \<Rightarrow> field_error list" where
  "storage_errors startPath i storageNames [] = []"
| "storage_errors startPath i storageNames (storage # storages) =
     earlier_duplicates
       (Duplicate (child (index (child (child startPath ''hardware'') ''storage'') i) ''mac'') (storage_Name storage))
       (storage_Name storage) storageNames @
     storage_errors startPath (Suc i) (storageNames @ [storage_Name storage]) storages"

fun nic_errors :: "string \<Rightarrow> nat \<Rightarrow> string list \<Rightarrow> BareMetalDiscoveryHardwareNIC list \<Rightarrow> field_error list" where
  "nic_errors startPath i nicNames [] = []"
| "nic_errors startPath i nicNames (nic # nics) =
     (let path = child (index (child (child startPath ''hardware'') ''nics'') i) ''mac'' in
      (if ParseMAC (hwnic_MAC nic) = None then [Invalid path (hwnic_MAC nic) (mac_error (hwnic_MAC nic))] else []) @
      earlier_duplicates (Duplicate path (hwnic_Name nic)) (hwnic_Name nic) nicNames @
      nic_errors startPath (Suc i) (nicNames @ [hwnic_Name nic]) nics)"

definition validateHardware ::
  "(Quantity \<Rightarrow> bool) \<Rightarrow> BareMetalDiscoveryHardware \<Rightarrow> string \<Rightarrow> field_error list" where
  "validateHardware is_zero hardware startPath =
     (if is_zero (cpu_CPUS (hw_CPU hardware)) then
        [Invalid (child (child (child startPath ''hardware'') ''cpu'') ''cpus'') (cpu_CPUS (hw_CPU hardware))
           ''CPU quantity cannot be zero''] else []) @
     (if is_zero (hw_Ram hardware) then
        [Invalid (child (child startPath ''hardware'') ''ram'') (hw_Ram hardware) ''Memory quantity cannot be zero'']
      else []) @
     storage_errors startPath 0 [] (items (hw_Storage hardware)) @
     nic_errors startPath 0 [] (items (hw_NICS hardware))"

section \<open>Discoveries\<close>

definition systemUUID_path :: string where
  "systemUUID_path = child ''spec'' ''systemUUID''"

text \<open>One listing by system UUID: an error of the client, an object that is already there.\<close>

definition existing_errors :: "string \<Rightarrow> go_error + 'a list \<Rightarrow> field_error list" where
  "existing_errors uuid r =
     (case r of
        Inl err \<Rightarrow> [InternalError systemUUID_path (err_Text err)]
      | Inr existing \<Rightarrow> if length existing > 0 then [Duplicate systemUUID_path uuid] else [])"

text \<open>The second listing is meant to be one of hardware, but is one of discoveries again.\<close>

definition BMD_ValidateCreate :: "(Quantity \<Rightarrow> bool) \<Rightarrow> BareMetalDiscovery \<Rightarrow> validation prog" where
  "BMD_ValidateCreate is_zero r =
     (let uuid = bmd_SystemUUID (bmd_Spec r); existing = ListBMD [MatchingFields ''spec.systemUUID'' uuid] in
      Call existing (\<lambda>a. Call existing (\<lambda>b.
        Ret (verdict r
          (existing_errors uuid (as_BMDs a) @ existing_errors uuid (as_BMDs b) @
           (case bmd_Hardware (bmd_Status r) of
              None \<Rightarrow> [] | Some hardware \<Rightarrow> validateHardware is_zero hardware ''status''))))))"

definition BMD_ValidateUpdate :: "(Quantity \<Rightarrow> bool) \<Rightarrow> BareMetalDiscovery \<Rightarrow> BareMetalDiscovery \<Rightarrow> validation" where
  "BMD_ValidateUpdate is_zero r oldBMD = verdict r
     ((if bmd_SystemUUID (bmd_Spec r) \<noteq> bmd_SystemUUID (bmd_Spec oldBMD)
       then [Forbidden systemUUID_path ''Cannot change the discovery system uuid''] else []) @
      (if bmd_Hardware (bmd_Status oldBMD) \<noteq> None \<and> bmd_Hardware (bmd_Status r) \<noteq> bmd_Hardware (bmd_Status oldBMD)
       then [Forbidden (child ''status'' ''hardware'') ''Cannot change the discovery hardware''] else []) @
      (if bmd_Hardware (bmd_Status oldBMD) = None then
         (case bmd_Hardware (bmd_Status r) of
            None \<Rightarrow> [] | Some hardware \<Rightarrow> validateHardware is_zero hardware ''status'')
       else []))"

definition BMD_Default :: "BareMetalDiscovery \<Rightarrow> BareMetalDiscovery" where
  "BMD_Default r = r"

section \<open>Hardware\<close>

text \<open>The bond is a pointer, so writing its mode through the loop variable changes the object.\<close>

fun default_modes :: "BareMetalHardwareNIC list \<Rightarrow> BareMetalHardwareNIC list" where
  "default_modes [] = []"
| "default_modes (nic # nics) =
     (case nic_Bond nic of
        None \<Rightarrow> nic
      | Some bond \<Rightarrow>
          if length (bond_Mode bond) = 0 then nic\<lparr>nic_Bond := Some (bond\<lparr>bond_Mode := BondModeActiveBackup\<rparr>)\<rparr> else nic)
     # default_modes nics"

definition BMH_Default :: "BareMetalHardware \<Rightarrow> BareMetalHardware" where
  "BMH_Default r =
     (let r' = add_finalizer BareMetalHardwareFinalizer r in
      if IsZero (DeletionTimestamp r)
      then r'\<lparr>bmh_Spec := (bmh_Spec r')\<lparr>bmh_NICS := default_modes (bmh_NICS (bmh_Spec r'))\<rparr>\<rparr> else r')"

fun is_duplicate :: "string \<Rightarrow> string list \<Rightarrow> bool \<Rightarrow> bool" where
  "is_duplicate name [] duplicateNIC = duplicateNIC"
| "is_duplicate name (foundNIC # foundNICS) duplicateNIC =
     is_duplicate name foundNICS (if name = foundNIC then True else duplicateNIC)"

fun validateNICs_loop ::
  "nat \<Rightarrow> bool \<Rightarrow> string list \<Rightarrow> BareMetalHardwareNIC list \<Rightarrow> field_error list \<times> bool" where
  "validateNICs_loop i foundPrimary foundNICS [] = ([], foundPrimary)"
| "validateNICs_loop i foundPrimary foundNICS (nic # nics) =
     (let path = index (child ''spec'' ''nics'') i in
      if is_duplicate (nic_Name nic) foundNICS False then
        (let (errs, p) = validateNICs_loop (Suc i) foundPrimary foundNICS nics
         in (Duplicate path ''cannot define nics multiple times'' # errs, p))
      else if nic_Primary nic then
        (let (errs, p) = validateNICs_loop (Suc i) True (foundNICS @ [nic_Name nic]) nics
         in (if foundPrimary then Duplicate path ''cannot have multiple primary nics'' # errs else errs, p))
      else validateNICs_loop (Suc i) foundPrimary (foundNICS @ [nic_Name nic]) nics)"

definition validateNICs :: "BareMetalHardware \<Rightarrow> field_error list" where
  "validateNICs bmh =
     (if length (bmh_NICS (bmh_Spec bmh)) > 0 then
        (let (errs, foundPrimary) = validateNICs_loop 0 False [] (bmh_NICS (bmh_Spec bmh))
         in errs @ (if \<not> foundPrimary then [Required (child ''spec'' ''nics'') ''no primary nic found''] else []))
      else [])"

definition BMH_ValidateCreate :: "BareMetalHardware \<Rightarrow> validation prog" where
  "BMH_ValidateCreate r =
     (let uuid = bmh_SystemUUID (bmh_Spec r) in
      Call (ListBMH [MatchingFields ''spec.systemUUID'' uuid]) (\<lambda>a.
        Ret (verdict r
          (existing_errors uuid (as_BMHs a) @
           (if bmh_Hardware (bmh_Status r) \<noteq> None
            then [Forbidden (child ''status'' ''hardware'') ''Cannot have hardware set when creating''] else []) @
           (if bmh_InstanceRef (bmh_Status r) \<noteq> None
            then [Forbidden (child ''status'' ''instanceRef'') ''Cannot have instanceRef set when creating''] else []) @
           validateNICs r))))"

definition BMH_ValidateUpdate :: "(Quantity \<Rightarrow> bool) \<Rightarrow> BareMetalHardware \<Rightarrow> BareMetalHardware \<Rightarrow> validation" where
  "BMH_ValidateUpdate is_zero r oldBMH = verdict r
     (removed_conditions (bmh_Status r) (GetConditions (bmh_Status oldBMH)) @
      (if bmh_SystemUUID (bmh_Spec r) \<noteq> bmh_SystemUUID (bmh_Spec oldBMH)
       then [Forbidden systemUUID_path ''Cannot change the system uuid''] else []) @
      (case bmh_Hardware (bmh_Status oldBMH) of
         None \<Rightarrow> []
       | Some hardware \<Rightarrow>
           if bmh_Hardware (bmh_Status r) \<noteq> Some hardware
           then [Forbidden (child ''status'' ''hardware'') ''Cannot change the hardware'']
           else validateHardware is_zero hardware ''status'') @
      validateNICs r)"

section \<open>Instances\<close>

definition BMI_Default :: "BareMetalInstance \<Rightarrow> BareMetalInstance" where
  "BMI_Default r = add_finalizer BareMetalInstanceFinalizer r"

definition BMI_ValidateCreate :: "BareMetalInstance \<Rightarrow> validation" where
  "BMI_ValidateCreate r = verdict r
     ((if length (bmi_HardwareName (bmi_Status r)) > 0
       then [Forbidden (child ''status'' ''hardwareName'') ''Cannot set hardware name during creation''] else []) @
      (if bmi_AgentInfo (bmi_Status r) \<noteq> None
       then [Forbidden (child ''status'' ''agentInfo'') ''Cannot set agentInfo during creation''] else []))"

definition empty_phase_errors :: "string \<Rightarrow> string \<Rightarrow> field_error list" where
  "empty_phase_errors phase oldPhase =
     (if length oldPhase > 0 \<and> length phase = 0
      then [Forbidden (child ''status'' ''phase'') ''Cannot set phase to empty string''] else [])"

definition agent_info_errors :: "BareMetalInstanceStatus \<Rightarrow> field_error list" where
  "agent_info_errors st =
     (case bmi_AgentInfo st of
        None \<Rightarrow> []
      | Some info \<Rightarrow>
          (if bmi_Phase st \<noteq> PhaseProvisioning \<and> bmi_Phase st \<noteq> PhaseCleaning
           then [Forbidden (child ''status'' ''agentInfo'') ''Cannot set agentInfo during the current phase''] else []) @
          (if ParseIP (agent_IP info) = []
           then [Invalid (child (child ''status'' ''agentInfo'') ''ip'') (agent_IP info) ''invalid agent ip''] else []))"

definition BMI_ValidateUpdate :: "BareMetalInstance \<Rightarrow> BareMetalInstance \<Rightarrow> validation" where
  "BMI_ValidateUpdate r oldBMI = verdict r
     (empty_phase_errors (bmi_Phase (bmi_Status r)) (bmi_Phase (bmi_Status oldBMI)) @
      removed_conditions (bmi_Status r) (GetConditions (bmi_Status oldBMI)) @
      (if bmi_Selector (bmi_Spec r) \<noteq> bmi_Selector (bmi_Spec oldBMI)
       then [Forbidden (child ''spec'' ''selector'') ''Cannot change the selector''] else []) @
      (if bmi_Tolerations (bmi_Spec r) \<noteq> bmi_Tolerations (bmi_Spec oldBMI)
       then [Forbidden (child ''spec'' ''tolerations'') ''Cannot change the tolerations''] else []) @
      agent_info_errors (bmi_Status r) @
      (if IsZero (DeletionTimestamp r) \<and> length (bmi_HardwareName (bmi_Status oldBMI)) > 0 \<and>
          bmi_HardwareName (bmi_Status r) \<noteq> bmi_HardwareName (bmi_Status oldBMI)
       then [Forbidden (child ''status'' ''hardwareName'') ''Cannot change the scheduled hardware name''] else []))"

section \<open>Endpoints\<close>

definition BME_Default :: "BareMetalEndpoint \<Rightarrow> BareMetalEndpoint" where
  "BME_Default r = add_finalizer BareMetalEndpointFinalizer r"

fun bond_mac_errors :: "nat \<Rightarrow> string list \<Rightarrow> string list \<Rightarrow> field_error list" where
  "bond_mac_errors i all_macs [] = []"
| "bond_mac_errors i all_macs (mac # macs) =
     (let path = index (child (child ''spec'' ''bond'') ''macs'') i in
      (if ParseMAC mac = None then [Invalid path mac (mac_error mac)] else []) @
      other_duplicates (Duplicate path ''duplicate bond mac'') i mac 0 all_macs @
      bond_mac_errors (Suc i) all_macs macs)"

definition BME_ValidateCreate :: "BareMetalEndpoint \<Rightarrow> validation" where
  "BME_ValidateCreate r = verdict r
     ((if bme_Address (bme_Status r) \<noteq> None
       then [Forbidden (child ''status'' ''address'') ''Cannot have address set when creating''] else []) @
      (case bme_Bond (bme_Spec r) of
         None \<Rightarrow> [] | Some bond \<Rightarrow> bond_mac_errors 0 (items (bme_MACS bond)) (items (bme_MACS bond))) @
      (if ParseMAC (bme_MAC (bme_Spec r)) = None
       then [Invalid (child ''spec'' ''mac'') (bme_MAC (bme_Spec r)) (mac_error (bme_MAC (bme_Spec r)))] else []))"

text \<open>
  An address that must parse and lie in the network: start, end, gateway and the endpoint's
  own. The network is nil when its CIDR does not parse.
\<close>

definition address_errors :: "IPNet option \<Rightarrow> string \<Rightarrow> string \<Rightarrow> string \<Rightarrow> string \<Rightarrow> string \<Rightarrow> field_error list" where
  "address_errors network ip path value bad outside =
     (if ParseIP ip = [] then [Invalid path value bad]
      else case network of
        None \<Rightarrow> []
      | Some network \<Rightarrow> if \<not> IPNet_Contains network (ParseIP ip) then [Invalid path value outside] else [])"

text \<open>
  The name servers. The endpoint webhook compares the 16 bytes of \<^verbatim>\<open>ParseIP\<close> with the length of
  the network's address, the network webhook first shortens them (\<open>shorten\<close>).
\<close>

fun nameserver_errors ::
  "(IP \<Rightarrow> IP) \<Rightarrow> (string \<Rightarrow> string \<Rightarrow> field_error) \<Rightarrow> IP \<Rightarrow> string \<Rightarrow> nat \<Rightarrow> string list \<Rightarrow> string list \<Rightarrow> field_error list" where
  "nameserver_errors shorten dup networkIP path i all_ns [] = []"
| "nameserver_errors shorten dup networkIP path i all_ns (ns # nss) =
     (let p = index path i; nsIP = ParseIP ns in
      (if nsIP = [] then [Invalid p ns ''invalid nameserver address'']
       else if networkIP \<noteq> [] \<and> length networkIP \<noteq> length (shorten nsIP)
       then [Invalid p ns ''nameserver ip version is different then cidr ip version''] else []) @
      other_duplicates (dup p ns) i ns 0 all_ns @
      nameserver_errors shorten dup networkIP path (Suc i) all_ns nss)"

definition shorten4 :: "IP \<Rightarrow> IP" where
  "shorten4 nsIP = (if IP_To4 nsIP \<noteq> [] then IP_To4 nsIP else nsIP)"

definition network_ip :: "(IP \<times> IPNet) option \<Rightarrow> IP" where
  "network_ip cidr = (case cidr of None \<Rightarrow> [] | Some (cidrIP, network) \<Rightarrow> IP_Mask cidrIP (net_Mask network))"

definition endpoint_address_errors :: "BareMetalEndpointStatusAddress \<Rightarrow> field_error list" where
  "endpoint_address_errors a =
     (let path = child ''status'' ''address''; cidr = ParseCIDR (addr_CIDR a); network = map_option snd cidr in
      (if cidr = None then [Invalid (child path ''cidr'') (addr_CIDR a) (''invalid cidr address invalid CIDR address: '' @ addr_CIDR a)]
       else []) @
      address_errors network (addr_IP a) (child path ''ip'') (addr_IP a) ''invalid ip address'' ''ip is not in cidr'' @
      address_errors network (addr_Gateway a) (child path ''gateway'') (addr_Gateway a)
        ''invalid gateway address'' ''gateway is not in cidr'' @
      nameserver_errors (\<lambda>ip. ip) (\<lambda>p ns. Duplicate p ''duplicate nameserver'') (network_ip cidr)
        (child path ''nameservers'') 0 (items (addr_Nameservers a)) (items (addr_Nameservers a)))"

definition BME_ValidateUpdate :: "BareMetalEndpoint \<Rightarrow> BareMetalEndpoint \<Rightarrow> validation" where
  "BME_ValidateUpdate r oldBME = verdict r
     (empty_phase_errors (bme_Phase (bme_Status r)) (bme_Phase (bme_Status oldBME)) @
      removed_conditions (bme_Status r) (GetConditions (bme_Status oldBME)) @
      (if bme_MAC (bme_Spec r) \<noteq> bme_MAC (bme_Spec oldBME)
       then [Forbidden (child ''spec'' ''mac'') ''Cannot change the mac''] else []) @
      (if bme_Bond (bme_Spec r) \<noteq> bme_Bond (bme_Spec oldBME)
       then [Forbidden (child ''spec'' ''bond'') ''Cannot change the bond''] else []) @
      (if bme_NetworkRef (bme_Spec r) \<noteq> bme_NetworkRef (bme_Spec oldBME)
       then [Forbidden (child ''spec'' ''networkRef'') ''Cannot change the networkRef''] else []) @
      (case bme_Address (bme_Status r) of
         None \<Rightarrow> []
       | Some a \<Rightarrow>
           if bme_Address (bme_Status r) \<noteq> bme_Address (bme_Status oldBME)
           then [Forbidden (child ''status'' ''address'') ''Cannot change the address'']
           else endpoint_address_errors a))"

section \<open>Networks\<close>

definition BMN_Default :: "BareMetalNetwork \<Rightarrow> BareMetalNetwork" where
  "BMN_Default r = add_finalizer BareMetalNetworkFinalizer r"

definition network_errors :: "BareMetalNetworkSpec \<Rightarrow> field_error list" where
  "network_errors spec =
     (let cidr = ParseCIDR (bmn_CIDR spec); network = map_option snd cidr;
          start = ParseIP (bmn_Start spec); end_ip = ParseIP (bmn_End spec) in
      (if cidr = None then [Invalid (child ''spec'' ''cidr'') (bmn_CIDR spec) ''invalid cidr''] else []) @
      address_errors network (bmn_Start spec) (child ''spec'' ''start'') (bmn_Start spec)
        ''invalid start address'' ''start address is not in cidr'' @
      (if end_ip = [] then [Invalid (child ''spec'' ''start'') (bmn_End spec) ''invalid end address'']
       else case network of
         None \<Rightarrow> []
       | Some network \<Rightarrow> if \<not> IPNet_Contains network end_ip
           then [Invalid (child ''spec'' ''end'') (bmn_End spec) ''end address is not in cidr''] else []) @
      (if start \<noteq> [] \<and> end_ip \<noteq> [] \<and> bytes_Compare start end_ip \<ge> 0
       then [Invalid (child ''spec'' ''start'') (bmn_Start spec) ''start address must be greater then end address'']
       else []) @
      address_errors network (bmn_Gateway spec) (child ''spec'' ''gateway'') (bmn_End spec)
        ''invalid gateway address'' ''gateway address is not in cidr'' @
      nameserver_errors shorten4 (\<lambda>p ns. Invalid p ns ''duplicate nameserver'') (network_ip cidr)
        (child ''spec'' ''nameservers'') 0 (items (bmn_Nameservers spec)) (items (bmn_Nameservers spec)))"

definition BMN_ValidateCreate :: "BareMetalNetwork \<Rightarrow> validation" where
  "BMN_ValidateCreate r = verdict r (network_errors (bmn_Spec r))"

definition BMN_ValidateUpdate :: "BareMetalNetwork \<Rightarrow> BareMetalNetwork \<Rightarrow> validation" where
  "BMN_ValidateUpdate r oldBMN = verdict r
     (if bmn_Spec r \<noteq> bmn_Spec oldBMN then [Forbidden ''spec'' ''Cannot change the spec''] else [])"

section \<open>The webhooks as validators\<close>

definition BareMetalDiscoveryWebhook :: "(Quantity \<Rightarrow> bool) \<Rightarrow> BareMetalDiscovery validator" where
  "BareMetalDiscoveryWebhook is_zero =
     \<lparr>ValidateCreate = BMD_ValidateCreate is_zero, ValidateUpdate = BMD_ValidateUpdate is_zero, ValidateDelete = no_validation\<rparr>"

definition BareMetalHardwareWebhook :: "(Quantity \<Rightarrow> bool) \<Rightarrow> BareMetalHardware validator" where
  "BareMetalHardwareWebhook is_zero =
     \<lparr>ValidateCreate = BMH_ValidateCreate, ValidateUpdate = BMH_ValidateUpdate is_zero, ValidateDelete = no_validation\<rparr>"

definition BareMetalInstanceWebhook :: "BareMetalInstance validator" where
  "BareMetalInstanceWebhook =
     \<lparr>ValidateCreate = (\<lambda>r. Ret (BMI_ValidateCreate r)), ValidateUpdate = BMI_ValidateUpdate, ValidateDelete = no_validation\<rparr>"

definition BareMetalEndpointWebhook :: "BareMetalEndpoint validator" where
  "BareMetalEndpointWebhook =
     \<lparr>ValidateCreate = (\<lambda>r. Ret (BME_ValidateCreate r)), ValidateUpdate = BME_ValidateUpdate,
      ValidateDelete = no_validation\<rparr>"

definition BareMetalNetworkWebhook :: "BareMetalNetwork validator" where
  "BareMetalNetworkWebhook =
     \<lparr>ValidateCreate = (\<lambda>r. Ret (BMN_ValidateCreate r)), ValidateUpdate = BMN_ValidateUpdate, ValidateDelete = no_validation\<rparr>"

end
