(* ===== verification/EndpointNetwork.thy ===== *)
theory EndpointNetwork
  imports Program NetIP_String
begin

unbundle bit_operations_syntax

text \<open>
  The network controller, \<^verbatim>\<open>controllers/baremetalendpoint/network.go\<close>: it walks an endpoint
  through its phases and hands out the first free address of its network. The search loop
  steps an address in place; nothing bounds it, so it is a partial function and a search
  that never stops is its result \<open>None\<close>, the outcome \<open>Hang\<close> of the handler.
\<close>

section \<open>Stepping an address\<close>

text \<open>\<^verbatim>\<open>Network.inc\<close>: add one to the last byte, carry while a byte wraps to zero.\<close>

fun inc_from_end :: "byte list \<Rightarrow> byte list" where
  "inc_from_end [] = []"
| "inc_from_end (b # bs) =
     (let b' = b + 1 in if b' > 0 then b' # bs else b' # inc_from_end bs)"

definition inc :: "IP \<Rightarrow> IP" where
  "inc ip = rev (inc_from_end (rev ip))"

section \<open>Choosing an address\<close>

text \<open>
  The broadcast address of lines 182 to 186, byte by byte over the mask; \<open>None\<close> when the
  network address is shorter than the mask and the indexing panics.
\<close>

fun broadcast_loop :: "byte list \<Rightarrow> byte list \<Rightarrow> byte list option" where
  "broadcast_loop networkIP [] = Some []"
| "broadcast_loop [] (m # ms) = None"
| "broadcast_loop (n # ns) (m # ms) = map_option (\<lambda>bs. (n OR NOT m) # bs) (broadcast_loop ns ms)"

text \<open>The two searches inside the loop: the nameservers, then the addresses already given out.\<close>

fun found_nameserver :: "IP \<Rightarrow> string list \<Rightarrow> bool" where
  "found_nameserver ip [] = False"
| "found_nameserver ip (ns # nss) = (if IP_Equal ip (ParseIP ns) then True else found_nameserver ip nss)"

fun found_allocated :: "IP \<Rightarrow> BareMetalEndpoint list \<Rightarrow> bool" where
  "found_allocated ip [] = False"
| "found_allocated ip (bme # bmes) =
     (case bme_Address (bme_Status bme) of
        None \<Rightarrow> found_allocated ip bmes
      | Some addr \<Rightarrow> if IP_Equal ip (ParseIP (addr_IP addr)) then True else found_allocated ip bmes)"

text \<open>The body of the loop: is this address to be skipped?\<close>

definition skip_ip ::
  "IP \<Rightarrow> IP \<Rightarrow> IP \<Rightarrow> string list \<Rightarrow> BareMetalEndpoint list \<Rightarrow> IP \<Rightarrow> bool" where
  "skip_ip networkIP gateway broadcast nameservers bmes ip =
     (if IP_Equal ip networkIP \<or> IP_Equal ip gateway \<or> IP_Equal ip broadcast then True
      else if found_nameserver ip nameservers then True
      else found_allocated ip bmes)"

text \<open>
  The loop of line 189. \<open>None\<close>: it never stops. \<open>Some None\<close>: it ran past the end.
  \<open>Some (Some ip)\<close>: it stopped at a free address.
\<close>

partial_function (option) next_ip_loop :: "(IP \<Rightarrow> bool) \<Rightarrow> IP \<Rightarrow> IP \<Rightarrow> IP option option" where
  "next_ip_loop skip end_ip ip =
     (if bytes_Compare end_ip ip \<ge> 0 then
        (if skip ip then next_ip_loop skip end_ip (inc ip) else Some (Some ip))
      else Some None)"

text \<open>Lines 171 to 228: everything from the parsed network to the next free address.\<close>

datatype next_ip_result = BadCIDR | IndexPanic | LoopsForever | NoIP | NextIP IP

definition next_ip :: "BareMetalNetworkSpec \<Rightarrow> BareMetalEndpoint list \<Rightarrow> next_ip_result" where
  "next_ip spec bmes =
     (case ParseCIDR (bmn_CIDR spec) of
        None \<Rightarrow> BadCIDR
      | Some (cidrIP, network) \<Rightarrow>
          (let networkIP = IP_Mask cidrIP (net_Mask network);
               start = ParseIP (bmn_Start spec);
               end_ip = ParseIP (bmn_End spec);
               gateway = ParseIP (bmn_Gateway spec)
           in case broadcast_loop networkIP (net_Mask network) of
                None \<Rightarrow> IndexPanic
              | Some broadcast \<Rightarrow>
                  (case next_ip_loop
                          (skip_ip networkIP gateway broadcast (items (bmn_Nameservers spec)) bmes)
                          end_ip start of
                     None \<Rightarrow> LoopsForever
                   | Some None \<Rightarrow> NoIP
                   | Some (Some ip) \<Rightarrow> NextIP ip)))"

section \<open>The reconciler\<close>

text \<open>The field index of \<^verbatim>\<open>SetupWithManager\<close> and the key the reconciler looks up in it.\<close>

definition network_index :: "BareMetalEndpoint \<Rightarrow> string" where
  "network_index bme = (let r = bme_NetworkRef (bme_Spec bme) in
     ref_Group r @ ''.'' @ ref_Kind r @ ''.'' @ ref_Name r)"

definition network_key :: "BareMetalNetwork \<Rightarrow> string" where
  "network_key bmn = GroupVersion_Group @ ''.'' @ Kind bmn @ ''.'' @ Name bmn"

text \<open>Lines 165 to 249, under the address lock.\<close>

definition allocate_address :: "BareMetalEndpoint \<Rightarrow> BareMetalNetwork \<Rightarrow> reconcile" where
  "allocate_address bme bmn =
     Call (ListBME [MatchingFields ''spec.networkRef.group,kind,name'' (network_key bmn)]) (\<lambda>a.
       case as_BMEs a of
         Inl err \<Rightarrow> return_err err
       | Inr bmes \<Rightarrow>
           (case next_ip (bmn_Spec bmn) bmes of
              BadCIDR \<Rightarrow> return_err (PlainError (''invalid CIDR address: '' @ bmn_CIDR (bmn_Spec bmn)))
            | IndexPanic \<Rightarrow> Panic ''index out of range''
            | LoopsForever \<Rightarrow> Hang
            | NoIP \<Rightarrow>
                event (OnBME bme) EventTypeWarning ''NoIPAvailable''
                  (''Could find an available IP address on the BareMetalNetwork ''
                     @ ref_Name (bme_NetworkRef (bme_Spec bme)))
                  return_requeue
            | NextIP ip \<Rightarrow>
                status_update_BME
                  (bme\<lparr>bme_Status := (bme_Status bme)\<lparr>bme_Address := Some
                     \<lparr>addr_IP = IP_String ip, addr_CIDR = bmn_CIDR (bmn_Spec bmn),
                      addr_Gateway = bmn_Gateway (bmn_Spec bmn),
                      addr_Nameservers = bmn_Nameservers (bmn_Spec bmn),
                      addr_Search = bmn_Search (bmn_Spec bmn)\<rparr>\<rparr>\<rparr>)
                  (\<lambda>bme. event (OnBME bme) EventTypeNormal ''Addressed'' ''Endpoint has been addressed''
                     return_ok)))"

definition addressLock :: string where
  "addressLock = ''addressLock''"

text \<open>Lines 90 to 127: an endpoint that is being deleted gives its address back.\<close>

definition network_delete :: "BareMetalEndpoint \<Rightarrow> BareMetalNetwork option \<Rightarrow> reconcile" where
  "network_delete bme bmn =
     (if bme_Phase (bme_Status bme) = EndpointPhaseDeleted then return_ok
      else if bme_Address (bme_Status bme) = None then
        status_update_BME (bme\<lparr>bme_Status := (bme_Status bme)\<lparr>bme_Phase := EndpointPhaseDeleted\<rparr>\<rparr>)
          (\<lambda>_. return_ok)
      else if bmn \<noteq> None \<and> bme_Phase (bme_Status bme) \<noteq> EndpointPhaseDeleting then
        status_update_BME (bme\<lparr>bme_Status := (bme_Status bme)\<lparr>bme_Phase := EndpointPhaseDeleting\<rparr>\<rparr>)
          (\<lambda>_. return_ok)
      else
        status_update_BME (bme\<lparr>bme_Status := (bme_Status bme)\<lparr>bme_Address := None\<rparr>\<rparr>)
          (\<lambda>_. return_ok))"

text \<open>Lines 129 to 249: an endpoint that is not being deleted.\<close>

definition network_address :: "BareMetalEndpoint \<Rightarrow> BareMetalNetwork option \<Rightarrow> reconcile" where
  "network_address bme bmn =
     (if bme_Phase (bme_Status bme) = EndpointPhaseAddressed then return_ok
      else if bme_Address (bme_Status bme) \<noteq> None then
        status_update_BME (bme\<lparr>bme_Status := (bme_Status bme)\<lparr>bme_Phase := EndpointPhaseAddressed\<rparr>\<rparr>)
          (\<lambda>_. return_ok)
      else (case bmn of
        None \<Rightarrow> return_requeue
      | Some bmn \<Rightarrow>
          if bme_Phase (bme_Status bme) = EndpointPhasePending then
            status_update_BME (bme\<lparr>bme_Status := (bme_Status bme)\<lparr>bme_Phase := EndpointPhaseAddressing\<rparr>\<rparr>)
              (\<lambda>bme. event (OnBME bme) EventTypeNormal ''Addressing'' ''Endpoint is being addressed''
                 return_ok)
          else
            Call (Lock addressLock) (\<lambda>_.
              deferred (Unlock addressLock) (allocate_address bme bmn))))"

definition Network_dispatch :: "BareMetalEndpoint \<Rightarrow> BareMetalNetwork option \<Rightarrow> reconcile" where
  "Network_dispatch bme bmn =
     (if \<not> IsZero (DeletionTimestamp bme) then network_delete bme bmn else network_address bme bmn)"

definition Network_Reconcile :: "NamespacedName \<Rightarrow> reconcile" where
  "Network_Reconcile req = fetch_BME req (\<lambda>bme.
     let networkRef = bme_NetworkRef (bme_Spec bme) in
     if length (bme_Phase (bme_Status bme)) = 0 then return_ok
     else if ref_Group networkRef \<noteq> GroupVersion_Group then return_ok
     else if ref_Kind networkRef \<noteq> ''BareMetalNetwork'' then return_ok
     else Call (GetBMN \<lparr>nn_Namespace = Namespace bme, nn_Name = ref_Name networkRef\<rparr>) (\<lambda>a.
       case as_BMN a of
         Inl err \<Rightarrow>
           if IsNotFound err then
             event (OnBME bme) EventTypeWarning ''NetworkNotFound''
               (''Could not find a BareMetalNetwork with the name of '' @ ref_Name networkRef)
               (Network_dispatch bme None)
           else return_err err
       | Inr bmn \<Rightarrow> Network_dispatch bme (Some bmn)))"

section \<open>The loop, on numbers\<close>

lemma length_inc_from_end [simp]: "length (inc_from_end bs) = length bs"
  by (induction bs) (auto simp: Let_def)

lemma ip_val_inc_from_end:
  "ip_val (rev (inc_from_end bs)) = (ip_val (rev bs) + 1) mod 256 ^ length bs"
proof (induction bs)
  case (Cons b bs)
  let ?P = "256 ^ length bs :: nat"
  have u: "unat (b + 1) = (unat b + 1) mod 256"
    by (simp add: unat_word_ariths)
  have less: "ip_val (rev bs) < ?P" using ip_val_less [of "rev bs"] by simp
  show ?case
  proof (cases "unat b = 255")
    case True
    with u have "b + 1 = 0" by (simp add: unat_eq_0 [symmetric] del: unat_eq_0)
    then have "ip_val (rev (inc_from_end (b # bs))) = (ip_val (rev bs) + 1) mod ?P * 256"
      by (simp add: ip_val_append Cons.IH)
    also have "\<dots> = ((ip_val (rev bs) + 1) * 256) mod (?P * 256)"
      by (rule mult_mod_left)
    also have "(ip_val (rev bs) + 1) * 256 = ip_val (rev bs) * 256 + 255 + 1" by simp
    finally show ?thesis using True by (simp add: ip_val_append mult.commute)
  next
    case False
    then have lt: "unat b + 1 < 256" using unat_byte_less [of b] by (simp del: unat_byte_less)
    with u have v: "unat (b + 1) = unat b + 1" by simp
    then have "b + 1 > 0" by (simp add: word_less_nat_alt)
    then have "ip_val (rev (inc_from_end (b # bs))) = ip_val (rev bs) * 256 + (unat b + 1)"
      by (simp add: ip_val_append v)
    moreover have "ip_val (rev bs) * 256 + (unat b + 1) < ?P * 256"
    proof -
      have "ip_val (rev bs) * 256 + (unat b + 1) < (ip_val (rev bs) + 1) * 256" using lt by simp
      also have "\<dots> \<le> ?P * 256" using less by (intro mult_right_mono) auto
      finally show ?thesis .
    qed
    ultimately show ?thesis by (simp add: ip_val_append mult.commute)
  qed
qed simp

lemma length_inc [simp]: "length (inc ip) = length ip"
  by (simp add: inc_def)

lemma ip_val_inc: "ip_val (inc ip) = (ip_val ip + 1) mod 256 ^ length ip"
  using ip_val_inc_from_end [of "rev ip"] by (simp add: inc_def)

lemma next_ip_loop_step:
  assumes "length ip = length e"
  shows "next_ip_loop skip e ip =
    (if ip_val ip \<le> ip_val e then (if skip ip then next_ip_loop skip e (inc ip) else Some (Some ip))
     else Some None)"
  using bytes_Compare_ge [of e ip] assms by (subst next_ip_loop.simps) simp

definition addr_range :: "IP \<Rightarrow> IP \<Rightarrow> IP set" where
  "addr_range s e = {x. length x = 16 \<and> ip_val s \<le> ip_val x \<and> ip_val x \<le> ip_val e}"

text \<open>What the search returns: the first address of the range that is not skipped.\<close>

definition first_free :: "(IP \<Rightarrow> bool) \<Rightarrow> IP \<Rightarrow> IP \<Rightarrow> IP option \<Rightarrow> bool" where
  "first_free skip s e r = (case r of
     None \<Rightarrow> \<forall>x \<in> addr_range s e. skip x
   | Some x \<Rightarrow> x \<in> addr_range s e \<and> \<not> skip x \<and> (\<forall>y \<in> addr_range s e. ip_val y < ip_val x \<longrightarrow> skip y))"

lemma addr_range_step:
  assumes "length s = 16" and "ip_val s \<le> ip_val e" and "ip_val e < 256 ^ 16 - 1"
  shows "addr_range s e = insert s (addr_range (inc s) e)" "ip_val (inc s) = Suc (ip_val s)"
proof -
  have "ip_val s + 1 < 256 ^ 16" using assms(2,3) by linarith
  then show v: "ip_val (inc s) = Suc (ip_val s)"
    using ip_val_inc [of s] assms(1) by simp
  show "addr_range s e = insert s (addr_range (inc s) e)"
    using assms ip_val_inj [of s] by (auto simp: addr_range_def v le_Suc_eq Suc_le_eq le_less)
qed

lemma next_ip_loop_first_free:
  assumes "length s = 16" and "length e = 16" and "ip_val e < 256 ^ 16 - 1"
  shows "\<exists>r. next_ip_loop skip e s = Some r \<and> first_free skip s e r"
  using assms(1)
proof (induction "Suc (ip_val e) - ip_val s" arbitrary: s rule: less_induct)
  case less
  note loop = next_ip_loop_step [of s e skip]
  show ?case
  proof (cases "ip_val s \<le> ip_val e")
    case False
    then show ?thesis using loop less.prems assms(2) by (auto simp: first_free_def addr_range_def)
  next
    case True
    note range = addr_range_step [OF less.prems True assms(3)]
    show ?thesis
    proof (cases "skip s")
      case False
      have "s \<in> addr_range s e" using True less.prems by (simp add: addr_range_def)
      then show ?thesis
        using loop less.prems assms(2) True False
        by (auto simp: first_free_def addr_range_def)
    next
      case skip: True
      have "Suc (ip_val e) - ip_val (inc s) < Suc (ip_val e) - ip_val s" using True range(2) by linarith
      then obtain r where "next_ip_loop skip e (inc s) = Some r" "first_free skip (inc s) e r"
        using less.hyps [of "inc s"] less.prems by auto
      then show ?thesis
        using loop less.prems assms(2) True skip
        by (auto simp: first_free_def range(1) split: option.splits)
    qed
  qed
qed

lemma first_free_unique:
  assumes "first_free skip s e r" and "first_free skip s e r'"
  shows "r = r'"
proof -
  have "x = y" if "r = Some x" "r' = Some y" for x y
  proof -
    from that assms have "\<not> ip_val x < ip_val y" "\<not> ip_val y < ip_val x"
      by (auto simp: first_free_def)
    moreover have "length x = length y" using that assms by (auto simp: first_free_def addr_range_def)
    ultimately show ?thesis using ip_val_inj by (metis linorder_neqE_nat)
  qed
  with assms show ?thesis by (auto simp: first_free_def split: option.splits)
qed

text \<open>
  When the range ends at the last address of all, the test of the loop never fails: the
  address wraps to \<^verbatim>\<open>::\<close> and the search goes on below the start of the range.
\<close>

definition all_ones :: IP where
  "all_ones = replicate 16 255"

definition all_zeros :: IP where
  "all_zeros = replicate 16 0"

lemma ip_val_replicate_255: "ip_val (replicate n 255) + 1 = 256 ^ n"
proof (induction n)
  case (Suc n)
  have "unat (255 :: byte) = 255" by simp
  then have "ip_val (replicate (Suc n) 255) + 1 = 255 * 256 ^ n + (ip_val (replicate n 255) + 1)"
    by simp
  also have "\<dots> = 256 ^ Suc n" unfolding Suc by simp
  finally show ?case .
qed simp

lemma ip_val_replicate_0: "ip_val (replicate n 0) = 0"
  by (induction n) auto

lemma all_ones_simps [simp]: "length all_ones = 16" "ip_val x \<le> ip_val all_ones \<longleftrightarrow> ip_val x < 256 ^ 16"
  using ip_val_replicate_255 [of 16] by (auto simp: all_ones_def simp del: One_nat_def)

lemma all_zeros_simps [simp]: "length all_zeros = 16" "ip_val all_zeros = 0"
  by (simp_all add: all_zeros_def ip_val_replicate_0)

lemma ip_val_less_16: "length x = 16 \<Longrightarrow> ip_val x < 256 ^ 16"
  using ip_val_less [of x] by simp

lemma next_ip_loop_ones:
  assumes "length s = 16"
  shows "next_ip_loop skip all_ones s =
    (if skip s then next_ip_loop skip all_ones (inc s) else Some (Some s))"
proof -
  have "ip_val s \<le> ip_val all_ones" using ip_val_less_16 [OF assms] by simp
  then show ?thesis using next_ip_loop_step [of s all_ones skip] assms by (simp del: all_ones_simps(2))
qed

lemma next_ip_loop_wraps:
  assumes "length s = 16" and "\<forall>x \<in> addr_range s all_ones. skip x"
  shows "next_ip_loop skip all_ones s = next_ip_loop skip all_ones all_zeros"
  using assms
proof (induction "256 ^ 16 - ip_val s" arbitrary: s rule: less_induct)
  case less
  note bound = ip_val_less_16 [OF less.prems(1)]
  have "s \<in> addr_range s all_ones" using less.prems(1) bound by (simp add: addr_range_def)
  with less.prems have loop: "next_ip_loop skip all_ones s = next_ip_loop skip all_ones (inc s)"
    using next_ip_loop_ones by simp
  have v: "ip_val (inc s) = (ip_val s + 1) mod 256 ^ 16"
    using ip_val_inc [of s] less.prems(1) by simp
  show ?case
  proof (cases "ip_val s + 1 = 256 ^ 16")
    case True
    then have "ip_val (inc s) = ip_val all_zeros" using v by simp
    then have "inc s = all_zeros" using less.prems(1) by (intro ip_val_inj) auto
    with loop show ?thesis by simp
  next
    case False
    then have v': "ip_val (inc s) = ip_val s + 1" using v bound by simp
    have "next_ip_loop skip all_ones (inc s) = next_ip_loop skip all_ones all_zeros"
    proof (rule less.hyps)
      show "256 ^ 16 - ip_val (inc s) < 256 ^ 16 - ip_val s" using v' bound by linarith
      show "length (inc s) = 16" using less.prems(1) by simp
      show "\<forall>x \<in> addr_range (inc s) all_ones. skip x"
        using less.prems(2) v' by (auto simp: addr_range_def)
    qed
    with loop show ?thesis by simp
  qed
qed

lemma next_ip_loop_hangs:
  assumes "length s = 16" and "\<forall>x. length x = 16 \<longrightarrow> skip x"
  shows "next_ip_loop skip all_ones s = None"
proof (rule ccontr)
  assume "next_ip_loop skip all_ones s \<noteq> None"
  then obtain r where ret: "next_ip_loop skip all_ones s = Some r" by auto
  have "(\<forall>x. length x = 16 \<longrightarrow> skip x) \<longrightarrow> all_ones = all_ones \<longrightarrow> length s = 16 \<longrightarrow> False"
  proof (rule next_ip_loop.raw_induct
      [where P = "\<lambda>skip e s r. (\<forall>x. length x = 16 \<longrightarrow> skip x) \<longrightarrow> e = all_ones \<longrightarrow> length s = 16 \<longrightarrow> False",
       OF _ ret])
    fix f :: "(IP \<Rightarrow> bool) \<Rightarrow> IP \<Rightarrow> IP \<Rightarrow> IP option option" and skip e s r
    assume IH: "\<And>skip e s r. f skip e s = Some r \<Longrightarrow>
        (\<forall>x. length x = 16 \<longrightarrow> skip x) \<longrightarrow> e = all_ones \<longrightarrow> length s = 16 \<longrightarrow> False"
      and eq: "(if bytes_Compare e s \<ge> 0 then if skip s then f skip e (inc s) else Some (Some s)
        else Some None) = Some r"
    show "(\<forall>x. length x = 16 \<longrightarrow> skip x) \<longrightarrow> e = all_ones \<longrightarrow> length s = 16 \<longrightarrow> False"
    proof (intro impI)
      assume all: "\<forall>x. length x = 16 \<longrightarrow> skip x" and e: "e = all_ones" and s: "length s = 16"
      have "bytes_Compare e s \<ge> 0" using bytes_Compare_ge [of e s] ip_val_less_16 [OF s] e s by simp
      with eq all s have "f skip e (inc s) = Some r" by simp
      with IH [OF this] all e s show False by simp
    qed
  qed
  with assms show False by simp
qed

end
