(* ===== verification/AddressPool.thy ===== *)
theory AddressPool
  imports EndpointNetwork
begin

unbundle bit_operations_syntax

text \<open>
  What the network controller promises about the addresses it hands out, against an
  abstract specification: the addresses of a network's range in numerical order, and the set
  of addresses that are reserved. The locale \<open>address_text\<close> is the interface the controller
  relies on when it stores addresses as text and compares parsed texts later.
\<close>

section \<open>Addresses as text\<close>

locale address_text =
  fixes valid :: "'a \<Rightarrow> bool"
    and same :: "'a \<Rightarrow> 'a \<Rightarrow> bool"
    and print :: "'a \<Rightarrow> string"
    and parse :: "string \<Rightarrow> 'a"
  assumes parse_print: "valid x \<Longrightarrow> parse (print x) = x"
    and same_refl: "valid x \<Longrightarrow> same x x"
begin

lemma print_inj: "valid x \<Longrightarrow> valid y \<Longrightarrow> print x = print y \<Longrightarrow> x = y"
  using parse_print by metis

text \<open>An address that differs from every parsed text has a text of its own.\<close>

lemma print_fresh: "valid x \<Longrightarrow> (\<forall>t \<in> T. \<not> same x (parse t)) \<Longrightarrow> print x \<notin> T"
  using parse_print same_refl by metis

lemma print_keeps_distinct:
  "valid x \<Longrightarrow> distinct ts \<Longrightarrow> (\<forall>t \<in> set ts. \<not> same x (parse t)) \<Longrightarrow> distinct (print x # ts)"
  using print_fresh [of x "set ts"] by simp

end

interpretation go_ip: address_text "\<lambda>ip. length ip = 16" IP_Equal IP_String ParseIP
  by unfold_locales (auto simp: ParseIP_IP_String IP_Equal_def)

section \<open>Comparison\<close>

definition to16 :: "IP \<Rightarrow> IP" where
  "to16 ip = (if length ip = 4 then v4InV6Prefix @ ip else ip)"

lemma IP_Equal_16: "length ip = 16 \<Longrightarrow> IP_Equal ip x \<longleftrightarrow> ip = to16 x"
  by (auto simp: IP_Equal_def to16_def) (metis append_take_drop_id)

lemma to16_ParseIP [simp]: "to16 (ParseIP s) = ParseIP s"
  using ParseIP_length [of s] by (auto simp: to16_def)

lemma IP_Equal_ParseIP: "length ip = 16 \<Longrightarrow> IP_Equal ip (ParseIP s) \<longleftrightarrow> ip = ParseIP s"
  by (simp add: IP_Equal_16)

lemma found_nameserver_iff: "found_nameserver ip nss \<longleftrightarrow> (\<exists>ns \<in> set nss. IP_Equal ip (ParseIP ns))"
  by (induction nss) auto

lemma found_allocated_iff: "found_allocated ip bmes \<longleftrightarrow>
    (\<exists>bme \<in> set bmes. \<exists>a. bme_Address (bme_Status bme) = Some a \<and> IP_Equal ip (ParseIP (addr_IP a)))"
  by (induction bmes) (auto split: option.splits)

section \<open>The broadcast address\<close>

lemma broadcast_loop_total:
  "length ms \<le> length ns \<Longrightarrow> \<exists>bs. broadcast_loop ns ms = Some bs \<and> length bs = length ms"
  by (induction ns ms rule: broadcast_loop.induct) auto

lemma unat_and_not_mask: "unat (x AND NOT (mask m) :: byte) = unat x div 2 ^ m * 2 ^ m"
proof -
  have "unat x div 2 ^ m * 2 ^ m \<le> unat x" by simp
  then have "unat x div 2 ^ m * 2 ^ m < 256" using unat_byte_le [of x] by linarith
  then show ?thesis
    unfolding and_not_mask_push unsigned_push_bit_eq unat_drop_bit_eq
    unfolding push_bit_eq_mult drop_bit_eq_div take_bit_eq_mod by simp
qed

lemma unat_or_mask:
  assumes "m \<le> 8"
  shows "unat ((x AND NOT (mask m)) OR mask m :: byte) = unat x div 2 ^ m * 2 ^ m + (2 ^ m - 1)"
proof -
  have "(x AND NOT (mask m)) AND mask m = (0 :: byte)"
    by (rule bit_word_eqI) (auto simp: bit_simps)
  then have "unat (x AND NOT (mask m)) AND unat (mask m :: byte) = 0"
    by (metis unsigned_and_eq unsigned_0)
  then have "unat (x AND NOT (mask m)) OR unat (mask m :: byte) =
      unat (x AND NOT (mask m)) + unat (mask m :: byte)"
    by (simp add: disjunctive_add_eq_or)
  moreover have "unat (mask m :: byte) = 2 ^ m - 1"
  proof -
    from assms consider "m = 0" | "m = 1" | "m = 2" | "m = 3" | "m = 4" | "m = 5" | "m = 6" | "m = 7"
      | "m = 8" by linarith
    then show ?thesis by cases (simp_all add: mask_eq_exp_minus_1)
  qed
  ultimately show ?thesis by (simp add: unsigned_or_eq unat_and_not_mask)
qed

lemma div_mult_high:
  fixes a r P k :: nat
  assumes "r < P" and "k dvd P" and "0 < k"
  shows "(a * P + r) div k * k = a * P + r div k * k"
  using div_split [OF assms, of a] assms(2) by (simp add: algebra_simps)

lemma div_mult_low:
  fixes a r P k :: nat
  assumes "r < P"
  shows "(a * P + r) div (P * k) * (P * k) = a div k * k * P"
  using assms by (simp add: div_mult2_eq)

lemma ip_val_masked:
  "n \<le> 8 * length xs \<Longrightarrow> ip_val (map2 (\<lambda>a b. (a :: byte) AND b) xs (mask_bytes (length xs) n)) =
     ip_val xs div 2 ^ (8 * length xs - n) * 2 ^ (8 * length xs - n)"
proof (induction xs arbitrary: n)
  case (Cons x xs)
  let ?P = "256 ^ length xs :: nat"
  have P: "?P = 2 ^ (8 * length xs)" by (simp add: power_mult)
  note lx = ip_val_less [of xs]
  show ?case
  proof (cases "n \<ge> 8")
    case True
    define k where "k = 8 * length xs - (n - 8)"
    have k: "8 + 8 * length xs - n = k" "k \<le> 8 * length xs" using True Cons.prems by (auto simp: k_def)
    have dvd: "(2::nat) ^ k dvd ?P" unfolding P using k(2) by (rule le_imp_power_dvd)
    show ?thesis
      using True Cons.IH [of "n - 8"] Cons.prems div_mult_high [OF lx dvd, of "unat x"]
      by (simp add: k flip: k_def)
  next
    case False
    then have n: "n < 8" by simp
    have e: "8 + 8 * length xs - n = 8 * length xs + (8 - n)" using n by simp
    have zero: "ip_val (replicate l 0) = 0" for l by (induction l) auto
    have "2 ^ (8 * length xs + (8 - n)) = ?P * 2 ^ (8 - n)" by (simp add: power_add P)
    then show ?thesis
      using n map2_and_mask_zero [of xs] div_mult_low [OF lx, of "unat x" "2 ^ (8 - n)"]
      by (simp add: e byte_mask [OF n] unat_and_not_mask zero)
  qed
qed simp

lemma broadcast_arith:
  fixes q K P :: nat
  assumes "0 < K" "0 < P"
  shows "(q * K + (K - 1)) * P + (P - 1) = q * K * P + (P * K - 1)"
proof -
  obtain K' P' where "K = Suc K'" "P = Suc P'" using assms gr0_implies_Suc by blast
  then show ?thesis by (simp add: algebra_simps)
qed

lemma broadcast_zeros: "broadcast_loop (replicate l 0) (mask_bytes l 0) = Some (replicate l 255)"
  by (induction l) auto

lemma broadcast_byte:
  "m \<le> 8 \<Longrightarrow> unat ((x AND NOT (mask m)) OR NOT (NOT (mask m)) :: byte) =
     unat x div 2 ^ m * 2 ^ m + (2 ^ m - 1)"
  using unat_or_mask [of m x] by simp

lemma add_pow2_minus_one: "a + (q + (2::nat) ^ k - Suc 0) = a + q + 2 ^ k - Suc 0"
  using one_le_power [of "2 :: nat" k] by linarith

lemma ip_val_broadcast:
  "n \<le> 8 * length xs \<Longrightarrow>
   \<exists>bs. broadcast_loop (map2 (\<lambda>a b. (a :: byte) AND b) xs (mask_bytes (length xs) n)) (mask_bytes (length xs) n) = Some bs \<and>
     length bs = length xs \<and>
     ip_val bs = ip_val xs div 2 ^ (8 * length xs - n) * 2 ^ (8 * length xs - n) + (2 ^ (8 * length xs - n) - 1)"
proof (induction xs arbitrary: n)
  case (Cons x xs)
  let ?P = "256 ^ length xs :: nat"
  have P: "?P = 2 ^ (8 * length xs)" by (simp add: power_mult)
  note lx = ip_val_less [of xs]
  show ?case
  proof (cases "n \<ge> 8")
    case True
    define k where "k = 8 * length xs - (n - 8)"
    have k: "8 + 8 * length xs - n = k" "k \<le> 8 * length xs" using True Cons.prems by (auto simp: k_def)
    have dvd: "(2::nat) ^ k dvd ?P" unfolding P using k(2) by (rule le_imp_power_dvd)
    have "n - 8 \<le> 8 * length xs" using Cons.prems by simp
    from Cons.IH [OF this]
    obtain bs where "broadcast_loop (map2 (\<lambda>a b. a AND b) xs (mask_bytes (length xs) (n - 8)))
        (mask_bytes (length xs) (n - 8)) = Some bs" "length bs = length xs"
        "ip_val bs = ip_val xs div 2 ^ k * 2 ^ k + (2 ^ k - 1)"
      unfolding k_def [symmetric] by blast
    note bs = this
    have z: "y OR - 256 = y" for y :: byte
    proof -
      have "(- 256 :: byte) = 0" by simp
      then show ?thesis by (simp only: or.right_neutral)
    qed
    from True bs(1) have "broadcast_loop (map2 (\<lambda>a b. a AND b) (x # xs) (mask_bytes (length (x # xs)) n))
        (mask_bytes (length (x # xs)) n) = Some (x # bs)"
      by (simp add: z)
    moreover have "ip_val (x # bs) = ip_val (x # xs) div 2 ^ k * 2 ^ k + (2 ^ k - 1)"
      using div_mult_high [OF lx dvd, of "unat x"] bs(2,3) by (simp add: add_pow2_minus_one)
    ultimately show ?thesis using bs(2) by (intro exI [of _ "x # bs"] conjI) (simp_all only: length_Cons mult_Suc_right k(1))
  next
    case False
    then have n: "n < 8" by simp
    have e: "8 * length (x # xs) - n = 8 * length xs + (8 - n)" using n by simp
    have p: "2 ^ (8 * length xs + (8 - n)) = ?P * 2 ^ (8 - n)" by (simp add: power_add P)
    have val: "ip_val (replicate l 255) = 256 ^ l - 1" for l
      using ip_val_replicate_255 [of l] by simp
    define bs where "bs = ((x AND NOT (mask (8 - n))) OR NOT (NOT (mask (8 - n)))) # replicate (length xs) 255"
    have "broadcast_loop (map2 (\<lambda>a b. a AND b) (x # xs) (mask_bytes (length (x # xs)) n))
        (mask_bytes (length (x # xs)) n) = Some bs"
      unfolding bs_def using n map2_and_mask_zero [of xs]
      by (simp add: byte_mask [OF n] broadcast_zeros del: bit.double_compl)
    moreover have "ip_val bs = ip_val (x # xs) div 2 ^ (8 * length (x # xs) - n) * 2 ^ (8 * length (x # xs) - n) +
        (2 ^ (8 * length (x # xs) - n) - 1)"
      unfolding e p bs_def ip_val_Cons length_replicate val broadcast_byte [OF diff_le_self]
        div_mult_low [OF lx] by (rule broadcast_arith) auto
    moreover have "length bs = length (x # xs)" by (simp add: bs_def)
    ultimately show ?thesis by (intro exI [of _ bs]) simp_all
  qed
qed simp
section \<open>The bounds of a network\<close>

lemma IP_Mask_ParseCIDR: "ParseCIDR s = Some (ip, net) \<Longrightarrow> IP_Mask ip (net_Mask net) = net_IP net"
  by (auto simp: ParseCIDR_def Let_def split: if_splits prod.splits)

lemma to16_simps [simp]: "length x = 4 \<Longrightarrow> to16 x = v4InV6Prefix @ x" "length x = 16 \<Longrightarrow> to16 x = x"
  by (simp_all add: to16_def)

lemma prefix_range:
  fixes x y k :: nat
  assumes "x div 2 ^ k = y div 2 ^ k"
  shows "y div 2 ^ k * 2 ^ k \<le> x \<and> x \<le> y div 2 ^ k * 2 ^ k + (2 ^ k - 1)"
proof -
  have "x = y div 2 ^ k * 2 ^ k + x mod 2 ^ k" using assms div_mult_mod_eq [of x "2 ^ k"] by simp
  moreover have "x mod 2 ^ k < 2 ^ k" by simp
  ultimately show ?thesis by linarith
qed

text \<open>
  The broadcast address is always computed, and every address of the network lies between
  the network address and it.
\<close>

lemma mapped_cases:
  assumes "IP_To4 x \<noteq> []" and "length x = 16"
  shows "x = v4InV6Prefix @ IP_To4 x" "length (IP_To4 x) = 4"
  using assms by (auto simp: IP_To4_def split: if_splits) (metis append_take_drop_id)

definition broadcast_of :: "IPNet \<Rightarrow> IP option" where
  "broadcast_of net = broadcast_loop (net_IP net) (net_Mask net)"

lemma broadcast_of_total:
  "ParseCIDR s = Some (ip, net) \<Longrightarrow> \<exists>bc. broadcast_of net = Some bc \<and> length bc = length (net_Mask net)"
  unfolding broadcast_of_def
  by (erule ParseCIDR_cases; rule broadcast_loop_total) auto

lemma ip_val_mapped: "length x = 4 \<Longrightarrow> ip_val (v4InV6Prefix @ x) = ip_val v4InV6Prefix * 2 ^ 32 + ip_val x"
  by (simp add: ip_val_append)

lemma div_prefix:
  fixes P V a b k :: nat
  assumes "k \<le> 32 \<longrightarrow> a div 2 ^ k = b div 2 ^ k" and "a < 2 ^ 32" "b < 2 ^ 32"
  shows "(V * 2 ^ 32 + a) div 2 ^ k = (V * 2 ^ 32 + b) div 2 ^ k"
proof (cases "k \<le> 32")
  case True
  then have "(2::nat) ^ k dvd 2 ^ 32" by (rule le_imp_power_dvd)
  then show ?thesis using assms True div_split [of a "2 ^ 32" "2 ^ k" V] div_split [of b "2 ^ 32" "2 ^ k" V] by simp
next
  case False
  then have "(2::nat) ^ k = 2 ^ 32 * 2 ^ (k - 32)"
    using power_add [of "2 :: nat" 32 "k - 32"] by simp
  then show ?thesis using assms(2,3) by (simp add: div_mult2_eq)
qed

lemma ip_val_less_4: "length x = 4 \<Longrightarrow> ip_val x < 2 ^ 32"
  using ip_val_less [of x] by simp

text \<open>The prefix of a network, as a number: the bits of the address that the mask leaves.\<close>

lemma Contains_prefix:
  assumes "ParseCIDR s = Some (ip, net)"
  obtains k where "\<And>x. length x = 16 \<Longrightarrow> IPNet_Contains net x \<Longrightarrow>
       ip_val x div 2 ^ k = ip_val (to16 (net_IP net)) div 2 ^ k"
    "ip_val (to16 (net_IP net)) div 2 ^ k * 2 ^ k = ip_val (to16 (net_IP net))"
    "\<exists>bc. broadcast_of net = Some bc \<and> ip_val (to16 bc) = ip_val (to16 (net_IP net)) + (2 ^ k - 1)"
  using assms
proof (cases rule: ParseCIDR_cases)
  case (1 n)
  let ?p = "drop 12 ip"
  let ?V = "ip_val v4InV6Prefix"
  define k where "k = 32 - n"
  have l: "length ?p = 4" "length (net_IP net) = 4" using 1 by simp_all
  have k: "k \<le> 32" "8 * length ?p - n = k"
    unfolding l k_def by simp_all
  have val: "ip_val (net_IP net) = ip_val ?p div 2 ^ k * 2 ^ k"
    using ip_val_masked [of n ?p] 1 l k(2) by simp
  obtain bc where bc: "broadcast_of net = Some bc" "length bc = 4"
      "ip_val bc = ip_val (net_IP net) + (2 ^ k - 1)"
    using ip_val_broadcast [of n ?p] 1 l k(2) val by (auto simp: broadcast_of_def)
  have low: "(?V * 2 ^ 32 + ip_val (net_IP net)) div 2 ^ k * 2 ^ k = ?V * 2 ^ 32 + ip_val (net_IP net)"
    using div_mult_high [of "ip_val (net_IP net)" "2 ^ 32" "2 ^ k" ?V] ip_val_less_4 [OF l(2)]
      le_imp_power_dvd [OF k(1), of "2 :: nat"] val by simp
  have nm: "networkNumberAndMask net = (net_IP net, mask_bytes 4 n)"
    using 1 by (auto simp: networkNumberAndMask_def IP_To4_def Let_def)
  have cont: "ip_val x div 2 ^ k = ip_val (to16 (net_IP net)) div 2 ^ k"
    if "length x = 16" "IPNet_Contains net x" for x
  proof -
    have c: "length (IP_short x) = 4" "ip_val (IP_short x) div 2 ^ k = ip_val (net_IP net) div 2 ^ k"
      using Contains_iff [of net "net_IP net" n x] nm l 1(1) that(2) by (simp_all add: k_def)
    then have m: "IP_To4 x \<noteq> []" "IP_short x = IP_To4 x" using that(1) by (auto simp: IP_short_def)
    have "ip_val x = ?V * 2 ^ 32 + ip_val (IP_To4 x)"
      using mapped_cases [OF m(1) that(1)] ip_val_mapped by metis
    then show ?thesis
      using div_prefix [of k "ip_val (IP_To4 x)" "ip_val (net_IP net)" ?V] c m l ip_val_less_4
      by (simp add: ip_val_mapped)
  qed
  show thesis
    using that [of k] cont low bc l by (simp add: ip_val_mapped add_pow2_minus_one)
next
  case (2 n)
  define k where "k = 128 - n"
  have l: "length (net_IP net) = 16" using 2 by simp
  have k: "8 * length ip - n = k" by (simp add: k_def 2)
  have val: "ip_val (net_IP net) = ip_val ip div 2 ^ k * 2 ^ k"
    using ip_val_masked [of n ip] 2 k by simp
  obtain bc where bc: "broadcast_of net = Some bc" "length bc = 16"
      "ip_val bc = ip_val (net_IP net) + (2 ^ k - 1)"
    using ip_val_broadcast [of n ip] 2 k val by (auto simp: broadcast_of_def)
  have cont: "ip_val x div 2 ^ k = ip_val (net_IP net) div 2 ^ k"
    if "length x = 16" "IPNet_Contains net x" for x
  proof (cases "IP_To4 (net_IP net) = []")
    case True
    then have nm: "networkNumberAndMask net = (net_IP net, mask_bytes 16 n)"
      using 2 l by (auto simp: networkNumberAndMask_def Let_def)
    have c: "length (IP_short x) = 16" "ip_val (IP_short x) div 2 ^ k = ip_val (net_IP net) div 2 ^ k"
      using Contains_iff [of net "net_IP net" n x] nm l 2(1) that(2) by (simp_all add: k_def)
    then show ?thesis using IP_To4_length [of x] by (auto simp: IP_short_def split: if_splits)
  next
    case False
    note net = mapped_cases [OF False l]
    have nm: "networkNumberAndMask net = (IP_To4 (net_IP net), mask_bytes 4 (n - 96))"
      using False 2(3) l net(2) drop_mask_bytes [of 12 4 n] by (auto simp: networkNumberAndMask_def Let_def)
    have c: "length (IP_short x) = 4"
        "ip_val (IP_short x) div 2 ^ (32 - (n - 96)) = ip_val (IP_To4 (net_IP net)) div 2 ^ (32 - (n - 96))"
      using Contains_iff [of net "IP_To4 (net_IP net)" "n - 96" x] nm net(2) 2(1) that(2) by simp_all
    then have m: "IP_To4 x \<noteq> []" "IP_short x = IP_To4 x" using that(1) by (auto simp: IP_short_def)
    have "k \<le> 32 \<longrightarrow> 32 - (n - 96) = k" using 2(1) by (auto simp: k_def)
    then have "(ip_val v4InV6Prefix * 2 ^ 32 + ip_val (IP_To4 x)) div 2 ^ k =
        (ip_val v4InV6Prefix * 2 ^ 32 + ip_val (IP_To4 (net_IP net))) div 2 ^ k"
      using c m net(2) ip_val_less_4 by (intro div_prefix) auto
    then show ?thesis
      using mapped_cases [OF m(1) that(1)] net ip_val_mapped by metis
  qed
  show thesis using that [of k] cont val bc l by simp
qed

lemma mapped_between:
  assumes "ip_val s \<le> ip_val x" "ip_val x \<le> ip_val e" "length s = 16" "length e = 16" "length x = 16"
    and "IP_To4 s \<noteq> []" "IP_To4 e \<noteq> []"
  shows "IP_To4 x \<noteq> []" "ip_val (IP_To4 s) \<le> ip_val (IP_To4 x)" "ip_val (IP_To4 x) \<le> ip_val (IP_To4 e)"
proof -
  let ?V = "ip_val v4InV6Prefix"
  have vs: "ip_val s = ?V * 2 ^ 32 + ip_val (IP_To4 s)" "ip_val (IP_To4 s) < 2 ^ 32"
    and ve: "ip_val e = ?V * 2 ^ 32 + ip_val (IP_To4 e)" "ip_val (IP_To4 e) < 2 ^ 32"
    using mapped_cases [of s] mapped_cases [of e] assms ip_val_mapped ip_val_less_4 by metis+
  have x: "x = take 12 x @ drop 12 x" "length (drop 12 x) = 4" "length (take 12 x) = 12" using assms(5) by simp_all
  then have vx: "ip_val x = ip_val (take 12 x) * 2 ^ 32 + ip_val (drop 12 x)" "ip_val (drop 12 x) < 2 ^ 32"
    using ip_val_append [of "take 12 x" "drop 12 x"] ip_val_less_4 by simp_all
  have "ip_val (take 12 x) = ?V"
  proof -
    have top: "(V * 2 ^ 32 + r) div 2 ^ 32 = V" if "r < 2 ^ 32" for V r :: nat using that by simp
    have "ip_val s div 2 ^ 32 \<le> ip_val x div 2 ^ 32" "ip_val x div 2 ^ 32 \<le> ip_val e div 2 ^ 32"
      using assms(1,2) by (simp_all add: div_le_mono)
    moreover have "ip_val s div 2 ^ 32 = ?V" "ip_val e div 2 ^ 32 = ?V"
        "ip_val x div 2 ^ 32 = ip_val (take 12 x)"
      unfolding vs(1) ve(1) vx(1) using vs(2) ve(2) vx(2) by (simp_all only: top)
    ultimately show ?thesis by simp
  qed
  then have "take 12 x = v4InV6Prefix" using x(3) by (intro ip_val_inj) simp_all
  then have "IP_To4 x = drop 12 x" using assms(5) by (simp add: IP_To4_def)
  moreover from this have "IP_To4 x \<noteq> []" using x(2) by auto
  moreover note \<open>ip_val (take 12 x) = ?V\<close>
  ultimately show "IP_To4 x \<noteq> []" "ip_val (IP_To4 s) \<le> ip_val (IP_To4 x)" "ip_val (IP_To4 x) \<le> ip_val (IP_To4 e)"
    using assms(1,2) vs(1) ve(1) vx(1) by simp_all
qed

lemma Contains_between:
  assumes "ParseCIDR c = Some (ip, net)" and "IPNet_Contains net s" and "IPNet_Contains net e"
    and "length s = 16" "length e = 16" "x \<in> addr_range s e"
    and "IP_To4 s = [] \<longrightarrow> IP_To4 x = []"
  shows "IPNet_Contains net x"
proof -
  have x: "length x = 16" "ip_val s \<le> ip_val x" "ip_val x \<le> ip_val e" using assms(6) by (auto simp: addr_range_def)
  obtain nn n where nn: "networkNumberAndMask net = (nn, mask_bytes (length nn) n)"
      "length nn = 4 \<or> length nn = 16 \<and> IP_To4 (net_IP net) = []" "n \<le> 8 * length nn"
    using ParseCIDR_number_and_mask [OF assms(1)] by metis
  note iff = Contains_iff [OF nn(1,3)]
  have same: "length (IP_short s) = length nn" "length (IP_short e) = length nn"
    using assms(2,3) iff by auto
  have between: "length (IP_short x) = length nn \<and> ip_val (IP_short s) \<le> ip_val (IP_short x) \<and>
      ip_val (IP_short x) \<le> ip_val (IP_short e)"
  proof (cases "IP_To4 s = []")
    case True
    then have "length nn = 16" using same(1) assms(4) by (simp add: IP_short_def)
    then have "IP_To4 e = []" using same(2) IP_To4_length [of e] by (auto simp: IP_short_def split: if_splits)
    with True assms(4,7) x \<open>length nn = 16\<close> show ?thesis by (simp add: IP_short_def)
  next
    case False
    then have "length nn = 4" using same(1) IP_To4_length [of s] by (auto simp: IP_short_def)
    then have e: "IP_To4 e \<noteq> []" using same(2) assms(5) by (auto simp: IP_short_def split: if_splits)
    note mapped_between [OF x(2,3) assms(4,5) x(1) False e]
    with False e \<open>length nn = 4\<close> show ?thesis using mapped_cases [of x] x(1) by (simp add: IP_short_def)
  qed
  let ?d = "\<lambda>y. ip_val (IP_short y) div 2 ^ (8 * length nn - n)"
  have "?d s \<le> ?d x" "?d x \<le> ?d e" using between by (simp_all add: div_le_mono)
  moreover have "?d s = ?d e" using assms(2,3) iff by auto
  ultimately have "?d x = ?d s" by linarith
  then show ?thesis using between assms(2) iff by auto
qed

section \<open>What is reserved\<close>

text \<open>
  The addresses the controller must not hand out: the two ends of the network, the gateway,
  the nameservers, and what the listed endpoints hold.
\<close>

definition reserved :: "BareMetalNetworkSpec \<Rightarrow> BareMetalEndpoint list \<Rightarrow> IP set" where
  "reserved spec bmes =
     (case ParseCIDR (bmn_CIDR spec) of None \<Rightarrow> {} | Some (ip, net) \<Rightarrow>
        {to16 (net_IP net)} \<union> (case broadcast_of net of None \<Rightarrow> {} | Some bc \<Rightarrow> {to16 bc})) \<union>
     {ParseIP (bmn_Gateway spec)} \<union> ParseIP ` set (items (bmn_Nameservers spec)) \<union>
     {ParseIP (addr_IP a) | bme a. bme \<in> set bmes \<and> bme_Address (bme_Status bme) = Some a}"

lemma skip_ip_reserved:
  assumes "ParseCIDR (bmn_CIDR spec) = Some (ip, net)" and "broadcast_of net = Some bc" and "length x = 16"
  shows "skip_ip (IP_Mask ip (net_Mask net)) (ParseIP (bmn_Gateway spec)) bc (items (bmn_Nameservers spec)) bmes x
    \<longleftrightarrow> x \<in> reserved spec bmes"
  using assms(3)
  by (auto simp: skip_ip_def reserved_def assms(1,2) IP_Mask_ParseCIDR [OF assms(1)] IP_Equal_16
        found_nameserver_iff found_allocated_iff)

lemma ParseIP_16: "ParseIP s \<noteq> [] \<Longrightarrow> length (ParseIP s) = 16"
  using ParseIP_length [of s] by auto

lemma ip_val_not_all_ones:
  assumes "length e = 16" and "e \<noteq> all_ones"
  shows "ip_val e < 256 ^ 16 - 1"
proof -
  have "ip_val e \<noteq> ip_val all_ones" using assms ip_val_inj [of e all_ones] by auto
  moreover have "ip_val all_ones + 1 = 256 ^ 16" using ip_val_replicate_255 [of 16] by (simp only: all_ones_def)
  ultimately show ?thesis using ip_val_less_16 [OF assms(1)] by linarith
qed

lemma next_ip_loop_cong:
  assumes "\<And>x. length x = 16 \<Longrightarrow> skip x = skip' x" and "first_free skip s e r"
  shows "first_free skip' s e r"
  using assms by (auto simp: first_free_def addr_range_def split: option.splits)

lemma next_ip_reduces:
  assumes "ParseCIDR (bmn_CIDR spec) = Some (ip, net)"
  obtains bc where "broadcast_of net = Some bc"
    "next_ip spec bmes =
       (case next_ip_loop (skip_ip (IP_Mask ip (net_Mask net)) (ParseIP (bmn_Gateway spec)) bc
             (items (bmn_Nameservers spec)) bmes) (ParseIP (bmn_End spec)) (ParseIP (bmn_Start spec)) of
          None \<Rightarrow> LoopsForever | Some None \<Rightarrow> NoIP | Some (Some ip) \<Rightarrow> NextIP ip)"
proof -
  obtain bc where bc: "broadcast_of net = Some bc" using broadcast_of_total [OF assms] by blast
  with that [of bc] show thesis
    by (simp add: next_ip_def assms IP_Mask_ParseCIDR [OF assms] broadcast_of_def Let_def)
qed

lemma next_ip_first_free:
  assumes "ParseCIDR (bmn_CIDR spec) = Some (ip, net)"
    and "ParseIP (bmn_Start spec) \<noteq> []" "ParseIP (bmn_End spec) \<noteq> []" "ParseIP (bmn_End spec) \<noteq> all_ones"
  obtains r where "first_free (\<lambda>x. x \<in> reserved spec bmes) (ParseIP (bmn_Start spec)) (ParseIP (bmn_End spec)) r"
    "next_ip spec bmes = (case r of None \<Rightarrow> NoIP | Some x \<Rightarrow> NextIP x)"
proof -
  obtain bc where bc: "broadcast_of net = Some bc" "next_ip spec bmes =
       (case next_ip_loop (skip_ip (IP_Mask ip (net_Mask net)) (ParseIP (bmn_Gateway spec)) bc
             (items (bmn_Nameservers spec)) bmes) (ParseIP (bmn_End spec)) (ParseIP (bmn_Start spec)) of
          None \<Rightarrow> LoopsForever | Some None \<Rightarrow> NoIP | Some (Some ip) \<Rightarrow> NextIP ip)"
    using next_ip_reduces [OF assms(1)] by metis
  note l = ParseIP_16 [OF assms(2)] ParseIP_16 [OF assms(3)]
  obtain r where r: "next_ip_loop (skip_ip (IP_Mask ip (net_Mask net)) (ParseIP (bmn_Gateway spec)) bc
        (items (bmn_Nameservers spec)) bmes) (ParseIP (bmn_End spec)) (ParseIP (bmn_Start spec)) = Some r"
      "first_free (skip_ip (IP_Mask ip (net_Mask net)) (ParseIP (bmn_Gateway spec)) bc
        (items (bmn_Nameservers spec)) bmes) (ParseIP (bmn_Start spec)) (ParseIP (bmn_End spec)) r"
    using next_ip_loop_first_free [OF l ip_val_not_all_ones [OF l(2) assms(4)]] by metis
  show thesis
    using that [OF next_ip_loop_cong [OF skip_ip_reserved [OF assms(1) bc(1)] r(2)]] bc(2) r(1)
    by (simp split: option.splits)
qed

text \<open>A free address is free whatever the end of the range is.\<close>

lemma next_ip_loop_partial:
  "next_ip_loop skip e s = Some r \<Longrightarrow> length s = 16 \<longrightarrow> (\<forall>x. r = Some x \<longrightarrow> \<not> skip x \<and> length x = 16)"
proof (rule next_ip_loop.raw_induct [where P = "\<lambda>skip e s r. length s = 16 \<longrightarrow> (\<forall>x. r = Some x \<longrightarrow> \<not> skip x \<and> length x = 16)"])
  fix f :: "(IP \<Rightarrow> bool) \<Rightarrow> IP \<Rightarrow> IP \<Rightarrow> IP option option" and skip e s r
  assume IH: "\<And>skip e s r. f skip e s = Some r \<Longrightarrow> length s = 16 \<longrightarrow> (\<forall>x. r = Some x \<longrightarrow> \<not> skip x \<and> length x = 16)"
    and eq: "(if bytes_Compare e s \<ge> 0 then if skip s then f skip e (inc s) else Some (Some s)
      else Some None) = Some r"
  show "length s = 16 \<longrightarrow> (\<forall>x. r = Some x \<longrightarrow> \<not> skip x \<and> length x = 16)"
    using eq IH [of skip e "inc s" r] by (auto split: if_splits)
qed

lemma next_ip_loop_free:
  "next_ip_loop skip e s = Some (Some x) \<Longrightarrow> length s = 16 \<Longrightarrow> \<not> skip x \<and> length x = 16"
  using next_ip_loop_partial by blast

lemma next_ip_parses: "next_ip spec bmes = NextIP x \<Longrightarrow> \<exists>ip net. ParseCIDR (bmn_CIDR spec) = Some (ip, net)"
  by (auto simp: next_ip_def split: option.splits)

lemma next_ip_not_reserved:
  assumes "next_ip spec bmes = NextIP x" and "ParseIP (bmn_Start spec) \<noteq> []"
  shows "x \<notin> reserved spec bmes" "length x = 16"
proof -
  obtain ip net where cidr: "ParseCIDR (bmn_CIDR spec) = Some (ip, net)" using next_ip_parses [OF assms(1)] by blast
  obtain bc where bc: "broadcast_of net = Some bc" "next_ip spec bmes =
       (case next_ip_loop (skip_ip (IP_Mask ip (net_Mask net)) (ParseIP (bmn_Gateway spec)) bc
             (items (bmn_Nameservers spec)) bmes) (ParseIP (bmn_End spec)) (ParseIP (bmn_Start spec)) of
          None \<Rightarrow> LoopsForever | Some None \<Rightarrow> NoIP | Some (Some ip) \<Rightarrow> NextIP ip)"
    using next_ip_reduces [OF cidr] by metis
  with assms(1) have "next_ip_loop (skip_ip (IP_Mask ip (net_Mask net)) (ParseIP (bmn_Gateway spec)) bc
             (items (bmn_Nameservers spec)) bmes) (ParseIP (bmn_End spec)) (ParseIP (bmn_Start spec)) = Some (Some x)"
    by (auto split: option.splits)
  from next_ip_loop_free [OF this ParseIP_16 [OF assms(2)]]
  show "x \<notin> reserved spec bmes" "length x = 16"
    using skip_ip_reserved [OF cidr bc(1)] by auto
qed

lemma not_reserved_fresh:
  assumes "x \<notin> reserved spec bmes" and "length x = 16" and "bme \<in> set bmes"
    and "bme_Address (bme_Status bme) = Some a"
  shows "addr_IP a \<noteq> IP_String x"
proof
  assume "addr_IP a = IP_String x"
  then have "ParseIP (addr_IP a) = x" using go_ip.parse_print [OF assms(2)] by simp
  then show False using assms by (auto simp: reserved_def)
qed

definition spec29 :: BareMetalNetworkSpec where
  "spec29 = \<lparr>bmn_CIDR = ''10.0.0.0/29'', bmn_Gateway = ''10.0.0.1'', bmn_Start = ''10.0.0.0'', bmn_End = ''10.0.0.6'',
    bmn_Nameservers = Slice [''10.0.0.2''], bmn_Search = NilSlice\<rparr>"

lemma spec29_simps: "bmn_CIDR spec29 = ''10.0.0.0/29''" "bmn_Start spec29 = ''10.0.0.0''" "bmn_End spec29 = ''10.0.0.6''"
  "bmn_Gateway spec29 = ''10.0.0.1''" "bmn_Nameservers spec29 = Slice [''10.0.0.2'']"
  by (simp_all add: spec29_def)

lemma spec29_start: "ParseIP (bmn_Start spec29) = [0,0,0,0,0,0,0,0,0,0,255,255,10,0,0,0]"
  by (simp add: spec29_simps ip_eval)
lemma spec29_end: "ParseIP (bmn_End spec29) = [0,0,0,0,0,0,0,0,0,0,255,255,10,0,0,6]"
  by (simp add: spec29_simps ip_eval)
lemma spec29_cidr: "ParseCIDR (bmn_CIDR spec29) = Some ([0,0,0,0,0,0,0,0,0,0,255,255,10,0,0,0],
   \<lparr>net_IP = [10, 0, 0, 0], net_Mask = [255, 255, 255, 248]\<rparr>)"
  by (simp add: spec29_simps ip_eval)

lemma spec29_next: "next_ip spec29 [] = NextIP [0,0,0,0,0,0,0,0,0,0,255,255,10,0,0,3]"
  apply (simp add: next_ip_def spec29_cidr spec29_start spec29_end Let_def)
  apply (subst next_ip_loop.simps, simp add: skip_ip_def IP_Equal_def spec29_simps inc_def ip_eval)+
  done

section \<open>Properties\<close>

text \<open>
  C14: on a network whose CIDR, start and end parse and whose range does not end at the very
  last address, the search always stops; it returns the numerically least address of the
  range that is not reserved, and reports that no address is available exactly when every
  address of the range is reserved.
\<close>

theorem next_ip_least_free:
  assumes "ParseCIDR (bmn_CIDR spec) = Some (ip, net)"
    and "ParseIP (bmn_Start spec) \<noteq> []" and "ParseIP (bmn_End spec) \<noteq> []"
    and "ParseIP (bmn_End spec) \<noteq> all_ones"
  shows "case next_ip spec bmes of
      NextIP x \<Rightarrow> x \<in> addr_range (ParseIP (bmn_Start spec)) (ParseIP (bmn_End spec)) \<and> x \<notin> reserved spec bmes \<and>
        (\<forall>y. y \<in> addr_range (ParseIP (bmn_Start spec)) (ParseIP (bmn_End spec)) \<and> y \<notin> reserved spec bmes \<longrightarrow>
           ip_val x \<le> ip_val y)
    | NoIP \<Rightarrow> addr_range (ParseIP (bmn_Start spec)) (ParseIP (bmn_End spec)) \<subseteq> reserved spec bmes
    | _ \<Rightarrow> False"
proof -
  obtain r where "first_free (\<lambda>x. x \<in> reserved spec bmes) (ParseIP (bmn_Start spec)) (ParseIP (bmn_End spec)) r"
    "next_ip spec bmes = (case r of None \<Rightarrow> NoIP | Some x \<Rightarrow> NextIP x)"
    using next_ip_first_free [OF assms] by metis
  then show ?thesis by (force simp: first_free_def not_less [symmetric] split: option.splits)
qed

lemma next_ip_least_free_witness:
  "case next_ip spec29 [] of
      NextIP x \<Rightarrow> x \<in> addr_range (ParseIP (bmn_Start spec29)) (ParseIP (bmn_End spec29)) \<and> x \<notin> reserved spec29 [] \<and>
        (\<forall>y. y \<in> addr_range (ParseIP (bmn_Start spec29)) (ParseIP (bmn_End spec29)) \<and> y \<notin> reserved spec29 [] \<longrightarrow>
           ip_val x \<le> ip_val y)
    | NoIP \<Rightarrow> addr_range (ParseIP (bmn_Start spec29)) (ParseIP (bmn_End spec29)) \<subseteq> reserved spec29 []
    | _ \<Rightarrow> False"
  by (rule next_ip_least_free [OF spec29_cidr]) (simp_all add: spec29_start spec29_end all_ones_def bytes_numeral)

text \<open>
  An address that is handed out lies in the network's CIDR, when its start and end do;
  only an IPv6 range that runs through the IPv4-mapped block is an exception, since Go
  counts the mapped addresses as IPv4 and in no IPv6 network.
\<close>

theorem next_ip_in_network:
  assumes "ParseCIDR (bmn_CIDR spec) = Some (ip, net)"
    and "ParseIP (bmn_Start spec) \<noteq> []" and "ParseIP (bmn_End spec) \<noteq> []"
    and "ParseIP (bmn_End spec) \<noteq> all_ones"
    and "IPNet_Contains net (ParseIP (bmn_Start spec))" and "IPNet_Contains net (ParseIP (bmn_End spec))"
    and "next_ip spec bmes = NextIP x"
  shows "IPNet_Contains net x \<or> IP_To4 (ParseIP (bmn_Start spec)) = [] \<and> IP_To4 x \<noteq> []"
proof -
  obtain r where r: "first_free (\<lambda>x. x \<in> reserved spec bmes) (ParseIP (bmn_Start spec)) (ParseIP (bmn_End spec)) r"
    "next_ip spec bmes = (case r of None \<Rightarrow> NoIP | Some x \<Rightarrow> NextIP x)"
    using next_ip_first_free [OF assms(1-4)] by metis
  then have "x \<in> addr_range (ParseIP (bmn_Start spec)) (ParseIP (bmn_End spec))"
    using assms(7) by (auto simp: first_free_def split: option.splits)
  then show ?thesis
    using Contains_between [OF assms(1,5,6) ParseIP_16 [OF assms(2)] ParseIP_16 [OF assms(3)]] by blast
qed

lemma next_ip_in_network_witness:
  "IPNet_Contains \<lparr>net_IP = [10, 0, 0, 0], net_Mask = [255, 255, 255, 248]\<rparr> [0,0,0,0,0,0,0,0,0,0,255,255,10,0,0,3] \<or>
   IP_To4 (ParseIP (bmn_Start spec29)) = [] \<and> IP_To4 [0,0,0,0,0,0,0,0,0,0,255,255,10,0,0,3] \<noteq> []"
  by (rule next_ip_in_network [OF spec29_cidr _ _ _ _ _ spec29_next])
    (simp_all add: spec29_simps all_ones_def IPNet_Contains_def networkNumberAndMask_def ip_eval)

text \<open>
  No two endpoints of a listing share an address text once one is handed out against it:
  the text of a new address is none of the texts the listed endpoints hold, whatever those
  texts are, and it parses back to the address that was chosen.
\<close>

theorem next_ip_fresh_text:
  assumes "next_ip spec bmes = NextIP x" and "ParseIP (bmn_Start spec) \<noteq> []"
  shows "ParseIP (IP_String x) = x \<and>
    (\<forall>a. IP_String x = addr_IP a \<longrightarrow> (\<forall>bme. bme \<in> set bmes \<longrightarrow> bme_Address (bme_Status bme) \<noteq> Some a))"
  using next_ip_not_reserved [OF assms] not_reserved_fresh [of x spec bmes] go_ip.parse_print by metis

lemma next_ip_fresh_text_witness:
  "ParseIP (IP_String [0,0,0,0,0,0,0,0,0,0,255,255,10,0,0,3]) = [0,0,0,0,0,0,0,0,0,0,255,255,10,0,0,3]"
  using next_ip_fresh_text [OF spec29_next] by (simp add: spec29_start)

text \<open>
  C30: the two ends of a network that the search avoids are its bounds: the broadcast address
  is always computed (the indexing of the loop never panics), and every address Go counts as
  in the network lies between the network address and the broadcast address.
\<close>

theorem broadcast_bounds_network:
  assumes "ParseCIDR s = Some (ip, net)"
  shows "\<exists>bc. broadcast_loop (IP_Mask ip (net_Mask net)) (net_Mask net) = Some bc \<and> length bc = length (net_Mask net) \<and>
    (\<forall>x. length x = 16 \<and> IPNet_Contains net x \<longrightarrow>
       ip_val (to16 (net_IP net)) \<le> ip_val x \<and> ip_val x \<le> ip_val (to16 bc))"
proof -
  obtain k bc where k: "\<And>x. length x = 16 \<Longrightarrow> IPNet_Contains net x \<Longrightarrow>
       ip_val x div 2 ^ k = ip_val (to16 (net_IP net)) div 2 ^ k"
    "ip_val (to16 (net_IP net)) div 2 ^ k * 2 ^ k = ip_val (to16 (net_IP net))"
    "broadcast_of net = Some bc" "ip_val (to16 bc) = ip_val (to16 (net_IP net)) + (2 ^ k - 1)"
    using Contains_prefix [OF assms] by metis
  have "length bc = length (net_Mask net)" using broadcast_of_total [OF assms] k(3) by auto
  moreover have "ip_val (to16 (net_IP net)) \<le> ip_val x \<and> ip_val x \<le> ip_val (to16 bc)"
    if "length x = 16" "IPNet_Contains net x" for x
    using prefix_range [OF k(1) [OF that]] k(2,4) by simp
  ultimately show ?thesis
    using k(3) by (auto simp: broadcast_of_def IP_Mask_ParseCIDR [OF assms])
qed

lemma broadcast_bounds_network_witness:
  "\<exists>bc. broadcast_loop (IP_Mask [0,0,0,0,0,0,0,0,0,0,255,255,10,0,0,0] [255, 255, 255, 248]) [255, 255, 255, 248] = Some bc"
  using broadcast_bounds_network [OF spec29_cidr] by auto

text \<open>
  C31: the search is not bounded by the end of the range when that is the last IPv6 address:
  if every address from the start on is reserved, it wraps to \<^verbatim>\<open>::\<close> and hands that out, an
  address outside the range (the loop's test \<^verbatim>\<open>bytes.Compare(end, ip) >= 0\<close> never fails).
\<close>

theorem next_ip_wraps_past_the_end:
  assumes "ParseCIDR (bmn_CIDR spec) = Some (ip, net)"
    and "ParseIP (bmn_Start spec) \<noteq> []" and "ParseIP (bmn_End spec) = all_ones"
    and "addr_range (ParseIP (bmn_Start spec)) all_ones \<subseteq> reserved spec bmes"
    and "all_zeros \<notin> reserved spec bmes"
  shows "next_ip spec bmes = NextIP all_zeros"
proof -
  obtain bc where bc: "broadcast_of net = Some bc" "next_ip spec bmes =
       (case next_ip_loop (skip_ip (IP_Mask ip (net_Mask net)) (ParseIP (bmn_Gateway spec)) bc
             (items (bmn_Nameservers spec)) bmes) (ParseIP (bmn_End spec)) (ParseIP (bmn_Start spec)) of
          None \<Rightarrow> LoopsForever | Some None \<Rightarrow> NoIP | Some (Some ip) \<Rightarrow> NextIP ip)"
    using next_ip_reduces [OF assms(1)] by metis
  note skip = skip_ip_reserved [OF assms(1) bc(1), where bmes = bmes]
  have "\<forall>x \<in> addr_range (ParseIP (bmn_Start spec)) all_ones.
      skip_ip (IP_Mask ip (net_Mask net)) (ParseIP (bmn_Gateway spec)) bc (items (bmn_Nameservers spec)) bmes x"
    using assms(4) skip by (auto simp: addr_range_def)
  from next_ip_loop_wraps [OF ParseIP_16 [OF assms(2)] this] bc(2) assms(3,5) skip
  show ?thesis by (simp add: next_ip_loop_ones)
qed

definition spec_ones :: BareMetalNetworkSpec where
  "spec_ones = \<lparr>bmn_CIDR = ''ff00::/8'', bmn_Gateway = ''ff00::1'', bmn_Start = ''ffff:ffff:ffff:ffff:ffff:ffff:ffff:ffff'',
    bmn_End = ''ffff:ffff:ffff:ffff:ffff:ffff:ffff:ffff'', bmn_Nameservers = NilSlice, bmn_Search = NilSlice\<rparr>"

lemma spec_ones_cidr: "ParseCIDR (bmn_CIDR spec_ones) =
    Some (255 # replicate 15 0, \<lparr>net_IP = 255 # replicate 15 0, net_Mask = 255 # replicate 15 0\<rparr>)"
  by (simp add: spec_ones_def ip_eval)

lemma spec_ones_ends: "ParseIP (bmn_Start spec_ones) = all_ones" "ParseIP (bmn_End spec_ones) = all_ones"
    "ParseIP (bmn_Gateway spec_ones) = 255 # replicate 14 0 @ [1]"
  by (simp_all add: spec_ones_def ip_eval all_ones_def)

lemma spec_ones_broadcast:
  "broadcast_of \<lparr>net_IP = 255 # replicate 15 0, net_Mask = 255 # replicate 15 0\<rparr> = Some all_ones"
  by (simp add: broadcast_of_def all_ones_def bytes_numeral)

lemma spec_ones_reserved: "reserved spec_ones [] = {255 # replicate 15 0, all_ones, 255 # replicate 14 0 @ [1]}"
  by (auto simp: reserved_def spec_ones_cidr spec_ones_ends spec_ones_broadcast) (simp_all add: spec_ones_def)

lemma addr_range_single: "length s = 16 \<Longrightarrow> addr_range s s = {s}"
  unfolding addr_range_def by (auto intro!: ip_val_inj)

lemma next_ip_wraps_past_the_end_witness:
  "next_ip spec_ones [] = NextIP all_zeros \<and> all_zeros \<notin> addr_range (ParseIP (bmn_Start spec_ones)) (ParseIP (bmn_End spec_ones))"
proof
  show "next_ip spec_ones [] = NextIP all_zeros"
    by (rule next_ip_wraps_past_the_end [OF spec_ones_cidr])
      (simp_all add: spec_ones_ends spec_ones_reserved addr_range_single, simp_all add: all_ones_def all_zeros_def bytes_numeral)
  show "all_zeros \<notin> addr_range (ParseIP (bmn_Start spec_ones)) (ParseIP (bmn_End spec_ones))"
    by (simp add: spec_ones_ends addr_range_single) (simp add: all_ones_def all_zeros_def bytes_numeral)
qed


end
