(* ===== verification/Controllers.thy ===== *)
theory Controllers
  imports Program
begin

text \<open>
  The controllers that only open and close an object's life: the endpoint controller
  (\<^verbatim>\<open>controllers/baremetalendpoint/controller.go\<close>), the instance controller
  (\<^verbatim>\<open>controllers/baremetalinstance/controller.go\<close>), the network controller of the
  \<^verbatim>\<open>BareMetalNetwork\<close> objects and the discovery controller, which does nothing. The objects
  themselves move through their phases in the theories \<open>EndpointNetwork\<close>, \<open>Scheduler\<close>
  and \<open>Provisioner\<close>.
\<close>

section \<open>Reconcilers\<close>

definition EndpointController_Reconcile :: "NamespacedName \<Rightarrow> reconcile" where
  "EndpointController_Reconcile req = fetch_BME req (\<lambda>bme.
     if \<not> IsZero (DeletionTimestamp bme) then
       (if bme_Phase (bme_Status bme) \<noteq> EndpointPhaseDeleted then return_ok
        else update_BME (RemoveFinalizer bme BareMetalEndpointFinalizer) (\<lambda>_. return_ok))
     else if length (bme_Phase (bme_Status bme)) = 0 then
       status_update_BME (bme\<lparr>bme_Status := (bme_Status bme)\<lparr>bme_Phase := EndpointPhasePending\<rparr>\<rparr>)
         (\<lambda>_. return_ok)
     else return_ok)"

definition InstanceController_Reconcile :: "NamespacedName \<Rightarrow> reconcile" where
  "InstanceController_Reconcile req = fetch_BMI req (\<lambda>bmi.
     if \<not> IsZero (DeletionTimestamp bmi) then
       (if bmi_Phase (bmi_Status bmi) \<noteq> PhaseTerminated then return_ok
        else update_BMI (RemoveFinalizer bmi BareMetalInstanceFinalizer) (\<lambda>_. return_ok))
     else if length (bmi_Phase (bmi_Status bmi)) = 0 then
       status_update_BMI (bmi\<lparr>bmi_Status := (bmi_Status bmi)\<lparr>bmi_Phase := PhasePending\<rparr>\<rparr>)
         (\<lambda>_. return_ok)
     else return_ok)"

definition BareMetalNetworkReconciler_Reconcile :: "NamespacedName \<Rightarrow> reconcile" where
  "BareMetalNetworkReconciler_Reconcile req = fetch_BMN req (\<lambda>bmn.
     if \<not> IsZero (DeletionTimestamp bmn) then
       update_BMN (RemoveFinalizer bmn BareMetalNetworkFinalizer) (\<lambda>_. return_ok)
     else return_ok)"

definition BareMetalDiscoveryReconciler_Reconcile :: "NamespacedName \<Rightarrow> reconcile" where
  "BareMetalDiscoveryReconciler_Reconcile req = return_ok"

text \<open>The field index the discovery controller registers and the discovery server looks up.\<close>

definition bmd_systemUUID_index :: "BareMetalDiscovery \<Rightarrow> string" where
  "bmd_systemUUID_index bmd = bmd_SystemUUID (bmd_Spec bmd)"

section \<open>When a finalizer goes\<close>

text \<open>
  What each controller may write: at most one object per run, the one it read, and only to
  start its life or to drop its own finalizer once the phase says the clean-up is over.
\<close>

definition endpoint_controller_write :: "NamespacedName \<Rightarrow> history \<Rightarrow> call \<Rightarrow> bool" where
  "endpoint_controller_write req h c \<longleftrightarrow> \<not> is_write c \<or> no_writes h \<and>
     (\<exists>bme. h = [(GetBME req, ABME (Inr bme))] \<and>
      (c = UpdateBME (RemoveFinalizer bme BareMetalEndpointFinalizer) \<and>
         \<not> IsZero (DeletionTimestamp bme) \<and> bme_Phase (bme_Status bme) = EndpointPhaseDeleted \<or>
       c = StatusUpdateBME (bme\<lparr>bme_Status := (bme_Status bme)\<lparr>bme_Phase := EndpointPhasePending\<rparr>\<rparr>) \<and>
         IsZero (DeletionTimestamp bme) \<and> bme_Phase (bme_Status bme) = []))"

definition instance_controller_write :: "NamespacedName \<Rightarrow> history \<Rightarrow> call \<Rightarrow> bool" where
  "instance_controller_write req h c \<longleftrightarrow> \<not> is_write c \<or> no_writes h \<and>
     (\<exists>bmi. h = [(GetBMI req, ABMI (Inr bmi))] \<and>
      (c = UpdateBMI (RemoveFinalizer bmi BareMetalInstanceFinalizer) \<and>
         \<not> IsZero (DeletionTimestamp bmi) \<and> bmi_Phase (bmi_Status bmi) = PhaseTerminated \<or>
       c = StatusUpdateBMI (bmi\<lparr>bmi_Status := (bmi_Status bmi)\<lparr>bmi_Phase := PhasePending\<rparr>\<rparr>) \<and>
         IsZero (DeletionTimestamp bmi) \<and> bmi_Phase (bmi_Status bmi) = []))"

definition network_controller_write :: "NamespacedName \<Rightarrow> history \<Rightarrow> call \<Rightarrow> bool" where
  "network_controller_write req h c \<longleftrightarrow> \<not> is_write c \<or> no_writes h \<and>
     (\<exists>bmn. h = [(GetBMN req, ABMN (Inr bmn))] \<and> \<not> IsZero (DeletionTimestamp bmn) \<and>
        c = UpdateBMN (RemoveFinalizer bmn BareMetalNetworkFinalizer))"

lemma endpoint_controller_always: "always (endpoint_controller_write req) [] (EndpointController_Reconcile req)"
  by (auto simp: EndpointController_Reconcile_def handler_defs as_BME_def endpoint_controller_write_def
      split: sum.splits answer.splits)

lemma instance_controller_always: "always (instance_controller_write req) [] (InstanceController_Reconcile req)"
  by (auto simp: InstanceController_Reconcile_def handler_defs as_BMI_def instance_controller_write_def
      split: sum.splits answer.splits)

lemma network_controller_always: "always (network_controller_write req) [] (BareMetalNetworkReconciler_Reconcile req)"
  by (auto simp: BareMetalNetworkReconciler_Reconcile_def handler_defs as_BMN_def network_controller_write_def
      split: sum.splits answer.splits)

text \<open>
  C29: the endpoint, instance and network controllers write at most once in a run, and only
  the object they read: a finalizer is dropped only from an object that is being deleted and
  whose phase is Deleted (endpoints) or Terminated (instances), and the phase is set to
  Pending only where there is none.
\<close>

theorem controllers_write_contract:
  "always (endpoint_controller_write req) [] (EndpointController_Reconcile req) \<and>
   always (instance_controller_write req) [] (InstanceController_Reconcile req) \<and>
   always (network_controller_write req) [] (BareMetalNetworkReconciler_Reconcile req)"
  by (intro conjI endpoint_controller_always instance_controller_always network_controller_always)

text \<open>What the controllers do where they have something to do, whatever comes back.\<close>

lemma EndpointController_run:
  "run (EndpointController_Reconcile req) [ABME (Inr bme), a] =
    (if \<not> IsZero (DeletionTimestamp bme) \<and> bme_Phase (bme_Status bme) = EndpointPhaseDeleted then
       ([(GetBME req, ABME (Inr bme)), (UpdateBME (RemoveFinalizer bme BareMetalEndpointFinalizer), a)],
        Returned (no_requeue, case as_BME a of Inl e \<Rightarrow> Some e | Inr _ \<Rightarrow> None))
     else if IsZero (DeletionTimestamp bme) \<and> bme_Phase (bme_Status bme) = [] then
       ([(GetBME req, ABME (Inr bme)),
         (StatusUpdateBME (bme\<lparr>bme_Status := (bme_Status bme)\<lparr>bme_Phase := EndpointPhasePending\<rparr>\<rparr>), a)],
        Returned (no_requeue, case as_BME a of Inl e \<Rightarrow> Some e | Inr _ \<Rightarrow> None))
     else ([(GetBME req, ABME (Inr bme))], Returned (no_requeue, None)))"
  by (auto simp: EndpointController_Reconcile_def handler_defs no_requeue_def split: sum.splits)

end
