(* ===== verification/EndpointLifecycle.thy ===== *)
theory EndpointLifecycle
  imports AddressPool Controllers
begin

text \<open>
  What the network controller does to an endpoint, stated on its status: a step relation, the
  guarantee that every write of a run is one step on the object the run read, its invariants
  and a measure that every step lowers. An address is only ever set under the address lock,
  from a listing made while the lock was held.
\<close>

section \<open>The steps\<close>

inductive endpoint_step :: "bool \<Rightarrow> BareMetalEndpointStatus \<Rightarrow> BareMetalEndpointStatus \<Rightarrow> bool"
  for deleting :: bool where
  start: "\<not> deleting \<Longrightarrow> bme_Address st = None \<Longrightarrow> bme_Phase st = EndpointPhasePending \<Longrightarrow>
    endpoint_step deleting st (st\<lparr>bme_Phase := EndpointPhaseAddressing\<rparr>)"
| address: "\<not> deleting \<Longrightarrow> bme_Address st = None \<Longrightarrow> bme_Phase st \<noteq> EndpointPhasePending \<Longrightarrow>
    bme_Phase st \<noteq> EndpointPhaseAddressed \<Longrightarrow>
    endpoint_step deleting st (st\<lparr>bme_Address := Some a\<rparr>)"
| finish: "\<not> deleting \<Longrightarrow> bme_Address st \<noteq> None \<Longrightarrow> bme_Phase st \<noteq> EndpointPhaseAddressed \<Longrightarrow>
    endpoint_step deleting st (st\<lparr>bme_Phase := EndpointPhaseAddressed\<rparr>)"
| delete: "deleting \<Longrightarrow> bme_Address st \<noteq> None \<Longrightarrow> bme_Phase st \<noteq> EndpointPhaseDeleted \<Longrightarrow>
    bme_Phase st \<noteq> EndpointPhaseDeleting \<Longrightarrow>
    endpoint_step deleting st (st\<lparr>bme_Phase := EndpointPhaseDeleting\<rparr>)"
| release: "deleting \<Longrightarrow> bme_Address st \<noteq> None \<Longrightarrow> bme_Phase st \<noteq> EndpointPhaseDeleted \<Longrightarrow>
    endpoint_step deleting st (st\<lparr>bme_Address := None\<rparr>)"
| deleted: "deleting \<Longrightarrow> bme_Address st = None \<Longrightarrow> bme_Phase st \<noteq> EndpointPhaseDeleted \<Longrightarrow>
    endpoint_step deleting st (st\<lparr>bme_Phase := EndpointPhaseDeleted\<rparr>)"

inductive_cases endpoint_stepE: "endpoint_step d st st'"

text \<open>What remains to be done on an endpoint, in steps.\<close>

definition endpoint_rank :: "bool \<Rightarrow> BareMetalEndpointStatus \<Rightarrow> nat" where
  "endpoint_rank deleting st =
     (if deleting then
        (if bme_Phase st = EndpointPhaseDeleted then 0
         else if bme_Address st = None then 1
         else if bme_Phase st = EndpointPhaseDeleting then 2 else 3)
      else
        (if bme_Phase st = EndpointPhaseAddressed then 0
         else if bme_Address st \<noteq> None then 1
         else if bme_Phase st \<noteq> EndpointPhasePending then 2 else 3))"

definition endpoint_ok :: "bool \<Rightarrow> BareMetalEndpointStatus \<Rightarrow> bool" where
  "endpoint_ok deleting st \<longleftrightarrow>
     (bme_Phase st = EndpointPhaseDeleted \<longrightarrow> deleting \<and> bme_Address st = None) \<and>
     (\<not> deleting \<and> bme_Phase st = EndpointPhaseAddressed \<longrightarrow> bme_Address st \<noteq> None)"

lemma endpoint_step_rank:
  "endpoint_step deleting st st' \<Longrightarrow>
     endpoint_rank deleting st' < endpoint_rank deleting st \<and> endpoint_rank deleting st \<le> 3"
  by (erule endpoint_stepE) (auto simp: endpoint_rank_def consts_simps)

lemma endpoint_step_ok:
  "endpoint_step deleting st st' \<Longrightarrow> endpoint_ok deleting st \<Longrightarrow> endpoint_ok deleting st'"
  by (erule endpoint_stepE) (auto simp: endpoint_ok_def consts_simps)

section \<open>Every write is a step\<close>

text \<open>
  An address is given under the lock: the lock was taken, and not given back, before the
  listing the address was chosen against.
\<close>

definition allocated_under_lock :: "history \<Rightarrow> BareMetalEndpoint \<Rightarrow> bool" where
  "allocated_under_lock h bme' \<longleftrightarrow>
     (\<exists>bme bmn bmes a x ip.
        h = [(GetBME ip, ABME (Inr bme)),
             (GetBMN \<lparr>nn_Namespace = Namespace bme, nn_Name = ref_Name (bme_NetworkRef (bme_Spec bme))\<rparr>, ABMN (Inr bmn)),
             (Lock addressLock, a),
             (ListBME [MatchingFields ''spec.networkRef.group,kind,name'' (network_key bmn)], ABMEs (Inr bmes))] \<and>
        next_ip (bmn_Spec bmn) bmes = NextIP x \<and>
        bme' = bme\<lparr>bme_Status := (bme_Status bme)\<lparr>bme_Address := Some
          \<lparr>addr_IP = IP_String x, addr_CIDR = bmn_CIDR (bmn_Spec bmn), addr_Gateway = bmn_Gateway (bmn_Spec bmn),
           addr_Nameservers = bmn_Nameservers (bmn_Spec bmn), addr_Search = bmn_Search (bmn_Spec bmn)\<rparr>\<rparr>\<rparr>)"

definition network_controller_step :: "NamespacedName \<Rightarrow> history \<Rightarrow> call \<Rightarrow> bool" where
  "network_controller_step req h c \<longleftrightarrow> \<not> is_write c \<or> no_writes h \<and>
     (\<exists>bme st' h'. h = (GetBME req, ABME (Inr bme)) # h' \<and> c = StatusUpdateBME (bme\<lparr>bme_Status := st'\<rparr>) \<and>
        endpoint_step (\<not> IsZero (DeletionTimestamp bme)) (bme_Status bme) st' \<and>
        (bme_Address st' = bme_Address (bme_Status bme) \<or> bme_Address st' = None \<or>
         allocated_under_lock h (bme\<lparr>bme_Status := st'\<rparr>)))"

lemma network_stepI:
  assumes "h = (GetBME req, ABME (Inr bme)) # h'" and "no_writes h'"
    and "endpoint_step (\<not> IsZero (DeletionTimestamp bme)) (bme_Status bme) st'"
    and "bme_Address st' = bme_Address (bme_Status bme) \<or> bme_Address st' = None \<or>
         allocated_under_lock h (bme\<lparr>bme_Status := st'\<rparr>)"
  shows "network_controller_step req h (StatusUpdateBME (bme\<lparr>bme_Status := st'\<rparr>))"
  using assms unfolding network_controller_step_def by auto

lemma network_step_other: "\<not> is_write c \<Longrightarrow> network_controller_step req h c"
  by (simp add: network_controller_step_def)

lemmas network_step_calls = network_step_other [OF is_write_simps(12)] network_step_other [OF is_write_simps(14)]
  network_step_other [OF is_write_simps(15)] network_step_other [OF is_write_simps(18)]
  network_step_other [OF is_write_simps(20)] network_step_other [OF is_write_simps(23)]
  network_step_other [OF is_write_simps(24)]

lemma network_delete_steps:
  assumes "h = (GetBME req, ABME (Inr bme)) # h'" and "no_writes h'" and "\<not> IsZero (DeletionTimestamp bme)"
  shows "always (network_controller_step req) h (network_delete bme bmn)"
  using assms
  by (auto simp: network_delete_def handler_defs intro!: network_stepI endpoint_step.intros
      split: sum.splits)

lemma allocate_address_steps:
  assumes "h = [(GetBME req, ABME (Inr bme)),
      (GetBMN \<lparr>nn_Namespace = Namespace bme, nn_Name = ref_Name (bme_NetworkRef (bme_Spec bme))\<rparr>, ABMN (Inr bmn)),
      (Lock addressLock, a)]"
    and "IsZero (DeletionTimestamp bme)" and "bme_Address (bme_Status bme) = None"
    and "bme_Phase (bme_Status bme) \<noteq> EndpointPhaseAddressed" "bme_Phase (bme_Status bme) \<noteq> EndpointPhasePending"
  shows "always (network_controller_step req) h (allocate_address bme bmn)"
  using assms
  by (auto simp: allocate_address_def handler_defs network_step_calls as_BMEs_def
      allocated_under_lock_def
      intro!: network_stepI endpoint_step.address split: sum.splits answer.splits next_ip_result.splits)

lemma network_address_steps:
  assumes "h = [(GetBME req, ABME (Inr bme)),
      (GetBMN \<lparr>nn_Namespace = Namespace bme, nn_Name = ref_Name (bme_NetworkRef (bme_Spec bme))\<rparr>, ABMN (Inr bmn))]"
    and "IsZero (DeletionTimestamp bme)"
  shows "always (network_controller_step req) h (network_address bme (Some bmn))"
proof -
  have alloc: "always (network_controller_step req) (h @ [(Lock addressLock, a)])
      (deferred (Unlock addressLock) (allocate_address bme bmn))"
    if "bme_Address (bme_Status bme) = None" "bme_Phase (bme_Status bme) \<noteq> EndpointPhaseAddressed"
      "bme_Phase (bme_Status bme) \<noteq> EndpointPhasePending" for a
    by (intro always_deferred network_step_calls allocate_address_steps) (use assms that in simp_all)
  show ?thesis
    using assms alloc
    by (auto simp: network_address_def handler_defs network_step_calls
        intro!: network_stepI endpoint_step.intros split: sum.splits)
qed

lemma network_address_none_steps:
  assumes "h = (GetBME req, ABME (Inr bme)) # h'" and "no_writes h'" and "IsZero (DeletionTimestamp bme)"
  shows "always (network_controller_step req) h (network_address bme None)"
  using assms
  by (auto simp: network_address_def handler_defs network_step_calls
      intro!: network_stepI endpoint_step.intros split: sum.splits)

lemma network_always: "always (network_controller_step req) [] (Network_Reconcile req)"
  by (auto simp: Network_Reconcile_def Network_dispatch_def fetch_BME_def event_def return_defs Let_def
        network_step_calls as_BME_def as_BMN_def
      intro!: network_delete_steps network_address_steps network_address_none_steps
      split: sum.splits answer.splits)

text \<open>
  C5: whatever the API server answers, a run of the network controller writes at most once,
  only the status of the endpoint it read, and that write is one of the six steps; an address
  is set only to the one \<^verbatim>\<open>next_ip\<close> chose, with the address lock held, against a listing of
  the network's endpoints made under the lock.
\<close>

theorem Network_Reconcile_steps: "always (network_controller_step req) [] (Network_Reconcile req)"
  by (rule network_always)

text \<open>
  Every write of the network controller brings the endpoint it read nearer to its end
  (Addressed, or Deleted when it is being deleted) and keeps what holds of its phase and
  address: at most three writes are left at any time, so the controller stops writing.
\<close>

lemma endpoint_writes_end:
  assumes "performs (Network_Reconcile req) ((GetBME req, ABME (Inr bme)) # h) (StatusUpdateBME bme')"
    and "deleting = (\<not> IsZero (DeletionTimestamp bme))"
  shows "endpoint_rank deleting (bme_Status bme') < endpoint_rank deleting (bme_Status bme) \<and>
    endpoint_rank deleting (bme_Status bme) \<le> 3 \<and>
    (endpoint_ok deleting (bme_Status bme) \<longrightarrow> endpoint_ok deleting (bme_Status bme'))"
proof -
  have "network_controller_step req ((GetBME req, ABME (Inr bme)) # h) (StatusUpdateBME bme')"
    using performs_always [OF network_always assms(1)] .
  then have "endpoint_step deleting (bme_Status bme) (bme_Status bme')"
    by (auto simp: network_controller_step_def assms(2))
  then show ?thesis using endpoint_step_rank endpoint_step_ok by blast
qed

definition pending_endpoint :: BareMetalEndpoint where
  "pending_endpoint = \<lparr>Kind = ''BareMetalEndpoint'', APIVersion = [], Name = ''e'', GenerateName = [],
     Namespace = ''default'', UID = ''e'', ResourceVersion = ''1'', Labels = fmempty, OwnerReferences = [],
     Finalizers = [], DeletionTimestamp = None,
     bme_Spec = \<lparr>bme_Primary = True, bme_MAC = ''m'', bme_Bond = None,
       bme_NetworkRef = \<lparr>ref_Name = ''n'', ref_Kind = ''BareMetalNetwork'', ref_Group = GroupVersion_Group\<rparr>\<rparr>,
     bme_Status = \<lparr>Conditions = [], bme_Address = None, bme_Phase = EndpointPhasePending\<rparr>\<rparr>"

definition sample_network :: BareMetalNetwork where
  "sample_network = \<lparr>Kind = ''BareMetalNetwork'', APIVersion = [], Name = ''n'', GenerateName = [],
     Namespace = ''default'', UID = ''n'', ResourceVersion = ''1'', Labels = fmempty, OwnerReferences = [],
     Finalizers = [], DeletionTimestamp = None, bmn_Spec = spec29\<rparr>"

lemma endpoint_writes_example:
  "endpoint_rank False ((bme_Status pending_endpoint)\<lparr>bme_Phase := EndpointPhaseAddressing\<rparr>) <
   endpoint_rank False (bme_Status pending_endpoint)"
proof -
  let ?bme' = "pending_endpoint\<lparr>bme_Status := (bme_Status pending_endpoint)\<lparr>bme_Phase := EndpointPhaseAddressing\<rparr>\<rparr>"
  have "performs (Network_Reconcile (key_of pending_endpoint))
      [(GetBME (key_of pending_endpoint), ABME (Inr pending_endpoint)),
       (GetBMN \<lparr>nn_Namespace = ''default'', nn_Name = ''n''\<rparr>, ABMN (Inr sample_network))]
      (StatusUpdateBME ?bme')"
    by (simp add: Network_Reconcile_def Network_dispatch_def network_address_def fetch_BME_def status_update_BME_def
        pending_endpoint_def Let_def consts_simps)
  from endpoint_writes_end [OF this refl] show ?thesis by (simp add: pending_endpoint_def)
qed

lemma allocate_untouched: "always (lock_untouched addressLock) h (allocate_address bme bmn)"
  by (auto simp: allocate_address_def handler_defs lock_untouched_def
      split: sum.splits next_ip_result.splits)

lemma delete_untouched: "always (lock_untouched addressLock) h (network_delete bme bmn)"
  by (auto simp: network_delete_def handler_defs lock_untouched_def split: sum.splits)

text \<open>
  Every run of the network controller that does not spin gives the address lock back as
  often as it took it, whether the run returns or panics, and takes it at most once.
\<close>

theorem Network_Reconcile_lock: "ends (lock_balanced addressLock) [] (Network_Reconcile req)"
proof -
  have "ends (lock_balanced addressLock) h (Network_dispatch bme bmn)"
    if "call_count (Lock addressLock) h = 0" "call_count (Unlock addressLock) h = 0" for h bme bmn
    using that
    by (auto simp: Network_dispatch_def network_address_def handler_defs lock_balanced_def
        intro!: ends_lock_untouched [OF delete_untouched]
        ends_lock_deferred [OF allocate_untouched] split: sum.splits option.splits)
  then show ?thesis
    by (auto simp: Network_Reconcile_def fetch_BME_def event_def return_defs Let_def lock_balanced_def
        split: sum.splits)
qed

end
