(* ===== verification/Scheduler.thy ===== *)
theory Scheduler
  imports Program
begin

text \<open>
  The scheduler, \<^verbatim>\<open>controllers/baremetalinstance/scheduler.go\<close>: it picks the hardware for a
  pending instance and gives it back when the instance terminates. Label selectors and
  tolerations are matched by code of Kubernetes, the parameters \<open>matches\<close> and \<open>tolerates\<close>.

  The candidate lists of the code hold pointers to the variable of the \<^verbatim>\<open>range\<close> loop. The
  module's Go version gives a loop one variable for all its rounds, so each pointer is the
  address of that one variable, and reading through it after the loop gives what the last
  round left there; the model keeps the variable as a cell of the loop's state.
\<close>

definition scheduleLock :: string where
  "scheduleLock = ''scheduleLock''"

text \<open>The field index of \<^verbatim>\<open>SetupWithManager\<close>.\<close>

definition hardwareName_index :: "BareMetalInstance \<Rightarrow> string" where
  "hardwareName_index bmi = bmi_HardwareName (bmi_Status bmi)"

section \<open>One hardware\<close>

text \<open>Lines 210 to 231: does the instance tolerate every taint that keeps instances away?\<close>

fun tolerates_one :: "(Toleration \<Rightarrow> Taint \<Rightarrow> bool) \<Rightarrow> Toleration list \<Rightarrow> Taint \<Rightarrow> bool" where
  "tolerates_one tolerates [] taint = False"
| "tolerates_one tolerates (tol # tols) taint =
     (if tolerates tol taint then True else tolerates_one tolerates tols taint)"

fun tolerates_all :: "(Toleration \<Rightarrow> Taint \<Rightarrow> bool) \<Rightarrow> Toleration list \<Rightarrow> Taint list \<Rightarrow> bool" where
  "tolerates_all tolerates tols [] = True"
| "tolerates_all tolerates tols (taint # taints) =
     (if taint_Effect taint \<noteq> TaintEffectNoSchedule \<and> taint_Effect taint \<noteq> TaintEffectNoExecute
      then tolerates_all tolerates tols taints
      else if \<not> tolerates_one tolerates tols taint then False
      else tolerates_all tolerates tols taints)"

text \<open>A selector is only built when the instance has a non-empty one.\<close>

definition label_selector :: "BareMetalInstance \<Rightarrow> string_map option" where
  "label_selector bmi = (case bmi_Selector (bmi_Spec bmi) of
     None \<Rightarrow> None
   | Some m \<Rightarrow> if fmdom m = {||} then None else Some m)"

section \<open>The loop over the hardware\<close>

datatype bmh_pointer = AddressOfLoopVariable

record candidates =
  loop_variable :: "BareMetalHardware option"
  scheduledBMH :: "bmh_pointer list"
  unscheduableBMH :: "bmh_pointer list"
  notMatchSelectorBMH :: "bmh_pointer list"
  notTolerateTaint :: "bmh_pointer list"
  acceptableBMH :: "bmh_pointer list"

definition no_candidates :: candidates where
  "no_candidates = \<lparr>loop_variable = None, scheduledBMH = [], unscheduableBMH = [],
     notMatchSelectorBMH = [], notTolerateTaint = [], acceptableBMH = []\<rparr>"

definition deref :: "candidates \<Rightarrow> bmh_pointer \<Rightarrow> BareMetalHardware option" where
  "deref s p = (case p of AddressOfLoopVariable \<Rightarrow> loop_variable s)"

text \<open>The rest of a round, once no instance was found to name the hardware.\<close>

definition classify ::
  "(string_map \<Rightarrow> string_map \<Rightarrow> bool) \<Rightarrow> (Toleration \<Rightarrow> Taint \<Rightarrow> bool) \<Rightarrow> BareMetalInstance \<Rightarrow>
   BareMetalHardware \<Rightarrow> candidates \<Rightarrow> candidates" where
  "classify matches tolerates bmi bmh s =
     (if (case label_selector bmi of None \<Rightarrow> False | Some sel \<Rightarrow> \<not> matches sel (Labels bmh)) then
        s\<lparr>notMatchSelectorBMH := notMatchSelectorBMH s @ [AddressOfLoopVariable]\<rparr>
      else if \<not> bmh_CanProvision (bmh_Spec bmh) then
        s\<lparr>unscheduableBMH := unscheduableBMH s @ [AddressOfLoopVariable]\<rparr>
      else if \<not> tolerates_all tolerates (items (bmi_Tolerations (bmi_Spec bmi))) (bmh_Taints (bmh_Spec bmh)) then
        s\<lparr>notTolerateTaint := notTolerateTaint s @ [AddressOfLoopVariable]\<rparr>
      else s\<lparr>acceptableBMH := acceptableBMH s @ [AddressOfLoopVariable]\<rparr>)"

fun schedule_loop ::
  "(string_map \<Rightarrow> string_map \<Rightarrow> bool) \<Rightarrow> (Toleration \<Rightarrow> Taint \<Rightarrow> bool) \<Rightarrow> BareMetalInstance \<Rightarrow>
   BareMetalHardware list \<Rightarrow> candidates \<Rightarrow> (candidates \<Rightarrow> reconcile) \<Rightarrow> reconcile" where
  "schedule_loop matches tolerates bmi [] s k = k s"
| "schedule_loop matches tolerates bmi (bmh # bmhs) s k =
     (let s = s\<lparr>loop_variable := Some bmh\<rparr> in
      if \<not> IsZero (DeletionTimestamp bmh) then schedule_loop matches tolerates bmi bmhs s k
      else if bmh_InstanceRef (bmh_Status bmh) \<noteq> None then
        schedule_loop matches tolerates bmi bmhs
          (s\<lparr>scheduledBMH := scheduledBMH s @ [AddressOfLoopVariable]\<rparr>) k
      else Call (ListBMI [MatchingFields ''status.hardwareName'' (Name bmh)]) (\<lambda>a.
        case as_BMIs a of
          Inl err \<Rightarrow> return_err err
        | Inr bmis \<Rightarrow>
            if length bmis > 0 then
              schedule_loop matches tolerates bmi bmhs
                (s\<lparr>scheduledBMH := scheduledBMH s @ [AddressOfLoopVariable]\<rparr>) k
            else schedule_loop matches tolerates bmi bmhs (classify matches tolerates bmi bmh s) k))"

section \<open>The outcome of a scheduling round\<close>

text \<open>Lines 241 to 268.\<close>

definition failed_message :: "BareMetalHardware list \<Rightarrow> candidates \<Rightarrow> string" where
  "failed_message totalBMH s =
     (let reasons =
        (if length (scheduledBMH s) = length totalBMH then [''0 hardware is available to be scheduled'']
         else
           (if length (notMatchSelectorBMH s) > 0
            then [show_nat (length (notMatchSelectorBMH s)) @ '' hardware(s) didn'' @ [CHR 0x27] @ ''t match hardware selector''] else []) @
           (if length (unscheduableBMH s) > 0
            then [show_nat (length (unscheduableBMH s)) @ '' hardware(s) were unschedulable''] else []) @
           (if length (notTolerateTaint s) > 0
            then [show_nat (length (notTolerateTaint s)) @ '' hardware(s) had taints that the instance didn'' @ [CHR 0x27] @ ''t tolerate'']
            else []))
      in ''0/'' @ show_nat (length totalBMH) @ '' hardwares are available: '' @ strings_Join reasons '', '' @ ''.'')"

text \<open>Lines 241 to 282, with the pick through the pointers.\<close>

definition schedule_pick ::
  "BareMetalInstance \<Rightarrow> BareMetalHardware list \<Rightarrow> candidates \<Rightarrow> reconcile" where
  "schedule_pick bmi totalBMH s =
     (if length (acceptableBMH s) = 0 then
        event (OnBMI bmi) EventTypeNormal ''FailedScheduling'' (failed_message totalBMH s)
          (return_after (1 * Minute))
      else Call (RandIntn (length (acceptableBMH s))) (\<lambda>a.
        if as_Nat a \<ge> length (acceptableBMH s) then Panic ''index out of range''
        else case deref s (acceptableBMH s ! as_Nat a) of
          None \<Rightarrow> Panic ''nil pointer dereference''
        | Some bmh \<Rightarrow>
            status_update_BMI (bmi\<lparr>bmi_Status := (bmi_Status bmi)\<lparr>bmi_HardwareName := Name bmh\<rparr>\<rparr>) (\<lambda>bmi.
              event (OnBMI bmi) EventTypeNormal InstanceScheduleEventReason
                (''Successfully assigned '' @ Namespace bmi @ ''/'' @ Name bmi @ '' to '' @ bmi_HardwareName (bmi_Status bmi))
                return_ok)))"

definition schedule_round ::
  "(string_map \<Rightarrow> string_map \<Rightarrow> bool) \<Rightarrow> (Toleration \<Rightarrow> Taint \<Rightarrow> bool) \<Rightarrow> BareMetalInstance \<Rightarrow> reconcile" where
  "schedule_round matches tolerates bmi =
     Call (ListBMH [InNamespace (Namespace bmi)]) (\<lambda>a.
       case as_BMHs a of
         Inl err \<Rightarrow> return_err err
       | Inr bmhs \<Rightarrow> schedule_loop matches tolerates bmi bmhs no_candidates (schedule_pick bmi bmhs))"

section \<open>The reconciler\<close>

text \<open>\<^verbatim>\<open>SetCondition\<close> of the scheduled condition, with no reason and no message.\<close>

definition set_scheduled ::
  "BareMetalInstance \<Rightarrow> ConditionStatus \<Rightarrow> (BareMetalInstance \<Rightarrow> reconcile) \<Rightarrow> reconcile" where
  "set_scheduled bmi cs k = set_condition_now (bmi_Status bmi) ConditionTypeInstanceScheduled cs [] []
     (\<lambda>st. k (bmi\<lparr>bmi_Status := st\<rparr>))"

text \<open>Lines 49 to 96: the instance is being deleted.\<close>

definition scheduler_delete :: "BareMetalInstance \<Rightarrow> reconcile" where
  "scheduler_delete bmi =
     (if bmi_Phase (bmi_Status bmi) = PhaseTerminated then return_ok
      else if (case GetCondition (bmi_Status bmi) ConditionTypeInstanceScheduled of
                 None \<Rightarrow> True | Some c \<Rightarrow> cond_Status c \<noteq> ConditionStatusTrue) then
        status_update_BMI (bmi\<lparr>bmi_Status := (bmi_Status bmi)\<lparr>bmi_Phase := PhaseTerminated\<rparr>\<rparr>)
          (\<lambda>_. return_ok)
      else if bmi_Phase (bmi_Status bmi) \<noteq> PhaseTerminating then return_ok
      else Call (Lock scheduleLock) (\<lambda>_. deferred (Unlock scheduleLock)
        (set_scheduled bmi ConditionStatusFalse (\<lambda>bmi.
           let existing = bmi_HardwareName (bmi_Status bmi) in
           status_update_BMI (bmi\<lparr>bmi_Status := (bmi_Status bmi)\<lparr>bmi_HardwareName := []\<rparr>\<rparr>) (\<lambda>bmi.
             event (OnBMI bmi) EventTypeNormal InstanceUnscheduleEventReason
               (''Successfully unassigned '' @ Namespace bmi @ ''/'' @ Name bmi @ '' from '' @ existing)
               return_ok)))))"

text \<open>Lines 98 to 282: a pending instance.\<close>

definition scheduler_pending ::
  "(string_map \<Rightarrow> string_map \<Rightarrow> bool) \<Rightarrow> (Toleration \<Rightarrow> Taint \<Rightarrow> bool) \<Rightarrow> BareMetalInstance \<Rightarrow> reconcile" where
  "scheduler_pending matches tolerates bmi =
     (if bmi_Phase (bmi_Status bmi) \<noteq> PhasePending then return_ok
      else case GetCondition (bmi_Status bmi) ConditionTypeInstanceScheduled of
        None \<Rightarrow> set_scheduled bmi ConditionStatusFalse (\<lambda>bmi. status_update_BMI bmi (\<lambda>_. return_ok))
      | Some scheduledCond \<Rightarrow>
          if cond_Status scheduledCond = ConditionStatusTrue then
            status_update_BMI (bmi\<lparr>bmi_Status := (bmi_Status bmi)\<lparr>bmi_Phase := PhaseProvisioning\<rparr>\<rparr>)
              (\<lambda>_. return_ok)
          else if length (bmi_HardwareName (bmi_Status bmi)) > 0 then
            set_scheduled bmi ConditionStatusTrue (\<lambda>bmi. status_update_BMI bmi (\<lambda>_. return_ok))
          else Call (Lock scheduleLock) (\<lambda>_.
            deferred (Unlock scheduleLock) (schedule_round matches tolerates bmi)))"

definition Scheduler_Reconcile ::
  "(string_map \<Rightarrow> string_map \<Rightarrow> bool) \<Rightarrow> (Toleration \<Rightarrow> Taint \<Rightarrow> bool) \<Rightarrow> NamespacedName \<Rightarrow> reconcile" where
  "Scheduler_Reconcile matches tolerates req = fetch_BMI req (\<lambda>bmi.
     if \<not> IsZero (DeletionTimestamp bmi) then scheduler_delete bmi
     else scheduler_pending matches tolerates bmi)"

section \<open>What a hardware must be to be picked\<close>

definition fits ::
  "(string_map \<Rightarrow> string_map \<Rightarrow> bool) \<Rightarrow> (Toleration \<Rightarrow> Taint \<Rightarrow> bool) \<Rightarrow> BareMetalInstance \<Rightarrow>
   BareMetalHardware \<Rightarrow> bool" where
  "fits matches tolerates bmi bmh \<longleftrightarrow>
     IsZero (DeletionTimestamp bmh) \<and> bmh_InstanceRef (bmh_Status bmh) = None \<and>
     (\<forall>sel. label_selector bmi = Some sel \<longrightarrow> matches sel (Labels bmh)) \<and>
     bmh_CanProvision (bmh_Spec bmh) \<and>
     (\<forall>taint \<in> set (bmh_Taints (bmh_Spec bmh)).
        taint_Effect taint \<in> {TaintEffectNoSchedule, TaintEffectNoExecute} \<longrightarrow>
        (\<exists>tol \<in> set (items (bmi_Tolerations (bmi_Spec bmi))). tolerates tol taint))"

text \<open>The listing of the instances that name a hardware, as the loop asks for it.\<close>

definition instances_of :: "BareMetalHardware \<Rightarrow> call" where
  "instances_of bmh = ListBMI [MatchingFields ''status.hardwareName'' (Name bmh)]"

definition confirmed_free :: "history \<Rightarrow> BareMetalHardware \<Rightarrow> bool" where
  "confirmed_free h bmh \<longleftrightarrow> (instances_of bmh, ABMIs (Inr [])) \<in> set h"

lemma tolerates_one_iff: "tolerates_one tolerates tols taint \<longleftrightarrow> (\<exists>tol \<in> set tols. tolerates tol taint)"
  by (induction tols) auto

lemma tolerates_all_iff: "tolerates_all tolerates tols taints \<longleftrightarrow>
    (\<forall>taint \<in> set taints. taint_Effect taint \<in> {TaintEffectNoSchedule, TaintEffectNoExecute} \<longrightarrow>
       (\<exists>tol \<in> set tols. tolerates tol taint))"
  by (induction taints) (auto simp: tolerates_one_iff)

lemma classify_acceptable:
  assumes "IsZero (DeletionTimestamp bmh)" and "bmh_InstanceRef (bmh_Status bmh) = None"
  shows "acceptableBMH (classify matches tolerates bmi bmh s) =
    (if fits matches tolerates bmi bmh then acceptableBMH s @ [AddressOfLoopVariable] else acceptableBMH s)"
  using assms by (auto simp: classify_def fits_def tolerates_all_iff split: option.splits)

lemma classify_variable [simp]: "loop_variable (classify matches tolerates bmi bmh s) = loop_variable s"
  by (simp add: classify_def split: option.splits)

section \<open>The runs of the loop\<close>

text \<open>
  A complete pass of the loop: the calls it made with their answers, and the lists it left.
\<close>

inductive loop_run ::
  "(string_map \<Rightarrow> string_map \<Rightarrow> bool) \<Rightarrow> (Toleration \<Rightarrow> Taint \<Rightarrow> bool) \<Rightarrow> BareMetalInstance \<Rightarrow>
   BareMetalHardware list \<Rightarrow> candidates \<Rightarrow> history \<Rightarrow> candidates \<Rightarrow> bool"
  for matches tolerates bmi where
  finished: "loop_run matches tolerates bmi [] s [] s"
| deleting: "\<not> IsZero (DeletionTimestamp bmh) \<Longrightarrow>
    loop_run matches tolerates bmi bmhs (s\<lparr>loop_variable := Some bmh\<rparr>) h s' \<Longrightarrow>
    loop_run matches tolerates bmi (bmh # bmhs) s h s'"
| referenced: "IsZero (DeletionTimestamp bmh) \<Longrightarrow> bmh_InstanceRef (bmh_Status bmh) \<noteq> None \<Longrightarrow>
    loop_run matches tolerates bmi bmhs
      (s\<lparr>loop_variable := Some bmh, scheduledBMH := scheduledBMH s @ [AddressOfLoopVariable]\<rparr>) h s' \<Longrightarrow>
    loop_run matches tolerates bmi (bmh # bmhs) s h s'"
| named: "IsZero (DeletionTimestamp bmh) \<Longrightarrow> bmh_InstanceRef (bmh_Status bmh) = None \<Longrightarrow>
    as_BMIs a = Inr bmis \<Longrightarrow> bmis \<noteq> [] \<Longrightarrow>
    loop_run matches tolerates bmi bmhs
      (s\<lparr>loop_variable := Some bmh, scheduledBMH := scheduledBMH s @ [AddressOfLoopVariable]\<rparr>) h s' \<Longrightarrow>
    loop_run matches tolerates bmi (bmh # bmhs) s ((instances_of bmh, a) # h) s'"
| free: "IsZero (DeletionTimestamp bmh) \<Longrightarrow> bmh_InstanceRef (bmh_Status bmh) = None \<Longrightarrow>
    as_BMIs a = Inr [] \<Longrightarrow>
    loop_run matches tolerates bmi bmhs
      (classify matches tolerates bmi bmh (s\<lparr>loop_variable := Some bmh\<rparr>)) h s' \<Longrightarrow>
    loop_run matches tolerates bmi (bmh # bmhs) s ((instances_of bmh, a) # h) s'"

inductive_simps loop_run_Nil [simp]: "loop_run matches tolerates bmi [] s h s'"

lemma schedule_loop_always:
  assumes "\<And>h' s'. loop_run matches tolerates bmi bmhs s h' s' \<Longrightarrow> always P (h @ h') (k s')"
    and "\<And>h os. P h (ListBMI os)"
  shows "always P h (schedule_loop matches tolerates bmi bmhs s k)"
  using assms(1)
proof (induction bmhs arbitrary: s h)
  case Nil
  from Nil [of "[]" s] show ?case by simp
next
  case (Cons bmh bmhs)
  show ?case
  proof (cases "IsZero (DeletionTimestamp bmh) \<and> bmh_InstanceRef (bmh_Status bmh) = None")
    case False
    have "always P h (schedule_loop matches tolerates bmi bmhs (s\<lparr>loop_variable := Some bmh\<rparr>) k)"
      if "\<not> IsZero (DeletionTimestamp bmh)"
      by (rule Cons.IH) (rule Cons.prems [OF loop_run.deleting [OF that]])
    moreover have "always P h (schedule_loop matches tolerates bmi bmhs
        (s\<lparr>loop_variable := Some bmh, scheduledBMH := scheduledBMH s @ [AddressOfLoopVariable]\<rparr>) k)"
      if "IsZero (DeletionTimestamp bmh)"
      by (rule Cons.IH) (rule Cons.prems [OF loop_run.referenced [OF that]], use False that in simp_all)
    ultimately show ?thesis using False by (simp add: Let_def)
  next
    case True
    have "always P (h @ [(instances_of bmh, a)])
        (schedule_loop matches tolerates bmi bmhs
          (s\<lparr>loop_variable := Some bmh, scheduledBMH := scheduledBMH s @ [AddressOfLoopVariable]\<rparr>) k)"
      if "as_BMIs a = Inr bmis" "bmis \<noteq> []" for a bmis
      by (rule Cons.IH) (use Cons.prems [OF loop_run.named [OF _ _ that]] True in simp)
    moreover have "always P (h @ [(instances_of bmh, a)])
        (schedule_loop matches tolerates bmi bmhs
          (classify matches tolerates bmi bmh (s\<lparr>loop_variable := Some bmh\<rparr>)) k)"
      if "as_BMIs a = Inr []" for a
      by (rule Cons.IH) (use Cons.prems [OF loop_run.free [OF _ _ that]] True in simp)
    ultimately show ?thesis
      using True assms(2) by (auto simp: Let_def instances_of_def return_err_def split: sum.splits)
  qed
qed

lemma loop_run_variable:
  "loop_run matches tolerates bmi bmhs s h s' \<Longrightarrow>
     loop_variable s' = (if bmhs = [] then loop_variable s else Some (last bmhs))"
  by (induction rule: loop_run.induct) auto

lemma as_BMIs_Inr: "as_BMIs a = Inr bmis \<longleftrightarrow> a = ABMIs (Inr bmis)"
  by (auto simp: as_BMIs_def split: answer.splits)

text \<open>The candidates are the listed hardware that fits and that no instance names.\<close>

definition accounted ::
  "(string_map \<Rightarrow> string_map \<Rightarrow> bool) \<Rightarrow> (Toleration \<Rightarrow> Taint \<Rightarrow> bool) \<Rightarrow> BareMetalInstance \<Rightarrow>
   BareMetalHardware list \<Rightarrow> history \<Rightarrow> BareMetalHardware list \<Rightarrow> bool" where
  "accounted matches tolerates bmi bmhs h picks \<longleftrightarrow>
     (\<forall>bmh \<in> set picks. bmh \<in> set bmhs \<and> fits matches tolerates bmi bmh \<and> confirmed_free h bmh) \<and>
     (\<forall>bmh \<in> set bmhs. fits matches tolerates bmi bmh \<and> bmh \<notin> set picks \<longrightarrow>
        (\<exists>bmis. bmis \<noteq> [] \<and> (instances_of bmh, ABMIs (Inr bmis)) \<in> set h))"

lemma accounted_skip:
  "accounted matches tolerates bmi bmhs h picks \<Longrightarrow> \<not> fits matches tolerates bmi bmh \<Longrightarrow>
     accounted matches tolerates bmi (bmh # bmhs) h picks"
  by (auto simp: accounted_def)

lemma accounted_named:
  "accounted matches tolerates bmi bmhs h picks \<Longrightarrow> bmis \<noteq> [] \<Longrightarrow>
     accounted matches tolerates bmi (bmh # bmhs) ((instances_of bmh, ABMIs (Inr bmis)) # h) picks"
  by (auto simp: accounted_def confirmed_free_def)

lemma accounted_free:
  "accounted matches tolerates bmi bmhs h picks \<Longrightarrow>
     accounted matches tolerates bmi (bmh # bmhs) ((instances_of bmh, ABMIs (Inr [])) # h)
       (if fits matches tolerates bmi bmh then bmh # picks else picks)"
  by (auto simp: accounted_def confirmed_free_def)

lemma loop_run_acceptable:
  "loop_run matches tolerates bmi bmhs s h s' \<Longrightarrow>
     \<exists>picks. length (acceptableBMH s') = length (acceptableBMH s) + length picks \<and>
       accounted matches tolerates bmi bmhs h picks"
proof (induction rule: loop_run.induct)
  case (finished s)
  show ?case by (intro exI [of _ "[]"]) (simp add: accounted_def)
next
  case (deleting bmh bmhs s h s')
  moreover have "\<not> fits matches tolerates bmi bmh" using deleting.hyps(1) by (simp add: fits_def)
  ultimately show ?case using accounted_skip by fastforce
next
  case (referenced bmh bmhs s h s')
  moreover have "\<not> fits matches tolerates bmi bmh" using referenced.hyps(2) by (simp add: fits_def)
  ultimately show ?case using accounted_skip by fastforce
next
  case (named bmh a bmis bmhs s h s')
  then show ?case using accounted_named by (fastforce simp: as_BMIs_Inr)
next
  case (free bmh a bmhs s h s')
  then obtain picks where "length (acceptableBMH s') =
      length (acceptableBMH (classify matches tolerates bmi bmh (s\<lparr>loop_variable := Some bmh\<rparr>))) + length picks"
    "accounted matches tolerates bmi bmhs h picks" by blast
  then show ?case
    using free.hyps(3) classify_acceptable [OF free.hyps(1,2)] accounted_free [of matches tolerates bmi bmhs h picks bmh]
    by (intro exI [of _ "if fits matches tolerates bmi bmh then bmh # picks else picks"])
      (simp add: as_BMIs_Inr)
qed

lemma loop_run_no_writes: "loop_run matches tolerates bmi bmhs s h s' \<Longrightarrow> no_writes h"
  by (induction rule: loop_run.induct) (auto simp: instances_of_def)

section \<open>The steps of an instance\<close>

definition scheduled_condition :: "ConditionStatus \<Rightarrow> time \<Rightarrow> StatusCondition" where
  "scheduled_condition cs t = \<lparr>cond_Type = ConditionTypeInstanceScheduled, cond_Status = cs,
     cond_LastTransitionTime = Some t, cond_Reason = [], cond_Message = []\<rparr>"

inductive scheduler_step :: "bool \<Rightarrow> BareMetalInstanceStatus \<Rightarrow> BareMetalInstanceStatus \<Rightarrow> bool"
  for deleting :: bool where
  terminate: "deleting \<Longrightarrow> bmi_Phase st \<noteq> PhaseTerminated \<Longrightarrow>
    \<not> has_status st ConditionTypeInstanceScheduled ConditionStatusTrue \<Longrightarrow>
    scheduler_step deleting st (st\<lparr>bmi_Phase := PhaseTerminated\<rparr>)"
| unassign: "deleting \<Longrightarrow> bmi_Phase st = PhaseTerminating \<Longrightarrow>
    has_status st ConditionTypeInstanceScheduled ConditionStatusTrue \<Longrightarrow>
    SetCondition st (scheduled_condition ConditionStatusFalse t) = Inr st' \<Longrightarrow>
    scheduler_step deleting st (st'\<lparr>bmi_HardwareName := []\<rparr>)"
| introduce: "\<not> deleting \<Longrightarrow> bmi_Phase st = PhasePending \<Longrightarrow>
    GetCondition st ConditionTypeInstanceScheduled = None \<Longrightarrow>
    SetCondition st (scheduled_condition ConditionStatusFalse t) = Inr st' \<Longrightarrow>
    scheduler_step deleting st st'"
| provision: "\<not> deleting \<Longrightarrow> bmi_Phase st = PhasePending \<Longrightarrow>
    has_status st ConditionTypeInstanceScheduled ConditionStatusTrue \<Longrightarrow>
    scheduler_step deleting st (st\<lparr>bmi_Phase := PhaseProvisioning\<rparr>)"
| confirm: "\<not> deleting \<Longrightarrow> bmi_Phase st = PhasePending \<Longrightarrow>
    GetCondition st ConditionTypeInstanceScheduled \<noteq> None \<Longrightarrow>
    \<not> has_status st ConditionTypeInstanceScheduled ConditionStatusTrue \<Longrightarrow> bmi_HardwareName st \<noteq> [] \<Longrightarrow>
    SetCondition st (scheduled_condition ConditionStatusTrue t) = Inr st' \<Longrightarrow>
    scheduler_step deleting st st'"
| assign: "\<not> deleting \<Longrightarrow> bmi_Phase st = PhasePending \<Longrightarrow>
    GetCondition st ConditionTypeInstanceScheduled \<noteq> None \<Longrightarrow>
    \<not> has_status st ConditionTypeInstanceScheduled ConditionStatusTrue \<Longrightarrow> bmi_HardwareName st = [] \<Longrightarrow>
    scheduler_step deleting st (st\<lparr>bmi_HardwareName := name\<rparr>)"

inductive_cases scheduler_stepE: "scheduler_step deleting st st'"

section \<open>What a run may do\<close>

definition listed :: "history \<Rightarrow> BareMetalInstance \<Rightarrow> BareMetalHardware list \<Rightarrow> bool" where
  "listed h bmi bmhs \<longleftrightarrow> (ListBMH [InNamespace (Namespace bmi)], ABMHs (Inr bmhs)) \<in> set h"

text \<open>
  A hardware is assigned: some listed hardware fits and was confirmed free, and the name that
  is written is the one of the last hardware of the listing.
\<close>

definition assigns_last ::
  "(string_map \<Rightarrow> string_map \<Rightarrow> bool) \<Rightarrow> (Toleration \<Rightarrow> Taint \<Rightarrow> bool) \<Rightarrow> history \<Rightarrow> BareMetalInstance \<Rightarrow>
   string \<Rightarrow> bool" where
  "assigns_last matches tolerates h bmi name \<longleftrightarrow>
     (\<exists>bmhs. listed h bmi bmhs \<and> bmhs \<noteq> [] \<and> name = Name (last bmhs) \<and>
        (\<exists>bmh \<in> set bmhs. fits matches tolerates bmi bmh \<and> confirmed_free h bmh))"

definition nothing_fits ::
  "(string_map \<Rightarrow> string_map \<Rightarrow> bool) \<Rightarrow> (Toleration \<Rightarrow> Taint \<Rightarrow> bool) \<Rightarrow> history \<Rightarrow> BareMetalInstance \<Rightarrow> bool" where
  "nothing_fits matches tolerates h bmi \<longleftrightarrow>
     (\<exists>bmhs. listed h bmi bmhs \<and> (\<forall>bmh \<in> set bmhs. fits matches tolerates bmi bmh \<longrightarrow>
        (\<exists>bmis. bmis \<noteq> [] \<and> (instances_of bmh, ABMIs (Inr bmis)) \<in> set h)))"

definition scheduler_contract ::
  "(string_map \<Rightarrow> string_map \<Rightarrow> bool) \<Rightarrow> (Toleration \<Rightarrow> Taint \<Rightarrow> bool) \<Rightarrow> NamespacedName \<Rightarrow> history \<Rightarrow>
   call \<Rightarrow> bool" where
  "scheduler_contract matches tolerates req h c \<longleftrightarrow>
     (is_write c \<longrightarrow> no_writes h \<and>
        (\<exists>bmi st' h'. h = (GetBMI req, ABMI (Inr bmi)) # h' \<and> c = StatusUpdateBMI (bmi\<lparr>bmi_Status := st'\<rparr>) \<and>
           scheduler_step (\<not> IsZero (DeletionTimestamp bmi)) (bmi_Status bmi) st' \<and>
           (bmi_HardwareName st' \<noteq> bmi_HardwareName (bmi_Status bmi) \<and> bmi_HardwareName st' \<noteq> [] \<longrightarrow>
              assigns_last matches tolerates h bmi (bmi_HardwareName st')))) \<and>
     (\<forall>obj ety msg. c = Eventf obj ety ''FailedScheduling'' msg \<longrightarrow>
        (\<exists>bmi h'. h = (GetBMI req, ABMI (Inr bmi)) # h' \<and> nothing_fits matches tolerates h bmi))"

lemma scheduler_other:
  "\<not> is_write c \<Longrightarrow> (\<And>obj ety r msg. c \<noteq> Eventf obj ety r msg) \<Longrightarrow> scheduler_contract matches tolerates req h c"
  by (simp add: scheduler_contract_def)

lemma scheduler_stepI:
  assumes "h = (GetBMI req, ABMI (Inr bmi)) # h'" and "no_writes h'"
    and "scheduler_step (\<not> IsZero (DeletionTimestamp bmi)) (bmi_Status bmi) st'"
    and "bmi_HardwareName st' \<noteq> bmi_HardwareName (bmi_Status bmi) \<Longrightarrow> bmi_HardwareName st' \<noteq> [] \<Longrightarrow>
      assigns_last matches tolerates h bmi (bmi_HardwareName st')"
  shows "scheduler_contract matches tolerates req h (StatusUpdateBMI (bmi\<lparr>bmi_Status := st'\<rparr>))"
  unfolding scheduler_contract_def
proof (intro conjI impI exI)
  show "h = (GetBMI req, ABMI (Inr bmi)) # h'" by fact
  show "no_writes h" using assms(1,2) by simp
  show "StatusUpdateBMI (bmi\<lparr>bmi_Status := st'\<rparr>) = StatusUpdateBMI (bmi\<lparr>bmi_Status := st'\<rparr>)" ..
qed (use assms in simp_all)

lemma scheduler_calls:
  "scheduler_contract matches tolerates req h (GetBMI n)" "scheduler_contract matches tolerates req h (ListBMH os)"
  "scheduler_contract matches tolerates req h (ListBMI os)" "scheduler_contract matches tolerates req h (RandIntn k)"
  "scheduler_contract matches tolerates req h (Lock l)" "scheduler_contract matches tolerates req h (Unlock l)"
  "scheduler_contract matches tolerates req h ClockNow"
  "r \<noteq> ''FailedScheduling'' \<Longrightarrow> scheduler_contract matches tolerates req h (Eventf obj ety r msg)"
  by (simp_all add: scheduler_contract_def)

lemma assigns_last_append: "assigns_last matches tolerates h bmi n \<Longrightarrow> assigns_last matches tolerates (h @ h') bmi n"
  by (auto simp: assigns_last_def listed_def confirmed_free_def)

lemma schedule_pick_contract:
  assumes h: "h = (GetBMI req, ABMI (Inr bmi)) # g" "no_writes g" "listed g bmi bmhs"
    and state: "\<not> \<not> IsZero (DeletionTimestamp bmi)" "bmi_Phase (bmi_Status bmi) = PhasePending"
      "GetCondition (bmi_Status bmi) ConditionTypeInstanceScheduled \<noteq> None"
      "\<not> has_status (bmi_Status bmi) ConditionTypeInstanceScheduled ConditionStatusTrue"
      "bmi_HardwareName (bmi_Status bmi) = []"
    and loop: "loop_run matches tolerates bmi bmhs no_candidates h' s'"
  shows "always (scheduler_contract matches tolerates req) (h @ h') (schedule_pick bmi bmhs s')"
proof -
  obtain picks where picks: "length (acceptableBMH s') = length picks" "accounted matches tolerates bmi bmhs h' picks"
    using loop_run_acceptable [OF loop] by (auto simp: no_candidates_def)
  show ?thesis
  proof (cases "picks = []")
    case True
    then have "nothing_fits matches tolerates (h @ h') bmi"
      using picks(2) h(1,3) by (fastforce simp: nothing_fits_def accounted_def listed_def)
    then show ?thesis
      using True picks(1) h(1) by (auto simp: schedule_pick_def event_def return_defs scheduler_contract_def)
  next
    case False
    then obtain bmh where bmh: "bmh \<in> set bmhs" "fits matches tolerates bmi bmh" "confirmed_free h' bmh"
      using picks(2) by (cases picks) (auto simp: accounted_def)
    then have "bmhs \<noteq> []" by auto
    with bmh h(1,3) have last: "assigns_last matches tolerates (h @ h') bmi (Name (last bmhs))"
      by (auto simp: assigns_last_def listed_def confirmed_free_def)
    have var: "loop_variable s' = Some (last bmhs)"
      using loop_run_variable [OF loop] \<open>bmhs \<noteq> []\<close> by simp
    note last' = assigns_last_append [OF last]
    show ?thesis
      using False picks(1) last' h state loop_run_no_writes [OF loop]
      by (auto simp: schedule_pick_def deref_def var scheduler_calls status_update_BMI_def event_def return_defs
          InstanceScheduleEventReason_def intro!: scheduler_stepI scheduler_step.assign split: sum.splits bmh_pointer.splits)
  qed
qed

lemma set_scheduled_contract:
  assumes "\<And>a st. SetCondition (bmi_Status bmi) (scheduled_condition cs (as_Time a)) = Inr st \<Longrightarrow>
      always (scheduler_contract matches tolerates req) (h @ [(ClockNow, a)]) (k (bmi\<lparr>bmi_Status := st\<rparr>))"
  shows "always (scheduler_contract matches tolerates req) h (set_scheduled bmi cs k)"
  using assms
  by (auto simp: set_scheduled_def set_condition_now_def scheduled_condition_def scheduler_calls return_err_def
      split: sum.splits condition_error.splits)

lemma SetCondition_scheduled:
  assumes "SetCondition st c = Inr st'"
  shows "bmi_HardwareName st' = bmi_HardwareName st" "bmi_Phase st' = bmi_Phase st"
  using assms by (auto simp: SetCondition_def split: if_splits)

lemma unscheduled_iff: "(case GetCondition st ct of None \<Rightarrow> True | Some c \<Rightarrow> cond_Status c \<noteq> cs) \<longleftrightarrow> \<not> has_status st ct cs"
  by (simp add: has_status_def split: option.splits)

lemma scheduler_delete_contract:
  assumes "h = (GetBMI req, ABMI (Inr bmi)) # h'" and "no_writes h'" and "\<not> IsZero (DeletionTimestamp bmi)"
  shows "always (scheduler_contract matches tolerates req) h (scheduler_delete bmi)"
proof -
  have unassign: "always (scheduler_contract matches tolerates req) (h @ [(Lock scheduleLock, a)])
      (set_scheduled bmi ConditionStatusFalse (\<lambda>bmi.
         let existing = bmi_HardwareName (bmi_Status bmi) in
         status_update_BMI (bmi\<lparr>bmi_Status := (bmi_Status bmi)\<lparr>bmi_HardwareName := []\<rparr>\<rparr>) (\<lambda>bmi.
           event (OnBMI bmi) EventTypeNormal InstanceUnscheduleEventReason
             (''Successfully unassigned '' @ Namespace bmi @ ''/'' @ Name bmi @ '' from '' @ existing)
             return_ok)))"
    if "bmi_Phase (bmi_Status bmi) = PhaseTerminating"
      "has_status (bmi_Status bmi) ConditionTypeInstanceScheduled ConditionStatusTrue" for a
    using assms that
    by (auto simp: Let_def status_update_BMI_def event_def return_defs scheduler_calls
        InstanceUnscheduleEventReason_def
        intro!: set_scheduled_contract scheduler_stepI scheduler_step.unassign split: sum.splits)
  show ?thesis
    using assms unassign
    by (auto simp: scheduler_delete_def unscheduled_iff status_update_BMI_def return_defs scheduler_calls
        intro!: always_deferred scheduler_stepI scheduler_step.terminate split: sum.splits)
qed

lemma schedule_round_contract:
  assumes "h = (GetBMI req, ABMI (Inr bmi)) # h'" and "no_writes h'" and "IsZero (DeletionTimestamp bmi)"
    and "bmi_Phase (bmi_Status bmi) = PhasePending"
      "GetCondition (bmi_Status bmi) ConditionTypeInstanceScheduled \<noteq> None"
      "\<not> has_status (bmi_Status bmi) ConditionTypeInstanceScheduled ConditionStatusTrue"
      "bmi_HardwareName (bmi_Status bmi) = []"
  shows "always (scheduler_contract matches tolerates req) h (schedule_round matches tolerates bmi)"
proof -
  have "always (scheduler_contract matches tolerates req) (h @ [(ListBMH [InNamespace (Namespace bmi)], a)])
      (schedule_loop matches tolerates bmi bmhs no_candidates (schedule_pick bmi bmhs))"
    if "as_BMHs a = Inr bmhs" for a bmhs
  proof (rule schedule_loop_always)
    have a: "a = ABMHs (Inr bmhs)" using that by (auto simp: as_BMHs_def split: answer.splits)
    fix r s' assume "loop_run matches tolerates bmi bmhs no_candidates r s'"
    then show "always (scheduler_contract matches tolerates req)
        ((h @ [(ListBMH [InNamespace (Namespace bmi)], a)]) @ r) (schedule_pick bmi bmhs s')"
      using assms a
      by (intro schedule_pick_contract [where g = "h' @ [(ListBMH [InNamespace (Namespace bmi)], a)]"])
        (simp_all add: listed_def)
  qed (rule scheduler_calls)
  then show ?thesis
    by (auto simp: schedule_round_def scheduler_calls return_err_def split: sum.splits)
qed

lemma scheduler_pending_contract:
  assumes "h = (GetBMI req, ABMI (Inr bmi)) # h'" and "no_writes h'" and "IsZero (DeletionTimestamp bmi)"
  shows "always (scheduler_contract matches tolerates req) h (scheduler_pending matches tolerates bmi)"
proof (cases "bmi_Phase (bmi_Status bmi) = PhasePending")
  case True
  show ?thesis
  proof (cases "GetCondition (bmi_Status bmi) ConditionTypeInstanceScheduled")
    case None
    then show ?thesis
      using assms True
      by (auto simp: scheduler_pending_def status_update_BMI_def return_defs SetCondition_scheduled
          intro!: set_scheduled_contract scheduler_stepI scheduler_step.introduce split: sum.splits)
  next
    case (Some c)
    then have iff: "has_status (bmi_Status bmi) ConditionTypeInstanceScheduled ConditionStatusTrue \<longleftrightarrow>
        cond_Status c = ConditionStatusTrue"
      by (simp add: has_status_def)
    have round: "always (scheduler_contract matches tolerates req) (h @ [(Lock scheduleLock, a)])
        (schedule_round matches tolerates bmi)"
      if "cond_Status c \<noteq> ConditionStatusTrue" "bmi_HardwareName (bmi_Status bmi) = []" for a
      using assms True Some that iff
      by (intro schedule_round_contract [where h' = "h' @ [(Lock scheduleLock, a)]"]) simp_all
    consider "cond_Status c = ConditionStatusTrue"
      | "cond_Status c \<noteq> ConditionStatusTrue" "bmi_HardwareName (bmi_Status bmi) \<noteq> []"
      | "cond_Status c \<noteq> ConditionStatusTrue" "bmi_HardwareName (bmi_Status bmi) = []" by blast
    then show ?thesis
    proof cases
      case 1
      with assms True Some iff show ?thesis
        by (auto simp: scheduler_pending_def status_update_BMI_def return_defs
            intro!: scheduler_stepI scheduler_step.provision split: sum.splits)
    next
      case 2
      with assms True Some iff show ?thesis
        by (auto simp: scheduler_pending_def status_update_BMI_def return_defs SetCondition_scheduled
            intro!: set_scheduled_contract scheduler_stepI scheduler_step.confirm split: sum.splits)
    next
      case 3
      then show ?thesis
        using True Some round
        by (simp add: scheduler_pending_def scheduler_calls always_deferred)
    qed
  qed
qed (simp add: scheduler_pending_def return_ok_def)

section \<open>Properties\<close>

lemma scheduler_always: "always (scheduler_contract matches tolerates req) [] (Scheduler_Reconcile matches tolerates req)"
  by (auto simp: Scheduler_Reconcile_def fetch_BMI_def scheduler_calls as_BMI_def
      intro!: scheduler_delete_contract scheduler_pending_contract split: sum.splits answer.splits)


text \<open>
  C17: the code does not do what it means to: with two hardware in the namespace, one free and
  fitting, and one after it that another instance holds, the draw can only be the free one
  (index 0 of one candidate), and the name that is stored is the one of the hardware that
  is taken.
\<close>

theorem Scheduler_double_books:
  assumes "IsZero (DeletionTimestamp bmi)" and "bmi_Phase (bmi_Status bmi) = PhasePending"
    and "GetCondition (bmi_Status bmi) ConditionTypeInstanceScheduled = Some cond"
    and "cond_Status cond \<noteq> ConditionStatusTrue" and "bmi_HardwareName (bmi_Status bmi) = []"
    and "fits matches tolerates bmi good"
    and "IsZero (DeletionTimestamp taken)" and "bmh_InstanceRef (bmh_Status taken) \<noteq> None"
  shows "run (Scheduler_Reconcile matches tolerates req)
      [ABMI (Inr bmi), AUnit, ABMHs (Inr [good, taken]), ABMIs (Inr []), ANat 0] =
    ([(GetBMI req, ABMI (Inr bmi)), (Lock scheduleLock, AUnit),
      (ListBMH [InNamespace (Namespace bmi)], ABMHs (Inr [good, taken])),
      (instances_of good, ABMIs (Inr [])), (RandIntn 1, ANat 0)],
     Waiting (StatusUpdateBMI (bmi\<lparr>bmi_Status := (bmi_Status bmi)\<lparr>bmi_HardwareName := Name taken\<rparr>\<rparr>)))"
proof -
  have good: "IsZero (DeletionTimestamp good)" "bmh_InstanceRef (bmh_Status good) = None"
    using assms(6) by (simp_all add: fits_def)
  have "acceptableBMH (classify matches tolerates bmi good s) = acceptableBMH s @ [AddressOfLoopVariable]" for s
    using classify_acceptable [OF good] assms(6) by simp
  with good assms show ?thesis
    by (auto simp: Scheduler_Reconcile_def fetch_BMI_def scheduler_pending_def schedule_round_def Let_def
        no_candidates_def schedule_pick_def deref_def status_update_BMI_def instances_of_def)
qed

definition hw_named :: "string \<Rightarrow> BareMetalHardwareStatusInstanceRef option \<Rightarrow> BareMetalHardware" where
  "hw_named n r = \<lparr>Kind = ''BareMetalHardware'', APIVersion = [], Name = n, GenerateName = [], Namespace = ''default'',
     UID = n, ResourceVersion = ''1'', Labels = fmempty, OwnerReferences = [], Finalizers = [], DeletionTimestamp = None,
     bmh_Spec = \<lparr>bmh_SystemUUID = [], bmh_CanProvision = True, bmh_ImageDrive = [], bmh_NICS = [], bmh_Taints = []\<rparr>,
     bmh_Status = \<lparr>Conditions = [], bmh_InstanceRef = r, bmh_Hardware = None\<rparr>\<rparr>"

definition pending_instance :: BareMetalInstance where
  "pending_instance = \<lparr>Kind = ''BareMetalInstance'', APIVersion = [], Name = ''i'', GenerateName = [], Namespace = ''default'',
     UID = ''i'', ResourceVersion = ''1'', Labels = fmempty, OwnerReferences = [], Finalizers = [], DeletionTimestamp = None,
     bmi_Spec = \<lparr>bmi_Selector = None, bmi_Tolerations = NilSlice\<rparr>,
     bmi_Status = \<lparr>Conditions = [scheduled_condition ConditionStatusFalse 1], bmi_AgentInfo = None,
       bmi_HardwareName = [], bmi_Phase = PhasePending\<rparr>\<rparr>"

lemma Scheduler_double_books_witness:
  "snd (run (Scheduler_Reconcile (\<lambda>_ _. True) (\<lambda>_ _. False) (key_of pending_instance))
      [ABMI (Inr pending_instance), AUnit,
       ABMHs (Inr [hw_named ''a'' None, hw_named ''b'' (Some \<lparr>iref_Name = ''j'', iref_Namespace = ''default'', iref_UID = ''j''\<rparr>)]),
       ABMIs (Inr []), ANat 0]) =
   Waiting (StatusUpdateBMI (pending_instance\<lparr>bmi_Status := (bmi_Status pending_instance)\<lparr>bmi_HardwareName := ''b''\<rparr>\<rparr>))"
proof -
  have "GetCondition (bmi_Status pending_instance) ConditionTypeInstanceScheduled = Some (scheduled_condition ConditionStatusFalse 1)"
    by (simp add: pending_instance_def GetCondition_def scheduled_condition_def)
  moreover have "cond_Status (scheduled_condition ConditionStatusFalse 1) \<noteq> ConditionStatusTrue"
    by (simp add: scheduled_condition_def consts_simps)
  moreover have "fits (\<lambda>_ _. True) (\<lambda>_ _. False) pending_instance (hw_named ''a'' None)"
    by (simp add: fits_def hw_named_def)
  moreover have "IsZero (DeletionTimestamp pending_instance)" "bmi_Phase (bmi_Status pending_instance) = PhasePending"
      "bmi_HardwareName (bmi_Status pending_instance) = []"
    by (simp_all add: pending_instance_def)
  moreover have "IsZero (DeletionTimestamp (hw_named ''b'' (Some r)))" "bmh_InstanceRef (bmh_Status (hw_named ''b'' (Some r))) \<noteq> None"
      "Name (hw_named ''b'' (Some r)) = ''b''" for r
    by (simp_all add: hw_named_def)
  ultimately show ?thesis using Scheduler_double_books [of pending_instance] by simp
qed

text \<open>
  Every run of the scheduler gives the schedule lock back as often as it took it, at most
  once, however it ends.
\<close>

theorem Scheduler_Reconcile_lock:
  "ends (lock_balanced scheduleLock) [] (Scheduler_Reconcile matches tolerates req)"
proof -
  have loop: "always (lock_untouched scheduleLock) h (schedule_loop matches tolerates bmi bmhs s k)"
    if "\<And>h s. always (lock_untouched scheduleLock) h (k s)" for h bmi bmhs s k
    by (rule schedule_loop_always) (simp_all add: that lock_untouched_def)
  have pick: "always (lock_untouched scheduleLock) h (schedule_pick bmi bmhs s)" for h bmi bmhs s
    by (auto simp: schedule_pick_def handler_defs lock_untouched_def split: sum.splits option.splits)
  have round: "always (lock_untouched scheduleLock) h (schedule_round matches tolerates bmi)" for h bmi
    by (auto simp: schedule_round_def return_err_def lock_untouched_def intro!: loop pick split: sum.splits)
  have set: "always (lock_untouched scheduleLock) h (set_scheduled bmi cs k)"
    if "\<And>h bmi. always (lock_untouched scheduleLock) h (k bmi)" for h bmi cs k
    by (auto simp: set_scheduled_def handler_defs lock_untouched_def that split: sum.splits condition_error.splits)
  have delete: "ends (lock_balanced scheduleLock) h (scheduler_delete bmi)"
    if "call_count (Lock scheduleLock) h = 0" "call_count (Unlock scheduleLock) h = 0" for h bmi
    using that
    by (auto simp: scheduler_delete_def Let_def handler_defs lock_balanced_def lock_untouched_def
        intro!: ends_lock_deferred set split: sum.splits)
  have "ends (lock_balanced scheduleLock) h (scheduler_pending matches tolerates bmi)"
    if "call_count (Lock scheduleLock) h = 0" "call_count (Unlock scheduleLock) h = 0" for h bmi
  proof -
    have untouched: "ends (lock_balanced scheduleLock) h (set_scheduled bmi cs (\<lambda>bmi. status_update_BMI bmi (\<lambda>_. return_ok)))" for cs
      using that
      by (auto simp: handler_defs lock_untouched_def intro!: ends_lock_untouched set split: sum.splits)
    show ?thesis
      using that untouched
      by (auto simp: scheduler_pending_def status_update_BMI_def return_defs lock_balanced_def
          intro!: ends_lock_deferred round split: sum.splits option.splits)
  qed
  with delete show ?thesis
    by (auto simp: Scheduler_Reconcile_def fetch_BMI_def lock_balanced_def split: sum.splits)
qed

end
