(* ===== verification/WebhookLaws.thy ===== *)
theory WebhookLaws
  imports Webhooks EndpointLifecycle Scheduler
begin

text \<open>
  What the webhooks guarantee, to the controllers and among each other: the fields that stay
  as they are and the conditions that stay, whatever accepted updates follow each other; which
  objects are accepted when they are created; that the addresses of an accepted network can be
  handed out; and an address that the endpoint webhook never accepts.
\<close>

section \<open>What updates keep\<close>

interpretation discovery_uuid: frozen_field "BMD_ValidateUpdate is_zero" "\<lambda>r. bmd_SystemUUID (bmd_Spec r)" for is_zero
  by unfold_locales (simp add: BMD_ValidateUpdate_def split: if_splits)

interpretation discovery_hardware: update_law "BMD_ValidateUpdate is_zero"
  "\<lambda>old new. bmd_Hardware (bmd_Status old) \<noteq> None \<longrightarrow> bmd_Hardware (bmd_Status new) = bmd_Hardware (bmd_Status old)" for is_zero
  by unfold_locales (auto simp: BMD_ValidateUpdate_def split: if_splits)

interpretation hardware_uuid: frozen_field "BMH_ValidateUpdate is_zero" "\<lambda>r. bmh_SystemUUID (bmh_Spec r)" for is_zero
  by unfold_locales (simp add: BMH_ValidateUpdate_def split: if_splits)

interpretation hardware_hardware: update_law "BMH_ValidateUpdate is_zero"
  "\<lambda>old new. bmh_Hardware (bmh_Status old) \<noteq> None \<longrightarrow> bmh_Hardware (bmh_Status new) = bmh_Hardware (bmh_Status old)" for is_zero
  by unfold_locales (auto simp: BMH_ValidateUpdate_def split: if_splits option.splits)

interpretation instance_spec: frozen_field BMI_ValidateUpdate
  "\<lambda>r. (bmi_Selector (bmi_Spec r), bmi_Tolerations (bmi_Spec r))"
  by unfold_locales (simp add: BMI_ValidateUpdate_def split: if_splits)

interpretation endpoint_spec: frozen_field BME_ValidateUpdate
  "\<lambda>r. (bme_MAC (bme_Spec r), bme_Bond (bme_Spec r), bme_NetworkRef (bme_Spec r))"
  by unfold_locales (simp add: BME_ValidateUpdate_def split: if_splits)

interpretation network_spec: frozen_field BMN_ValidateUpdate bmn_Spec
  by unfold_locales (simp add: BMN_ValidateUpdate_def split: if_splits)

text \<open>The condition types of a status, and the law that none is lost.\<close>

definition condition_types :: "'a StatusConditions_scheme \<Rightarrow> ConditionType set" where
  "condition_types st = {ct. GetCondition st ct \<noteq> None}"

lemma kept_conditions:
  "removed_conditions st' (GetConditions st) = [] \<Longrightarrow> condition_types st \<subseteq> condition_types st'"
  using find_condition_type by (fastforce simp: condition_types_def GetCondition_def GetConditions_def)

interpretation hardware_conditions: update_law "BMH_ValidateUpdate is_zero"
  "\<lambda>old new. condition_types (bmh_Status old) \<subseteq> condition_types (bmh_Status new)" for is_zero
  by unfold_locales (simp_all add: BMH_ValidateUpdate_def kept_conditions)

interpretation instance_conditions: update_law BMI_ValidateUpdate
  "\<lambda>old new. condition_types (bmi_Status old) \<subseteq> condition_types (bmi_Status new)"
  by unfold_locales (simp_all add: BMI_ValidateUpdate_def kept_conditions)

interpretation endpoint_conditions: update_law BME_ValidateUpdate
  "\<lambda>old new. condition_types (bme_Status old) \<subseteq> condition_types (bme_Status new)"
  by unfold_locales (simp_all add: BME_ValidateUpdate_def kept_conditions)

interpretation instance_phase: update_law BMI_ValidateUpdate
  "\<lambda>old new. bmi_Phase (bmi_Status old) \<noteq> [] \<longrightarrow> bmi_Phase (bmi_Status new) \<noteq> []"
  by unfold_locales (auto simp: BMI_ValidateUpdate_def empty_phase_errors_def split: if_splits)

interpretation endpoint_phase: update_law BME_ValidateUpdate
  "\<lambda>old new. bme_Phase (bme_Status old) \<noteq> [] \<longrightarrow> bme_Phase (bme_Status new) \<noteq> []"
  by unfold_locales (auto simp: BME_ValidateUpdate_def empty_phase_errors_def split: if_splits)

text \<open>Objects an object becomes by updates that the validation accepts.\<close>

abbreviation updated :: "('o \<Rightarrow> 'o \<Rightarrow> validation) \<Rightarrow> 'o \<Rightarrow> 'o \<Rightarrow> bool" where
  "updated update \<equiv> (\<lambda>old new. update new old = NoError)\<^sup>*\<^sup>*"

text \<open>
  C27: however many updates the webhooks accept, a discovery and a hardware keep their system
  UUID and the discovered hardware once they have it, an instance keeps selector and
  tolerations, an endpoint its MAC, bond and network, a network its whole spec; no condition
  is ever lost and no phase becomes empty again.
\<close>

theorem webhooks_preserve:
  assumes "updated (BMD_ValidateUpdate is_zero) bmd bmd'" and "updated (BMH_ValidateUpdate is_zero) bmh bmh'"
    and "updated BMI_ValidateUpdate bmi bmi'" and "updated BME_ValidateUpdate bme bme'"
    and "updated BMN_ValidateUpdate bmn bmn'"
  shows "bmd_Spec bmd' = bmd_Spec bmd \<and>
    (bmd_Hardware (bmd_Status bmd) \<noteq> None \<longrightarrow> bmd_Hardware (bmd_Status bmd') = bmd_Hardware (bmd_Status bmd)) \<and>
    bmh_SystemUUID (bmh_Spec bmh') = bmh_SystemUUID (bmh_Spec bmh) \<and>
    (bmh_Hardware (bmh_Status bmh) \<noteq> None \<longrightarrow> bmh_Hardware (bmh_Status bmh') = bmh_Hardware (bmh_Status bmh)) \<and>
    condition_types (bmh_Status bmh) \<subseteq> condition_types (bmh_Status bmh') \<and>
    bmi_Spec bmi' = bmi_Spec bmi \<and> condition_types (bmi_Status bmi) \<subseteq> condition_types (bmi_Status bmi') \<and>
    (bmi_Phase (bmi_Status bmi) \<noteq> [] \<longrightarrow> bmi_Phase (bmi_Status bmi') \<noteq> []) \<and>
    bme_MAC (bme_Spec bme') = bme_MAC (bme_Spec bme) \<and> bme_Bond (bme_Spec bme') = bme_Bond (bme_Spec bme) \<and>
    bme_NetworkRef (bme_Spec bme') = bme_NetworkRef (bme_Spec bme) \<and>
    condition_types (bme_Status bme) \<subseteq> condition_types (bme_Status bme') \<and>
    (bme_Phase (bme_Status bme) \<noteq> [] \<longrightarrow> bme_Phase (bme_Status bme') \<noteq> []) \<and>
    bmn_Spec bmn' = bmn_Spec bmn"
  using discovery_uuid.frozen_forever [OF assms(1)] discovery_hardware.always_keeps [OF assms(1)]
    hardware_uuid.frozen_forever [OF assms(2)] hardware_hardware.always_keeps [OF assms(2)]
    hardware_conditions.always_keeps [OF assms(2)] instance_spec.frozen_forever [OF assms(3)]
    instance_conditions.always_keeps [OF assms(3)] instance_phase.always_keeps [OF assms(3)]
    endpoint_spec.frozen_forever [OF assms(4)] endpoint_conditions.always_keeps [OF assms(4)]
    endpoint_phase.always_keeps [OF assms(4)] network_spec.frozen_forever [OF assms(5)]
  by simp

lemma webhooks_preserve_witness:
  "condition_types (bmi_Status pending_instance) \<subseteq>
   condition_types (bmi_Status (pending_instance\<lparr>bmi_Status := (bmi_Status pending_instance)\<lparr>bmi_HardwareName := ''h''\<rparr>\<rparr>))"
proof -
  let ?bmi' = "pending_instance\<lparr>bmi_Status := (bmi_Status pending_instance)\<lparr>bmi_HardwareName := ''h''\<rparr>\<rparr>"
  have "BMI_ValidateUpdate ?bmi' pending_instance = NoError"
    by (simp add: BMI_ValidateUpdate_def empty_phase_errors_def agent_info_errors_def pending_instance_def
        GetConditions_def GetCondition_def)
  then have "updated BMI_ValidateUpdate pending_instance ?bmi'" by (rule r_into_rtranclp)
  from webhooks_preserve [OF rtranclp.rtrancl_refl rtranclp.rtrancl_refl this rtranclp.rtrancl_refl rtranclp.rtrancl_refl]
  show ?thesis by simp
qed

section \<open>What may be created\<close>

lemma storage_errors_Nil: "storage_errors path i names storages = [] \<longleftrightarrow>
    distinct (map storage_Name storages) \<and> set names \<inter> storage_Name ` set storages = {}"
  by (induction path i names storages rule: storage_errors.induct) auto

lemma nic_errors_Nil: "nic_errors path i names nics = [] \<longleftrightarrow>
    (\<forall>nic \<in> set nics. ParseMAC (hwnic_MAC nic) \<noteq> None) \<and>
    distinct (map hwnic_Name nics) \<and> set names \<inter> hwnic_Name ` set nics = {}"
  by (induction path i names nics rule: nic_errors.induct) (auto simp: Let_def)

text \<open>Discovered hardware the webhooks take: no zero quantities, no name twice, MACs that parse.\<close>

definition sound_hardware :: "(Quantity \<Rightarrow> bool) \<Rightarrow> BareMetalDiscoveryHardware \<Rightarrow> bool" where
  "sound_hardware is_zero hardware \<longleftrightarrow> \<not> is_zero (cpu_CPUS (hw_CPU hardware)) \<and> \<not> is_zero (hw_Ram hardware) \<and>
     distinct (map storage_Name (items (hw_Storage hardware))) \<and>
     distinct (map hwnic_Name (items (hw_NICS hardware))) \<and>
     (\<forall>nic \<in> set (items (hw_NICS hardware)). \<exists>mac. ParseMAC (hwnic_MAC nic) = Some mac \<and> length mac \<in> {6, 8, 20})"

lemma validateHardware_Nil: "validateHardware is_zero hardware path = [] \<longleftrightarrow> sound_hardware is_zero hardware"
  using ParseMAC_length by (fastforce simp: validateHardware_def sound_hardware_def storage_errors_Nil nic_errors_Nil)

text \<open>The nics of a hardware: none, or no name twice and exactly one primary.\<close>

definition sound_nics :: "BareMetalHardwareNIC list \<Rightarrow> bool" where
  "sound_nics nics \<longleftrightarrow> nics = [] \<or> distinct (map nic_Name nics) \<and> length (filter nic_Primary nics) = 1"

lemma is_duplicate_iff [simp]: "is_duplicate name names b \<longleftrightarrow> b \<or> name \<in> set names"
  by (induction name names b rule: is_duplicate.induct) auto

lemma validateNICs_loop_ok:
  "fst (validateNICs_loop i p names nics) = [] \<longleftrightarrow>
     distinct (map nic_Name nics) \<and> set names \<inter> nic_Name ` set nics = {} \<and>
     (if p then 1 else 0) + length (filter nic_Primary nics) \<le> 1 \<or> nics = []"
  "fst (validateNICs_loop i p names nics) = [] \<Longrightarrow>
     snd (validateNICs_loop i p names nics) \<longleftrightarrow> p \<or> filter nic_Primary nics \<noteq> []"
  by (induction i p names nics rule: validateNICs_loop.induct) (auto simp: Let_def split: prod.splits if_splits)

lemma validateNICs_Nil: "validateNICs bmh = [] \<longleftrightarrow> sound_nics (bmh_NICS (bmh_Spec bmh))"
proof -
  let ?nics = "bmh_NICS (bmh_Spec bmh)"
  obtain errs p where loop: "validateNICs_loop 0 False [] ?nics = (errs, p)" by force
  have errs: "errs = [] \<longleftrightarrow> distinct (map nic_Name ?nics) \<and> length (filter nic_Primary ?nics) \<le> 1 \<or> ?nics = []"
    using validateNICs_loop_ok(1) [of 0 False "[]" ?nics] loop by simp
  have "errs = [] \<Longrightarrow> p \<longleftrightarrow> filter nic_Primary ?nics \<noteq> []"
    using validateNICs_loop_ok(2) [of 0 False "[]" ?nics] loop by simp
  with errs loop show ?thesis
    by (cases "filter nic_Primary ?nics") (auto simp: validateNICs_def sound_nics_def)
qed


lemma bond_mac_errors_Nil: "bond_mac_errors i all_macs macs = [] \<longleftrightarrow>
    (\<forall>k < length macs. ParseMAC (macs ! k) \<noteq> None \<and>
       (\<forall>j < length all_macs. j \<noteq> i + k \<longrightarrow> all_macs ! j \<noteq> macs ! k))"
  by (induction i all_macs macs rule: bond_mac_errors.induct) (auto simp: Let_def other_duplicates_Nil All_less_Suc2)

definition sound_macs :: "string list \<Rightarrow> bool" where
  "sound_macs macs \<longleftrightarrow> distinct macs \<and> (\<forall>mac \<in> set macs. ParseMAC mac \<noteq> None)"

lemma bond_macs_sound: "bond_mac_errors 0 macs macs = [] \<longleftrightarrow> sound_macs macs"
  by (auto simp: sound_macs_def bond_mac_errors_Nil distinct_conv_nth all_set_conv_all_nth)

text \<open>A validation that asks the API server: what it asked and was answered when it accepts.\<close>

definition accepts_after :: "history \<Rightarrow> bool \<Rightarrow> history \<Rightarrow> validation outcome \<Rightarrow> bool" where
  "accepts_after asked sound h oc \<longleftrightarrow> (\<exists>v. oc = Returned v \<and> (v = NoError \<longleftrightarrow> h = asked \<and> sound))"

lemma as_BMHs_Inr: "as_BMHs a = Inr bmhs \<longleftrightarrow> a = ABMHs (Inr bmhs)"
  by (auto simp: as_BMHs_def split: answer.splits)

lemma as_BMDs_Inr: "as_BMDs a = Inr bmds \<longleftrightarrow> a = ABMDs (Inr bmds)"
  by (auto simp: as_BMDs_def split: answer.splits)

lemma existing_errors_Nil [simp]: "existing_errors uuid r = [] \<longleftrightarrow> r = Inr []"
  by (auto simp: existing_errors_def split: sum.splits)

text \<open>
  C28: what may be created. A hardware: when the API server lists none with its system UUID, it
  has neither hardware nor an instance, and its nics have distinct names and one primary. A
  discovery: when two listings of discoveries (the second was to be one of hardware) are empty
  and its hardware, if any, is sound. An instance: without hardware name and agent. An
  endpoint: without address, with a MAC that parses, and in a bond distinct MACs that parse.
\<close>

theorem webhooks_create:
  "ends (accepts_after [(ListBMH [MatchingFields ''spec.systemUUID'' (bmh_SystemUUID (bmh_Spec bmh))], ABMHs (Inr []))]
       (bmh_Hardware (bmh_Status bmh) = None \<and> bmh_InstanceRef (bmh_Status bmh) = None \<and> sound_nics (bmh_NICS (bmh_Spec bmh))))
     [] (BMH_ValidateCreate bmh) \<and>
   ends (accepts_after (replicate 2 (ListBMD [MatchingFields ''spec.systemUUID'' (bmd_SystemUUID (bmd_Spec bmd))], ABMDs (Inr [])))
       (case bmd_Hardware (bmd_Status bmd) of None \<Rightarrow> True | Some hardware \<Rightarrow> sound_hardware is_zero hardware))
     [] (BMD_ValidateCreate is_zero bmd) \<and>
   (BMI_ValidateCreate bmi = NoError \<longleftrightarrow> bmi_HardwareName (bmi_Status bmi) = [] \<and> bmi_AgentInfo (bmi_Status bmi) = None) \<and>
   (BME_ValidateCreate bme = NoError \<longleftrightarrow> bme_Address (bme_Status bme) = None \<and> ParseMAC (bme_MAC (bme_Spec bme)) \<noteq> None \<and>
      (case bme_Bond (bme_Spec bme) of None \<Rightarrow> True | Some bond \<Rightarrow> sound_macs (items (bme_MACS bond))))"
proof (intro conjI)
  show "ends (accepts_after [(ListBMH [MatchingFields ''spec.systemUUID'' (bmh_SystemUUID (bmh_Spec bmh))], ABMHs (Inr []))]
       (bmh_Hardware (bmh_Status bmh) = None \<and> bmh_InstanceRef (bmh_Status bmh) = None \<and> sound_nics (bmh_NICS (bmh_Spec bmh))))
     [] (BMH_ValidateCreate bmh)"
    by (auto simp: BMH_ValidateCreate_def accepts_after_def Let_def as_BMHs_Inr validateNICs_Nil)
  show "ends (accepts_after (replicate 2 (ListBMD [MatchingFields ''spec.systemUUID'' (bmd_SystemUUID (bmd_Spec bmd))], ABMDs (Inr [])))
       (case bmd_Hardware (bmd_Status bmd) of None \<Rightarrow> True | Some hardware \<Rightarrow> sound_hardware is_zero hardware))
     [] (BMD_ValidateCreate is_zero bmd)"
    by (auto simp: BMD_ValidateCreate_def accepts_after_def Let_def as_BMDs_Inr validateHardware_Nil numeral_2_eq_2
        split: option.splits)
  show "BMI_ValidateCreate bmi = NoError \<longleftrightarrow> bmi_HardwareName (bmi_Status bmi) = [] \<and> bmi_AgentInfo (bmi_Status bmi) = None"
    by (simp add: BMI_ValidateCreate_def)
  show "BME_ValidateCreate bme = NoError \<longleftrightarrow> bme_Address (bme_Status bme) = None \<and> ParseMAC (bme_MAC (bme_Spec bme)) \<noteq> None \<and>
      (case bme_Bond (bme_Spec bme) of None \<Rightarrow> True | Some bond \<Rightarrow> sound_macs (items (bme_MACS bond)))"
    by (auto simp: BME_ValidateCreate_def bond_macs_sound split: option.splits)
qed

section \<open>Defaults\<close>

lemma default_modes_map [simp]:
  "map nic_Name (default_modes nics) = map nic_Name nics" "map nic_Primary (default_modes nics) = map nic_Primary nics"
  "default_modes (default_modes nics) = default_modes nics" "default_modes nics = [] \<longleftrightarrow> nics = []"
  by (induction nics) (auto simp: BondModeActiveBackup_def split: option.splits)

lemma default_modes_primary [simp]: "length (filter nic_Primary (default_modes nics)) = length (filter nic_Primary nics)"
  by (induction nics) (auto split: option.splits)

lemma default_modes_set: "nic \<in> set (default_modes nics) \<Longrightarrow> nic_Bond nic = Some bond \<Longrightarrow> bond_Mode bond \<noteq> []"
  by (induction nics) (auto simp: BondModeActiveBackup_def split: option.splits if_splits)

definition bonds_have_modes :: "BareMetalHardware \<Rightarrow> bool" where
  "bonds_have_modes bmh \<longleftrightarrow>
     (\<forall>nic \<in> set (bmh_NICS (bmh_Spec bmh)). \<forall>bond. nic_Bond nic = Some bond \<longrightarrow> bond_Mode bond \<noteq> [])"

lemma add_finalizer_idem [simp]: "add_finalizer f (add_finalizer f r) = add_finalizer f r"
  by (simp add: add_finalizer_def HasFinalizer_def)

lemma add_finalizer_more [simp]:
  "DeletionTimestamp (add_finalizer f r) = DeletionTimestamp r" "ObjectMeta.more (add_finalizer f r) = ObjectMeta.more r"
  by (simp_all add: add_finalizer_def)

lemma add_finalizer_fields [simp]:
  "bmi_Spec (add_finalizer f bmi) = bmi_Spec bmi" "bmi_Status (add_finalizer f bmi) = bmi_Status bmi"
  "bme_Spec (add_finalizer f bme) = bme_Spec bme" "bme_Status (add_finalizer f bme) = bme_Status bme"
  "bmn_Spec (add_finalizer f bmn) = bmn_Spec bmn"
  "bmh_Spec (add_finalizer f bmh) = bmh_Spec bmh" "bmh_Status (add_finalizer f bmh) = bmh_Status bmh"
  by (simp_all add: add_finalizer_def)

text \<open>
  Defaulting an object that is not being deleted gives it the finalizer its controller
  later removes, and every bond of a hardware a mode; doing it again changes nothing; and no
  validation sees a difference, so an object is accepted after defaulting exactly when it was
  acceptable before.
\<close>

lemma defaults_neutral:
  "(HasFinalizer (BMH_Default bmh) BareMetalHardwareFinalizer \<longleftrightarrow>
      HasFinalizer bmh BareMetalHardwareFinalizer \<or> IsZero (DeletionTimestamp bmh)) \<and>
   (HasFinalizer (BMI_Default bmi) BareMetalInstanceFinalizer \<longleftrightarrow>
      HasFinalizer bmi BareMetalInstanceFinalizer \<or> IsZero (DeletionTimestamp bmi)) \<and>
   (HasFinalizer (BME_Default bme) BareMetalEndpointFinalizer \<longleftrightarrow>
      HasFinalizer bme BareMetalEndpointFinalizer \<or> IsZero (DeletionTimestamp bme)) \<and>
   (HasFinalizer (BMN_Default bmn) BareMetalNetworkFinalizer \<longleftrightarrow>
      HasFinalizer bmn BareMetalNetworkFinalizer \<or> IsZero (DeletionTimestamp bmn)) \<and>
   BMH_Default (BMH_Default bmh) = BMH_Default bmh \<and> BMI_Default (BMI_Default bmi) = BMI_Default bmi \<and>
   BME_Default (BME_Default bme) = BME_Default bme \<and> BMN_Default (BMN_Default bmn) = BMN_Default bmn \<and>
   (if IsZero (DeletionTimestamp bmh) then bonds_have_modes (BMH_Default bmh) else BMH_Default bmh = bmh) \<and>
   (BMH_ValidateUpdate is_zero (BMH_Default bmh) oldBMH = NoError \<longleftrightarrow> BMH_ValidateUpdate is_zero bmh oldBMH = NoError) \<and>
   (BMI_ValidateUpdate (BMI_Default bmi) oldBMI = NoError \<longleftrightarrow> BMI_ValidateUpdate bmi oldBMI = NoError) \<and>
   (BME_ValidateUpdate (BME_Default bme) oldBME = NoError \<longleftrightarrow> BME_ValidateUpdate bme oldBME = NoError) \<and>
   (BMN_ValidateUpdate (BMN_Default bmn) oldBMN = NoError \<longleftrightarrow> BMN_ValidateUpdate bmn oldBMN = NoError)"
proof -
  have fields: "bmh_Status (BMH_Default bmh) = bmh_Status bmh"
    "bmh_SystemUUID (bmh_Spec (BMH_Default bmh)) = bmh_SystemUUID (bmh_Spec bmh)"
    "sound_nics (bmh_NICS (bmh_Spec (BMH_Default bmh))) \<longleftrightarrow> sound_nics (bmh_NICS (bmh_Spec bmh))"
    by (simp_all add: BMH_Default_def Let_def sound_nics_def)
  have finalizer: "HasFinalizer (BMH_Default bmh) BareMetalHardwareFinalizer \<longleftrightarrow>
      HasFinalizer (add_finalizer BareMetalHardwareFinalizer bmh) BareMetalHardwareFinalizer"
    by (simp add: BMH_Default_def Let_def HasFinalizer_def)
  have idem: "BMH_Default (BMH_Default bmh) = BMH_Default bmh"
    by (auto simp: BMH_Default_def Let_def add_finalizer_def HasFinalizer_def)
  have modes: "if IsZero (DeletionTimestamp bmh) then bonds_have_modes (BMH_Default bmh) else BMH_Default bmh = bmh"
    using default_modes_set by (auto simp: BMH_Default_def Let_def bonds_have_modes_def add_finalizer_def)
  have update: "BMH_ValidateUpdate is_zero (BMH_Default bmh) oldBMH = NoError \<longleftrightarrow> BMH_ValidateUpdate is_zero bmh oldBMH = NoError"
    by (simp add: BMH_ValidateUpdate_def validateNICs_Nil fields split: option.splits)
  have endpoint: "BME_ValidateUpdate (BME_Default bme) oldBME = NoError \<longleftrightarrow> BME_ValidateUpdate bme oldBME = NoError"
    by (simp add: BME_Default_def BME_ValidateUpdate_def split: option.splits)
  show ?thesis
    by (intro conjI modes idem update endpoint)
      (simp_all add: finalizer BMI_Default_def BME_Default_def BMN_Default_def BMI_ValidateUpdate_def BMN_ValidateUpdate_def)
qed

section \<open>Addresses\<close>

lemma address_errors_Nil:
  "address_errors network ip path value bad outside = [] \<longleftrightarrow>
     ParseIP ip \<noteq> [] \<and> (\<forall>n. network = Some n \<longrightarrow> IPNet_Contains n (ParseIP ip))"
  by (simp add: address_errors_def split: option.splits)

lemma nameserver_errors_Nil:
  assumes "nameserver_errors shorten dup networkIP path i all_ns nss = []" and "ns \<in> set nss"
  shows "ParseIP ns \<noteq> [] \<and> (networkIP \<noteq> [] \<longrightarrow> length networkIP = length (shorten (ParseIP ns)))"
  using assms
  by (induction shorten dup networkIP path i all_ns nss rule: nameserver_errors.induct)
    (auto simp: Let_def split: if_splits)

text \<open>What a network was checked for when it was accepted.\<close>

lemma accepted_network:
  assumes "BMN_ValidateCreate bmn = NoError"
  obtains ip net where "ParseCIDR (bmn_CIDR (bmn_Spec bmn)) = Some (ip, net)"
    "ParseIP (bmn_Start (bmn_Spec bmn)) \<noteq> []" "IPNet_Contains net (ParseIP (bmn_Start (bmn_Spec bmn)))"
    "ParseIP (bmn_End (bmn_Spec bmn)) \<noteq> []" "IPNet_Contains net (ParseIP (bmn_End (bmn_Spec bmn)))"
    "ip_val (ParseIP (bmn_Start (bmn_Spec bmn))) < ip_val (ParseIP (bmn_End (bmn_Spec bmn)))"
    "\<And>ns. ns \<in> set (items (bmn_Nameservers (bmn_Spec bmn))) \<Longrightarrow> ParseIP ns \<noteq> []"
proof -
  let ?spec = "bmn_Spec bmn"
  have errs: "network_errors ?spec = []" using assms by (simp add: BMN_ValidateCreate_def)
  then obtain ip net where cidr: "ParseCIDR (bmn_CIDR ?spec) = Some (ip, net)"
    by (cases "ParseCIDR (bmn_CIDR ?spec)") (auto simp: network_errors_def Let_def)
  note errs = errs [unfolded network_errors_def Let_def cidr, simplified, unfolded address_errors_Nil]
  have "ip_val (ParseIP (bmn_Start ?spec)) < ip_val (ParseIP (bmn_End ?spec))"
    using errs bytes_Compare_ge [of "ParseIP (bmn_Start ?spec)" "ParseIP (bmn_End ?spec)"] ParseIP_16
    by (auto split: if_splits)
  moreover have "ParseIP ns \<noteq> []" if "ns \<in> set (items (bmn_Nameservers ?spec))" for ns
    using nameserver_errors_Nil [OF _ that] errs by blast
  ultimately show thesis using that [OF cidr] errs by (auto split: if_splits)
qed

text \<open>
  C15: the checks of the network webhook are what the network controller needs: on a network it
  has accepted the search for an address never fails to parse, panics or runs for ever, unless
  the range ends at the very last IPv6 address; it returns an address of the range that is
  neither reserved nor outside the network (an IPv6 range through the IPv4-mapped block
  excepted), or finds every address of the range reserved.
\<close>

theorem accepted_network_allocates:
  assumes "BMN_ValidateCreate bmn = NoError" and "ParseIP (bmn_End (bmn_Spec bmn)) \<noteq> all_ones"
    and "pool = addr_range (ParseIP (bmn_Start (bmn_Spec bmn))) (ParseIP (bmn_End (bmn_Spec bmn)))"
  shows "pool \<noteq> {} \<and> (case next_ip (bmn_Spec bmn) bmes of
      NextIP x \<Rightarrow> x \<in> pool - reserved (bmn_Spec bmn) bmes \<and>
        (\<exists>ip net. ParseCIDR (bmn_CIDR (bmn_Spec bmn)) = Some (ip, net) \<and>
           (IPNet_Contains net x \<or> IP_To4 (ParseIP (bmn_Start (bmn_Spec bmn))) = [] \<and> IP_To4 x \<noteq> []))
    | NoIP \<Rightarrow> pool \<subseteq> reserved (bmn_Spec bmn) bmes
    | _ \<Rightarrow> False)"
proof -
  let ?spec = "bmn_Spec bmn"
  obtain ip net where net: "ParseCIDR (bmn_CIDR ?spec) = Some (ip, net)"
    "ParseIP (bmn_Start ?spec) \<noteq> []" "IPNet_Contains net (ParseIP (bmn_Start ?spec))"
    "ParseIP (bmn_End ?spec) \<noteq> []" "IPNet_Contains net (ParseIP (bmn_End ?spec))"
    "ip_val (ParseIP (bmn_Start ?spec)) < ip_val (ParseIP (bmn_End ?spec))"
    using accepted_network [OF assms(1)] by metis
  obtain r where r: "first_free (\<lambda>x. x \<in> reserved ?spec bmes) (ParseIP (bmn_Start ?spec)) (ParseIP (bmn_End ?spec)) r"
    "next_ip ?spec bmes = (case r of None \<Rightarrow> NoIP | Some x \<Rightarrow> NextIP x)"
    using next_ip_first_free [OF net(1,2,4) assms(2)] by metis
  note l = ParseIP_16 [OF net(2)] ParseIP_16 [OF net(4)]
  have "ParseIP (bmn_Start ?spec) \<in> pool" using net(6) l assms(3) by (simp add: addr_range_def)
  moreover have "IPNet_Contains net x \<or> IP_To4 (ParseIP (bmn_Start ?spec)) = [] \<and> IP_To4 x \<noteq> []" if "x \<in> pool" for x
    using Contains_between [OF net(1,3,5) l] that assms(3) by blast
  ultimately show ?thesis
    using r net(1) assms(3) by (fastforce simp: first_free_def split: option.splits)
qed


lemma sample_network_accepted: "BMN_ValidateCreate sample_network = NoError"
proof -
  have ips: "ParseIP (bmn_Gateway spec29) = [0,0,0,0,0,0,0,0,0,0,255,255,10,0,0,1]"
    "ParseIP ''10.0.0.2'' = [0,0,0,0,0,0,0,0,0,0,255,255,10,0,0,2]"
    by (simp_all add: spec29_simps ip_eval)
  let ?net = "\<lparr>net_IP = [10, 0, 0, 0], net_Mask = [255, 255, 255, 248]\<rparr>"
  have v4: "IP_To4 [0,0,0,0,0,0,0,0,0,0,255,255,10,0,0,x] = [10,0,0,x]" for x
    by (simp add: IP_To4_def v4InV6Prefix_def bytes_numeral)
  have number: "networkNumberAndMask ?net = ([10, 0, 0, 0], [255, 255, 255, 248])"
    by (simp add: networkNumberAndMask_def IP_To4_def)
  have contains: "IPNet_Contains ?net [0,0,0,0,0,0,0,0,0,0,255,255,10,0,0,x]" if "248 AND x = 0" for x
    using that by (simp add: IPNet_Contains_def number v4 and.commute)
  have masked: "IP_Mask [0,0,0,0,0,0,0,0,0,0,255,255,10,0,0,0] [255, 255, 255, 248] = [10, 0, 0, 0]"
    by (simp add: IP_Mask_def v4InV6Prefix_def bytes_numeral)
  have "bmn_Spec sample_network = spec29" by (simp add: sample_network_def)
  then show ?thesis
    by (simp add: BMN_ValidateCreate_def network_errors_def Let_def spec29_cidr spec29_start spec29_end ips
        spec29_simps(5) address_errors_def network_ip_def shorten4_def contains masked v4)
qed

lemma accepted_network_allocates_witness:
  "addr_range (ParseIP (bmn_Start spec29)) (ParseIP (bmn_End spec29)) \<noteq> {}"
proof -
  have "bmn_Spec sample_network = spec29" by (simp add: sample_network_def)
  then show ?thesis
    using accepted_network_allocates [OF sample_network_accepted _ refl] by (simp add: spec29_end all_ones_def bytes_numeral)
qed


definition addressing_endpoint :: BareMetalEndpoint where
  "addressing_endpoint = pending_endpoint\<lparr>bme_Status := (bme_Status pending_endpoint)\<lparr>bme_Phase := EndpointPhaseAddressing\<rparr>\<rparr>"

definition addressed_endpoint :: BareMetalEndpoint where
  "addressed_endpoint = addressing_endpoint\<lparr>bme_Status := (bme_Status addressing_endpoint)\<lparr>bme_Address := Some
     \<lparr>addr_IP = IP_String [0,0,0,0,0,0,0,0,0,0,255,255,10,0,0,3], addr_CIDR = bmn_CIDR spec29, addr_Gateway = bmn_Gateway spec29,
      addr_Nameservers = bmn_Nameservers spec29, addr_Search = bmn_Search spec29\<rparr>\<rparr>\<rparr>"


end
