(* ===== verification/AddressCluster.thy ===== *)
theory AddressCluster
  imports WebhookLaws
begin

text \<open>
  Workers of the network controller side by side, over an API server with resource versions,
  the informer cache their reads come from, and the address lock: when two endpoints of a
  network can have the same address. Each worker is a run of the reconciler, interleaved with
  the others and with users at every call.
\<close>

section \<open>The cluster\<close>

record cluster =
  cl_store :: "NamespacedName \<Rightarrow> BareMetalEndpoint option"
  cl_cache :: "NamespacedName \<Rightarrow> BareMetalEndpoint option"
  cl_issued :: "string set"
  cl_holder :: "nat option"
  cl_workers :: "nat \<Rightarrow> (NamespacedName \<times> history) option"

abbreviation address_of :: "BareMetalEndpoint \<Rightarrow> BareMetalEndpointStatusAddress option" where
  "address_of bme \<equiv> bme_Address (bme_Status bme)"

abbreviation by_network :: "string \<Rightarrow> call" where
  "by_network key \<equiv> ListBME [MatchingFields ''spec.networkRef.group,kind,name'' key]"

text \<open>
  What worker \<open>t\<close> is answered. Reads come from the cache, the listing through the field index.
  A status is written when the resource version is the stored one, and only the status; the
  object then has a version never issued before. Networks were accepted by their webhook, which
  lets nobody change them. Any read or write may fail.
\<close>

inductive serves :: "nat \<Rightarrow> cluster \<Rightarrow> call \<Rightarrow> answer \<Rightarrow> cluster \<Rightarrow> bool" for t where
  read: "cl_cache \<sigma> key = Some bme \<Longrightarrow> serves t \<sigma> (GetBME key) (ABME (Inr bme)) \<sigma>"
| listed: "set bmes = {bme. \<exists>k. cl_cache \<sigma> k = Some bme \<and> network_index bme = key} \<Longrightarrow>
    serves t \<sigma> (by_network key) (ABMEs (Inr bmes)) \<sigma>"
| network: "key_of bmn = key \<Longrightarrow> Kind bmn = ''BareMetalNetwork'' \<Longrightarrow> BMN_ValidateCreate bmn = NoError \<Longrightarrow>
    serves t \<sigma> (GetBMN key) (ABMN (Inr bmn)) \<sigma>"
| no_network: "serves t \<sigma> (GetBMN key) (ABMN (Inl err)) \<sigma>"
| updated: "cl_store \<sigma> (key_of bme) = Some old \<Longrightarrow> ResourceVersion bme = ResourceVersion old \<Longrightarrow> rv \<notin> cl_issued \<sigma> \<Longrightarrow>
    bme' = old\<lparr>ResourceVersion := rv, bme_Status := bme_Status bme\<rparr> \<Longrightarrow>
    serves t \<sigma> (StatusUpdateBME bme) (ABME (Inr bme'))
      (\<sigma>\<lparr>cl_store := (cl_store \<sigma>)(key_of bme \<mapsto> bme'), cl_issued := insert rv (cl_issued \<sigma>)\<rparr>)"
| failed_read: "serves t \<sigma> (GetBME key) (ABME (Inl err)) \<sigma>"
| failed_list: "serves t \<sigma> (ListBME os) (ABMEs (Inl err)) \<sigma>"
| failed_update: "serves t \<sigma> (StatusUpdateBME bme) (ABME (Inl err)) \<sigma>"
| event: "serves t \<sigma> (Eventf obj ety reason message) AUnit \<sigma>"
| locked: "cl_holder \<sigma> = None \<Longrightarrow> serves t \<sigma> (Lock addressLock) AUnit (\<sigma>\<lparr>cl_holder := Some t\<rparr>)"
| unlocked: "serves t \<sigma> (Unlock addressLock) AUnit (\<sigma>\<lparr>cl_holder := None\<rparr>)"

text \<open>
  The steps: endpoints come without an address, are edited (not their network, which the webhook
  forbids, and not their address) and go; the cache catches up with one of them; a worker takes a request, makes
  its next call, or ends. \<open>synced\<close> demands of a listing that the cache has caught up.
\<close>

inductive cluster_step :: "bool \<Rightarrow> cluster \<Rightarrow> cluster \<Rightarrow> bool" for synced where
  create: "cl_store \<sigma> (key_of bme) = None \<Longrightarrow> address_of bme = None \<Longrightarrow> ResourceVersion bme \<notin> cl_issued \<sigma> \<Longrightarrow>
    cluster_step synced \<sigma> (\<sigma>\<lparr>cl_store := (cl_store \<sigma>)(key_of bme \<mapsto> bme),
      cl_issued := insert (ResourceVersion bme) (cl_issued \<sigma>)\<rparr>)"
| edit: "cl_store \<sigma> (key_of bme) = Some old \<Longrightarrow> network_index bme = network_index old \<Longrightarrow>
    address_of bme = address_of old \<Longrightarrow> ResourceVersion bme \<notin> cl_issued \<sigma> \<Longrightarrow>
    cluster_step synced \<sigma> (\<sigma>\<lparr>cl_store := (cl_store \<sigma>)(key_of bme \<mapsto> bme),
      cl_issued := insert (ResourceVersion bme) (cl_issued \<sigma>)\<rparr>)"
| remove: "cluster_step synced \<sigma> (\<sigma>\<lparr>cl_store := (cl_store \<sigma>)(key := None)\<rparr>)"
| sync: "cluster_step synced \<sigma> (\<sigma>\<lparr>cl_cache := (cl_cache \<sigma>)(key := cl_store \<sigma> key)\<rparr>)"
| begin_run: "cl_workers \<sigma> t = None \<Longrightarrow> cluster_step synced \<sigma> (\<sigma>\<lparr>cl_workers := (cl_workers \<sigma>)(t \<mapsto> (req, []))\<rparr>)"
| call: "cl_workers \<sigma> t = Some (req, h) \<Longrightarrow> performs (Network_Reconcile req) h c \<Longrightarrow> serves t \<sigma> c a \<sigma>' \<Longrightarrow>
    (synced \<and> (\<exists>os. c = ListBME os) \<longrightarrow> cl_cache \<sigma> = cl_store \<sigma>) \<Longrightarrow>
    cluster_step synced \<sigma> (\<sigma>'\<lparr>cl_workers := (cl_workers \<sigma>)(t \<mapsto> (req, h @ [(c, a)]))\<rparr>)"
| finish: "cl_workers \<sigma> t = Some (req, h) \<Longrightarrow> run (Network_Reconcile req) (map snd h) = (h, oc) \<Longrightarrow>
    \<forall>c. oc \<noteq> Waiting c \<Longrightarrow> oc \<noteq> Hung \<Longrightarrow>
    cluster_step synced \<sigma> (\<sigma>\<lparr>cl_workers := (cl_workers \<sigma>)(t := None)\<rparr>)"

definition empty_cluster :: cluster where
  "empty_cluster = \<lparr>cl_store = Map.empty, cl_cache = Map.empty, cl_issued = {}, cl_holder = None, cl_workers = Map.empty\<rparr>"

inductive cluster_reachable :: "bool \<Rightarrow> cluster \<Rightarrow> bool" for synced where
  start: "cluster_reachable synced empty_cluster"
| step: "cluster_reachable synced \<sigma> \<Longrightarrow> cluster_step synced \<sigma> \<sigma>' \<Longrightarrow> cluster_reachable synced \<sigma>'"

text \<open>No two endpoints of one network have the same address.\<close>

definition unique_addresses :: "cluster \<Rightarrow> bool" where
  "unique_addresses \<sigma> \<longleftrightarrow> (\<forall>k k' e e' a a'. k \<noteq> k' \<and> cl_store \<sigma> k = Some e \<and> cl_store \<sigma> k' = Some e' \<and>
     network_index e = network_index e' \<and> address_of e = Some a \<and> address_of e' = Some a' \<longrightarrow> addr_IP a \<noteq> addr_IP a')"


section \<open>Resource versions\<close>

text \<open>A resource version stands for one content: what was read is stored still, or has another.\<close>

definition known :: "cluster \<Rightarrow> BareMetalEndpoint \<Rightarrow> bool" where
  "known \<sigma> bme \<longleftrightarrow> ResourceVersion bme \<in> cl_issued \<sigma> \<and>
     (\<forall>e. cl_store \<sigma> (key_of bme) = Some e \<and> ResourceVersion e = ResourceVersion bme \<longrightarrow> e = bme)"

definition changed :: "cluster \<Rightarrow> cluster \<Rightarrow> bool" where
  "changed \<sigma> \<sigma>' \<longleftrightarrow> cl_issued \<sigma> \<subseteq> cl_issued \<sigma>' \<and>
     (\<forall>k. cl_store \<sigma>' k = cl_store \<sigma> k \<or> cl_store \<sigma>' k = None \<or>
        (\<exists>e. cl_store \<sigma>' k = Some e \<and> key_of e = k \<and> ResourceVersion e \<in> cl_issued \<sigma>' - cl_issued \<sigma>))"

lemma known_changed: "known \<sigma> bme \<Longrightarrow> changed \<sigma> \<sigma>' \<Longrightarrow> known \<sigma>' bme"
  unfolding known_def changed_def by (metis DiffD2 option.distinct(1) option.inject subsetD)

definition reads_known :: "cluster \<Rightarrow> bool" where
  "reads_known \<sigma> \<longleftrightarrow> (\<forall>t req h key bme. cl_workers \<sigma> t = Some (req, h) \<and> (GetBME key, ABME (Inr bme)) \<in> set h \<longrightarrow>
     known \<sigma> bme)"

definition versions_ok :: "cluster \<Rightarrow> bool" where
  "versions_ok \<sigma> \<longleftrightarrow>
     (\<forall>k e. cl_store \<sigma> k = Some e \<longrightarrow> key_of e = k \<and> ResourceVersion e \<in> cl_issued \<sigma>) \<and>
     (\<forall>k e. cl_cache \<sigma> k = Some e \<longrightarrow> key_of e = k \<and> known \<sigma> e)"

lemma serves_changed:
  assumes "serves t \<sigma> c a \<sigma>'" and "versions_ok \<sigma>"
  shows "changed \<sigma> \<sigma>' \<and> cl_cache \<sigma>' = cl_cache \<sigma> \<and> cl_workers \<sigma>' = cl_workers \<sigma>"
  using assms by (cases; force simp: changed_def versions_ok_def key_of_def)

lemma step_changed:
  assumes "cluster_step synced \<sigma> \<sigma>'" and "versions_ok \<sigma>"
  shows "changed \<sigma> \<sigma>'"
  using assms
proof cases
  case (call t req h c a \<sigma>1)
  then show ?thesis using serves_changed [OF call(4) assms(2)] by (simp add: changed_def)
qed (auto simp: changed_def)


lemma stored_changed:
  assumes "changed \<sigma> \<sigma>'" and "versions_ok \<sigma>" and "cl_store \<sigma>' k = Some e"
  shows "key_of e = k \<and> ResourceVersion e \<in> cl_issued \<sigma>'"
proof -
  have "cl_store \<sigma>' k = cl_store \<sigma> k \<or> (\<exists>e. cl_store \<sigma>' k = Some e \<and> key_of e = k \<and> ResourceVersion e \<in> cl_issued \<sigma>')"
    using assms(1,3) unfolding changed_def by (metis DiffD1 option.distinct(1))
  then show ?thesis using assms unfolding versions_ok_def changed_def by auto
qed

lemma stored_known: "versions_ok \<sigma> \<Longrightarrow> cl_store \<sigma> k = Some e \<Longrightarrow> key_of e = k \<and> known \<sigma> e"
  by (auto simp: versions_ok_def known_def)

lemma step_cache:
  assumes "cluster_step synced \<sigma> \<sigma>'" and "versions_ok \<sigma>"
  shows "cl_cache \<sigma>' k = cl_cache \<sigma> k \<or> cl_cache \<sigma>' k = cl_store \<sigma> k"
  using assms
proof cases
  case (call t req h c a \<sigma>1)
  then show ?thesis using serves_changed [OF call(4) assms(2)] by simp
qed auto

lemma step_versions:
  assumes "cluster_step synced \<sigma> \<sigma>'" and "versions_ok \<sigma>"
  shows "versions_ok \<sigma>'"
proof -
  note changed = step_changed [OF assms]
  have "key_of e = k \<and> known \<sigma>' e" if "cl_cache \<sigma>' k = Some e" for k e
  proof -
    have "key_of e = k \<and> known \<sigma> e"
      using step_cache [OF assms, of k] that stored_known [OF assms(2)] assms(2) by (auto simp: versions_ok_def)
    then show ?thesis using known_changed [OF _ changed] by blast
  qed
  then show ?thesis using stored_changed [OF changed assms(2)] by (simp add: versions_ok_def)
qed

lemma step_reads:
  assumes "cluster_step synced \<sigma> \<sigma>'" and "versions_ok \<sigma>" and "reads_known \<sigma>"
  shows "reads_known \<sigma>'"
proof -
  have "known \<sigma> bme" if w: "cl_workers \<sigma>' t = Some (req, h)" and r: "(GetBME key, ABME (Inr bme)) \<in> set h" for t req h key bme
    using assms(1)
  proof cases
    case (call t0 req0 h0 c a \<sigma>1)
    note workers = serves_changed [OF call(4) assms(2)]
    have "(GetBME key, ABME (Inr bme)) \<in> set h0 \<or> c = GetBME key \<and> a = ABME (Inr bme)" if "t = t0"
      using w r call that by auto
    moreover have "known \<sigma> bme" if "c = GetBME key" "a = ABME (Inr bme)"
    proof -
      have "cl_cache \<sigma> key = Some bme" using call(4) that by cases auto
      then show ?thesis using assms(2) by (auto simp: versions_ok_def)
    qed
    moreover have "cl_workers \<sigma> t = Some (req, h)" if "t \<noteq> t0" using w call that by simp
    ultimately show ?thesis using assms(3) r call(2) unfolding reads_known_def by blast
  qed (use w r assms(3) in \<open>auto simp: reads_known_def split: if_splits\<close>)
  then show ?thesis
    using known_changed [OF _ step_changed [OF assms(1,2)]] by (auto simp: reads_known_def)
qed


section \<open>The lock\<close>

definition locked :: "history \<Rightarrow> bool" where
  "locked h \<longleftrightarrow> Lock addressLock \<in> fst ` set h \<and> Unlock addressLock \<notin> fst ` set h"

definition unlocks_locked :: "history \<Rightarrow> call \<Rightarrow> bool" where
  "unlocks_locked h c \<longleftrightarrow> (c = Unlock addressLock \<longrightarrow> locked h)"

lemma unlocks_untouched: "always (lock_untouched addressLock) h p \<Longrightarrow> always unlocks_locked h p"
  by (erule always_mono) (simp add: unlocks_locked_def lock_untouched_def)

lemma unlocks_deferred:
  "always (lock_untouched addressLock) h p \<Longrightarrow> locked h \<Longrightarrow> always unlocks_locked h (deferred (Unlock addressLock) p)"
proof (induction p arbitrary: h)
  case (Call c k)
  then have "locked (h @ [(c, a)])" for a by (auto simp: lock_untouched_def locked_def)
  with Call show ?case by (auto simp: unlocks_locked_def)
qed (simp_all add: unlocks_locked_def)

lemma network_unlocks: "always unlocks_locked [] (Network_Reconcile req)"
proof -
  have locks: "locked (h @ [(Lock addressLock, a)])" if "Unlock addressLock \<notin> fst ` set h" for h a
    using that by (auto simp: locked_def)
  have "always unlocks_locked h (Network_dispatch bme bmn)"
    if "Unlock addressLock \<notin> fst ` set h" for h bme bmn
    using that
    by (auto simp: Network_dispatch_def network_address_def handler_defs unlocks_locked_def
        intro!: unlocks_untouched [OF delete_untouched] unlocks_deferred [OF allocate_untouched] locks
        split: sum.splits option.splits)
  then show ?thesis
    by (auto simp: Network_Reconcile_def fetch_BME_def event_def return_defs Let_def unlocks_locked_def
        split: sum.splits)
qed

definition lock_held :: "cluster \<Rightarrow> bool" where
  "lock_held \<sigma> \<longleftrightarrow> (\<forall>t req h. cl_workers \<sigma> t = Some (req, h) \<and> locked h \<longrightarrow> cl_holder \<sigma> = Some t)"

lemma serves_holder:
  assumes "serves t \<sigma> c a \<sigma>'"
  shows "cl_holder \<sigma>' = (if c = Lock addressLock then Some t else if c = Unlock addressLock then None else cl_holder \<sigma>)"
    and "c = Lock addressLock \<Longrightarrow> cl_holder \<sigma> = None"
  using assms by (cases; simp)+

lemma locked_append:
  "locked (h @ [(c, a)]) \<longleftrightarrow> (locked h \<or> c = Lock addressLock \<and> Unlock addressLock \<notin> fst ` set h) \<and> c \<noteq> Unlock addressLock"
  by (auto simp: locked_def)

lemma step_lock:
  assumes "cluster_step synced \<sigma> \<sigma>'" and "versions_ok \<sigma>" and "lock_held \<sigma>"
  shows "lock_held \<sigma>'"
  using assms(1)
proof cases
  case (call t req h c a \<sigma>1)
  have unlock: "cl_holder \<sigma> = Some t" if "c = Unlock addressLock"
    using performs_always [OF network_unlocks call(3)] that assms(3) call(2)
    by (auto simp: unlocks_locked_def lock_held_def)
  have "cl_holder \<sigma>' = Some t'" if w: "cl_workers \<sigma>' t' = Some (req', h')" and l: "locked h'" for t' req' h'
  proof (cases "t' = t")
    case True
    then show ?thesis
      using w l call serves_holder [OF call(4)] assms(3) by (auto simp: locked_append lock_held_def)
  next
    case False
    then have "cl_holder \<sigma> = Some t'" using w l call assms(3) by (auto simp: lock_held_def)
    then show ?thesis using serves_holder [OF call(4)] unlock False call(1) by auto
  qed
  then show ?thesis by (auto simp: lock_held_def)
qed (use assms(3) in \<open>auto simp: lock_held_def locked_def split: if_splits\<close>)


section \<open>Addresses come from the lock's holder\<close>

text \<open>A worker between its listing and its write.\<close>

definition choosing :: "history \<Rightarrow> string \<Rightarrow> BareMetalEndpoint list \<Rightarrow> bool" where
  "choosing h key bmes \<longleftrightarrow> (\<exists>x y a. h = [x, y, (Lock addressLock, a), (by_network key, ABMEs (Inr bmes))] \<and>
     fst x \<noteq> Unlock addressLock \<and> fst y \<noteq> Unlock addressLock)"

lemma choosing_locked: "choosing h key bmes \<Longrightarrow> locked h"
  by (auto simp: choosing_def locked_def)

definition networks_sound :: "cluster \<Rightarrow> bool" where
  "networks_sound \<sigma> \<longleftrightarrow> (\<forall>t req h key bmn. cl_workers \<sigma> t = Some (req, h) \<and> (GetBMN key, ABMN (Inr bmn)) \<in> set h \<longrightarrow>
     key_of bmn = key \<and> Kind bmn = ''BareMetalNetwork'' \<and> BMN_ValidateCreate bmn = NoError)"

lemma step_networks:
  assumes "cluster_step synced \<sigma> \<sigma>'" and "versions_ok \<sigma>" and "networks_sound \<sigma>"
  shows "networks_sound \<sigma>'"
  using assms(1)
proof cases
  case (call t req h c a \<sigma>1)
  have "key_of bmn = key \<and> Kind bmn = ''BareMetalNetwork'' \<and> BMN_ValidateCreate bmn = NoError"
    if "c = GetBMN key" "a = ABMN (Inr bmn)" for key bmn
    using call(4) that by cases auto
  then show ?thesis using assms(3) call unfolding networks_sound_def by (auto split: if_splits)
qed (use assms(3) in \<open>auto simp: networks_sound_def split: if_splits\<close>)

text \<open>The addresses after a step were there before it, of the same endpoint in the same network.\<close>

definition no_new_address :: "cluster \<Rightarrow> cluster \<Rightarrow> bool" where
  "no_new_address \<sigma> \<sigma>' \<longleftrightarrow> (\<forall>k e' a. cl_store \<sigma>' k = Some e' \<and> address_of e' = Some a \<longrightarrow>
     (\<exists>e. cl_store \<sigma> k = Some e \<and> network_index e = network_index e' \<and> address_of e = Some a))"

text \<open>Or a worker that had made its listing gave the one endpoint \<open>new\<close> a fresh address.\<close>

definition allocates :: "cluster \<Rightarrow> cluster \<Rightarrow> bool" where
  "allocates \<sigma> \<sigma>' \<longleftrightarrow> (\<exists>t req h call key bmes new a.
     cl_workers \<sigma> t = Some (req, h) \<and> choosing h key bmes \<and> cl_workers \<sigma>' = (cl_workers \<sigma>)(t \<mapsto> (req, h @ [call])) \<and>
     cl_store \<sigma>' = (cl_store \<sigma>)(key_of new \<mapsto> new) \<and> network_index new = key \<and> address_of new = Some a \<and>
     (\<forall>e a'. e \<in> set bmes \<and> address_of e = Some a' \<longrightarrow> addr_IP a' \<noteq> addr_IP a))"

lemma network_guards:
  assumes "performs (Network_Reconcile req)
      ((GetBME req, ABME (Inr bme)) # (GetBMN key, ABMN (Inr bmn)) # h) c"
  shows "ref_Group (bme_NetworkRef (bme_Spec bme)) = GroupVersion_Group"
    and "ref_Kind (bme_NetworkRef (bme_Spec bme)) = ''BareMetalNetwork''"
    and "key = \<lparr>nn_Namespace = Namespace bme, nn_Name = ref_Name (bme_NetworkRef (bme_Spec bme))\<rparr>"
  using assms by (auto simp: Network_Reconcile_def fetch_BME_def Let_def return_defs split: if_splits)

lemma allocated_fresh:
  assumes "allocated_under_lock h bme'" and "performs (Network_Reconcile req) h c"
    and "\<And>key bmn. (GetBMN key, ABMN (Inr bmn)) \<in> set h \<Longrightarrow>
      key_of bmn = key \<and> Kind bmn = ''BareMetalNetwork'' \<and> BMN_ValidateCreate bmn = NoError"
  shows "\<exists>bmes a. choosing h (network_index bme') bmes \<and> address_of bme' = Some a \<and>
    (\<forall>e a'. e \<in> set bmes \<and> address_of e = Some a' \<longrightarrow> addr_IP a' \<noteq> addr_IP a)"
proof -
  from assms(1) obtain bme bmn bmes a x ip where h: "h = [(GetBME ip, ABME (Inr bme)),
      (GetBMN \<lparr>nn_Namespace = Namespace bme, nn_Name = ref_Name (bme_NetworkRef (bme_Spec bme))\<rparr>, ABMN (Inr bmn)),
      (Lock addressLock, a), (by_network (network_key bmn), ABMEs (Inr bmes))]"
    and x: "next_ip (bmn_Spec bmn) bmes = NextIP x"
    and bme': "bme' = bme\<lparr>bme_Status := (bme_Status bme)\<lparr>bme_Address := Some
      \<lparr>addr_IP = IP_String x, addr_CIDR = bmn_CIDR (bmn_Spec bmn), addr_Gateway = bmn_Gateway (bmn_Spec bmn),
       addr_Nameservers = bmn_Nameservers (bmn_Spec bmn), addr_Search = bmn_Search (bmn_Spec bmn)\<rparr>\<rparr>\<rparr>"
    unfolding allocated_under_lock_def by blast
  have "ip = req" using assms(2) unfolding h by (simp add: Network_Reconcile_def fetch_BME_def)
  note guards = network_guards [OF assms(2) [unfolded h this]]
  have bmn: "Name bmn = ref_Name (bme_NetworkRef (bme_Spec bme))" "Kind bmn = ''BareMetalNetwork''"
    and accepted: "BMN_ValidateCreate bmn = NoError"
    using assms(3) [of _ bmn] unfolding h by (auto simp: key_of_def)
  have "network_index bme' = network_key bmn"
    using guards bmn by (simp add: bme' network_index_def network_key_def Let_def)
  moreover have "addr_IP a' \<noteq> IP_String x" if "e \<in> set bmes" "address_of e = Some a'" for e a'
    using accepted_network [OF accepted] next_ip_not_reserved [OF x] not_reserved_fresh that by metis
  ultimately show ?thesis
    unfolding choosing_def h bme' by (intro exI [of _ bmes]) auto
qed


lemma update_addresses:
  assumes "cl_workers \<sigma> t = Some (req, h)" and "performs (Network_Reconcile req) h (StatusUpdateBME b)"
    and "serves t \<sigma> (StatusUpdateBME b) (ABME (Inr bme')) \<sigma>1" and "versions_ok \<sigma>" and "reads_known \<sigma>" and "networks_sound \<sigma>"
    and "\<sigma>' = \<sigma>1\<lparr>cl_workers := (cl_workers \<sigma>)(t \<mapsto> (req, h @ [call]))\<rparr>"
  shows "no_new_address \<sigma> \<sigma>' \<or> allocates \<sigma> \<sigma>'"
proof -
  from performs_always [OF network_always assms(2)] obtain bme st h' where
      h: "h = (GetBME req, ABME (Inr bme)) # h'" and b: "b = bme\<lparr>bme_Status := st\<rparr>"
    and cases: "bme_Address st = address_of bme \<or> bme_Address st = None \<or> allocated_under_lock h b"
    by (auto simp: network_controller_step_def)
  from assms(3) obtain old rv where
      old: "cl_store \<sigma> (key_of b) = Some old" "ResourceVersion b = ResourceVersion old"
    and bme': "bme' = old\<lparr>ResourceVersion := rv, bme_Status := st\<rparr>"
    and store: "cl_store \<sigma>1 = (cl_store \<sigma>)(key_of b \<mapsto> bme')"
    by cases (auto simp: b)
  have "(GetBME req, ABME (Inr bme)) \<in> set h" by (simp add: h)
  then have "known \<sigma> bme" using assms(1,5) unfolding reads_known_def by blast
  then have "old = bme" using old by (simp add: known_def b key_of_def)
  then have bme': "bme' = bme\<lparr>ResourceVersion := rv, bme_Status := st\<rparr>" using bme' by simp
  have same: "network_index bme' = network_index bme" "key_of b = key_of bme'" "network_index b = network_index bme'"
    by (simp_all add: bme' b network_index_def key_of_def)
  from cases show ?thesis
  proof (elim disjE)
    assume "bme_Address st = address_of bme"
    then have "no_new_address \<sigma> \<sigma>'"
      using old(1) \<open>old = bme\<close> same by (auto simp: no_new_address_def assms(7) store bme' split: if_splits)
    then show ?thesis by simp
  next
    assume "bme_Address st = None"
    then have "no_new_address \<sigma> \<sigma>'" by (auto simp: no_new_address_def assms(7) store bme')
    then show ?thesis by simp
  next
    assume "allocated_under_lock h b"
    from allocated_fresh [OF this assms(2)] assms(1,6) obtain bmes a where
        "choosing h (network_index b) bmes" "address_of b = Some a"
        "\<forall>e a'. e \<in> set bmes \<and> address_of e = Some a' \<longrightarrow> addr_IP a' \<noteq> addr_IP a"
      unfolding networks_sound_def by blast
    moreover have "address_of bme' = address_of b" by (simp add: bme' b)
    ultimately have "allocates \<sigma> \<sigma>'"
      unfolding allocates_def
      by (intro exI [of _ t] exI [of _ req] exI [of _ h] exI [of _ call] exI [of _ "network_index b"] exI [of _ bmes]
          exI [of _ bme'] exI [of _ a]) (use assms(1) in \<open>simp add: assms(7) store same\<close>)
    then show ?thesis by simp
  qed
qed

lemma unchanged_addresses: "cl_store \<sigma>' = cl_store \<sigma> \<Longrightarrow> no_new_address \<sigma> \<sigma>'"
  by (simp add: no_new_address_def)

lemma step_addresses:
  assumes "cluster_step synced \<sigma> \<sigma>'" and "versions_ok \<sigma>" and "reads_known \<sigma>" and "networks_sound \<sigma>"
  shows "no_new_address \<sigma> \<sigma>' \<or> allocates \<sigma> \<sigma>'"
  using assms(1)
proof cases
  case (call t req h c a \<sigma>1)
  show ?thesis
  proof (cases "\<exists>b bme'. c = StatusUpdateBME b \<and> a = ABME (Inr bme')")
    case True
    then show ?thesis using update_addresses call assms(2-4) by blast
  next
    case False
    from call(4) have "cl_store \<sigma>1 = cl_store \<sigma>" by cases (use False in auto)
    then show ?thesis using call(1) unchanged_addresses by simp
  qed
qed (auto simp: no_new_address_def split: if_splits)


section \<open>Listings made under the lock\<close>

definition covers :: "cluster \<Rightarrow> string \<Rightarrow> BareMetalEndpoint list \<Rightarrow> bool" where
  "covers \<sigma> key bmes \<longleftrightarrow> (\<forall>k e a. cl_store \<sigma> k = Some e \<and> network_index e = key \<and> address_of e = Some a \<longrightarrow>
     (\<exists>e' a'. e' \<in> set bmes \<and> address_of e' = Some a' \<and> addr_IP a' = addr_IP a))"

definition listings_cover :: "cluster \<Rightarrow> bool" where
  "listings_cover \<sigma> \<longleftrightarrow> (\<forall>t req h key bmes. cl_workers \<sigma> t = Some (req, h) \<and> choosing h key bmes \<longrightarrow> covers \<sigma> key bmes)"

lemma covers_no_new: "covers \<sigma> key bmes \<Longrightarrow> no_new_address \<sigma> \<sigma>' \<Longrightarrow> covers \<sigma>' key bmes"
  unfolding covers_def no_new_address_def by metis

lemma choosing_append:
  "choosing (h @ [(c, a)]) key bmes \<Longrightarrow> c = by_network key \<and> a = ABMEs (Inr bmes)"
  by (auto simp: choosing_def append_eq_Cons_conv)

lemma choosing_short: "choosing h key bmes \<Longrightarrow> \<not> choosing (h @ [x]) key' bmes'"
  by (auto simp: choosing_def)

lemma listed_covers:
  assumes "serves t \<sigma> (by_network key) (ABMEs (Inr bmes)) \<sigma>1" and "cl_cache \<sigma> = cl_store \<sigma>"
  shows "covers \<sigma> key bmes \<and> cl_store \<sigma>1 = cl_store \<sigma>"
  using assms by cases (auto simp: covers_def)

lemma step_listings:
  assumes step: "cluster_step True \<sigma> \<sigma>'"
    and ok: "versions_ok \<sigma>" "reads_known \<sigma>" "networks_sound \<sigma>" "lock_held \<sigma>" and "listings_cover \<sigma>"
  shows "listings_cover \<sigma>'"
  using step_addresses [OF step ok(1-3)]
proof
  assume no_new: "no_new_address \<sigma> \<sigma>'"
  have "covers \<sigma>' key bmes" if w: "cl_workers \<sigma>' t = Some (req, h)" "choosing h key bmes" for t req h key bmes
  proof -
    have old: "covers \<sigma>' key bmes" if "cl_workers \<sigma> t = Some (req, h)"
      using that w(2) assms(6) covers_no_new [OF _ no_new] unfolding listings_cover_def by blast
    from step show ?thesis
    proof cases
      case (call t0 req0 h0 c a \<sigma>1)
      show ?thesis
      proof (cases "t = t0")
        case True
        then have "h = h0 @ [(c, a)]" using w(1) call(1) by simp
        then have "c = by_network key \<and> a = ABMEs (Inr bmes)" using choosing_append w(2) by blast
        then have "covers \<sigma> key bmes" using listed_covers call(4,5) by blast
        then show ?thesis using covers_no_new no_new by blast
      next
        case False
        then show ?thesis using old w(1) call(1) by simp
      qed
    qed (use old w in \<open>auto simp: choosing_def split: if_splits\<close>)
  qed
  then show ?thesis by (auto simp: listings_cover_def)
next
  assume "allocates \<sigma> \<sigma>'"
  then obtain t req h call key bmes where t: "cl_workers \<sigma> t = Some (req, h)" "choosing h key bmes"
      "cl_workers \<sigma>' = (cl_workers \<sigma>)(t \<mapsto> (req, h @ [call]))"
    unfolding allocates_def by blast
  have "\<not> choosing h' key' bmes'" if "cl_workers \<sigma>' t' = Some (req', h')" for t' req' h' key' bmes'
  proof
    assume c: "choosing h' key' bmes'"
    show False
    proof (cases "t' = t")
      case True
      then have "h' = h @ [call]" using that t(3) by simp
      then show ?thesis using choosing_short [OF t(2)] c by blast
    next
      case False
      then have "cl_workers \<sigma> t' = Some (req', h')" using that t(3) by simp
      then have "cl_holder \<sigma> = Some t'" "cl_holder \<sigma> = Some t"
        using ok(4) t(1,2) c choosing_locked unfolding lock_held_def by blast+
      then show ?thesis using False by simp
    qed
  qed
  then show ?thesis by (auto simp: listings_cover_def)
qed

lemma step_unique:
  assumes "no_new_address \<sigma> \<sigma>' \<or> allocates \<sigma> \<sigma>'" and "listings_cover \<sigma>" and "unique_addresses \<sigma>"
  shows "unique_addresses \<sigma>'"
  using assms(1)
proof
  assume "no_new_address \<sigma> \<sigma>'"
  then show ?thesis using assms(3) unfolding unique_addresses_def no_new_address_def by metis
next
  assume "allocates \<sigma> \<sigma>'"
  then obtain key bmes new a where covers: "covers \<sigma> key bmes"
    and store: "cl_store \<sigma>' = (cl_store \<sigma>)(key_of new \<mapsto> new)" "network_index new = key" "address_of new = Some a"
    and fresh: "\<forall>e a'. e \<in> set bmes \<and> address_of e = Some a' \<longrightarrow> addr_IP a' \<noteq> addr_IP a"
    using assms(2) unfolding allocates_def listings_cover_def by blast
  have "addr_IP a' \<noteq> addr_IP a" if "cl_store \<sigma> k = Some e" "network_index e = key" "address_of e = Some a'" for k e a'
    using covers fresh that unfolding covers_def by metis
  then show ?thesis
    using assms(3) store unfolding unique_addresses_def by (auto split: if_splits) metis+
qed

definition cluster_ok :: "cluster \<Rightarrow> bool" where
  "cluster_ok \<sigma> \<longleftrightarrow> versions_ok \<sigma> \<and> reads_known \<sigma> \<and> networks_sound \<sigma> \<and> lock_held \<sigma>"

lemma empty_ok: "cluster_ok empty_cluster" "listings_cover empty_cluster" "unique_addresses empty_cluster"
  by (simp_all add: cluster_ok_def versions_ok_def reads_known_def networks_sound_def lock_held_def listings_cover_def
      unique_addresses_def empty_cluster_def)

lemma step_ok_cluster: "cluster_step synced \<sigma> \<sigma>' \<Longrightarrow> cluster_ok \<sigma> \<Longrightarrow> cluster_ok \<sigma>'"
  by (simp add: cluster_ok_def step_versions step_reads step_networks step_lock)

lemma reachable_unique: "cluster_reachable True \<sigma> \<Longrightarrow> cluster_ok \<sigma> \<and> listings_cover \<sigma> \<and> unique_addresses \<sigma>"
proof (induction rule: cluster_reachable.induct)
  case start
  then show ?case by (simp add: empty_ok)
next
  case (step \<sigma> \<sigma>')
  then have ok: "versions_ok \<sigma>" "reads_known \<sigma>" "networks_sound \<sigma>" "lock_held \<sigma>" by (simp_all add: cluster_ok_def)
  show ?case
    using step step_ok_cluster step_listings [OF step(2) ok] step_unique [OF step_addresses [OF step(2) ok(1-3)]] by blast
qed

end
