(* ===== verification/ClusterRuns.thy ===== *)
theory ClusterRuns
  imports AddressCluster
begin

text \<open>
  Runs of one worker after another in the cluster, and what a cache that lags does to them.
\<close>

section \<open>Undisturbed runs\<close>

lemma run_performs:
  "run p (map snd (h @ (c, a) # h')) = (h @ (c, a) # h', oc) \<Longrightarrow> performs p h c"
proof (induction p arbitrary: h)
  case (Call d k)
  show ?case
  proof (cases h)
    case Nil
    with Call.prems show ?thesis by (auto split: prod.splits)
  next
    case (Cons x h0)
    obtain d' b where x: "x = (d', b)" by fastforce
    with Call.prems Cons have "run (k b) (map snd (h0 @ (c, a) # h')) = (h0 @ (c, a) # h', oc)" "d' = d"
      by (auto split: prod.splits)
    with Call.IH [of "k b" h0] show ?thesis by (simp add: Cons x)
  qed
qed auto

primrec serves_all :: "bool \<Rightarrow> nat \<Rightarrow> cluster \<Rightarrow> history \<Rightarrow> cluster \<Rightarrow> bool" where
  "serves_all synced t \<sigma> [] \<sigma>' \<longleftrightarrow> \<sigma>' = \<sigma>"
| "serves_all synced t \<sigma> (ca # h) \<sigma>' \<longleftrightarrow> (\<exists>\<sigma>1. serves t \<sigma> (fst ca) (snd ca) \<sigma>1 \<and>
     (synced \<and> (\<exists>os. fst ca = ListBME os) \<longrightarrow> cl_cache \<sigma> = cl_store \<sigma>) \<and> serves_all synced t \<sigma>1 h \<sigma>')"

lemma serves_workers:
  assumes "serves t \<sigma> c a \<sigma>'"
  shows "serves t (\<sigma>\<lparr>cl_workers := w\<rparr>) c a (\<sigma>'\<lparr>cl_workers := w\<rparr>)" and "cl_workers \<sigma>' = cl_workers \<sigma>"
proof -
  show "cl_workers \<sigma>' = cl_workers \<sigma>" using assms by cases simp_all
  show "serves t (\<sigma>\<lparr>cl_workers := w\<rparr>) c a (\<sigma>'\<lparr>cl_workers := w\<rparr>)"
    using assms
  proof cases
    case (updated bme old rv bme')
    then show ?thesis
      using serves.updated [of "\<sigma>\<lparr>cl_workers := w\<rparr>" bme old rv bme' t] by (cases \<sigma>) simp
  next
    case (listed bmes key)
    then show ?thesis using serves.listed [of bmes "\<sigma>\<lparr>cl_workers := w\<rparr>" key t] by simp
  next
    case locked
    then show ?thesis using serves.locked [of "\<sigma>\<lparr>cl_workers := w\<rparr>" t] by (cases \<sigma>) simp
  next
    case unlocked
    then show ?thesis using serves.unlocked [of t "\<sigma>\<lparr>cl_workers := w\<rparr>"] by (cases \<sigma>) simp
  qed (auto intro: serves.intros)
qed

lemma calls_reachable:
  assumes "serves_all synced t \<sigma> h \<sigma>'"
    and "cluster_reachable synced (\<sigma>\<lparr>cl_workers := w(t \<mapsto> (req, h0))\<rparr>)"
    and "run (Network_Reconcile req) (map snd (h0 @ h)) = (h0 @ h, oc)"
  shows "cluster_reachable synced (\<sigma>'\<lparr>cl_workers := w(t \<mapsto> (req, h0 @ h))\<rparr>)"
  using assms
proof (induction h arbitrary: \<sigma> h0)
  case (Cons ca h)
  obtain c a where ca: "ca = (c, a)" by fastforce
  from Cons.prems(1) obtain \<sigma>1 where \<sigma>1: "serves t \<sigma> c a \<sigma>1" "serves_all synced t \<sigma>1 h \<sigma>'"
    "synced \<and> (\<exists>os. c = ListBME os) \<longrightarrow> cl_cache \<sigma> = cl_store \<sigma>" by (auto simp: ca)
  let ?\<sigma> = "\<sigma>\<lparr>cl_workers := w(t \<mapsto> (req, h0))\<rparr>"
  have "performs (Network_Reconcile req) h0 c"
    using run_performs Cons.prems(3) by (simp add: ca)
  from cluster_step.call [OF _ this serves_workers(1) [OF \<sigma>1(1)], of "w(t \<mapsto> (req, h0))" synced] \<sigma>1(3)
  have "cluster_step synced ?\<sigma> (\<sigma>1\<lparr>cl_workers := w(t \<mapsto> (req, h0 @ [(c, a)]))\<rparr>)" by simp
  from Cons.IH [OF \<sigma>1(2) cluster_reachable.step [OF Cons.prems(2) this]] Cons.prems(3)
  show ?case by (simp add: ca del: fun_upd_apply)
qed simp

lemma run_reachable:
  assumes "cluster_reachable synced \<sigma>" and "cl_workers \<sigma> = Map.empty" and "serves_all synced 0 \<sigma> h \<sigma>'"
    and "run (Network_Reconcile req) (map snd h) = (h, Returned r)"
  shows "cluster_reachable synced (\<sigma>'\<lparr>cl_workers := Map.empty\<rparr>)"
proof -
  let ?w = "Map.empty :: nat \<Rightarrow> (NamespacedName \<times> history) option"
  have "cluster_reachable synced (\<sigma>\<lparr>cl_workers := ?w(0 \<mapsto> (req, []))\<rparr>)"
    using cluster_reachable.step [OF assms(1) cluster_step.begin_run [of \<sigma> 0]] assms(2) by simp
  from calls_reachable [OF assms(3) this] assms(4)
  have "cluster_reachable synced (\<sigma>'\<lparr>cl_workers := ?w(0 \<mapsto> (req, h))\<rparr>)" by simp
  from cluster_reachable.step [OF this cluster_step.finish [of _ 0 req h]] assms(4)
  show ?thesis by simp
qed


section \<open>One allocation\<close>

definition wants_address :: "string \<Rightarrow> string \<Rightarrow> BareMetalEndpoint" where
  "wants_address n rv = pending_endpoint\<lparr>Name := n, ResourceVersion := rv,
     bme_Status := (bme_Status pending_endpoint)\<lparr>bme_Phase := EndpointPhaseAddressing\<rparr>\<rparr>"

definition given_address :: "string \<Rightarrow> string \<Rightarrow> IP \<Rightarrow> BareMetalEndpoint" where
  "given_address n rv x = wants_address n rv\<lparr>bme_Status := (bme_Status (wants_address n rv))\<lparr>bme_Address := Some
     \<lparr>addr_IP = IP_String x, addr_CIDR = bmn_CIDR spec29, addr_Gateway = bmn_Gateway spec29,
      addr_Nameservers = bmn_Nameservers spec29, addr_Search = bmn_Search spec29\<rparr>\<rparr>\<rparr>"

abbreviation ekey :: "string \<Rightarrow> NamespacedName" where
  "ekey n \<equiv> \<lparr>nn_Namespace = ''default'', nn_Name = n\<rparr>"

definition allocation_history :: "string \<Rightarrow> string \<Rightarrow> string \<Rightarrow> BareMetalEndpoint list \<Rightarrow> IP \<Rightarrow> history" where
  "allocation_history n rv rv' bmes x =
     [(GetBME (ekey n), ABME (Inr (wants_address n rv))), (GetBMN (ekey ''n''), ABMN (Inr sample_network)),
      (Lock addressLock, AUnit), (by_network (network_key sample_network), ABMEs (Inr bmes)),
      (StatusUpdateBME (given_address n rv x), ABME (Inr (given_address n rv' x))),
      (Eventf (OnBME (given_address n rv' x)) EventTypeNormal ''Addressed'' ''Endpoint has been addressed'', AUnit),
      (Unlock addressLock, AUnit)]"

lemma allocation_run:
  assumes "next_ip spec29 bmes = NextIP x"
  shows "run (Network_Reconcile (ekey n)) (map snd (allocation_history n rv rv' bmes x)) =
    (allocation_history n rv rv' bmes x, Returned (no_requeue, None))"
  using assms
  by (simp add: allocation_history_def Network_Reconcile_def Network_dispatch_def network_address_def fetch_BME_def
      allocate_address_def status_update_BME_def event_def return_ok_def given_address_def wants_address_def
      pending_endpoint_def sample_network_def Let_def consts_simps)

lemma allocation_served:
  assumes "next_ip spec29 bmes = NextIP x" and "cl_holder \<sigma> = None" and "cl_workers \<sigma> = Map.empty"
    and "cl_cache \<sigma> (ekey n) = Some (wants_address n rv)" and "cl_store \<sigma> (ekey n) = Some (wants_address n rv)"
    and "rv' \<notin> cl_issued \<sigma>" and "set bmes = {bme. \<exists>k. cl_cache \<sigma> k = Some bme \<and> network_index bme = network_key sample_network}"
    and "synced \<longrightarrow> cl_cache \<sigma> = cl_store \<sigma>"
  shows "serves_all synced 0 \<sigma> (allocation_history n rv rv' bmes x)
    (\<sigma>\<lparr>cl_holder := None, cl_store := (cl_store \<sigma>)(ekey n \<mapsto> given_address n rv' x), cl_issued := insert rv' (cl_issued \<sigma>)\<rparr>)"
proof -
  let ?\<sigma> = "\<sigma>\<lparr>cl_holder := Some 0\<rparr>"
  let ?\<sigma>' = "?\<sigma>\<lparr>cl_store := (cl_store \<sigma>)(ekey n \<mapsto> given_address n rv' x), cl_issued := insert rv' (cl_issued \<sigma>)\<rparr>"
  have key: "key_of (given_address n rv x) = ekey n" for rv
    by (simp add: given_address_def wants_address_def pending_endpoint_def key_of_def)
  have "serves 0 \<sigma> (GetBME (ekey n)) (ABME (Inr (wants_address n rv))) \<sigma>"
    by (rule serves.read) (rule assms(4))
  moreover have "serves 0 \<sigma> (GetBMN (ekey ''n'')) (ABMN (Inr sample_network)) \<sigma>"
    using sample_network_accepted by (intro serves.network) (simp_all add: sample_network_def key_of_def)
  moreover have "serves 0 \<sigma> (Lock addressLock) AUnit ?\<sigma>"
    by (rule serves.locked) (rule assms(2))
  moreover have "serves 0 ?\<sigma> (by_network (network_key sample_network)) (ABMEs (Inr bmes)) ?\<sigma>"
    using assms(7) by (intro serves.listed) simp
  moreover have "serves 0 ?\<sigma> (StatusUpdateBME (given_address n rv x)) (ABME (Inr (given_address n rv' x))) ?\<sigma>'"
  proof -
    have "cl_store ?\<sigma> (key_of (given_address n rv x)) = Some (wants_address n rv)"
      using assms(5) key by simp
    moreover have "given_address n rv' x =
        (wants_address n rv)\<lparr>ResourceVersion := rv', bme_Status := bme_Status (given_address n rv x)\<rparr>"
      by (simp add: given_address_def wants_address_def pending_endpoint_def)
    ultimately show ?thesis
      using serves.updated [of ?\<sigma> "given_address n rv x" "wants_address n rv" rv' "given_address n rv' x" 0] assms(6) key
      by (simp add: given_address_def wants_address_def)
  qed
  moreover have "serves 0 ?\<sigma>' (Unlock addressLock) AUnit (?\<sigma>'\<lparr>cl_holder := None\<rparr>)"
    by (rule serves.unlocked)
  ultimately show ?thesis
    using serves.event assms(8) unfolding allocation_history_def serves_all.simps fst_conv snd_conv
    by (intro exI conjI) (assumption | rule serves.event | cases \<sigma>, simp | simp)+
qed


lemma allocation_reachable:
  assumes "cluster_reachable synced \<sigma>" and "next_ip spec29 bmes = NextIP x"
    and "cl_holder \<sigma> = None" and "cl_workers \<sigma> = Map.empty"
    and "cl_cache \<sigma> (ekey n) = Some (wants_address n rv)" and "cl_store \<sigma> (ekey n) = Some (wants_address n rv)"
    and "rv' \<notin> cl_issued \<sigma>" and "set bmes = {bme. \<exists>k. cl_cache \<sigma> k = Some bme \<and> network_index bme = network_key sample_network}"
    and "synced \<longrightarrow> cl_cache \<sigma> = cl_store \<sigma>"
  shows "cluster_reachable synced
    (\<sigma>\<lparr>cl_store := (cl_store \<sigma>)(ekey n \<mapsto> given_address n rv' x), cl_issued := insert rv' (cl_issued \<sigma>)\<rparr>)"
  using run_reachable [OF assms(1,4) allocation_served [OF assms(2-9)] allocation_run [OF assms(2)]] assms(3,4)
  by (cases \<sigma>) simp

section \<open>Two endpoints\<close>

definition two_endpoints :: cluster where
  "two_endpoints = \<lparr>cl_store = [ekey ''a'' \<mapsto> wants_address ''a'' ''1'', ekey ''b'' \<mapsto> wants_address ''b'' ''2''],
     cl_cache = [ekey ''a'' \<mapsto> wants_address ''a'' ''1'', ekey ''b'' \<mapsto> wants_address ''b'' ''2''],
     cl_issued = {''1'', ''2''}, cl_holder = None, cl_workers = Map.empty\<rparr>"

lemma wants_fields [simp]:
  "key_of (wants_address n rv) = ekey n" "address_of (wants_address n rv) = None"
  "ResourceVersion (wants_address n rv) = rv" "network_index (wants_address n rv) = network_key sample_network"
  by (simp_all add: wants_address_def pending_endpoint_def key_of_def network_index_def network_key_def sample_network_def Let_def)

lemma two_endpoints_reachable: "cluster_reachable synced two_endpoints"
proof -
  let ?R = "cluster_reachable synced"
  define \<sigma>1 where "\<sigma>1 = empty_cluster\<lparr>cl_store := [ekey ''a'' \<mapsto> wants_address ''a'' ''1''], cl_issued := {''1''}\<rparr>"
  define \<sigma>2 where "\<sigma>2 = \<sigma>1\<lparr>cl_store := (cl_store \<sigma>1)(ekey ''b'' \<mapsto> wants_address ''b'' ''2''), cl_issued := {''2'', ''1''}\<rparr>"
  have "?R \<sigma>1"
    using cluster_reachable.step [OF cluster_reachable.start cluster_step.create [of empty_cluster "wants_address ''a'' ''1''"]]
    by (simp add: \<sigma>1_def empty_cluster_def)
  from cluster_reachable.step [OF this cluster_step.create [of \<sigma>1 "wants_address ''b'' ''2''"]]
  have "?R \<sigma>2" by (simp add: \<sigma>1_def \<sigma>2_def empty_cluster_def)
  from cluster_reachable.step [OF cluster_reachable.step [OF this cluster_step.sync [of synced \<sigma>2 "ekey ''a''"]]
      cluster_step.sync [of synced _ "ekey ''b''"]]
  show ?thesis by (simp add: two_endpoints_def \<sigma>1_def \<sigma>2_def empty_cluster_def insert_commute)
qed

lemma spec29_next_unaddressed:
  "next_ip spec29 [wants_address ''a'' ''1'', wants_address ''b'' ''2''] = NextIP [0,0,0,0,0,0,0,0,0,0,255,255,10,0,0,3]"
proof -
  have skip: "skip_ip networkIP gateway broadcast ns [wants_address ''a'' ''1'', wants_address ''b'' ''2''] =
      skip_ip networkIP gateway broadcast ns []" for networkIP gateway broadcast ns
    by (rule ext) (simp add: skip_ip_def)
  show ?thesis using spec29_next unfolding next_ip_def skip .
qed

lemma listing_ran: "{bme. \<exists>k. c k = Some bme \<and> P bme} = {bme \<in> ran c. P bme}"
  by (auto simp: ran_def)

lemma two_listed:
  "set [wants_address ''a'' ''1'', wants_address ''b'' ''2''] =
    {bme. \<exists>k. cl_cache two_endpoints k = Some bme \<and> network_index bme = network_key sample_network}"
proof -
  have "ran (cl_cache two_endpoints) = {wants_address ''a'' ''1'', wants_address ''b'' ''2''}"
    by (simp add: two_endpoints_def insert_commute)
  then show ?thesis unfolding listing_ran by auto
qed

abbreviation first_given :: cluster where
  "first_given \<equiv> two_endpoints\<lparr>cl_store := (cl_store two_endpoints)(ekey ''a'' \<mapsto>
     given_address ''a'' ''3'' [0,0,0,0,0,0,0,0,0,0,255,255,10,0,0,3]), cl_issued := insert ''3'' (cl_issued two_endpoints)\<rparr>"

lemma first_given_reachable: "cluster_reachable synced first_given"
  by (rule allocation_reachable [OF two_endpoints_reachable spec29_next_unaddressed _ _ _ _ _ two_listed])
    (simp_all add: two_endpoints_def)


abbreviation both_given :: "IP \<Rightarrow> cluster" where
  "both_given x \<equiv> first_given\<lparr>cl_store := (cl_store first_given)(ekey ''b'' \<mapsto> given_address ''b'' ''4'' x),
     cl_issued := insert ''4'' (cl_issued first_given)\<rparr>"

lemma given_fields [simp]:
  "network_index (given_address n rv x) = network_key sample_network"
  "address_of (given_address n rv x) = Some \<lparr>addr_IP = IP_String x, addr_CIDR = bmn_CIDR spec29, addr_Gateway = bmn_Gateway spec29,
      addr_Nameservers = bmn_Nameservers spec29, addr_Search = bmn_Search spec29\<rparr>"
  by (simp_all add: given_address_def wants_address_def pending_endpoint_def network_index_def network_key_def
      sample_network_def Let_def)

text \<open>The second worker lists what the cache has: the first endpoint without its address.\<close>

lemma both_given_stale: "cluster_reachable False (both_given [0,0,0,0,0,0,0,0,0,0,255,255,10,0,0,3])"
proof (rule allocation_reachable [OF first_given_reachable spec29_next_unaddressed])
  show "set [wants_address ''a'' ''1'', wants_address ''b'' ''2''] =
      {bme. \<exists>k. cl_cache first_given k = Some bme \<and> network_index bme = network_key sample_network}"
    using two_listed by simp
qed (simp_all add: two_endpoints_def)

lemma spec29_next_second:
  "next_ip spec29 [given_address ''a'' ''3'' [0,0,0,0,0,0,0,0,0,0,255,255,10,0,0,3], wants_address ''b'' ''2''] =
    NextIP [0,0,0,0,0,0,0,0,0,0,255,255,10,0,0,4]"
proof -
  have parse: "ParseIP (IP_String [0,0,0,0,0,0,0,0,0,0,255,255,10,0,0,3]) = [0,0,0,0,0,0,0,0,0,0,255,255,10,0,0,3]"
    by (rule go_ip.parse_print) simp
  have allocated: "found_allocated ip [given_address ''a'' ''3'' [0,0,0,0,0,0,0,0,0,0,255,255,10,0,0,3], wants_address ''b'' ''2''] =
      IP_Equal ip [0,0,0,0,0,0,0,0,0,0,255,255,10,0,0,3]" for ip
    by (simp add: parse)
  show ?thesis
    apply (simp add: next_ip_def spec29_cidr spec29_start spec29_end Let_def)
    apply (subst next_ip_loop.simps, simp add: skip_ip_def allocated IP_Equal_def spec29_simps inc_def ip_eval del: found_allocated.simps)+
    done
qed


text \<open>With the cache caught up, the second worker sees the first address and takes the next one.\<close>

definition caught_up :: cluster where
  "caught_up = first_given\<lparr>cl_cache := cl_store first_given\<rparr>"

lemma caught_up_reachable: "cluster_reachable synced caught_up"
proof -
  have "cluster_reachable synced (first_given\<lparr>cl_cache := (cl_cache first_given)(ekey ''a'' := cl_store first_given (ekey ''a''))\<rparr>)"
    by (rule cluster_reachable.step [OF first_given_reachable cluster_step.sync])
  moreover have "(cl_cache first_given)(ekey ''a'' := cl_store first_given (ekey ''a'')) = cl_store first_given"
    by (rule ext) (simp add: two_endpoints_def)
  ultimately show ?thesis by (simp add: caught_up_def)
qed

lemma caught_up_listed:
  "set [given_address ''a'' ''3'' [0,0,0,0,0,0,0,0,0,0,255,255,10,0,0,3], wants_address ''b'' ''2''] =
    {bme. \<exists>k. cl_cache caught_up k = Some bme \<and> network_index bme = network_key sample_network}"
proof -
  have "cl_cache caught_up = [ekey ''b'' \<mapsto> wants_address ''b'' ''2'',
      ekey ''a'' \<mapsto> given_address ''a'' ''3'' [0,0,0,0,0,0,0,0,0,0,255,255,10,0,0,3]]"
    by (rule ext) (simp add: caught_up_def two_endpoints_def)
  then have "ran (cl_cache caught_up) =
      {given_address ''a'' ''3'' [0,0,0,0,0,0,0,0,0,0,255,255,10,0,0,3], wants_address ''b'' ''2''}"
    by simp
  then show ?thesis unfolding listing_ran by auto
qed

abbreviation second_given :: cluster where
  "second_given \<equiv> caught_up\<lparr>cl_store := (cl_store caught_up)(ekey ''b'' \<mapsto>
     given_address ''b'' ''4'' [0,0,0,0,0,0,0,0,0,0,255,255,10,0,0,4]), cl_issued := insert ''4'' (cl_issued caught_up)\<rparr>"

lemma second_given_reachable: "cluster_reachable synced second_given"
  by (rule allocation_reachable [OF caught_up_reachable spec29_next_second _ _ _ _ _ caught_up_listed])
    (simp_all add: caught_up_def two_endpoints_def)

lemma unique_given:
  assumes "unique_addresses \<sigma>" and "cl_store \<sigma> (ekey ''a'') = Some (given_address n rv x)"
    and "cl_store \<sigma> (ekey ''b'') = Some (given_address n' rv' y)"
  shows "IP_String x \<noteq> IP_String y"
proof -
  let ?address = "\<lambda>x. \<lparr>addr_IP = IP_String x, addr_CIDR = bmn_CIDR spec29, addr_Gateway = bmn_Gateway spec29,
    addr_Nameservers = bmn_Nameservers spec29, addr_Search = bmn_Search spec29\<rparr>"
  have "addr_IP (?address x) \<noteq> addr_IP (?address y)"
    by (rule assms(1) [unfolded unique_addresses_def, rule_format, OF conjI, OF _ conjI, OF _ _ conjI, OF _ _ _ conjI,
        OF _ _ _ _ conjI, of "ekey ''a''" "ekey ''b''", OF _ assms(2,3)]) simp_all
  then show ?thesis by simp
qed

section \<open>Properties\<close>

text \<open>
  C1: as long as the cache has caught up whenever a worker lists the endpoints of a network
  under the address lock, no two endpoints of a network ever have the same address, however
  many workers of the network controller run at the same time, however their calls interleave
  with each other and with users who create, edit and remove endpoints, and whichever calls
  fail. It rests on the lock, the resource versions and the freshness of what the search finds.
\<close>

theorem addresses_unique:
  assumes "cluster_reachable True \<sigma>"
  shows "unique_addresses \<sigma>"
  using reachable_unique [OF assms] by blast

lemma addresses_unique_witness:
  "IP_String [0,0,0,0,0,0,0,0,0,0,255,255,10,0,0,3] \<noteq> IP_String [0,0,0,0,0,0,0,0,0,0,255,255,10,0,0,4]"
proof (rule unique_given [OF addresses_unique [OF second_given_reachable]])
  show "cl_store second_given (ekey ''a'') = Some (given_address ''a'' ''3'' [0,0,0,0,0,0,0,0,0,0,255,255,10,0,0,3])"
    by (simp add: caught_up_def)
  show "cl_store second_given (ekey ''b'') = Some (given_address ''b'' ''4'' [0,0,0,0,0,0,0,0,0,0,255,255,10,0,0,4])"
    by simp
qed

text \<open>
  C16: but the lock alone does not keep addresses apart. The listing under it comes from the
  informer cache, since the API server offers no index over the network reference, and the
  cache may lag behind the write of the worker that held the lock before: then the second
  endpoint is given the first one's address.
\<close>

theorem stale_cache_duplicates: "\<exists>\<sigma>. cluster_reachable False \<sigma> \<and> \<not> unique_addresses \<sigma>"
proof -
  let ?\<sigma> = "both_given [0,0,0,0,0,0,0,0,0,0,255,255,10,0,0,3]"
  have "\<not> unique_addresses ?\<sigma>"
  proof
    assume "unique_addresses ?\<sigma>"
    moreover have "cl_store ?\<sigma> (ekey ''a'') = Some (given_address ''a'' ''3'' [0,0,0,0,0,0,0,0,0,0,255,255,10,0,0,3])" by simp
    moreover have "cl_store ?\<sigma> (ekey ''b'') = Some (given_address ''b'' ''4'' [0,0,0,0,0,0,0,0,0,0,255,255,10,0,0,3])" by simp
    ultimately show False by (auto dest: unique_given)
  qed
  then show ?thesis using both_given_stale by blast
qed

end
