(* ===== verification/Provisioner.thy ===== *)
theory Provisioner
  imports NetworkData Program
begin

text \<open>
  The provisioner, \<^verbatim>\<open>controllers/baremetalinstance/provisioner.go\<close>: it claims the hardware a
  scheduled instance was assigned, makes its endpoints, has the agent image it, and on
  deletion has the agent clean it and gives it back. \<open>json_error\<close> is the text of the
  JSON decoder's error for a status body it rejects.
\<close>

section \<open>Talking to the agent\<close>

definition agent_url :: "string \<Rightarrow> string \<Rightarrow> string" where
  "agent_url ip path = ''http://'' @ ip @ '':10443'' @ path"

definition getAgentStatus ::
  "(string \<Rightarrow> string) \<Rightarrow> string \<Rightarrow> (string + action_Status option \<Rightarrow> reconcile) \<Rightarrow> reconcile" where
  "getAgentStatus json_error ip k = Call (HttpRequest ''GET'' (agent_url ip ''/status'') []) (\<lambda>a.
     k (case as_Http a of
          RequestError err \<Rightarrow> Inl (''error while creating request for agent status: '' @ err)
        | TransportError err \<Rightarrow> Inl (''error while requesting agent status: '' @ err)
        | BodyError _ err \<Rightarrow> Inl (''error while reading agent status body: '' @ err)
        | Reply code body \<Rightarrow>
            if code = 204 then Inr None
            else if code = 200 then
              (case unmarshal_Status body of
                 None \<Rightarrow> Inl (''error while unmarshalling agent status: '' @ json_error body)
               | Some st \<Rightarrow> Inr (Some st))
            else Inl (''agent status request returned an error: '' @ body)))"

text \<open>
  Telling the agent to clean or to image, and what becomes of its answer; the two places of
  the code differ in their texts.
\<close>

definition tell_agent :: "BareMetalInstance \<Rightarrow> string \<Rightarrow> string \<Rightarrow> string \<Rightarrow> string \<Rightarrow> reconcile" where
  "tell_agent bmi what doing url body = Call (HttpRequest ''POST'' url body) (\<lambda>a.
     case as_Http a of
       RequestError err \<Rightarrow>
         return_err (PlainError (''error while creating request for agent '' @ what @ '': '' @ err))
     | TransportError err \<Rightarrow>
         event (OnBMI bmi) EventTypeWarning ''AgentError'' (''Could not tell agent to '' @ what @ '': '' @ err)
           (return_err (PlainError err))
     | BodyError _ err \<Rightarrow>
         event (OnBMI bmi) EventTypeWarning ''AgentError'' (''Error reading agent '' @ what @ '' body: '' @ err)
           (return_err (PlainError err))
     | Reply code reply_body \<Rightarrow>
         if code = 409 then
           event (OnBMI bmi) EventTypeWarning ''AgentWrongAction'' ''Agent is already performing an action''
             (return_after (1 * Minute))
         else if code = 202 then
           event (OnBMI bmi) EventTypeNormal ''AgentWorking'' (''Agent '' @ doing @ '' started'')
             (return_after (30 * Second))
         else
           event (OnBMI bmi) EventTypeWarning ''AgentError''
             (''Agent '' @ what @ '' request returned an error: '' @ reply_body)
             return_requeue)"

text \<open>The agent is performing another action than the one that is wanted.\<close>

definition wrong_action :: "BareMetalInstance \<Rightarrow> action_Status \<Rightarrow> reconcile" where
  "wrong_action bmi agentStatus =
     event (OnBMI bmi) EventTypeWarning ''AgentWrongAction'' ''Agent is performing a different action''
       (if length (act_Error agentStatus) > 0 then
          event (OnBMI bmi) EventTypeWarning ''AgentLastActionFailed''
            (''Agent last action '' @ act_Type agentStatus @ '' failed: '' @ act_Error agentStatus)
            (return_after (1 * Minute))
        else return_after (1 * Minute))"

text \<open>
  \<^verbatim>\<open>SetCondition\<close> at the clock's time, the status update and the early returns of their errors.
\<close>

definition set_instance_condition ::
  "BareMetalInstance \<Rightarrow> ConditionType \<Rightarrow> ConditionStatus \<Rightarrow> string \<Rightarrow> string \<Rightarrow>
   (BareMetalInstance \<Rightarrow> reconcile) \<Rightarrow> reconcile" where
  "set_instance_condition bmi ct cs reason message k =
     set_condition_now (bmi_Status bmi) ct cs reason message
       (\<lambda>st. status_update_BMI (bmi\<lparr>bmi_Status := st\<rparr>) k)"

text \<open>\<^verbatim>\<open>r.Get\<close> of the instance's hardware: absent, an error that is returned, or there.\<close>

definition hardware_key :: "BareMetalInstance \<Rightarrow> NamespacedName" where
  "hardware_key bmi = \<lparr>nn_Namespace = Namespace bmi, nn_Name = bmi_HardwareName (bmi_Status bmi)\<rparr>"

definition get_hardware :: "BareMetalInstance \<Rightarrow> (BareMetalHardware option \<Rightarrow> reconcile) \<Rightarrow> reconcile" where
  "get_hardware bmi k = Call (GetBMH (hardware_key bmi)) (\<lambda>a. case as_BMH a of
     Inl err \<Rightarrow> if IsNotFound err then k None else return_err err
   | Inr bmh \<Rightarrow> k (Some bmh))"

section \<open>Cleaning\<close>

text \<open>Lines 190 to 221.\<close>

definition post_clean :: "BareMetalInstance \<Rightarrow> BareMetalHardware \<Rightarrow> string \<Rightarrow> reconcile" where
  "post_clean bmi bmh ip =
     event (OnBMI bmi) EventTypeNormal InstanceCleaningEventReason
       (''Cleaning the instance off of BareMetalHardware '' @ Name bmh)
     (event (OnBMH bmh) EventTypeNormal HardwareCleaningEventReason
       (''Cleaning the BareMetalInstance '' @ Name bmi @ '' off of the hardware'')
     (tell_agent bmi ''clean'' ''cleaning'' (agent_url ip ''/clean'') []))"

text \<open>Lines 223 to 269.\<close>

definition cleaning_status :: "BareMetalInstance \<Rightarrow> BareMetalHardware \<Rightarrow> action_Status \<Rightarrow> reconcile" where
  "cleaning_status bmi bmh agentStatus =
     (if act_Type agentStatus \<noteq> CleaningActionType then wrong_action bmi agentStatus
      else if \<not> act_Done agentStatus then
        event (OnBMI bmi) EventTypeNormal ''AgentWorking'' ''Agent is still cleaning'' (return_after (30 * Second))
      else if length (act_Error agentStatus) > 0 then
        event (OnBMI bmi) EventTypeWarning ''AgentFailed'' (''Agent cleaning failed: '' @ act_Error agentStatus)
          (set_instance_condition bmi ConditionTypeInstanceCleaned ConditionStatusError
             CleaningFailedConditionReason (act_Error agentStatus) (\<lambda>_. return_ok))
      else
        event (OnBMI bmi) EventTypeNormal ''AgentFinished'' ''Agent has finished cleaning''
          (status_update_BMH (bmh\<lparr>bmh_Status := (bmh_Status bmh)\<lparr>bmh_InstanceRef := None\<rparr>\<rparr>) (\<lambda>bmh.
             event (OnBMI bmi) EventTypeNormal InstanceCleanedEventReason
               (''Cleaned the instance off of BareMetalHardware '' @ Name bmh)
             (event (OnBMH bmh) EventTypeNormal HardwareCleanedEventReason
               (''Cleaned the BareMetalInstance '' @ Name bmi @ '' off of the hardware'')
               return_ok))))"

text \<open>Lines 135 to 270: a cleaning instance whose hardware was read.\<close>

definition clean_hardware ::
  "(string \<Rightarrow> string) \<Rightarrow> BareMetalInstance \<Rightarrow> BareMetalHardware option \<Rightarrow> reconcile" where
  "clean_hardware json_error bmi bmh_pointer =
     (let terminate = status_update_BMI
            (bmi\<lparr>bmi_Status := (bmi_Status bmi)\<lparr>bmi_Phase := PhaseTerminating\<rparr>\<rparr>) (\<lambda>_. return_ok) in
      case bmh_pointer of
        None \<Rightarrow>
          event (OnBMI bmi) EventTypeWarning InstanceNotCleanedEventReason
            (''Instance cannot be cleaned because the BareMetalHardware '' @ bmi_HardwareName (bmi_Status bmi)
               @ '' does not exist anymore'')
            terminate
      | Some bmh \<Rightarrow>
          (case bmh_InstanceRef (bmh_Status bmh) of
             None \<Rightarrow>
               set_instance_condition bmi ConditionTypeInstanceCleaned ConditionStatusTrue [] [] (\<lambda>bmi.
                 event (OnBMI bmi) EventTypeNormal InstanceCleanedEventReason
                   (''Instance was cleaned off of BareMetalHardware '' @ Name bmh) return_ok)
           | Some instanceRef \<Rightarrow>
               if iref_UID instanceRef \<noteq> UID bmi then
                 event (OnBMI bmi) EventTypeWarning InstanceNotCleanedEventReason
                   (''Instance cannot be cleaned because the BareMetalHardware '' @ bmi_HardwareName (bmi_Status bmi)
                      @ '' thinks another instance is provisioned'')
                   terminate
               else case bmi_AgentInfo (bmi_Status bmi) of
                 None \<Rightarrow>
                   event (OnBMI bmi) EventTypeWarning InstanceNoAgentEventReason ''Agent has not reported in yet''
                     (return_after (1 * Minute))
               | Some agentInfo \<Rightarrow>
                   getAgentStatus json_error (agent_IP agentInfo) (\<lambda>r. case r of
                     Inl err \<Rightarrow>
                       event (OnBMI bmi) EventTypeWarning ''AgentError'' (''Could not check agent status: '' @ err)
                         (return_err (PlainError err))
                   | Inr None \<Rightarrow> post_clean bmi bmh (agent_IP agentInfo)
                   | Inr (Some agentStatus) \<Rightarrow> cleaning_status bmi bmh agentStatus)))"

text \<open>Lines 61 to 271: the instance is being deleted.\<close>

definition provisioner_delete :: "(string \<Rightarrow> string) \<Rightarrow> BareMetalInstance \<Rightarrow> reconcile" where
  "provisioner_delete json_error bmi =
     (let st = bmi_Status bmi in
      if bmi_Phase st = PhaseTerminating \<or> bmi_Phase st = PhaseTerminated then return_ok
      else case GetCondition st ConditionTypeInstanceCleaned of
        None \<Rightarrow> set_instance_condition bmi ConditionTypeInstanceCleaned ConditionStatusFalse [] [] (\<lambda>_. return_ok)
      | Some cleanedCond \<Rightarrow>
          if cond_Status cleanedCond = ConditionStatusTrue then
            status_update_BMI (bmi\<lparr>bmi_Status := st\<lparr>bmi_Phase := PhaseTerminating, bmi_AgentInfo := None\<rparr>\<rparr>)
              (\<lambda>_. return_ok)
          else if cond_Status cleanedCond = ConditionStatusError then return_ok
          else if bmi_Phase st \<noteq> PhaseCleaning then
            status_update_BMI (bmi\<lparr>bmi_Status := st\<lparr>bmi_Phase := PhaseCleaning\<rparr>\<rparr>) (\<lambda>_. return_ok)
          else if length (bmi_HardwareName st) = 0 then
            status_update_BMI (bmi\<lparr>bmi_Status := st\<lparr>bmi_Phase := PhaseTerminating\<rparr>\<rparr>) (\<lambda>_. return_ok)
          else get_hardware bmi (clean_hardware json_error bmi))"

section \<open>Networking\<close>

text \<open>Lines 353 to 367: the endpoints of a listing that the instance owns.\<close>

fun our_endpoints :: "string \<Rightarrow> BareMetalEndpoint list \<Rightarrow> BareMetalEndpoint list" where
  "our_endpoints uid [] = []"
| "our_endpoints uid (bme # bmes) =
     (if owned_by uid (OwnerReferences bme) False then bme # our_endpoints uid bmes else our_endpoints uid bmes)"

text \<open>Lines 397 to 412: the MAC addresses of a nic, one, or one per interface of the bond.\<close>

fun bond_macs :: "BareMetalDiscoveryHardwareNIC \<Rightarrow> string list \<Rightarrow> string list" where
  "bond_macs interf [] = []"
| "bond_macs interf (bondInterf # rest) =
     (if hwnic_Name interf = bondInterf then hwnic_MAC interf # bond_macs interf rest else bond_macs interf rest)"

fun nic_macs :: "BareMetalHardwareNIC \<Rightarrow> BareMetalDiscoveryHardwareNIC list \<Rightarrow> string list" where
  "nic_macs nic [] = []"
| "nic_macs nic (interf # interfs) =
     (case nic_Bond nic of
        None \<Rightarrow> if hwnic_Name interf = nic_Name nic then [hwnic_MAC interf] else nic_macs nic interfs
      | Some bond \<Rightarrow> bond_macs interf (bond_Interfaces bond) @ nic_macs nic interfs)"

definition nic_labels :: "BareMetalInstance \<Rightarrow> BareMetalHardwareNIC \<Rightarrow> string_map" where
  "nic_labels bmi nic = fmap_of_list
     [(BareMetalEndpointInstanceLabel, Name bmi), (BareMetalEndpointNICLabel, nic_Name nic)]"

text \<open>
  Lines 372 to 420: the endpoint of a nic. Without hardware the code reads a nil pointer, and
  without a MAC address it indexes an empty slice.
\<close>

datatype new_endpoint = NilHardware | NoMACs | Endpoint BareMetalEndpoint

definition endpoint_for ::
  "BareMetalInstance \<Rightarrow> BareMetalHardware \<Rightarrow> BareMetalHardwareNIC \<Rightarrow> new_endpoint" where
  "endpoint_for bmi bmh nic =
     (case bmh_Hardware (bmh_Status bmh) of
        None \<Rightarrow> NilHardware
      | Some hardware \<Rightarrow>
          (case nic_macs nic (items (hw_NICS hardware)) of
             [] \<Rightarrow> NoMACs
           | mac # macs \<Rightarrow> Endpoint
               \<lparr>Kind = [], APIVersion = [], Name = [], GenerateName = Name bmi, Namespace = Namespace bmi, UID = [],
                ResourceVersion = [], Labels = nic_labels bmi nic,
                OwnerReferences = [\<lparr>owner_APIVersion = APIVersion bmi, owner_Kind = Kind bmi, owner_Name = Name bmi,
                  owner_UID = UID bmi, owner_Controller = Some True, owner_BlockOwnerDeletion = Some False\<rparr>],
                Finalizers = [], DeletionTimestamp = None,
                bme_Spec = \<lparr>bme_Primary = nic_Primary nic, bme_MAC = mac,
                  bme_Bond = map_option (\<lambda>bond. \<lparr>bme_MACS = Slice (mac # macs), bme_BondMode = bond_Mode bond\<rparr>) (nic_Bond nic),
                  bme_NetworkRef = nic_NetworkRef nic\<rparr>,
                bme_Status = \<lparr>Conditions = [], bme_Address = None, bme_Phase = []\<rparr>\<rparr>))"

text \<open>Lines 441 to 462.\<close>

definition not_all_addressed :: "BareMetalInstance \<Rightarrow> reconcile" where
  "not_all_addressed bmi =
     event (OnBMI bmi) EventTypeNormal InstanceNetworkingEventReason ''Waiting for all BareMetalEndpoints to be addressed''
       (return_after (1 * Minute))"

definition all_addressed :: "BareMetalInstance \<Rightarrow> reconcile" where
  "all_addressed bmi =
     set_instance_condition bmi ConditionTypeInstanceNetworked ConditionStatusTrue [] [] (\<lambda>bmi.
       event (OnBMI bmi) EventTypeNormal InstanceNetworkedEventReason ''All BareMetalEndpoints have been addressed''
         return_ok)"

text \<open>Lines 345 to 439, the loop over the nics.\<close>

fun nic_loop :: "BareMetalInstance \<Rightarrow> BareMetalHardware \<Rightarrow> BareMetalHardwareNIC list \<Rightarrow> reconcile" where
  "nic_loop bmi bmh [] = all_addressed bmi"
| "nic_loop bmi bmh (nic # nics) = Call (ListBME [MatchingLabels (nic_labels bmi nic)]) (\<lambda>a.
     case as_BMEs a of
       Inl err \<Rightarrow> return_err err
     | Inr bmes \<Rightarrow>
         (case our_endpoints (UID bmi) bmes of
            [] \<Rightarrow>
              (case endpoint_for bmi bmh nic of
                 NilHardware \<Rightarrow> Panic ''nil pointer dereference''
               | NoMACs \<Rightarrow> Panic ''index out of range''
               | Endpoint bme \<Rightarrow> Call (CreateBME bme) (\<lambda>a. case as_BME a of
                     Inl err \<Rightarrow> return_err err | Inr _ \<Rightarrow> not_all_addressed bmi))
          | [bme] \<Rightarrow>
              if bme_Phase (bme_Status bme) \<noteq> EndpointPhaseAddressed then not_all_addressed bmi
              else nic_loop bmi bmh nics
          | _ \<Rightarrow>
              event (OnBMI bmi) EventTypeWarning InstanceNetworkingEventReason
                (''Found multiple BareMetalEndpoints for nic '' @ nic_Name nic @ '', this shouldn'' @ [CHR 0x27] @ ''t happen'')
                return_ok))"

section \<open>Imaging\<close>

text \<open>Lines 622 to 667.\<close>

definition post_image :: "BareMetalInstance \<Rightarrow> BareMetalHardware \<Rightarrow> string \<Rightarrow> NetworkData \<Rightarrow> reconcile" where
  "post_image bmi bmh ip nd =
     event (OnBMI bmi) EventTypeNormal InstanceImagingEventReason
       (''Imaging the instance onto BareMetalHardware '' @ Name bmh)
     (event (OnBMH bmh) EventTypeNormal InstanceImagingEventReason
       (''Imaging the BareMetalInstance '' @ Name bmi @ '' onto the hardware'')
     (tell_agent bmi ''image'' ''imaging'' (agent_url ip ''/image'')
       (json_print (marshal_ImageRequest (image_request bmi bmh nd)))))"

text \<open>Lines 669 to 727.\<close>

definition imaging_status :: "BareMetalInstance \<Rightarrow> BareMetalHardware \<Rightarrow> action_Status \<Rightarrow> reconcile" where
  "imaging_status bmi bmh agentStatus =
     (if act_Type agentStatus \<noteq> ImagingActionType then wrong_action bmi agentStatus
      else if \<not> act_Done agentStatus then
        event (OnBMI bmi) EventTypeNormal ''AgentWorking'' ''Agent is still imaging'' (return_after (30 * Second))
      else if length (act_Error agentStatus) > 0 then
        event (OnBMI bmi) EventTypeWarning ''AgentFailed'' (''Agent imaging failed: '' @ act_Error agentStatus)
          (set_instance_condition bmi ConditionTypeInstanceImaged ConditionStatusError
             ImagingFailedConditionReason (act_Error agentStatus) (\<lambda>_. return_ok))
      else
        event (OnBMI bmi) EventTypeNormal ''AgentFinished'' ''Agent has finished imaging''
        (event (OnBMI bmi) EventTypeNormal InstanceImagedEventReason
          (''Imaged the instance onto BareMetalHardware '' @ Name bmh)
        (event (OnBMH bmh) EventTypeNormal InstanceImagedEventReason
          (''Imaged the BareMetalInstance '' @ Name bmi @ '' onto the hardware'')
        (set_instance_condition bmi ConditionTypeInstanceImaged ConditionStatusTrue [] [] (\<lambda>_. return_ok)))))"

text \<open>Lines 507 to 727: the agent's status is asked for, then the network data is built.\<close>

definition image_hardware ::
  "(string \<Rightarrow> string) \<Rightarrow> BareMetalInstance \<Rightarrow> BareMetalHardware \<Rightarrow> reconcile" where
  "image_hardware json_error bmi bmh =
     (case bmi_AgentInfo (bmi_Status bmi) of
        None \<Rightarrow>
          event (OnBMI bmi) EventTypeWarning InstanceNoAgentEventReason ''Agent has not reported in yet''
            (return_after (1 * Minute))
      | Some agentInfo \<Rightarrow>
          getAgentStatus json_error (agent_IP agentInfo) (\<lambda>r. case r of
            Inl err \<Rightarrow>
              event (OnBMI bmi) EventTypeWarning ''AgentError'' (''Could not check agent status: '' @ err)
                (return_err (PlainError err))
          | Inr agentStatus \<Rightarrow>
              Call (ListBME [MatchingLabels (fmap_of_list [(BareMetalEndpointInstanceLabel, Name bmi)])]) (\<lambda>a.
                case as_BMEs a of
                  Inl err \<Rightarrow> return_err err
                | Inr bmes \<Rightarrow>
                    (case build_network_data bmi bmes of
                       NilAddress \<Rightarrow> Panic ''nil pointer dereference''
                     | BadAddressCIDR t \<Rightarrow> return_err (PlainError (''invalid CIDR address: '' @ t))
                     | Built nd \<Rightarrow>
                         (case agentStatus of
                            None \<Rightarrow> post_image bmi bmh (agent_IP agentInfo) nd
                          | Some agentStatus \<Rightarrow> imaging_status bmi bmh agentStatus)))))"

text \<open>Lines 465 to 728: the instance is networked.\<close>

definition provisioner_image ::
  "(string \<Rightarrow> string) \<Rightarrow> BareMetalInstance \<Rightarrow> BareMetalHardware \<Rightarrow> reconcile" where
  "provisioner_image json_error bmi bmh =
     (let st = bmi_Status bmi in
      case GetCondition st ConditionTypeInstanceImaged of
        None \<Rightarrow> set_instance_condition bmi ConditionTypeInstanceImaged ConditionStatusFalse [] [] (\<lambda>_. return_ok)
      | Some imagedCond \<Rightarrow>
          if cond_Status imagedCond = ConditionStatusTrue then
            status_update_BMI (bmi\<lparr>bmi_Status := st\<lparr>bmi_Phase := PhaseRunning, bmi_AgentInfo := None\<rparr>\<rparr>)
              (\<lambda>_. return_ok)
          else if cond_Status imagedCond = ConditionStatusError then return_ok
          else image_hardware json_error bmi bmh)"

section \<open>The reconciler\<close>

text \<open>Lines 310 to 323.\<close>

definition claim_hardware :: "BareMetalInstance \<Rightarrow> BareMetalHardware \<Rightarrow> reconcile" where
  "claim_hardware bmi bmh =
     status_update_BMH
       (bmh\<lparr>bmh_Status := (bmh_Status bmh)\<lparr>bmh_InstanceRef :=
          Some \<lparr>iref_Name = Name bmi, iref_Namespace = Namespace bmi, iref_UID = UID bmi\<rparr>\<rparr>\<rparr>) (\<lambda>bmh.
         event (OnBMH bmh) EventTypeNormal InstanceScheduleEventReason
           (''Instance '' @ Namespace bmi @ ''/'' @ Name bmi @ '' has been scheduled'')
           return_ok)"

text \<open>Lines 273 to 730: a provisioning instance whose hardware was read.\<close>

definition provision_hardware ::
  "(string \<Rightarrow> string) \<Rightarrow> BareMetalInstance \<Rightarrow> BareMetalHardware option \<Rightarrow> reconcile" where
  "provision_hardware json_error bmi bmh_pointer =
     (let warn = event (OnBMI bmi) EventTypeWarning InstanceProvisioningEventReason;
          hardwareName = bmi_HardwareName (bmi_Status bmi) in
      case bmh_pointer of
        None \<Rightarrow> warn (''Cannot find BareMetalHardware '' @ hardwareName @ '' to provision onto'') return_ok
      | Some bmh \<Rightarrow>
          if \<not> IsZero (DeletionTimestamp bmh) then
            warn (''Cannot provision onto BareMetalHardware '' @ hardwareName @ '' when it is deleting'') return_ok
          else if (case bmh_InstanceRef (bmh_Status bmh) of None \<Rightarrow> False | Some r \<Rightarrow> iref_UID r \<noteq> UID bmi) then
            warn (''BareMetalHardware '' @ hardwareName @ '' thinks another instance is provisioned on it'') return_ok
          else if has_taint BareMetalHardwareTaintKeyNotReady (bmh_Taints (bmh_Spec bmh)) then
            warn (''Cannot provision onto BareMetalHardware '' @ hardwareName @ '' when it is not ready'')
              (return_after (30 * Second))
          else if bmh_InstanceRef (bmh_Status bmh) = None then claim_hardware bmi bmh
          else case GetCondition (bmi_Status bmi) ConditionTypeInstanceNetworked of
            None \<Rightarrow>
              set_instance_condition bmi ConditionTypeInstanceNetworked ConditionStatusFalse [] [] (\<lambda>_. return_ok)
          | Some networkedCond \<Rightarrow>
              if cond_Status networkedCond = ConditionStatusFalse then nic_loop bmi bmh (bmh_NICS (bmh_Spec bmh))
              else if cond_Status networkedCond = ConditionStatusTrue then provisioner_image json_error bmi bmh
              else return_ok)"

definition Provisioner_Reconcile :: "(string \<Rightarrow> string) \<Rightarrow> NamespacedName \<Rightarrow> reconcile" where
  "Provisioner_Reconcile json_error req = fetch_BMI req (\<lambda>bmi.
     if (case GetCondition (bmi_Status bmi) ConditionTypeInstanceScheduled of
           None \<Rightarrow> True | Some c \<Rightarrow> cond_Status c \<noteq> ConditionStatusTrue) then return_ok
     else if \<not> IsZero (DeletionTimestamp bmi) then provisioner_delete json_error bmi
     else if bmi_Phase (bmi_Status bmi) \<noteq> PhaseProvisioning then return_ok
     else get_hardware bmi (provision_hardware json_error bmi))"

text \<open>Lines 771 to 783: a change of a hardware is a change for the instance it refers to.\<close>

definition hardware_requests :: "BareMetalHardware \<Rightarrow> NamespacedName list" where
  "hardware_requests bmh = (case bmh_InstanceRef (bmh_Status bmh) of
     None \<Rightarrow> []
   | Some r \<Rightarrow> [\<lparr>nn_Namespace = iref_Namespace r, nn_Name = iref_Name r\<rparr>])"

end
