(* ===== verification/ProvisionerSteps.thy ===== *)
theory ProvisionerSteps
  imports Provisioner
begin

text \<open>
  What a run of the provisioner may write: its twelve steps on the status of an instance, the
  evidence each needs, and the proof that every run makes at most one of them and has that
  evidence, whatever the API server and the agent answer.
\<close>

section \<open>The steps of the provisioner\<close>

definition instance_condition :: "ConditionType \<Rightarrow> ConditionStatus \<Rightarrow> string \<Rightarrow> string \<Rightarrow> time \<Rightarrow> StatusCondition" where
  "instance_condition ct cs reason message t = \<lparr>cond_Type = ct, cond_Status = cs,
     cond_LastTransitionTime = Some t, cond_Reason = reason, cond_Message = message\<rparr>"

text \<open>A condition that is there and neither \<open>True\<close> nor \<open>Error\<close>.\<close>

definition undecided :: "BareMetalInstanceStatus \<Rightarrow> ConditionType \<Rightarrow> bool" where
  "undecided st ct \<longleftrightarrow> GetCondition st ct \<noteq> None \<and>
     \<not> has_status st ct ConditionStatusTrue \<and> \<not> has_status st ct ConditionStatusError"

abbreviation scheduled :: "BareMetalInstanceStatus \<Rightarrow> bool" where
  "scheduled st \<equiv> has_status st ConditionTypeInstanceScheduled ConditionStatusTrue"

definition terminating :: "BareMetalInstanceStatus \<Rightarrow> bool" where
  "terminating st \<longleftrightarrow> bmi_Phase st = PhaseTerminating \<or> bmi_Phase st = PhaseTerminated"

inductive provisioner_step :: "bool \<Rightarrow> BareMetalInstanceStatus \<Rightarrow> BareMetalInstanceStatus \<Rightarrow> bool"
  for deleting :: bool where
  start_clean: "deleting \<Longrightarrow> scheduled st \<Longrightarrow> \<not> terminating st \<Longrightarrow>
    GetCondition st ConditionTypeInstanceCleaned = None \<Longrightarrow>
    SetCondition st (instance_condition ConditionTypeInstanceCleaned ConditionStatusFalse [] [] t) = Inr st' \<Longrightarrow>
    provisioner_step deleting st st'"
| finish_clean: "deleting \<Longrightarrow> scheduled st \<Longrightarrow> \<not> terminating st \<Longrightarrow>
    has_status st ConditionTypeInstanceCleaned ConditionStatusTrue \<Longrightarrow>
    provisioner_step deleting st (st\<lparr>bmi_Phase := PhaseTerminating, bmi_AgentInfo := None\<rparr>)"
| clean: "deleting \<Longrightarrow> scheduled st \<Longrightarrow> \<not> terminating st \<Longrightarrow>
    undecided st ConditionTypeInstanceCleaned \<Longrightarrow> bmi_Phase st \<noteq> PhaseCleaning \<Longrightarrow>
    provisioner_step deleting st (st\<lparr>bmi_Phase := PhaseCleaning\<rparr>)"
| give_up: "deleting \<Longrightarrow> scheduled st \<Longrightarrow> undecided st ConditionTypeInstanceCleaned \<Longrightarrow>
    bmi_Phase st = PhaseCleaning \<Longrightarrow>
    provisioner_step deleting st (st\<lparr>bmi_Phase := PhaseTerminating\<rparr>)"
| cleaned: "deleting \<Longrightarrow> scheduled st \<Longrightarrow> undecided st ConditionTypeInstanceCleaned \<Longrightarrow>
    bmi_Phase st = PhaseCleaning \<Longrightarrow>
    SetCondition st (instance_condition ConditionTypeInstanceCleaned ConditionStatusTrue [] [] t) = Inr st' \<Longrightarrow>
    provisioner_step deleting st st'"
| clean_failed: "deleting \<Longrightarrow> scheduled st \<Longrightarrow> undecided st ConditionTypeInstanceCleaned \<Longrightarrow>
    bmi_Phase st = PhaseCleaning \<Longrightarrow>
    SetCondition st (instance_condition ConditionTypeInstanceCleaned ConditionStatusError
      CleaningFailedConditionReason message t) = Inr st' \<Longrightarrow>
    provisioner_step deleting st st'"
| network: "\<not> deleting \<Longrightarrow> scheduled st \<Longrightarrow> bmi_Phase st = PhaseProvisioning \<Longrightarrow>
    GetCondition st ConditionTypeInstanceNetworked = None \<Longrightarrow>
    SetCondition st (instance_condition ConditionTypeInstanceNetworked ConditionStatusFalse [] [] t) = Inr st' \<Longrightarrow>
    provisioner_step deleting st st'"
| networked: "\<not> deleting \<Longrightarrow> scheduled st \<Longrightarrow> bmi_Phase st = PhaseProvisioning \<Longrightarrow>
    has_status st ConditionTypeInstanceNetworked ConditionStatusFalse \<Longrightarrow>
    SetCondition st (instance_condition ConditionTypeInstanceNetworked ConditionStatusTrue [] [] t) = Inr st' \<Longrightarrow>
    provisioner_step deleting st st'"
| image: "\<not> deleting \<Longrightarrow> scheduled st \<Longrightarrow> bmi_Phase st = PhaseProvisioning \<Longrightarrow>
    has_status st ConditionTypeInstanceNetworked ConditionStatusTrue \<Longrightarrow>
    GetCondition st ConditionTypeInstanceImaged = None \<Longrightarrow>
    SetCondition st (instance_condition ConditionTypeInstanceImaged ConditionStatusFalse [] [] t) = Inr st' \<Longrightarrow>
    provisioner_step deleting st st'"
| imaged: "\<not> deleting \<Longrightarrow> scheduled st \<Longrightarrow> bmi_Phase st = PhaseProvisioning \<Longrightarrow>
    has_status st ConditionTypeInstanceNetworked ConditionStatusTrue \<Longrightarrow>
    undecided st ConditionTypeInstanceImaged \<Longrightarrow>
    SetCondition st (instance_condition ConditionTypeInstanceImaged ConditionStatusTrue [] [] t) = Inr st' \<Longrightarrow>
    provisioner_step deleting st st'"
| image_failed: "\<not> deleting \<Longrightarrow> scheduled st \<Longrightarrow> bmi_Phase st = PhaseProvisioning \<Longrightarrow>
    has_status st ConditionTypeInstanceNetworked ConditionStatusTrue \<Longrightarrow>
    undecided st ConditionTypeInstanceImaged \<Longrightarrow>
    SetCondition st (instance_condition ConditionTypeInstanceImaged ConditionStatusError
      ImagingFailedConditionReason message t) = Inr st' \<Longrightarrow>
    provisioner_step deleting st st'"
| run: "\<not> deleting \<Longrightarrow> scheduled st \<Longrightarrow> bmi_Phase st = PhaseProvisioning \<Longrightarrow>
    has_status st ConditionTypeInstanceNetworked ConditionStatusTrue \<Longrightarrow>
    has_status st ConditionTypeInstanceImaged ConditionStatusTrue \<Longrightarrow>
    provisioner_step deleting st (st\<lparr>bmi_Phase := PhaseRunning, bmi_AgentInfo := None\<rparr>)"

inductive_cases provisioner_stepE: "provisioner_step deleting st st'"

section \<open>The evidence\<close>

text \<open>What a run has learned before a write, from the calls and answers in its history.\<close>

definition agent_said :: "history \<Rightarrow> BareMetalInstance \<Rightarrow> action_Status \<Rightarrow> bool" where
  "agent_said h bmi s \<longleftrightarrow> (\<exists>info body. bmi_AgentInfo (bmi_Status bmi) = Some info \<and>
     (HttpRequest ''GET'' (agent_url (agent_IP info) ''/status'') [], AHttp (Reply 200 body)) \<in> set h \<and>
     unmarshal_Status body = Some s)"

definition agent_succeeded :: "history \<Rightarrow> BareMetalInstance \<Rightarrow> string \<Rightarrow> bool" where
  "agent_succeeded h bmi ty \<longleftrightarrow> (\<exists>s. agent_said h bmi s \<and> act_Type s = ty \<and> act_Done s \<and> act_Error s = [])"

definition agent_failed :: "history \<Rightarrow> BareMetalInstance \<Rightarrow> string \<Rightarrow> bool" where
  "agent_failed h bmi ty \<longleftrightarrow> (\<exists>s. agent_said h bmi s \<and> act_Type s = ty \<and> act_Done s \<and> act_Error s \<noteq> [])"

definition hardware_read :: "history \<Rightarrow> BareMetalInstance \<Rightarrow> BareMetalHardware \<Rightarrow> bool" where
  "hardware_read h bmi bmh \<longleftrightarrow> (GetBMH (hardware_key bmi), ABMH (Inr bmh)) \<in> set h"

definition hardware_gone :: "history \<Rightarrow> BareMetalInstance \<Rightarrow> bool" where
  "hardware_gone h bmi \<longleftrightarrow> (\<exists>err. (GetBMH (hardware_key bmi), ABMH (Inl err)) \<in> set h \<and> IsNotFound err)"

definition refers_to :: "BareMetalHardware \<Rightarrow> BareMetalInstance \<Rightarrow> bool" where
  "refers_to bmh bmi \<longleftrightarrow> (case bmh_InstanceRef (bmh_Status bmh) of None \<Rightarrow> False | Some r \<Rightarrow> iref_UID r = UID bmi)"

definition refers_to_other :: "BareMetalHardware \<Rightarrow> BareMetalInstance \<Rightarrow> bool" where
  "refers_to_other bmh bmi \<longleftrightarrow>
     (case bmh_InstanceRef (bmh_Status bmh) of None \<Rightarrow> False | Some r \<Rightarrow> iref_UID r \<noteq> UID bmi)"

definition nic_addressed :: "history \<Rightarrow> BareMetalInstance \<Rightarrow> BareMetalHardwareNIC \<Rightarrow> bool" where
  "nic_addressed h bmi nic \<longleftrightarrow> (\<exists>bmes bme.
     (ListBME [MatchingLabels (nic_labels bmi nic)], ABMEs (Inr bmes)) \<in> set h \<and>
     our_endpoints (UID bmi) bmes = [bme] \<and> bme_Phase (bme_Status bme) = EndpointPhaseAddressed)"

definition newly :: "BareMetalInstance \<Rightarrow> BareMetalInstanceStatus \<Rightarrow> ConditionType \<Rightarrow> ConditionStatus \<Rightarrow> bool" where
  "newly bmi st' ct cs \<longleftrightarrow> has_status st' ct cs \<and> \<not> has_status (bmi_Status bmi) ct cs"

text \<open>What must be known for a new status of the instance to be written.\<close>

definition instance_evidence :: "history \<Rightarrow> BareMetalInstance \<Rightarrow> BareMetalInstanceStatus \<Rightarrow> bool" where
  "instance_evidence h bmi st' \<longleftrightarrow>
     (newly bmi st' ConditionTypeInstanceImaged ConditionStatusTrue \<longrightarrow> agent_succeeded h bmi ImagingActionType) \<and>
     (newly bmi st' ConditionTypeInstanceImaged ConditionStatusError \<longrightarrow> agent_failed h bmi ImagingActionType) \<and>
     (newly bmi st' ConditionTypeInstanceCleaned ConditionStatusError \<longrightarrow> agent_failed h bmi CleaningActionType) \<and>
     (newly bmi st' ConditionTypeInstanceCleaned ConditionStatusTrue \<longrightarrow>
        (\<exists>bmh. hardware_read h bmi bmh \<and> bmh_InstanceRef (bmh_Status bmh) = None)) \<and>
     (newly bmi st' ConditionTypeInstanceNetworked ConditionStatusTrue \<longrightarrow>
        (\<exists>bmh. hardware_read h bmi bmh \<and> refers_to bmh bmi \<and>
           (\<forall>nic \<in> set (bmh_NICS (bmh_Spec bmh)). nic_addressed h bmi nic))) \<and>
     (bmi_Phase st' = PhaseTerminating \<and> bmi_Phase (bmi_Status bmi) \<noteq> PhaseTerminating \<longrightarrow>
        has_status (bmi_Status bmi) ConditionTypeInstanceCleaned ConditionStatusTrue \<or>
        bmi_HardwareName (bmi_Status bmi) = [] \<or> hardware_gone h bmi \<or>
        (\<exists>bmh. hardware_read h bmi bmh \<and> refers_to_other bmh bmi)) \<and>
     (bmi_Phase st' = PhaseRunning \<and> bmi_Phase (bmi_Status bmi) \<noteq> PhaseRunning \<longrightarrow>
        (\<exists>bmh. hardware_read h bmi bmh \<and> refers_to bmh bmi \<and> IsZero (DeletionTimestamp bmh)))"

definition claims :: "BareMetalInstance \<Rightarrow> BareMetalHardware \<Rightarrow> BareMetalHardware \<Rightarrow> bool" where
  "claims bmi bmh bmh' \<longleftrightarrow> IsZero (DeletionTimestamp bmi) \<and> bmi_Phase (bmi_Status bmi) = PhaseProvisioning \<and>
     IsZero (DeletionTimestamp bmh) \<and> bmh_InstanceRef (bmh_Status bmh) = None \<and>
     (\<forall>t \<in> set (bmh_Taints (bmh_Spec bmh)). taint_Key t \<noteq> BareMetalHardwareTaintKeyNotReady) \<and>
     bmh' = bmh\<lparr>bmh_Status := (bmh_Status bmh)\<lparr>bmh_InstanceRef :=
       Some \<lparr>iref_Name = Name bmi, iref_Namespace = Namespace bmi, iref_UID = UID bmi\<rparr>\<rparr>\<rparr>"

definition releases :: "history \<Rightarrow> BareMetalInstance \<Rightarrow> BareMetalHardware \<Rightarrow> BareMetalHardware \<Rightarrow> bool" where
  "releases h bmi bmh bmh' \<longleftrightarrow> \<not> IsZero (DeletionTimestamp bmi) \<and> bmi_Phase (bmi_Status bmi) = PhaseCleaning \<and>
     refers_to bmh bmi \<and> agent_succeeded h bmi CleaningActionType \<and>
     bmh' = bmh\<lparr>bmh_Status := (bmh_Status bmh)\<lparr>bmh_InstanceRef := None\<rparr>\<rparr>"

definition endpoint_missing :: "history \<Rightarrow> BareMetalInstance \<Rightarrow> BareMetalHardware \<Rightarrow> BareMetalEndpoint \<Rightarrow> bool" where
  "endpoint_missing h bmi bmh bme \<longleftrightarrow> IsZero (DeletionTimestamp bmi) \<and> refers_to bmh bmi \<and>
     (\<exists>nic \<in> set (bmh_NICS (bmh_Spec bmh)). \<exists>bmes.
        (ListBME [MatchingLabels (nic_labels bmi nic)], ABMEs (Inr bmes)) \<in> set h \<and>
        our_endpoints (UID bmi) bmes = [] \<and> endpoint_for bmi bmh nic = Endpoint bme)"

definition provisioner_write :: "history \<Rightarrow> BareMetalInstance \<Rightarrow> call \<Rightarrow> bool" where
  "provisioner_write h bmi c \<longleftrightarrow> scheduled (bmi_Status bmi) \<and>
     (case c of
        StatusUpdateBMI b \<Rightarrow> (\<exists>st'. b = bmi\<lparr>bmi_Status := st'\<rparr> \<and>
          provisioner_step (\<not> IsZero (DeletionTimestamp bmi)) (bmi_Status bmi) st' \<and> instance_evidence h bmi st')
      | StatusUpdateBMH b \<Rightarrow> (\<exists>bmh. hardware_read h bmi bmh \<and> (claims bmi bmh b \<or> releases h bmi bmh b))
      | CreateBME bme \<Rightarrow> (\<exists>bmh. hardware_read h bmi bmh \<and> endpoint_missing h bmi bmh bme)
      | _ \<Rightarrow> False)"

text \<open>The history of a run that has read the instance and written nothing yet.\<close>

definition reading :: "NamespacedName \<Rightarrow> BareMetalInstance \<Rightarrow> history \<Rightarrow> bool" where
  "reading req bmi h \<longleftrightarrow> no_writes h \<and> (\<exists>h'. h = (GetBMI req, ABMI (Inr bmi)) # h')"

definition provisioner_contract :: "NamespacedName \<Rightarrow> history \<Rightarrow> call \<Rightarrow> bool" where
  "provisioner_contract req h c \<longleftrightarrow>
     (is_write c \<longrightarrow> (\<exists>bmi. reading req bmi h \<and> provisioner_write h bmi c))"

section \<open>Evidence stays\<close>

lemma SetCondition_fields:
  assumes "SetCondition st c = Inr (st' :: BareMetalInstanceStatus)"
  shows "bmi_HardwareName st' = bmi_HardwareName st" "bmi_Phase st' = bmi_Phase st" "bmi_AgentInfo st' = bmi_AgentInfo st"
  using assms by (auto simp: SetCondition_def split: if_splits)

lemma condition_fields [simp]:
  "cond_Type (instance_condition ct cs r m t) = ct" "cond_Status (instance_condition ct cs r m t) = cs"
  by (simp_all add: instance_condition_def)

lemma reading_append [simp]: "reading req bmi h \<Longrightarrow> no_writes h' \<Longrightarrow> reading req bmi (h @ h')"
  by (auto simp: reading_def)

lemma evidence_append [simp]:
  "agent_said h bmi s \<Longrightarrow> agent_said (h @ h') bmi s"
  "agent_said (h @ [x]) bmi s \<Longrightarrow> agent_said (h @ x # h') bmi s"
  "agent_succeeded h bmi ty \<Longrightarrow> agent_succeeded (h @ h') bmi ty"
  "agent_failed h bmi ty \<Longrightarrow> agent_failed (h @ h') bmi ty"
  "hardware_read h bmi bmh \<Longrightarrow> hardware_read (h @ h') bmi bmh"
  "hardware_gone h bmi \<Longrightarrow> hardware_gone (h @ h') bmi"
  "nic_addressed h bmi nic \<Longrightarrow> nic_addressed (h @ h') bmi nic"
  by (auto simp: agent_said_def agent_succeeded_def agent_failed_def hardware_read_def hardware_gone_def
      nic_addressed_def)

lemma provisioner_other [simp]: "\<not> is_write c \<Longrightarrow> provisioner_contract req h c"
  by (simp add: provisioner_contract_def)

lemma provisioner_quiet: "quiet p \<Longrightarrow> always (provisioner_contract req) h p"
  by (erule quiet_always) simp

lemma provisioner_writeI: "reading req bmi h \<Longrightarrow> provisioner_write h bmi c \<Longrightarrow> provisioner_contract req h c"
  by (auto simp: provisioner_contract_def)

section \<open>Every write is a step\<close>

lemma status_update_BMI_contract:
  assumes "reading req bmi h" and "provisioner_write h bmi (StatusUpdateBMI b)" and "\<And>b. quiet (k b)"
  shows "always (provisioner_contract req) h (status_update_BMI b k)"
  using provisioner_writeI [OF assms(1,2)] assms(3)
  by (auto simp: status_update_BMI_def intro: provisioner_quiet split: sum.splits)

lemma status_update_BMH_contract:
  assumes "reading req bmi h" and "provisioner_write h bmi (StatusUpdateBMH b)" and "\<And>b. quiet (k b)"
  shows "always (provisioner_contract req) h (status_update_BMH b k)"
  using provisioner_writeI [OF assms(1,2)] assms(3)
  by (auto simp: status_update_BMH_def intro: provisioner_quiet split: sum.splits)

lemma set_instance_condition_contract:
  assumes "reading req bmi h" and "\<And>b. quiet (k b)"
    and "\<And>t a st'. SetCondition (bmi_Status bmi) (instance_condition ct cs reason message t) = Inr st' \<Longrightarrow>
      provisioner_write (h @ [(ClockNow, a)]) bmi (StatusUpdateBMI (bmi\<lparr>bmi_Status := st'\<rparr>))"
  shows "always (provisioner_contract req) h (set_instance_condition bmi ct cs reason message k)"
  using assms
  by (auto simp: set_instance_condition_def set_condition_now_def instance_condition_def return_err_def
      intro!: status_update_BMI_contract [of req bmi] split: sum.splits condition_error.splits)

definition status_request :: "BareMetalInstanceStatusAgentInfo \<Rightarrow> call" where
  "status_request info = HttpRequest ''GET'' (agent_url (agent_IP info) ''/status'') []"

lemma status_request_no_write [simp]: "\<not> is_write (status_request info)"
  by (simp add: status_request_def)

lemma getAgentStatus_contract:
  assumes "bmi_AgentInfo (bmi_Status bmi) = Some info"
    and "\<And>a r. (\<forall>s. r = Inr (Some s) \<longrightarrow> agent_said (h @ [(status_request info, a)]) bmi s) \<Longrightarrow>
      always (provisioner_contract req) (h @ [(status_request info, a)]) (k r)"
  shows "always (provisioner_contract req) h (getAgentStatus json_error (agent_IP info) k)"
proof -
  have "always (provisioner_contract req) (h @ [(status_request info, a)]) (k r)"
    if "\<forall>s. r = Inr (Some s) \<longrightarrow> (\<exists>body. a = AHttp (Reply 200 body) \<and> unmarshal_Status body = Some s)" for a r
    using that assms(1) by (intro assms(2)) (auto simp: agent_said_def status_request_def)
  then show ?thesis
    by (auto simp: getAgentStatus_def status_request_def as_Http_def
        split: answer.splits http_answer.splits option.splits)
qed

lemma get_hardware_contract:
  assumes "\<And>a. hardware_gone (h @ [(GetBMH (hardware_key bmi), a)]) bmi \<Longrightarrow>
      always (provisioner_contract req) (h @ [(GetBMH (hardware_key bmi), a)]) (k None)"
    and "\<And>a bmh. hardware_read (h @ [(GetBMH (hardware_key bmi), a)]) bmi bmh \<Longrightarrow>
      always (provisioner_contract req) (h @ [(GetBMH (hardware_key bmi), a)]) (k (Some bmh))"
  shows "always (provisioner_contract req) h (get_hardware bmi k)"
  using assms
  by (auto simp: get_hardware_def as_BMH_def hardware_gone_def hardware_read_def wrong_kind_def IsNotFound_def
      split: answer.splits sum.splits)

lemma quiet_tell_agent [simp]: "quiet (tell_agent bmi what doing url body)"
  by (simp add: tell_agent_def split: http_answer.splits)

lemma quiet_parts [simp]:
  "quiet (wrong_action bmi s)" "quiet (not_all_addressed bmi)" "quiet (post_clean bmi bmh ip)"
  "quiet (post_image bmi bmh ip nd)"
  by (simp_all add: wrong_action_def not_all_addressed_def post_clean_def post_image_def)

text \<open>A status of an instance that sets one condition: what is new about it.\<close>

lemma evidence_condition:
  assumes "SetCondition (bmi_Status bmi) (instance_condition ct cs r m t) = Inr st'"
    and "ct = ConditionTypeInstanceImaged \<Longrightarrow> cs = ConditionStatusTrue \<Longrightarrow> agent_succeeded h bmi ImagingActionType"
    and "ct = ConditionTypeInstanceImaged \<Longrightarrow> cs = ConditionStatusError \<Longrightarrow> agent_failed h bmi ImagingActionType"
    and "ct = ConditionTypeInstanceCleaned \<Longrightarrow> cs = ConditionStatusError \<Longrightarrow> agent_failed h bmi CleaningActionType"
    and "ct = ConditionTypeInstanceCleaned \<Longrightarrow> cs = ConditionStatusTrue \<Longrightarrow>
      \<exists>bmh. hardware_read h bmi bmh \<and> bmh_InstanceRef (bmh_Status bmh) = None"
    and "ct = ConditionTypeInstanceNetworked \<Longrightarrow> cs = ConditionStatusTrue \<Longrightarrow>
      \<exists>bmh. hardware_read h bmi bmh \<and> refers_to bmh bmi \<and> (\<forall>nic \<in> set (bmh_NICS (bmh_Spec bmh)). nic_addressed h bmi nic)"
  shows "instance_evidence h bmi st'"
  unfolding instance_evidence_def newly_def SetCondition_has_status(1) [OF assms(1)] SetCondition_fields [OF assms(1)]
  using assms(2-) by (simp split: if_splits)

lemma provisioner_write_cases:
  "scheduled (bmi_Status bmi) \<Longrightarrow> provisioner_step (\<not> IsZero (DeletionTimestamp bmi)) (bmi_Status bmi) st' \<Longrightarrow>
     instance_evidence h bmi st' \<Longrightarrow> provisioner_write h bmi (StatusUpdateBMI (bmi\<lparr>bmi_Status := st'\<rparr>))"
  "scheduled (bmi_Status bmi) \<Longrightarrow> hardware_read h bmi bmh \<Longrightarrow> releases h bmi bmh b \<Longrightarrow>
     provisioner_write h bmi (StatusUpdateBMH b)"
  "scheduled (bmi_Status bmi) \<Longrightarrow> hardware_read h bmi bmh \<Longrightarrow> claims bmi bmh b \<Longrightarrow>
     provisioner_write h bmi (StatusUpdateBMH b)"
  "scheduled (bmi_Status bmi) \<Longrightarrow> hardware_read h bmi bmh \<Longrightarrow> endpoint_missing h bmi bmh bme \<Longrightarrow>
     provisioner_write h bmi (CreateBME bme)"
  unfolding provisioner_write_def by auto

lemma agent_failedI:
  "agent_said h bmi s \<Longrightarrow> act_Type s = ty \<Longrightarrow> act_Done s \<Longrightarrow> act_Error s \<noteq> [] \<Longrightarrow> agent_failed h bmi ty"
  by (auto simp: agent_failed_def)

lemma agent_succeededI:
  "agent_said h bmi s \<Longrightarrow> act_Type s = ty \<Longrightarrow> act_Done s \<Longrightarrow> act_Error s = [] \<Longrightarrow> agent_succeeded h bmi ty"
  by (auto simp: agent_succeeded_def)

lemma cleaning_status_contract:
  assumes "reading req bmi h" "\<not> IsZero (DeletionTimestamp bmi)" "scheduled (bmi_Status bmi)"
    and "undecided (bmi_Status bmi) ConditionTypeInstanceCleaned" "bmi_Phase (bmi_Status bmi) = PhaseCleaning"
    and "hardware_read h bmi bmh" "refers_to bmh bmi" "agent_said h bmi s"
  shows "always (provisioner_contract req) h (cleaning_status bmi bmh s)"
proof -
  have failed: "provisioner_write (h @ h') bmi (StatusUpdateBMI (bmi\<lparr>bmi_Status := st'\<rparr>))"
    if "SetCondition (bmi_Status bmi) (instance_condition ConditionTypeInstanceCleaned ConditionStatusError
      CleaningFailedConditionReason (act_Error s) t) = Inr st'" and "agent_failed h bmi CleaningActionType" for t st' h'
    using assms(3,5) that(2)
    by (intro provisioner_write_cases(1) provisioner_step.clean_failed [OF assms(2-5) that(1)] evidence_condition [OF that(1)])
      (simp_all add: consts_simps)
  have success: "provisioner_write (h @ h') bmi
      (StatusUpdateBMH (bmh\<lparr>bmh_Status := (bmh_Status bmh)\<lparr>bmh_InstanceRef := None\<rparr>\<rparr>))"
    if "agent_succeeded h bmi CleaningActionType" for h'
    using assms that by (intro provisioner_write_cases(2) [of bmi "h @ h'" bmh]) (simp_all add: releases_def)
  show ?thesis
    using assms(1) failed [OF _ agent_failedI [OF assms(8)]] success [OF agent_succeededI [OF assms(8)]]
    by (auto simp: cleaning_status_def provisioner_quiet
        intro!: set_instance_condition_contract status_update_BMH_contract [of req bmi])
qed


lemma clean_hardware_contract:
  assumes "reading req bmi h" "\<not> IsZero (DeletionTimestamp bmi)" "scheduled (bmi_Status bmi)"
    and "undecided (bmi_Status bmi) ConditionTypeInstanceCleaned" "bmi_Phase (bmi_Status bmi) = PhaseCleaning"
    and "case p of None \<Rightarrow> hardware_gone h bmi | Some bmh \<Rightarrow> hardware_read h bmi bmh"
  shows "always (provisioner_contract req) h (clean_hardware json_error bmi p)"
proof -
  have terminate: "provisioner_write h' bmi (StatusUpdateBMI
      (bmi\<lparr>bmi_Status := (bmi_Status bmi)\<lparr>bmi_Phase := PhaseTerminating\<rparr>\<rparr>))"
    if "hardware_gone h' bmi \<or> (\<exists>bmh. hardware_read h' bmi bmh \<and> refers_to_other bmh bmi)" for h'
    using assms(3,5) that
    by (intro provisioner_write_cases(1) provisioner_step.give_up [OF assms(2-5)])
      (auto simp: instance_evidence_def newly_def has_status_def GetCondition_def consts_simps)
  show ?thesis
  proof (cases p)
    case None
    then show ?thesis
      using assms(1,6) terminate
      by (auto simp: clean_hardware_def Let_def intro!: status_update_BMI_contract [of req bmi])
  next
    case (Some bmh)
    then have read: "hardware_read h bmi bmh" using assms(6) by simp
    show ?thesis
    proof (cases "bmh_InstanceRef (bmh_Status bmh)")
      case None
      have ev: "\<exists>bmh. hardware_read (h @ h') bmi bmh \<and> bmh_InstanceRef (bmh_Status bmh) = None" for h'
        using read None by (auto intro!: exI [of _ bmh])
      have "provisioner_write (h @ [(ClockNow, a)]) bmi (StatusUpdateBMI (bmi\<lparr>bmi_Status := st'\<rparr>))"
        if "SetCondition (bmi_Status bmi) (instance_condition ConditionTypeInstanceCleaned ConditionStatusTrue [] [] t) = Inr st'"
        for a t st'
        using assms(3,5) ev
        by (intro provisioner_write_cases(1) provisioner_step.cleaned [OF assms(2-5) that] evidence_condition [OF that])
          (auto simp: consts_simps)
      then show ?thesis
        using assms(1) None Some by (auto simp: clean_hardware_def Let_def intro!: set_instance_condition_contract)
    next
      case (Some r)
      show ?thesis
      proof (cases "iref_UID r = UID bmi")
        case False
        then have "refers_to_other bmh bmi" using Some by (simp add: refers_to_other_def)
        then have "provisioner_write (h @ h') bmi (StatusUpdateBMI
            (bmi\<lparr>bmi_Status := (bmi_Status bmi)\<lparr>bmi_Phase := PhaseTerminating\<rparr>\<rparr>))" for h'
          using read by (intro terminate disjI2 exI [of _ bmh]) simp
        then show ?thesis
          using assms(1) Some False \<open>p = Some bmh\<close>
          by (auto simp: clean_hardware_def Let_def intro!: status_update_BMI_contract [of req bmi])
      next
        case True
        then have ref: "refers_to bmh bmi" using Some by (simp add: refers_to_def)
        show ?thesis
          using assms(1-5) read ref Some True \<open>p = Some bmh\<close>
          by (auto simp: clean_hardware_def Let_def provisioner_quiet
              intro!: getAgentStatus_contract [of bmi] cleaning_status_contract split: option.splits sum.splits)
      qed
    qed
  qed
qed

lemma undecidedI:
  "GetCondition st ct = Some c \<Longrightarrow> cond_Status c \<noteq> ConditionStatusTrue \<Longrightarrow> cond_Status c \<noteq> ConditionStatusError \<Longrightarrow>
     undecided st ct"
  by (simp add: undecided_def has_status_def)

lemma provisioner_delete_contract:
  assumes "reading req bmi h" "\<not> IsZero (DeletionTimestamp bmi)" "scheduled (bmi_Status bmi)"
  shows "always (provisioner_contract req) h (provisioner_delete json_error bmi)"
proof (cases "terminating (bmi_Status bmi)")
  case True
  then show ?thesis by (simp add: provisioner_delete_def terminating_def Let_def)
next
  case False
  note phase = this [unfolded terminating_def]
  have evidence: "instance_evidence h bmi ((bmi_Status bmi)\<lparr>bmi_Phase := ph\<rparr>)"
    if "ph = PhaseCleaning \<or> bmi_HardwareName (bmi_Status bmi) = []" "ph \<noteq> PhaseRunning" for ph
    using that by (auto simp: instance_evidence_def newly_def has_status_def GetCondition_def consts_simps)
  show ?thesis
  proof (cases "GetCondition (bmi_Status bmi) ConditionTypeInstanceCleaned")
    case None
    have "provisioner_write (h @ h') bmi (StatusUpdateBMI (bmi\<lparr>bmi_Status := st'\<rparr>))"
      if "SetCondition (bmi_Status bmi) (instance_condition ConditionTypeInstanceCleaned ConditionStatusFalse [] [] t) = Inr st'" for h' t st'
      using assms(3)
      by (intro provisioner_write_cases(1) provisioner_step.start_clean [OF assms(2,3) False None that] evidence_condition [OF that])
        (simp_all add: consts_simps)
    then show ?thesis
      using None assms(1) phase
      by (auto simp: provisioner_delete_def Let_def intro!: set_instance_condition_contract)
  next
    case (Some c)
    note cond = this
    consider "cond_Status c = ConditionStatusTrue" | "cond_Status c = ConditionStatusError"
      | "cond_Status c \<noteq> ConditionStatusTrue" "cond_Status c \<noteq> ConditionStatusError" by blast
    then show ?thesis
    proof cases
      case 1
      then have true: "has_status (bmi_Status bmi) ConditionTypeInstanceCleaned ConditionStatusTrue"
        using Some by (simp add: has_status_def)
      have "instance_evidence h bmi ((bmi_Status bmi)\<lparr>bmi_Phase := PhaseTerminating, bmi_AgentInfo := None\<rparr>)"
        using true by (auto simp: instance_evidence_def newly_def has_status_def GetCondition_def consts_simps)
      then have "provisioner_write h bmi (StatusUpdateBMI
          (bmi\<lparr>bmi_Status := (bmi_Status bmi)\<lparr>bmi_Phase := PhaseTerminating, bmi_AgentInfo := None\<rparr>\<rparr>))"
        by (intro provisioner_write_cases(1) assms(3) provisioner_step.finish_clean [OF assms(2,3) False true])
      then show ?thesis
        using 1 Some assms(1) phase
        by (auto simp: provisioner_delete_def Let_def intro!: status_update_BMI_contract [of req bmi])
    next
      case 2
      then show ?thesis using Some phase by (simp add: provisioner_delete_def Let_def consts_simps)
    next
      case 3
      note undecided = undecidedI [OF Some 3]
      have clean: "provisioner_write h bmi (StatusUpdateBMI (bmi\<lparr>bmi_Status := (bmi_Status bmi)\<lparr>bmi_Phase := PhaseCleaning\<rparr>\<rparr>))"
        if "bmi_Phase (bmi_Status bmi) \<noteq> PhaseCleaning"
        by (intro provisioner_write_cases(1) assms(3) provisioner_step.clean [OF assms(2,3) False undecided that] evidence)
          (simp_all add: consts_simps)
      have give_up: "provisioner_write h bmi (StatusUpdateBMI (bmi\<lparr>bmi_Status := (bmi_Status bmi)\<lparr>bmi_Phase := PhaseTerminating\<rparr>\<rparr>))"
        if "bmi_Phase (bmi_Status bmi) = PhaseCleaning" "bmi_HardwareName (bmi_Status bmi) = []"
        using that
        by (intro provisioner_write_cases(1) assms(3) provisioner_step.give_up [OF assms(2,3) undecided that(1)] evidence)
          (simp_all add: consts_simps)
      show ?thesis
        using 3 Some assms phase undecided clean give_up
        by (auto simp: provisioner_delete_def Let_def
            intro!: status_update_BMI_contract [of req bmi] get_hardware_contract clean_hardware_contract)
    qed
  qed
qed

section \<open>Provisioning\<close>

lemma nic_loop_contract:
  assumes "reading req bmi h" "IsZero (DeletionTimestamp bmi)" "scheduled (bmi_Status bmi)"
    and "bmi_Phase (bmi_Status bmi) = PhaseProvisioning"
    and "has_status (bmi_Status bmi) ConditionTypeInstanceNetworked ConditionStatusFalse"
    and "hardware_read h bmi bmh" "refers_to bmh bmi"
    and "bmh_NICS (bmh_Spec bmh) = prev @ nics" "\<forall>nic \<in> set prev. nic_addressed h bmi nic"
  shows "always (provisioner_contract req) h (nic_loop bmi bmh nics)"
  using assms(1,6,8,9)
proof (induction nics arbitrary: h prev)
  case Nil
  have "provisioner_write (h @ h') bmi (StatusUpdateBMI (bmi\<lparr>bmi_Status := st'\<rparr>))"
    if "SetCondition (bmi_Status bmi) (instance_condition ConditionTypeInstanceNetworked ConditionStatusTrue [] [] t) = Inr st'"
    for h' t st'
  proof (intro provisioner_write_cases(1) evidence_condition [OF that] assms(3))
    show "provisioner_step (\<not> IsZero (DeletionTimestamp bmi)) (bmi_Status bmi) st'"
      using assms(2-5) that by (intro provisioner_step.networked) auto
    show "\<exists>bmh. hardware_read (h @ h') bmi bmh \<and> refers_to bmh bmi \<and>
        (\<forall>nic \<in> set (bmh_NICS (bmh_Spec bmh)). nic_addressed (h @ h') bmi nic)"
      using Nil assms(7) by (intro exI [of _ bmh]) simp
  qed (simp_all add: consts_simps)
  then show ?case
    using Nil(1) by (auto simp: all_addressed_def intro!: set_instance_condition_contract)
next
  case (Cons nic nics)
  let ?c = "ListBME [MatchingLabels (nic_labels bmi nic)]"
  have rest: "always (provisioner_contract req) (h @ [(?c, ABMEs (Inr bmes))]) (nic_loop bmi bmh nics)"
    if "our_endpoints (UID bmi) bmes = [bme]" "bme_Phase (bme_Status bme) = EndpointPhaseAddressed" for bmes bme
  proof (rule Cons.IH)
    show "bmh_NICS (bmh_Spec bmh) = (prev @ [nic]) @ nics" using Cons.prems by simp
    have "nic_addressed (h @ [(?c, ABMEs (Inr bmes))]) bmi nic" using that by (auto simp: nic_addressed_def)
    then show "\<forall>n \<in> set (prev @ [nic]). nic_addressed (h @ [(?c, ABMEs (Inr bmes))]) bmi n"
      using Cons.prems by simp
  qed (use Cons.prems in simp_all)
  have create: "provisioner_contract req (h @ [(?c, ABMEs (Inr bmes))]) (CreateBME bme)"
    if "our_endpoints (UID bmi) bmes = []" "endpoint_for bmi bmh nic = Endpoint bme" for bmes bme
  proof (rule provisioner_writeI [of _ bmi])
    have "endpoint_missing (h @ [(?c, ABMEs (Inr bmes))]) bmi bmh bme"
      using that assms(2,7) Cons.prems(3) by (auto simp: endpoint_missing_def)
    then show "provisioner_write (h @ [(?c, ABMEs (Inr bmes))]) bmi (CreateBME bme)"
      using assms(3) Cons.prems(2) by (intro provisioner_write_cases(4)) simp_all
  qed (use Cons.prems in simp)
  have "always (provisioner_contract req) (h @ [(?c, a)])
      (case as_BMEs a of
         Inl err \<Rightarrow> return_err err
       | Inr bmes \<Rightarrow>
           (case our_endpoints (UID bmi) bmes of
              [] \<Rightarrow>
                (case endpoint_for bmi bmh nic of
                   NilHardware \<Rightarrow> Panic ''nil pointer dereference''
                 | NoMACs \<Rightarrow> Panic ''index out of range''
                 | Endpoint bme \<Rightarrow> Call (CreateBME bme) (\<lambda>a. case as_BME a of
                       Inl err \<Rightarrow> return_err err | Inr _ \<Rightarrow> not_all_addressed bmi))
            | [bme] \<Rightarrow>
                if bme_Phase (bme_Status bme) \<noteq> EndpointPhaseAddressed then not_all_addressed bmi
                else nic_loop bmi bmh nics
            | _ \<Rightarrow>
                event (OnBMI bmi) EventTypeWarning InstanceNetworkingEventReason
                  (''Found multiple BareMetalEndpoints for nic '' @ nic_Name nic @ '', this shouldn'' @ [CHR 0x27] @ ''t happen'')
                  return_ok))" for a
    using rest create
    by (auto simp: as_BMEs_def provisioner_quiet split: answer.splits sum.splits list.splits new_endpoint.splits)
  then show ?case by simp
qed


lemma imaging_status_contract:
  assumes "reading req bmi h" "IsZero (DeletionTimestamp bmi)" "scheduled (bmi_Status bmi)"
    and "bmi_Phase (bmi_Status bmi) = PhaseProvisioning"
    and "has_status (bmi_Status bmi) ConditionTypeInstanceNetworked ConditionStatusTrue"
    and "undecided (bmi_Status bmi) ConditionTypeInstanceImaged" "agent_said h bmi s"
  shows "always (provisioner_contract req) h (imaging_status bmi bmh s)"
proof -
  have alive: "\<not> \<not> IsZero (DeletionTimestamp bmi)" using assms(2) by simp
  have failed: "provisioner_write (h @ h') bmi (StatusUpdateBMI (bmi\<lparr>bmi_Status := st'\<rparr>))"
    if "SetCondition (bmi_Status bmi) (instance_condition ConditionTypeInstanceImaged ConditionStatusError
      ImagingFailedConditionReason (act_Error s) t) = Inr st'" and "agent_failed h bmi ImagingActionType" for t st' h'
    using assms(3) that(2)
    by (intro provisioner_write_cases(1) provisioner_step.image_failed [OF alive assms(3-6) that(1)] evidence_condition [OF that(1)])
      (simp_all add: consts_simps)
  have success: "provisioner_write (h @ h') bmi (StatusUpdateBMI (bmi\<lparr>bmi_Status := st'\<rparr>))"
    if "SetCondition (bmi_Status bmi) (instance_condition ConditionTypeInstanceImaged ConditionStatusTrue [] [] t) = Inr st'"
      and "agent_succeeded h bmi ImagingActionType" for t st' h'
    using assms(3) that(2)
    by (intro provisioner_write_cases(1) provisioner_step.imaged [OF alive assms(3-6) that(1)] evidence_condition [OF that(1)])
      (simp_all add: consts_simps)
  show ?thesis
    using assms(1) failed [OF _ agent_failedI [OF assms(7)]] success [OF _ agent_succeededI [OF assms(7)]]
    by (auto simp: imaging_status_def provisioner_quiet intro!: set_instance_condition_contract)
qed

lemma image_hardware_contract:
  assumes "reading req bmi h" "IsZero (DeletionTimestamp bmi)" "scheduled (bmi_Status bmi)"
    and "bmi_Phase (bmi_Status bmi) = PhaseProvisioning"
    and "has_status (bmi_Status bmi) ConditionTypeInstanceNetworked ConditionStatusTrue"
    and "undecided (bmi_Status bmi) ConditionTypeInstanceImaged"
  shows "always (provisioner_contract req) h (image_hardware json_error bmi bmh)"
  using assms
  by (auto simp: image_hardware_def provisioner_quiet
      intro!: getAgentStatus_contract [of bmi] imaging_status_contract split: option.splits sum.splits built.splits)

lemma provisioner_image_contract:
  assumes "reading req bmi h" "IsZero (DeletionTimestamp bmi)" "scheduled (bmi_Status bmi)"
    and "bmi_Phase (bmi_Status bmi) = PhaseProvisioning"
    and "has_status (bmi_Status bmi) ConditionTypeInstanceNetworked ConditionStatusTrue"
    and "hardware_read h bmi bmh" "refers_to bmh bmi" "IsZero (DeletionTimestamp bmh)"
  shows "always (provisioner_contract req) h (provisioner_image json_error bmi bmh)"
proof -
  have alive: "\<not> \<not> IsZero (DeletionTimestamp bmi)" using assms(2) by simp
  show ?thesis
  proof (cases "GetCondition (bmi_Status bmi) ConditionTypeInstanceImaged")
    case None
    have "provisioner_write (h @ h') bmi (StatusUpdateBMI (bmi\<lparr>bmi_Status := st'\<rparr>))"
      if "SetCondition (bmi_Status bmi) (instance_condition ConditionTypeInstanceImaged ConditionStatusFalse [] [] t) = Inr st'"
      for t st' h'
      using assms(3)
      by (intro provisioner_write_cases(1) provisioner_step.image [OF alive assms(3-5) None that] evidence_condition [OF that])
        (simp_all add: consts_simps)
    then show ?thesis
      using None assms(1) by (auto simp: provisioner_image_def Let_def intro!: set_instance_condition_contract)
  next
    case (Some c)
    consider "cond_Status c = ConditionStatusTrue" | "cond_Status c = ConditionStatusError"
      | "cond_Status c \<noteq> ConditionStatusTrue" "cond_Status c \<noteq> ConditionStatusError" by blast
    then show ?thesis
    proof cases
      case 1
      then have true: "has_status (bmi_Status bmi) ConditionTypeInstanceImaged ConditionStatusTrue"
        using Some by (simp add: has_status_def)
      have "\<exists>bmh. hardware_read h bmi bmh \<and> refers_to bmh bmi \<and> IsZero (DeletionTimestamp bmh)"
        using assms(6-8) by blast
      then have "instance_evidence h bmi ((bmi_Status bmi)\<lparr>bmi_Phase := PhaseRunning, bmi_AgentInfo := None\<rparr>)"
        by (auto simp: instance_evidence_def newly_def has_status_def GetCondition_def consts_simps)
      then have "provisioner_write h bmi (StatusUpdateBMI
          (bmi\<lparr>bmi_Status := (bmi_Status bmi)\<lparr>bmi_Phase := PhaseRunning, bmi_AgentInfo := None\<rparr>\<rparr>))"
        by (intro provisioner_write_cases(1) assms(3) provisioner_step.run [OF alive assms(3-5) true])
      then show ?thesis
        using 1 Some assms(1) by (auto simp: provisioner_image_def Let_def intro!: status_update_BMI_contract [of req bmi])
    next
      case 2
      then show ?thesis using Some by (simp add: provisioner_image_def Let_def consts_simps)
    next
      case 3
      then show ?thesis
        using Some image_hardware_contract [OF assms(1-5) undecidedI [OF Some 3]]
        by (simp add: provisioner_image_def Let_def)
    qed
  qed
qed

lemma claim_hardware_contract:
  assumes "reading req bmi h" "IsZero (DeletionTimestamp bmi)" "scheduled (bmi_Status bmi)"
    and "bmi_Phase (bmi_Status bmi) = PhaseProvisioning" "hardware_read h bmi bmh" "IsZero (DeletionTimestamp bmh)"
    and "\<not> has_taint BareMetalHardwareTaintKeyNotReady (bmh_Taints (bmh_Spec bmh))"
    and "bmh_InstanceRef (bmh_Status bmh) = None"
  shows "always (provisioner_contract req) h (claim_hardware bmi bmh)"
  unfolding claim_hardware_def
  using assms
  by (intro status_update_BMH_contract [of req bmi] provisioner_write_cases(3) [of bmi h bmh])
    (simp_all add: claims_def has_taint_iff)

lemma provision_hardware_contract:
  assumes "reading req bmi h" "IsZero (DeletionTimestamp bmi)" "scheduled (bmi_Status bmi)"
    and "bmi_Phase (bmi_Status bmi) = PhaseProvisioning" "case p of None \<Rightarrow> True | Some bmh \<Rightarrow> hardware_read h bmi bmh"
  shows "always (provisioner_contract req) h (provision_hardware json_error bmi p)"
proof (cases p)
  case None
  then show ?thesis by (simp add: provision_hardware_def Let_def)
next
  case (Some bmh)
  then have read: "hardware_read h bmi bmh" using assms(5) by simp
  have alive: "\<not> \<not> IsZero (DeletionTimestamp bmi)" using assms(2) by simp
  show ?thesis
  proof (cases "\<not> IsZero (DeletionTimestamp bmh) \<or> refers_to_other bmh bmi \<or>
      has_taint BareMetalHardwareTaintKeyNotReady (bmh_Taints (bmh_Spec bmh)) \<or> bmh_InstanceRef (bmh_Status bmh) = None")
    case True
    then show ?thesis
      using Some read assms(1-4)
      by (auto simp: provision_hardware_def Let_def refers_to_other_def intro!: claim_hardware_contract)
  next
    case False
    then have ref: "refers_to bmh bmi" by (auto simp: refers_to_other_def refers_to_def split: option.splits)
    have network: "provisioner_write (h @ h') bmi (StatusUpdateBMI (bmi\<lparr>bmi_Status := st'\<rparr>))"
      if "GetCondition (bmi_Status bmi) ConditionTypeInstanceNetworked = None"
        "SetCondition (bmi_Status bmi) (instance_condition ConditionTypeInstanceNetworked ConditionStatusFalse [] [] t) = Inr st'"
      for t st' h'
      using assms(3)
      by (intro provisioner_write_cases(1) provisioner_step.network [OF alive assms(3,4) that] evidence_condition [OF that(2)])
        (simp_all add: consts_simps)
    have "always (provisioner_contract req) h
        (case GetCondition (bmi_Status bmi) ConditionTypeInstanceNetworked of
            None \<Rightarrow>
              set_instance_condition bmi ConditionTypeInstanceNetworked ConditionStatusFalse [] [] (\<lambda>_. return_ok)
          | Some networkedCond \<Rightarrow>
              if cond_Status networkedCond = ConditionStatusFalse then nic_loop bmi bmh (bmh_NICS (bmh_Spec bmh))
              else if cond_Status networkedCond = ConditionStatusTrue then provisioner_image json_error bmi bmh
              else return_ok)"
      using assms(1-4) read ref False network nic_loop_contract [of req bmi h bmh "[]"]
      by (auto simp: has_status_def intro!: set_instance_condition_contract provisioner_image_contract split: option.splits)
    then show ?thesis
      using Some False by (auto simp add: provision_hardware_def Let_def refers_to_other_def)
  qed
qed

lemma provisioner_always: "always (provisioner_contract req) [] (Provisioner_Reconcile json_error req)"
  by (auto simp: Provisioner_Reconcile_def fetch_BMI_def as_BMI_def reading_def has_status_def
      intro!: provisioner_delete_contract get_hardware_contract provision_hardware_contract
      split: sum.splits answer.splits option.splits)

text \<open>
  C3: whatever the API server and the agent answer, a run of the provisioner writes at most
  once, and that write is a step it has evidence for: an instance is imaged (cleaned) only
  when its agent said it ended imaging (a hardware that refers to no instance was read), and
  failed only when the agent said so; it is networked only when every nic of its hardware has
  one addressed endpoint; it is given up uncleaned only when its hardware is gone or another
  instance's; a hardware is claimed only when it refers to no instance, is ready and not being
  deleted, and released only when it refers to this one and the agent has cleaned it; and an
  endpoint is created only for a nic that has none.
\<close>

theorem Provisioner_Reconcile_contract: "always (provisioner_contract req) [] (Provisioner_Reconcile json_error req)"
  by (rule provisioner_always)

end
