(* ===== verification/InstanceLifecycle.thy ===== *)
theory InstanceLifecycle
  imports Controllers Scheduler ProvisionerSteps
begin

text \<open>
  The life of an instance across the controllers that write its status: the instance
  controller starts it, the scheduler and the provisioner make the steps their contracts
  bound them to. A measure that every step lowers and an invariant that every step keeps, for
  \<^verbatim>\<open>InstanceRuns\<close>, which states them of the runs of the controllers.
\<close>

section \<open>All steps together\<close>

inductive instance_step :: "bool \<Rightarrow> BareMetalInstanceStatus \<Rightarrow> BareMetalInstanceStatus \<Rightarrow> bool"
  for deleting :: bool where
  created: "\<not> deleting \<Longrightarrow> bmi_Phase st = [] \<Longrightarrow> instance_step deleting st (st\<lparr>bmi_Phase := PhasePending\<rparr>)"
| schedule: "scheduler_step deleting st st' \<Longrightarrow> instance_step deleting st st'"
| provision: "provisioner_step deleting st st' \<Longrightarrow> instance_step deleting st st'"

text \<open>An upper bound on the steps that are left, while the instance is kept or being deleted.\<close>

definition provisioning_rank :: "BareMetalInstanceStatus \<Rightarrow> nat" where
  "provisioning_rank st =
     (if has_status st ConditionTypeInstanceNetworked ConditionStatusTrue then
        (case GetCondition st ConditionTypeInstanceImaged of
           None \<Rightarrow> 3
         | Some c \<Rightarrow> if cond_Status c = ConditionStatusTrue \<or> cond_Status c = ConditionStatusError then 1 else 2)
      else if GetCondition st ConditionTypeInstanceNetworked = None then 5 else 4)"

definition pending_rank :: "BareMetalInstanceStatus \<Rightarrow> nat" where
  "pending_rank st =
     (case GetCondition st ConditionTypeInstanceScheduled of
        None \<Rightarrow> 9
      | Some c \<Rightarrow> if cond_Status c = ConditionStatusTrue then 6 else if bmi_HardwareName st = [] then 8 else 7)"

definition deleting_rank :: "BareMetalInstanceStatus \<Rightarrow> nat" where
  "deleting_rank st =
     (if bmi_Phase st = PhaseTerminated then 0
      else if \<not> scheduled st then 1
      else if bmi_Phase st = PhaseTerminating then 2
      else case GetCondition st ConditionTypeInstanceCleaned of
        None \<Rightarrow> 6
      | Some c \<Rightarrow> if cond_Status c = ConditionStatusTrue \<or> cond_Status c = ConditionStatusError then 3
                  else if bmi_Phase st = PhaseCleaning then 4 else 5)"

definition instance_rank :: "bool \<Rightarrow> BareMetalInstanceStatus \<Rightarrow> nat" where
  "instance_rank deleting st =
     (if deleting then deleting_rank st
      else if bmi_Phase st = [] then 10
      else if bmi_Phase st = PhasePending then pending_rank st
      else if bmi_Phase st = PhaseProvisioning then provisioning_rank st
      else 0)"

lemma scheduled_condition_instance:
  "scheduled_condition cs t = instance_condition ConditionTypeInstanceScheduled cs [] [] t"
  by (simp add: scheduled_condition_def instance_condition_def)

lemma GetCondition_SetCondition:
  assumes "SetCondition st (instance_condition ct cs r m t) = Inr st'"
  shows "GetCondition st' ct' = (if ct' = ct then Some (merged (GetCondition st ct) (instance_condition ct cs r m t))
    else GetCondition st ct')"
  using status.get_set_same [OF assms] status.get_set_other [OF assms, of ct'] by simp

lemma GetCondition_fields [simp]:
  "GetCondition (st\<lparr>bmi_Phase := p\<rparr>) ct = GetCondition st ct"
  "GetCondition (st\<lparr>bmi_HardwareName := n\<rparr>) ct = GetCondition st ct"
  "GetCondition (st\<lparr>bmi_AgentInfo := i\<rparr>) ct = GetCondition st ct"
  by (simp_all add: GetCondition_def)

lemmas rank_simps = instance_rank_def deleting_rank_def pending_rank_def provisioning_rank_def has_status_def
  consts_simps

lemma pending_rank_bounds: "5 < pending_rank st \<and> pending_rank st \<le> 9"
  by (simp add: pending_rank_def split: option.splits)

lemma provisioning_rank_bounds: "0 < provisioning_rank st \<and> provisioning_rank st \<le> 5"
  by (simp add: provisioning_rank_def split: option.splits)

lemma pending_rank_condition:
  assumes "SetCondition st (instance_condition ConditionTypeInstanceScheduled cs r m t) = Inr st'"
  shows "pending_rank st' = (if cs = ConditionStatusTrue then 6 else if bmi_HardwareName st = [] then 8 else 7)"
  by (simp add: pending_rank_def GetCondition_SetCondition [OF assms] SetCondition_fields [OF assms])

lemma scheduler_rank:
  assumes "scheduler_step deleting st st'" and "st' \<noteq> st"
  shows "instance_rank deleting st' < instance_rank deleting st"
  using assms(1)
proof cases
  case terminate
  then show ?thesis by (simp add: rank_simps split: option.splits)
next
  case (unassign t st1)
  then have "\<not> scheduled (st1\<lparr>bmi_HardwareName := []\<rparr>)"
    using SetCondition_has_status(1) [OF unassign(5) [unfolded scheduled_condition_instance]]
    by (simp add: has_status_def consts_simps)
  then show ?thesis
    using unassign SetCondition_fields [OF unassign(5)]
    by (simp add: instance_rank_def deleting_rank_def consts_simps)
next
  case (introduce t)
  note set = introduce(4) [unfolded scheduled_condition_instance]
  show ?thesis
    using introduce(1-3) SetCondition_fields [OF set] pending_rank_condition [OF set]
    by (simp add: instance_rank_def pending_rank_def [of st] consts_simps)
next
  case provision
  then show ?thesis
    using provisioning_rank_bounds [of "st\<lparr>bmi_Phase := PhaseProvisioning\<rparr>"]
    by (auto simp: instance_rank_def pending_rank_def has_status_def consts_simps split: option.splits)
next
  case (confirm t)
  note set = confirm(6) [unfolded scheduled_condition_instance]
  show ?thesis
    using confirm(1-5) SetCondition_fields [OF set] pending_rank_condition [OF set]
    by (auto simp: instance_rank_def pending_rank_def [of st] has_status_def consts_simps)
next
  case (assign name)
  then have "name \<noteq> []" using assms(2) by (cases st) auto
  then show ?thesis
    using assign by (auto simp: rank_simps)
qed

text \<open>The effect of one condition on the measures of a provisioning and a deleting instance.\<close>

lemma provisioner_rank:
  assumes "provisioner_step deleting st st'"
  shows "instance_rank deleting st' < instance_rank deleting st"
  using assms
proof cases
  case (start_clean t)
  show ?thesis
    using start_clean(1-4) SetCondition_fields [OF start_clean(5)] GetCondition_SetCondition [OF start_clean(5)]
    by (simp add: rank_simps terminating_def merged_def)
next
  case (cleaned t)
  show ?thesis
    using cleaned(1-4) SetCondition_fields [OF cleaned(5)] GetCondition_SetCondition [OF cleaned(5)]
    by (auto simp: rank_simps undecided_def)
next
  case (clean_failed message t)
  show ?thesis
    using clean_failed(1-4) SetCondition_fields [OF clean_failed(5)] GetCondition_SetCondition [OF clean_failed(5)]
    by (auto simp: rank_simps undecided_def)
next
  case (network t)
  show ?thesis
    using network(1-4) SetCondition_fields [OF network(5)] GetCondition_SetCondition [OF network(5)]
    by (simp add: rank_simps)
next
  case (networked t)
  show ?thesis
    using networked(1-4) SetCondition_fields [OF networked(5)] GetCondition_SetCondition [OF networked(5)]
    by (auto simp: rank_simps split: option.splits)
next
  case (image t)
  show ?thesis
    using image(1-5) SetCondition_fields [OF image(6)] GetCondition_SetCondition [OF image(6)]
    by (auto simp: rank_simps split: option.splits)
next
  case (imaged t)
  show ?thesis
    using imaged(1-5) SetCondition_fields [OF imaged(6)] GetCondition_SetCondition [OF imaged(6)]
    by (auto simp: rank_simps undecided_def split: option.splits)
next
  case (image_failed message t)
  show ?thesis
    using image_failed(1-5) SetCondition_fields [OF image_failed(6)] GetCondition_SetCondition [OF image_failed(6)]
    by (auto simp: rank_simps undecided_def split: option.splits)
qed (auto simp: rank_simps terminating_def undecided_def split: option.splits if_splits)

lemma step_rank:
  assumes "instance_step deleting st st'" and "st' \<noteq> st"
  shows "instance_rank deleting st' < instance_rank deleting st"
  using assms(1)
proof cases
  case created
  then show ?thesis
    using pending_rank_bounds [of "st\<lparr>bmi_Phase := PhasePending\<rparr>"] by (simp add: instance_rank_def consts_simps)
qed (use assms(2) scheduler_rank provisioner_rank in auto)

lemma instance_rank_bound: "instance_rank deleting st \<le> (if deleting then 6 else 10)"
  using pending_rank_bounds [of st] provisioning_rank_bounds [of st]
  by (auto simp: instance_rank_def deleting_rank_def split: option.splits)

lemma instance_rank_agent [simp]: "instance_rank deleting (st\<lparr>bmi_AgentInfo := i\<rparr>) = instance_rank deleting st"
  by (simp add: instance_rank_def deleting_rank_def pending_rank_def provisioning_rank_def has_status_def)

definition new_instance :: BareMetalInstanceStatus where
  "new_instance = \<lparr>Conditions = [], bmi_AgentInfo = None, bmi_HardwareName = [], bmi_Phase = []\<rparr>"

section \<open>What every reachable status keeps\<close>

text \<open>The statuses a condition of the instance takes.\<close>

definition takes :: "BareMetalInstanceStatus \<Rightarrow> ConditionType \<Rightarrow> ConditionStatus set \<Rightarrow> bool" where
  "takes st ct css \<longleftrightarrow> (case GetCondition st ct of None \<Rightarrow> True | Some c \<Rightarrow> cond_Status c \<in> css)"

definition instance_ok :: "bool \<Rightarrow> BareMetalInstanceStatus \<Rightarrow> bool" where
  "instance_ok deleting st \<longleftrightarrow>
     (bmi_Phase st \<in> {[], PhasePending, PhaseProvisioning, PhaseRunning} \<or>
      deleting \<and> bmi_Phase st \<in> {PhaseCleaning, PhaseTerminating, PhaseTerminated}) \<and>
     (bmi_Phase st \<in> {PhaseProvisioning, PhaseRunning, PhaseCleaning} \<longrightarrow> scheduled st) \<and>
     (bmi_Phase st = PhaseTerminated \<longrightarrow> \<not> scheduled st) \<and>
     (scheduled st \<longrightarrow> bmi_HardwareName st \<noteq> []) \<and>
     (bmi_Phase st = PhaseRunning \<longrightarrow> has_status st ConditionTypeInstanceImaged ConditionStatusTrue) \<and>
     (GetCondition st ConditionTypeInstanceImaged \<noteq> None \<longrightarrow>
        has_status st ConditionTypeInstanceNetworked ConditionStatusTrue) \<and>
     (GetCondition st ConditionTypeInstanceCleaned \<noteq> None \<longrightarrow> deleting) \<and>
     takes st ConditionTypeInstanceScheduled {ConditionStatusFalse, ConditionStatusTrue} \<and>
     takes st ConditionTypeInstanceNetworked {ConditionStatusFalse, ConditionStatusTrue} \<and>
     takes st ConditionTypeInstanceImaged {ConditionStatusFalse, ConditionStatusTrue, ConditionStatusError} \<and>
     takes st ConditionTypeInstanceCleaned {ConditionStatusFalse, ConditionStatusTrue, ConditionStatusError}"

lemmas ok_simps = instance_ok_def takes_def has_status_def terminating_def undecided_def consts_simps

lemma scheduler_ok:
  assumes "scheduler_step deleting st st'" and "instance_ok deleting st"
  shows "instance_ok deleting st'"
  using assms(1)
proof cases
  case (unassign t st1)
  note set = unassign(5) [unfolded scheduled_condition_instance]
  show ?thesis
    using assms(2) unassign(1-4) SetCondition_fields [OF set] GetCondition_SetCondition [OF set]
    by (simp add: ok_simps)
next
  case (introduce t)
  note set = introduce(4) [unfolded scheduled_condition_instance]
  show ?thesis
    using assms(2) introduce(1-3) SetCondition_fields [OF set] GetCondition_SetCondition [OF set]
    by (simp add: ok_simps)
next
  case (confirm t)
  note set = confirm(6) [unfolded scheduled_condition_instance]
  show ?thesis
    using assms(2) confirm(1-5) SetCondition_fields [OF set] GetCondition_SetCondition [OF set]
    by (simp add: ok_simps)
qed (use assms(2) in \<open>auto simp: ok_simps split: option.splits\<close>)

lemma provisioner_ok:
  assumes "provisioner_step deleting st st'" and "instance_ok deleting st"
  shows "instance_ok deleting st'"
  using assms(1)
proof cases
  case (start_clean t)
  show ?thesis
    using assms(2) start_clean(1-4) SetCondition_fields [OF start_clean(5)] GetCondition_SetCondition [OF start_clean(5)]
    by (simp add: ok_simps)
next
  case (cleaned t)
  show ?thesis
    using assms(2) cleaned(1-4) SetCondition_fields [OF cleaned(5)] GetCondition_SetCondition [OF cleaned(5)]
    by (simp add: ok_simps)
next
  case (clean_failed message t)
  show ?thesis
    using assms(2) clean_failed(1-4) SetCondition_fields [OF clean_failed(5)] GetCondition_SetCondition [OF clean_failed(5)]
    by (simp add: ok_simps)
next
  case (network t)
  show ?thesis
    using assms(2) network(1-4) SetCondition_fields [OF network(5)] GetCondition_SetCondition [OF network(5)]
    by (simp add: ok_simps)
next
  case (networked t)
  show ?thesis
    using assms(2) networked(1-4) SetCondition_fields [OF networked(5)] GetCondition_SetCondition [OF networked(5)]
    by (simp add: ok_simps)
next
  case (image t)
  show ?thesis
    using assms(2) image(1-5) SetCondition_fields [OF image(6)] GetCondition_SetCondition [OF image(6)]
    by (simp add: ok_simps)
next
  case (imaged t)
  show ?thesis
    using assms(2) imaged(1-5) SetCondition_fields [OF imaged(6)] GetCondition_SetCondition [OF imaged(6)]
    by (simp add: ok_simps)
next
  case (image_failed message t)
  show ?thesis
    using assms(2) image_failed(1-5) SetCondition_fields [OF image_failed(6)] GetCondition_SetCondition [OF image_failed(6)]
    by (simp add: ok_simps)
qed (use assms(2) in \<open>auto simp: ok_simps split: option.splits\<close>)

lemma step_ok:
  assumes "instance_step deleting st st'" and "instance_ok deleting st"
  shows "instance_ok deleting st'"
  using assms(1)
proof cases
  case created
  then show ?thesis using assms(2) by (simp add: ok_simps)
qed (use assms(2) scheduler_ok provisioner_ok in auto)

text \<open>Running, imaging failed, terminated, cleaning failed: where an instance may stay.\<close>

definition instance_ended :: "bool \<Rightarrow> BareMetalInstanceStatus \<Rightarrow> bool" where
  "instance_ended deleting st \<longleftrightarrow>
     (if deleting then bmi_Phase st = PhaseTerminated \<or>
        has_status st ConditionTypeInstanceCleaned ConditionStatusError \<and> scheduled st \<and> bmi_Phase st \<noteq> PhaseTerminating
      else bmi_Phase st = PhaseRunning \<or>
        bmi_Phase st = PhaseProvisioning \<and> has_status st ConditionTypeInstanceImaged ConditionStatusError)"

lemma SetCondition_instance:
  assumes "ct \<noteq> []" and "cs \<noteq> []" and "t \<noteq> 0"
  obtains st' where "SetCondition st (instance_condition ct cs r m t) = Inr st'"
  using assms status.set_ok [of st "instance_condition ct cs r m t"]
  by (auto simp: fully_formed_def instance_condition_def)

end
