(* ===== verification/InstanceRuns.thy ===== *)
theory InstanceRuns
  imports InstanceLifecycle
begin

text \<open>
  The life of an instance as the runs of the three controllers make it, whatever the API
  server, the agent and the clock answer: a run writes the status of the instance it read, and
  the API server refuses the write when the instance has changed since. The writes come to an
  end, keep an invariant, and go on until one of four ends is reached.
\<close>

section \<open>The writes of the controllers\<close>

type_synonym selector_match = "string_map \<Rightarrow> string_map \<Rightarrow> bool"
type_synonym toleration_match = "Toleration \<Rightarrow> Taint \<Rightarrow> bool"

definition instance_controllers ::
  "selector_match \<Rightarrow> toleration_match \<Rightarrow> (string \<Rightarrow> string) \<Rightarrow> NamespacedName \<Rightarrow> reconcile list" where
  "instance_controllers matches tolerates json_error req =
     [InstanceController_Reconcile req, Scheduler_Reconcile matches tolerates req, Provisioner_Reconcile json_error req]"

text \<open>Some run of one of them reads \<open>bmi\<close> and writes its status as in \<open>bmi'\<close>.\<close>

definition instance_write ::
  "selector_match \<Rightarrow> toleration_match \<Rightarrow> (string \<Rightarrow> string) \<Rightarrow> BareMetalInstance \<Rightarrow> BareMetalInstance \<Rightarrow> bool" where
  "instance_write matches tolerates json_error bmi bmi' \<longleftrightarrow>
     (\<exists>req h. \<exists>p \<in> set (instance_controllers matches tolerates json_error req).
        performs p ((GetBMI req, ABMI (Inr bmi)) # h) (StatusUpdateBMI bmi'))"

abbreviation deleting :: "BareMetalInstance \<Rightarrow> bool" where
  "deleting bmi \<equiv> \<not> IsZero (DeletionTimestamp bmi)"

lemma status_inj: "bmi\<lparr>bmi_Status := st\<rparr> = bmi\<lparr>bmi_Status := st'\<rparr> \<Longrightarrow> st = st'"
  by (cases bmi) simp

lemma instance_write_step:
  assumes "instance_write matches tolerates json_error bmi bmi'"
  shows "\<exists>st'. bmi' = bmi\<lparr>bmi_Status := st'\<rparr> \<and> instance_step (deleting bmi) (bmi_Status bmi) st'"
proof -
  let ?h = "\<lambda>req h. (GetBMI req, ABMI (Inr bmi)) # h"
  obtain req h p where p: "p \<in> set (instance_controllers matches tolerates json_error req)"
    and run: "performs p (?h req h) (StatusUpdateBMI bmi')"
    using assms by (auto simp: instance_write_def)
  from p consider "p = InstanceController_Reconcile req" | "p = Scheduler_Reconcile matches tolerates req"
    | "p = Provisioner_Reconcile json_error req" by (auto simp: instance_controllers_def)
  then show ?thesis
  proof cases
    case 1
    from performs_always [OF instance_controller_always run [unfolded 1]] show ?thesis
      using instance_step.created by (auto simp: instance_controller_write_def)
  next
    case 2
    from performs_always [OF scheduler_always run [unfolded 2]] show ?thesis
      using instance_step.schedule by (auto simp: scheduler_contract_def)
  next
    case 3
    from performs_always [OF provisioner_always run [unfolded 3]] show ?thesis
      using instance_step.provision by (auto simp: provisioner_contract_def reading_def provisioner_write_def)
  qed
qed

section \<open>The writes end\<close>

text \<open>
  C8: every write of the three controllers that changes an instance's status brings the
  instance nearer to its end: at most ten writes are left of an instance that is kept and at
  most six of one that is being deleted, and the discovery server, which moves the agent's
  address, takes none of them back. So the controllers cannot keep each other busy for ever.
\<close>

theorem instance_writes_end:
  assumes "instance_write matches tolerates json_error bmi bmi'" and "bmi' \<noteq> bmi"
    and "rank = (\<lambda>b. instance_rank (deleting b) (bmi_Status b))"
  shows "rank bmi' < rank bmi \<and> rank bmi \<le> (if deleting bmi then 6 else 10) \<and>
    rank (bmi'\<lparr>bmi_Status := (bmi_Status bmi')\<lparr>bmi_AgentInfo := i\<rparr>\<rparr>) = rank bmi'"
proof -
  obtain st' where st: "bmi' = bmi\<lparr>bmi_Status := st'\<rparr>" "instance_step (deleting bmi) (bmi_Status bmi) st'"
    using instance_write_step [OF assms(1)] by blast
  moreover have "st' \<noteq> bmi_Status bmi" using assms(2) st(1) by auto
  ultimately show ?thesis
    unfolding assms(3) using step_rank instance_rank_bound by simp
qed

definition created_instance :: BareMetalInstance where
  "created_instance = \<lparr>Kind = ''BareMetalInstance'', APIVersion = [], Name = ''i'', GenerateName = [],
     Namespace = ''default'', UID = ''i'', ResourceVersion = ''1'', Labels = fmempty, OwnerReferences = [],
     Finalizers = [], DeletionTimestamp = None,
     bmi_Spec = \<lparr>bmi_Selector = None, bmi_Tolerations = NilSlice\<rparr>, bmi_Status = new_instance\<rparr>"

lemma first_write:
  "instance_write matches tolerates json_error created_instance
     (created_instance\<lparr>bmi_Status := new_instance\<lparr>bmi_Phase := PhasePending\<rparr>\<rparr>)"
  unfolding instance_write_def
  by (rule exI [of _ "key_of created_instance"], rule exI [of _ "[]"],
      rule bexI [of _ "InstanceController_Reconcile (key_of created_instance)"])
    (simp_all add: instance_controllers_def InstanceController_Reconcile_def fetch_BMI_def status_update_BMI_def
      created_instance_def new_instance_def)

lemma instance_writes_end_witness:
  "instance_rank False (new_instance\<lparr>bmi_Phase := PhasePending\<rparr>) < instance_rank False new_instance"
  using instance_writes_end [OF first_write [of "\<lambda>_ _. True" "\<lambda>_ _. True" id] _ refl]
  by (simp add: created_instance_def new_instance_def consts_simps)

section \<open>What every instance keeps\<close>

text \<open>
  The instances that can be: created without a status, written by the controllers, given an
  agent by the discovery server, edited by users (anything but the status), and deleted, which
  sets the timestamp once.
\<close>

inductive instance_reachable ::
  "selector_match \<Rightarrow> toleration_match \<Rightarrow> (string \<Rightarrow> string) \<Rightarrow> BareMetalInstance \<Rightarrow> bool"
  for matches tolerates json_error where
  new: "bmi_Status bmi = new_instance \<Longrightarrow> IsZero (DeletionTimestamp bmi) \<Longrightarrow>
    instance_reachable matches tolerates json_error bmi"
| written: "instance_reachable matches tolerates json_error bmi \<Longrightarrow>
    instance_write matches tolerates json_error bmi bmi' \<Longrightarrow> instance_reachable matches tolerates json_error bmi'"
| agent: "instance_reachable matches tolerates json_error bmi \<Longrightarrow>
    instance_reachable matches tolerates json_error (bmi\<lparr>bmi_Status := (bmi_Status bmi)\<lparr>bmi_AgentInfo := i\<rparr>\<rparr>)"
| edit: "instance_reachable matches tolerates json_error bmi \<Longrightarrow> bmi_Status bmi' = bmi_Status bmi \<Longrightarrow>
    IsZero (DeletionTimestamp bmi') = IsZero (DeletionTimestamp bmi) \<Longrightarrow>
    instance_reachable matches tolerates json_error bmi'"
| delete: "instance_reachable matches tolerates json_error bmi \<Longrightarrow> t \<noteq> 0 \<Longrightarrow>
    instance_reachable matches tolerates json_error (bmi\<lparr>DeletionTimestamp := Some t\<rparr>)"

text \<open>Being deleted only allows more.\<close>

lemma instance_ok_deleting: "instance_ok d st \<Longrightarrow> instance_ok True st"
  by (auto simp: instance_ok_def)

lemma instance_ok_agent [simp]: "instance_ok d (st\<lparr>bmi_AgentInfo := i\<rparr>) \<longleftrightarrow> instance_ok d st"
  by (simp add: instance_ok_def takes_def has_status_def)

lemma reachable_ok:
  assumes "instance_reachable matches tolerates json_error bmi"
  shows "instance_ok (deleting bmi) (bmi_Status bmi)"
  using assms
proof (induction rule: instance_reachable.induct)
  case (new bmi)
  then show ?case by (simp add: ok_simps new_instance_def GetCondition_def)
next
  case (written bmi bmi')
  then show ?case using instance_write_step step_ok by fastforce
next
  case (delete bmi t)
  then show ?case using instance_ok_deleting by auto
qed simp_all

text \<open>
  C9: in every status an instance can have, under every interleaving of the controllers' runs,
  the discovery server, edits and deletion: it cleans and terminates only when it is being
  deleted; it is scheduled, with a hardware name, from provisioning to cleaning; it runs only
  with an image, is imaged only with a network, and is no longer scheduled when it is
  terminated.
\<close>

theorem instance_reachable_ok:
  assumes "instance_reachable matches tolerates json_error bmi"
  shows "instance_ok (deleting bmi) (bmi_Status bmi)"
  using assms by (rule reachable_ok)

lemma created_reachable: "instance_reachable matches tolerates json_error created_instance"
  by (rule instance_reachable.new) (simp_all add: created_instance_def)

lemma instance_reachable_ok_witness: "instance_ok False (new_instance\<lparr>bmi_Phase := PhasePending\<rparr>)"
  using instance_reachable_ok
    [OF instance_reachable.written [OF created_reachable first_write [of "\<lambda>_ _. True" "\<lambda>_ _. True" id]]]
  by (simp add: created_instance_def)

section \<open>Progress\<close>

text \<open>
  Each lemma names answers that make one of the controllers write. The agent's address is only
  needed where the agent is asked.
\<close>

lemma instance_writeI:
  assumes "p \<in> set (instance_controllers matches tolerates json_error req)"
    and "performs p ((GetBMI req, ABMI (Inr bmi)) # h) (StatusUpdateBMI bmi')"
  shows "instance_write matches tolerates json_error bmi bmi'"
  using assms unfolding instance_write_def by blast

lemma scheduler_run_writeI:
  assumes "performs (Scheduler_Reconcile matches tolerates (key_of bmi))
      ((GetBMI (key_of bmi), ABMI (Inr bmi)) # h) (StatusUpdateBMI bmi')"
  shows "instance_write matches tolerates json_error bmi bmi'"
  by (rule instance_writeI [OF _ assms]) (simp add: instance_controllers_def)

lemma provisioner_run_writeI:
  assumes "performs (Provisioner_Reconcile json_error (key_of bmi))
      ((GetBMI (key_of bmi), ABMI (Inr bmi)) # h) (StatusUpdateBMI bmi')"
  shows "instance_write matches tolerates json_error bmi bmi'"
  by (rule instance_writeI [OF _ assms]) (simp add: instance_controllers_def)

lemma performs_set_condition:
  assumes "SetCondition st (instance_condition ct cs r m t) = Inr st'"
  shows "performs (set_condition_now st ct cs r m k) ((ClockNow, ATime t) # h) c \<longleftrightarrow> performs (k st') h c"
  using assms by (simp add: set_condition_now_def instance_condition_def)

lemma set_some:
  assumes "ct \<noteq> []" and "cs \<noteq> []"
  obtains st' where "SetCondition st (instance_condition ct cs r m 1) = Inr st'"
  using SetCondition_instance [OF assms, of 1 st] by auto

lemma created_write:
  assumes "\<not> deleting bmi" and "bmi_Phase (bmi_Status bmi) = []"
  shows "\<exists>bmi'. instance_write matches tolerates json_error bmi bmi' \<and> bmi' \<noteq> bmi"
proof -
  let ?bmi' = "bmi\<lparr>bmi_Status := (bmi_Status bmi)\<lparr>bmi_Phase := PhasePending\<rparr>\<rparr>"
  have "instance_write matches tolerates json_error bmi ?bmi'"
    by (rule instance_writeI [of "InstanceController_Reconcile (key_of bmi)" _ _ _ "key_of bmi" _ "[]"])
      (use assms in \<open>simp_all add: instance_controllers_def InstanceController_Reconcile_def fetch_BMI_def
        status_update_BMI_def\<close>)
  moreover have "bmi_Phase (bmi_Status ?bmi') \<noteq> bmi_Phase (bmi_Status bmi)"
    using assms by (simp add: consts_simps)
  ultimately show ?thesis by metis
qed

lemma pending_write:
  assumes "\<not> deleting bmi" and "bmi_Phase (bmi_Status bmi) = PhasePending"
    and "fits matches tolerates bmi bmh" and "Name bmh \<noteq> []"
  shows "\<exists>bmi'. instance_write matches tolerates json_error bmi bmi' \<and> bmi' \<noteq> bmi \<and>
    bmi_Phase (bmi_Status bmi') \<in> {PhasePending, PhaseProvisioning}"
proof -
  note run_simps = Scheduler_Reconcile_def fetch_BMI_def scheduler_pending_def set_scheduled_def
    status_update_BMI_def assms(1,2)
  consider "GetCondition (bmi_Status bmi) ConditionTypeInstanceScheduled = None"
    | (scheduled) c where "GetCondition (bmi_Status bmi) ConditionTypeInstanceScheduled = Some c"
        "cond_Status c = ConditionStatusTrue"
    | (named) c where "GetCondition (bmi_Status bmi) ConditionTypeInstanceScheduled = Some c"
        "cond_Status c \<noteq> ConditionStatusTrue" "bmi_HardwareName (bmi_Status bmi) \<noteq> []"
    | (free) c where "GetCondition (bmi_Status bmi) ConditionTypeInstanceScheduled = Some c"
        "cond_Status c \<noteq> ConditionStatusTrue" "bmi_HardwareName (bmi_Status bmi) = []"
    by (cases "GetCondition (bmi_Status bmi) ConditionTypeInstanceScheduled") auto
  then show ?thesis
  proof cases
    case 1
    obtain st' where set: "SetCondition (bmi_Status bmi)
        (instance_condition ConditionTypeInstanceScheduled ConditionStatusFalse [] [] 1) = Inr st'"
      by (rule set_some [of ConditionTypeInstanceScheduled ConditionStatusFalse]) (simp_all add: consts_simps)
    have "instance_write matches tolerates json_error bmi (bmi\<lparr>bmi_Status := st'\<rparr>)"
      by (rule scheduler_run_writeI [where h = "[(ClockNow, ATime 1)]"])
        (simp add: run_simps 1 performs_set_condition [OF set])
    moreover have "bmi\<lparr>bmi_Status := st'\<rparr> \<noteq> bmi"
      using 1 GetCondition_SetCondition [OF set, of ConditionTypeInstanceScheduled] by (cases bmi) auto
    ultimately show ?thesis using SetCondition_fields [OF set [folded scheduled_condition_instance]] assms(2) by auto
  next
    case scheduled
    let ?bmi' = "bmi\<lparr>bmi_Status := (bmi_Status bmi)\<lparr>bmi_Phase := PhaseProvisioning\<rparr>\<rparr>"
    have "instance_write matches tolerates json_error bmi ?bmi'"
      by (rule scheduler_run_writeI [where h = "[]"]) (use scheduled in \<open>simp add: run_simps\<close>)
    moreover have "bmi_Phase (bmi_Status ?bmi') = PhaseProvisioning" "PhaseProvisioning \<noteq> bmi_Phase (bmi_Status bmi)"
      using assms(2) by (simp_all add: consts_simps)
    ultimately show ?thesis by (metis insertI1 insert_commute)
  next
    case named
    obtain st' where set: "SetCondition (bmi_Status bmi)
        (instance_condition ConditionTypeInstanceScheduled ConditionStatusTrue [] [] 1) = Inr st'"
      by (rule set_some [of ConditionTypeInstanceScheduled ConditionStatusTrue]) (simp_all add: consts_simps)
    have "instance_write matches tolerates json_error bmi (bmi\<lparr>bmi_Status := st'\<rparr>)"
      by (rule scheduler_run_writeI [where h = "[(ClockNow, ATime 1)]"])
        (use named in \<open>simp add: run_simps performs_set_condition [OF set]\<close>)
    moreover have "bmi\<lparr>bmi_Status := st'\<rparr> \<noteq> bmi"
      using named GetCondition_SetCondition [OF set, of ConditionTypeInstanceScheduled]
      by (cases bmi) (auto simp: merged_def)
    ultimately show ?thesis using SetCondition_fields [OF set [folded scheduled_condition_instance]] assms(2) by auto
  next
    case free
    let ?bmi' = "bmi\<lparr>bmi_Status := (bmi_Status bmi)\<lparr>bmi_HardwareName := Name bmh\<rparr>\<rparr>"
    have bmh: "IsZero (DeletionTimestamp bmh)" "bmh_InstanceRef (bmh_Status bmh) = None"
      using assms(3) by (simp_all add: fits_def)
    have "acceptableBMH (classify matches tolerates bmi bmh s) = acceptableBMH s @ [AddressOfLoopVariable]" for s
      using classify_acceptable [OF bmh] assms(3) by simp
    then have round: "performs (schedule_round matches tolerates bmi)
        [(ListBMH [InNamespace (Namespace bmi)], ABMHs (Inr [bmh])), (instances_of bmh, ABMIs (Inr [])), (RandIntn 1, ANat 0)]
        (StatusUpdateBMI ?bmi')" (is "performs _ ?h _")
      using bmh by (simp add: schedule_round_def Let_def no_candidates_def schedule_pick_def deref_def
          status_update_BMI_def instances_of_def)
    have "instance_write matches tolerates json_error bmi ?bmi'"
      by (rule scheduler_run_writeI [where h = "(Lock scheduleLock, AUnit) # ?h"])
        (use free performs_deferred [OF round] in \<open>simp add: run_simps\<close>)
    moreover have "bmi_HardwareName (bmi_Status ?bmi') \<noteq> bmi_HardwareName (bmi_Status bmi)"
      using free assms(4) by simp
    moreover have "bmi_Phase (bmi_Status ?bmi') = PhasePending" using assms(2) by simp
    ultimately show ?thesis by (metis insertI1)
  qed
qed

text \<open>The hardware as a run reads it: the instance's own, with nothing to network, or none.\<close>

definition own_hardware :: "BareMetalInstance \<Rightarrow> BareMetalHardware" where
  "own_hardware bmi = \<lparr>Kind = ''BareMetalHardware'', APIVersion = [], Name = bmi_HardwareName (bmi_Status bmi),
     GenerateName = [], Namespace = Namespace bmi, UID = ''h'', ResourceVersion = ''1'', Labels = fmempty,
     OwnerReferences = [], Finalizers = [], DeletionTimestamp = None,
     bmh_Spec = \<lparr>bmh_SystemUUID = [], bmh_CanProvision = True, bmh_ImageDrive = ''sda'', bmh_NICS = [], bmh_Taints = []\<rparr>,
     bmh_Status = \<lparr>Conditions = [],
       bmh_InstanceRef = Some \<lparr>iref_Name = Name bmi, iref_Namespace = Namespace bmi, iref_UID = UID bmi\<rparr>,
       bmh_Hardware = None\<rparr>\<rparr>"

lemma provisioning_write:
  assumes "\<not> deleting bmi" and "bmi_Phase (bmi_Status bmi) = PhaseProvisioning" and "instance_ok False (bmi_Status bmi)"
    and "\<not> has_status (bmi_Status bmi) ConditionTypeInstanceImaged ConditionStatusError"
    and "bmi_AgentInfo (bmi_Status bmi) = Some info"
  shows "\<exists>bmi'. instance_write matches tolerates json_error bmi bmi' \<and> bmi' \<noteq> bmi"
proof -
  let ?st = "bmi_Status bmi" and ?read = "(GetBMH (hardware_key bmi), ABMH (Inr (own_hardware bmi)))"
  have "scheduled ?st" using assms(2,3) by (simp add: instance_ok_def)
  then obtain c where c: "GetCondition ?st ConditionTypeInstanceScheduled = Some c" "cond_Status c = ConditionStatusTrue"
    by (auto simp: has_status_def split: option.splits)
  note run_simps = Provisioner_Reconcile_def fetch_BMI_def get_hardware_def provision_hardware_def own_hardware_def
    provisioner_image_def set_instance_condition_def status_update_BMI_def Let_def assms(1,2) c
  consider "GetCondition ?st ConditionTypeInstanceNetworked = None"
    | "has_status ?st ConditionTypeInstanceNetworked ConditionStatusFalse"
    | "has_status ?st ConditionTypeInstanceNetworked ConditionStatusTrue"
    using assms(3) by (auto simp: instance_ok_def takes_def has_status_def split: option.splits)
  then show ?thesis
  proof cases
    case 1
    obtain st' where set: "SetCondition ?st
        (instance_condition ConditionTypeInstanceNetworked ConditionStatusFalse [] [] 1) = Inr st'"
      by (rule set_some [of ConditionTypeInstanceNetworked ConditionStatusFalse]) (simp_all add: consts_simps)
    have "instance_write matches tolerates json_error bmi (bmi\<lparr>bmi_Status := st'\<rparr>)"
      by (rule provisioner_run_writeI [where h = "[?read, (ClockNow, ATime 1)]"])
        (simp add: run_simps 1 performs_set_condition [OF set])
    moreover have "bmi\<lparr>bmi_Status := st'\<rparr> \<noteq> bmi"
      using 1 GetCondition_SetCondition [OF set, of ConditionTypeInstanceNetworked] by (cases bmi) auto
    ultimately show ?thesis by blast
  next
    case 2
    then obtain n where n: "GetCondition ?st ConditionTypeInstanceNetworked = Some n" "cond_Status n = ConditionStatusFalse"
      by (auto simp: has_status_def split: option.splits)
    obtain st' where set: "SetCondition ?st
        (instance_condition ConditionTypeInstanceNetworked ConditionStatusTrue [] [] 1) = Inr st'"
      by (rule set_some [of ConditionTypeInstanceNetworked ConditionStatusTrue]) (simp_all add: consts_simps)
    have "instance_write matches tolerates json_error bmi (bmi\<lparr>bmi_Status := st'\<rparr>)"
      by (rule provisioner_run_writeI [where h = "[?read, (ClockNow, ATime 1)]"])
        (simp add: run_simps n all_addressed_def performs_set_condition [OF set])
    moreover have "bmi\<lparr>bmi_Status := st'\<rparr> \<noteq> bmi"
      using n GetCondition_SetCondition [OF set, of ConditionTypeInstanceNetworked]
      by (cases bmi) (auto simp: merged_def consts_simps)
    ultimately show ?thesis by blast
  next
    case 3
    then obtain n where n: "GetCondition ?st ConditionTypeInstanceNetworked = Some n" "cond_Status n = ConditionStatusTrue"
      by (auto simp: has_status_def split: option.splits)
    then have [simp]: "cond_Status n \<noteq> ConditionStatusFalse" by (simp add: consts_simps)
    show ?thesis
    proof (cases "GetCondition ?st ConditionTypeInstanceImaged")
      case None
      obtain st' where set: "SetCondition ?st
          (instance_condition ConditionTypeInstanceImaged ConditionStatusFalse [] [] 1) = Inr st'"
        by (rule set_some [of ConditionTypeInstanceImaged ConditionStatusFalse]) (simp_all add: consts_simps)
      have "instance_write matches tolerates json_error bmi (bmi\<lparr>bmi_Status := st'\<rparr>)"
        by (rule provisioner_run_writeI [where h = "[?read, (ClockNow, ATime 1)]"])
          (simp add: run_simps n(1) None performs_set_condition [OF set], simp add: n(2))
      moreover have "bmi\<lparr>bmi_Status := st'\<rparr> \<noteq> bmi"
        using None GetCondition_SetCondition [OF set, of ConditionTypeInstanceImaged] by (cases bmi) auto
      ultimately show ?thesis by blast
    next
      case (Some i)
      have cs: "cond_Status i \<noteq> ConditionStatusError" using assms(4) Some by (simp add: has_status_def)
      note run_simps = run_simps n(1) Some cs
      show ?thesis
      proof (cases "cond_Status i = ConditionStatusTrue")
        case True
        let ?bmi' = "bmi\<lparr>bmi_Status := ?st\<lparr>bmi_Phase := PhaseRunning, bmi_AgentInfo := None\<rparr>\<rparr>"
        have "instance_write matches tolerates json_error bmi ?bmi'"
          by (rule provisioner_run_writeI [where h = "[?read]"]) (simp add: run_simps True, simp add: n(2))
        moreover have "bmi_Phase (bmi_Status ?bmi') \<noteq> bmi_Phase ?st" using assms(2) by (simp add: consts_simps)
        ultimately show ?thesis by metis
      next
        case False
        let ?done = "\<lparr>act_Type = ImagingActionType, act_Done = True, act_Error = []\<rparr>"
        obtain st' where set: "SetCondition ?st
            (instance_condition ConditionTypeInstanceImaged ConditionStatusTrue [] [] 1) = Inr st'"
          by (rule set_some [of ConditionTypeInstanceImaged ConditionStatusTrue]) (simp_all add: consts_simps)
        have said: "unmarshal_Status (json_print (marshal_Status ?done)) = Some ?done"
          by (simp add: decoded_Status utf8_text_ascii ImagingActionType_def)
        have "performs (image_hardware json_error bmi (own_hardware bmi))
            [(status_request info, AHttp (Reply 200 (json_print (marshal_Status ?done)))),
             (ListBME [MatchingLabels (fmap_of_list [(BareMetalEndpointInstanceLabel, Name bmi)])], ABMEs (Inr [])),
             (Eventf (OnBMI bmi) EventTypeNormal ''AgentFinished'' ''Agent has finished imaging'', AUnit),
             (Eventf (OnBMI bmi) EventTypeNormal InstanceImagedEventReason
               (''Imaged the instance onto BareMetalHardware '' @ Name (own_hardware bmi)), AUnit),
             (Eventf (OnBMH (own_hardware bmi)) EventTypeNormal InstanceImagedEventReason
               (''Imaged the BareMetalInstance '' @ Name bmi @ '' onto the hardware''), AUnit),
             (ClockNow, ATime 1)] (StatusUpdateBMI (bmi\<lparr>bmi_Status := st'\<rparr>))" (is "performs _ ?h _")
          using said by (simp add: image_hardware_def getAgentStatus_def status_request_def assms(5) build_network_data_def
              imaging_status_def event_def set_instance_condition_def status_update_BMI_def performs_set_condition [OF set])
        then have "instance_write matches tolerates json_error bmi (bmi\<lparr>bmi_Status := st'\<rparr>)"
          by (intro provisioner_run_writeI [where h = "?read # ?h"]) (simp add: run_simps False, simp add: n(2))
        moreover have "bmi\<lparr>bmi_Status := st'\<rparr> \<noteq> bmi"
          using Some False GetCondition_SetCondition [OF set, of ConditionTypeInstanceImaged]
          by (cases bmi) (auto simp: merged_def)
        ultimately show ?thesis by blast
      qed
    qed
  qed
qed

lemma phases_differ:
  "PhaseTerminating \<noteq> PhaseTerminated" "PhaseCleaning \<noteq> PhaseTerminating" "PhaseCleaning \<noteq> PhaseTerminated"
  by (simp_all add: consts_simps)

lemma instance_ended_agent [simp]: "instance_ended d (st\<lparr>bmi_AgentInfo := i\<rparr>) \<longleftrightarrow> instance_ended d st"
  by (simp add: instance_ended_def has_status_def)

lemma unscheduling_write:
  assumes "deleting bmi" and "bmi_Phase (bmi_Status bmi) \<noteq> PhaseTerminated"
    and "scheduled (bmi_Status bmi) \<Longrightarrow> bmi_Phase (bmi_Status bmi) = PhaseTerminating \<and> bmi_HardwareName (bmi_Status bmi) \<noteq> []"
  shows "\<exists>bmi'. instance_write matches tolerates json_error bmi bmi' \<and> bmi' \<noteq> bmi"
proof -
  let ?st = "bmi_Status bmi"
  note run_simps = Scheduler_Reconcile_def fetch_BMI_def scheduler_delete_def set_scheduled_def
    status_update_BMI_def assms(1,2)
  show ?thesis
  proof (cases "scheduled ?st")
    case False
    let ?bmi' = "bmi\<lparr>bmi_Status := ?st\<lparr>bmi_Phase := PhaseTerminated\<rparr>\<rparr>"
    have "instance_write matches tolerates json_error bmi ?bmi'"
      by (rule scheduler_run_writeI [where h = "[]"])
        (use False in \<open>auto simp: run_simps has_status_def split: option.splits\<close>)
    moreover have "bmi_Phase (bmi_Status ?bmi') \<noteq> bmi_Phase ?st" using assms(2) by simp
    ultimately show ?thesis by metis
  next
    case True
    then obtain c where c: "GetCondition ?st ConditionTypeInstanceScheduled = Some c" "cond_Status c = ConditionStatusTrue"
      by (auto simp: has_status_def split: option.splits)
    obtain st' where set: "SetCondition ?st
        (instance_condition ConditionTypeInstanceScheduled ConditionStatusFalse [] [] 1) = Inr st'"
      by (rule set_some [of ConditionTypeInstanceScheduled ConditionStatusFalse]) (simp_all add: consts_simps)
    let ?bmi' = "bmi\<lparr>bmi_Status := st'\<lparr>bmi_HardwareName := []\<rparr>\<rparr>"
    have "performs (set_condition_now ?st ConditionTypeInstanceScheduled ConditionStatusFalse [] [] (\<lambda>st.
        Call (StatusUpdateBMI (bmi\<lparr>bmi_Status := st\<lparr>bmi_HardwareName := []\<rparr>\<rparr>)) (k st)))
        [(ClockNow, ATime 1)] (StatusUpdateBMI ?bmi')" for k
      by (simp add: performs_set_condition [OF set])
    then have "instance_write matches tolerates json_error bmi ?bmi'"
      by (intro scheduler_run_writeI [where h = "[(Lock scheduleLock, AUnit), (ClockNow, ATime 1)]"])
        (use assms(3) [OF True] c in \<open>simp add: run_simps performs_deferred Let_def phases_differ\<close>)
    moreover have "bmi_HardwareName (bmi_Status ?bmi') \<noteq> bmi_HardwareName ?st" using assms(3) True by auto
    ultimately show ?thesis by metis
  qed
qed

lemma cleaning_write:
  assumes "deleting bmi" and "scheduled (bmi_Status bmi)" and "\<not> terminating (bmi_Status bmi)"
    and "\<not> has_status (bmi_Status bmi) ConditionTypeInstanceCleaned ConditionStatusError"
    and "bmi_HardwareName (bmi_Status bmi) \<noteq> []"
  shows "\<exists>bmi'. instance_write matches tolerates json_error bmi bmi' \<and> bmi' \<noteq> bmi"
proof -
  let ?st = "bmi_Status bmi"
  obtain c where c: "GetCondition ?st ConditionTypeInstanceScheduled = Some c" "cond_Status c = ConditionStatusTrue"
    using assms(2) by (auto simp: has_status_def split: option.splits)
  have phase: "bmi_Phase ?st \<noteq> PhaseTerminating" "bmi_Phase ?st \<noteq> PhaseTerminated"
    using assms(3) by (simp_all add: terminating_def)
  note run_simps = Provisioner_Reconcile_def fetch_BMI_def provisioner_delete_def set_instance_condition_def
    get_hardware_def clean_hardware_def event_def IsNotFound_def status_update_BMI_def Let_def assms(1,5) c phase
  show ?thesis
  proof (cases "GetCondition ?st ConditionTypeInstanceCleaned")
    case None
    obtain st' where set: "SetCondition ?st
        (instance_condition ConditionTypeInstanceCleaned ConditionStatusFalse [] [] 1) = Inr st'"
      by (rule set_some [of ConditionTypeInstanceCleaned ConditionStatusFalse]) (simp_all add: consts_simps)
    have "instance_write matches tolerates json_error bmi (bmi\<lparr>bmi_Status := st'\<rparr>)"
      by (rule provisioner_run_writeI [where h = "[(ClockNow, ATime 1)]"])
        (simp add: run_simps None performs_set_condition [OF set])
    moreover have "bmi\<lparr>bmi_Status := st'\<rparr> \<noteq> bmi"
      using None GetCondition_SetCondition [OF set, of ConditionTypeInstanceCleaned] by (cases bmi) auto
    ultimately show ?thesis by blast
  next
    case (Some d)
    have cs: "cond_Status d \<noteq> ConditionStatusError" using assms(4) Some by (simp add: has_status_def)
    let ?ended = "bmi\<lparr>bmi_Status := ?st\<lparr>bmi_Phase := PhaseTerminating\<rparr>\<rparr>"
    let ?gone = "StatusError True 404 []"
    consider "cond_Status d = ConditionStatusTrue"
      | "cond_Status d \<noteq> ConditionStatusTrue" "bmi_Phase ?st \<noteq> PhaseCleaning"
      | "cond_Status d \<noteq> ConditionStatusTrue" "bmi_Phase ?st = PhaseCleaning" by blast
    then have "\<exists>bmi'. instance_write matches tolerates json_error bmi bmi' \<and> bmi_Phase (bmi_Status bmi') \<noteq> bmi_Phase ?st"
    proof cases
      case 1
      have "instance_write matches tolerates json_error bmi (bmi\<lparr>bmi_Status := ?st\<lparr>bmi_Phase := PhaseTerminating, bmi_AgentInfo := None\<rparr>\<rparr>)"
        by (rule provisioner_run_writeI [where h = "[]"]) (simp add: run_simps Some 1)
      then show ?thesis using phase by fastforce
    next
      case 2
      have "instance_write matches tolerates json_error bmi (bmi\<lparr>bmi_Status := ?st\<lparr>bmi_Phase := PhaseCleaning\<rparr>\<rparr>)"
        by (rule provisioner_run_writeI [where h = "[]"]) (simp add: run_simps Some 2 cs)
      then show ?thesis using 2 by fastforce
    next
      case 3
      have "instance_write matches tolerates json_error bmi ?ended"
        by (rule provisioner_run_writeI [where h = "[(GetBMH (hardware_key bmi), ABMH (Inl ?gone)),
            (Eventf (OnBMI bmi) EventTypeWarning InstanceNotCleanedEventReason
               (''Instance cannot be cleaned because the BareMetalHardware '' @ bmi_HardwareName ?st @ '' does not exist anymore''), AUnit)]"])
          (simp add: run_simps Some 3 cs phases_differ)
      then show ?thesis using phase by fastforce
    qed
    then show ?thesis by metis
  qed
qed

lemma some_write:
  assumes "instance_ok (deleting bmi) (bmi_Status bmi)" and "\<not> instance_ended (deleting bmi) (bmi_Status bmi)"
    and "bmi_AgentInfo (bmi_Status bmi) = Some info"
    and "fits matches tolerates bmi bmh" and "Name bmh \<noteq> []"
  shows "\<exists>bmi'. instance_write matches tolerates json_error bmi bmi' \<and> bmi' \<noteq> bmi"
proof (cases "deleting bmi")
  case True
  consider "\<not> scheduled (bmi_Status bmi)" | "scheduled (bmi_Status bmi)" "bmi_Phase (bmi_Status bmi) = PhaseTerminating"
    | "scheduled (bmi_Status bmi)" "\<not> terminating (bmi_Status bmi)"
    using assms(2) True by (auto simp: terminating_def instance_ended_def)
  then show ?thesis
  proof cases
    case 3
    then show ?thesis
      by (intro cleaning_write) (use assms(1,2) True in \<open>auto simp: instance_ok_def instance_ended_def terminating_def\<close>)
  qed (rule unscheduling_write; use assms(1,2) True in \<open>auto simp: instance_ok_def instance_ended_def\<close>)+
next
  case False
  have "bmi_Phase (bmi_Status bmi) \<in> {[], PhasePending, PhaseProvisioning}"
    "bmi_Phase (bmi_Status bmi) = PhaseProvisioning \<longrightarrow> \<not> has_status (bmi_Status bmi) ConditionTypeInstanceImaged ConditionStatusError"
    using assms(1,2) False by (simp_all add: instance_ended_def instance_ok_def)
  then show ?thesis
    using created_write [OF _, of bmi matches tolerates json_error] pending_write [of bmi matches tolerates bmh json_error]
      provisioning_write [of bmi] False assms by (elim insertE conjE) auto
qed

text \<open>The writes of the controllers and of the discovery server, which records the agent.\<close>

definition instance_move ::
  "selector_match \<Rightarrow> toleration_match \<Rightarrow> (string \<Rightarrow> string) \<Rightarrow> BareMetalInstance \<Rightarrow> BareMetalInstance \<Rightarrow> bool" where
  "instance_move matches tolerates json_error bmi bmi' \<longleftrightarrow>
     instance_write matches tolerates json_error bmi bmi' \<or>
     (\<exists>info. bmi' = bmi\<lparr>bmi_Status := (bmi_Status bmi)\<lparr>bmi_AgentInfo := Some info\<rparr>\<rparr>)"

lemma instance_step_forward:
  assumes "instance_reachable matches tolerates json_error bmi"
    and "\<not> instance_ended (deleting bmi) (bmi_Status bmi)"
    and "fits matches tolerates bmi bmh" and "Name bmh \<noteq> []"
  shows "\<exists>bmi'. (instance_move matches tolerates json_error)\<^sup>*\<^sup>* bmi bmi' \<and>
    instance_reachable matches tolerates json_error bmi' \<and> fits matches tolerates bmi' bmh \<and> deleting bmi' = deleting bmi \<and>
    instance_rank (deleting bmi') (bmi_Status bmi') < instance_rank (deleting bmi) (bmi_Status bmi)"
proof -
  fix info
  let ?bmi = "bmi\<lparr>bmi_Status := (bmi_Status bmi)\<lparr>bmi_AgentInfo := Some info\<rparr>\<rparr>"
  have fits: "fits matches tolerates (bmi\<lparr>bmi_Status := st\<rparr>) bmh" for st
    using assms(3) by (simp add: fits_def label_selector_def)
  have "\<not> instance_ended (deleting ?bmi) (bmi_Status ?bmi)"
    using assms(2) by simp
  then obtain bmi' where bmi': "instance_write matches tolerates json_error ?bmi bmi'" "bmi' \<noteq> ?bmi"
    using some_write [of ?bmi info matches tolerates bmh json_error] reachable_ok [OF assms(1)] assms(4) fits by auto
  then obtain st' where st': "bmi' = ?bmi\<lparr>bmi_Status := st'\<rparr>" "instance_step (deleting ?bmi) (bmi_Status ?bmi) st'"
    using instance_write_step by blast
  have "(instance_move matches tolerates json_error)\<^sup>*\<^sup>* bmi bmi'"
    using bmi'(1) by (intro rtranclp.intros(2) [OF r_into_rtranclp, of _ bmi ?bmi]) (auto simp: instance_move_def)
  moreover have "instance_reachable matches tolerates json_error bmi'"
    by (rule instance_reachable.written [OF instance_reachable.agent [OF assms(1)] bmi'(1)])
  moreover have "instance_rank (deleting bmi') (bmi_Status bmi') < instance_rank (deleting bmi) (bmi_Status bmi)"
    using step_rank st' bmi'(2) by fastforce
  ultimately show ?thesis
    using st'(1) fits [of st'] by (intro exI [of _ bmi']) simp
qed



text \<open>A reachable instance whose hardware is there gets to the phase that expects an agent.\<close>

lemma pending_provisions:
  assumes "instance_reachable matches tolerates json_error bmi" and "bmi_Phase (bmi_Status bmi) = PhasePending"
    and "\<not> deleting bmi" and "fits matches tolerates bmi bmh" and "Name bmh \<noteq> []"
  shows "\<exists>st. instance_reachable matches tolerates json_error (bmi\<lparr>bmi_Status := st\<rparr>) \<and> bmi_Phase st = PhaseProvisioning"
  using assms(1-4)
proof (induction "instance_rank False (bmi_Status bmi)" arbitrary: bmi rule: less_induct)
  case less
  obtain bmi' where bmi': "instance_write matches tolerates json_error bmi bmi'" "bmi' \<noteq> bmi"
    and phase: "bmi_Phase (bmi_Status bmi') \<in> {PhasePending, PhaseProvisioning}"
    using pending_write [OF less.prems(3,2,4) assms(5)] by blast
  obtain st where st: "bmi' = bmi\<lparr>bmi_Status := st\<rparr>" "instance_step (deleting bmi) (bmi_Status bmi) st"
    using instance_write_step [OF bmi'(1)] by blast
  have reached: "instance_reachable matches tolerates json_error (bmi\<lparr>bmi_Status := st\<rparr>)"
    using instance_reachable.written [OF less.prems(1) bmi'(1)] st(1) by simp
  show ?case
  proof (cases "bmi_Phase st = PhasePending")
    case True
    have "instance_rank False st < instance_rank False (bmi_Status bmi)"
      using step_rank [OF st(2)] bmi'(2) less.prems(3) st(1) by (cases "st = bmi_Status bmi") auto
    moreover have "fits matches tolerates (bmi\<lparr>bmi_Status := st\<rparr>) bmh"
      using less.prems(4) by (simp add: fits_def label_selector_def)
    ultimately show ?thesis
      using less.hyps [of "bmi\<lparr>bmi_Status := st\<rparr>"] reached True less.prems(3) by simp
  next
    case False
    then show ?thesis using reached phase st(1) by auto
  qed
qed

lemma provisioning_reachable:
  "\<exists>st. instance_reachable (\<lambda>_ _. True) (\<lambda>_ _. True) id (created_instance\<lparr>bmi_Status := st\<rparr>) \<and> bmi_Phase st = PhaseProvisioning"
proof -
  let ?bmi = "created_instance\<lparr>bmi_Status := new_instance\<lparr>bmi_Phase := PhasePending\<rparr>\<rparr>"
  have "fits (\<lambda>_ _. True) (\<lambda>_ _. True) ?bmi (hw_named ''a'' None)"
    by (simp add: fits_def hw_named_def)
  from pending_provisions [OF instance_reachable.written [OF created_reachable first_write] _ _ this]
  show ?thesis by (simp add: hw_named_def created_instance_def)
qed

end
