(* ===== verification/Hardware.thy ===== *)
theory Hardware
  imports Program
begin

text \<open>
  The hardware controller, \<^verbatim>\<open>controllers/baremetalhardware_controller.go\<close>: it keeps the taints
  and the conditions of a hardware in line with its spec and its discovered hardware, fetches
  the latter from the discovery with the same system UUID, drops references to instances that
  are gone, and takes a hardware that is being deleted apart.
\<close>

section \<open>Taints\<close>

text \<open>Lines 78 to 91, 173 to 187 and 227 to 241.\<close>

definition add_taint ::
  "BareMetalHardware \<Rightarrow> string \<Rightarrow> (BareMetalHardware \<Rightarrow> reconcile) \<Rightarrow> reconcile" where
  "add_taint bmh key k = Call ClockNow (\<lambda>a.
     update_BMH (bmh\<lparr>bmh_Spec := (bmh_Spec bmh)\<lparr>bmh_Taints := bmh_Taints (bmh_Spec bmh) @
       [\<lparr>taint_Key = key, taint_Value = [], taint_Effect = TaintEffectNoSchedule, taint_TimeAdded = Some (as_Time a)\<rparr>]\<rparr>\<rparr>) k)"

text \<open>Lines 145 to 161 and 199 to 215: the index of the first such taint, and its removal.\<close>

definition taint_index :: "string \<Rightarrow> Taint list \<Rightarrow> nat option" where
  "taint_index key taints = first_index (\<lambda>t. taint_Key t = key) taints"

definition remove_taint ::
  "BareMetalHardware \<Rightarrow> nat \<Rightarrow> (BareMetalHardware \<Rightarrow> reconcile) \<Rightarrow> reconcile" where
  "remove_taint bmh taintIndex k =
     update_BMH (bmh\<lparr>bmh_Spec := (bmh_Spec bmh)\<lparr>bmh_Taints := remove_at taintIndex (bmh_Taints (bmh_Spec bmh))\<rparr>\<rparr>) k"

definition status_event :: "BareMetalHardware \<Rightarrow> event_type \<Rightarrow> string \<Rightarrow> reconcile" where
  "status_event bmh ety reason =
     event (OnBMH bmh) ety reason (''Hardware '' @ Name bmh @ '' status is now '' @ reason) return_ok"

text \<open>Lines 142 to 188.\<close>

definition sync_schedule_taint :: "BareMetalHardware \<Rightarrow> reconcile \<Rightarrow> reconcile" where
  "sync_schedule_taint bmh k =
     (if bmh_CanProvision (bmh_Spec bmh) then
        (case taint_index BareMetalHardwareTaintKeyNoSchedule (bmh_Taints (bmh_Spec bmh)) of
           Some taintIndex \<Rightarrow> remove_taint bmh taintIndex
             (\<lambda>bmh. status_event bmh EventTypeNormal HardwareSchedulableEventReason)
         | None \<Rightarrow> k)
      else if \<not> has_taint BareMetalHardwareTaintKeyNoSchedule (bmh_Taints (bmh_Spec bmh)) then
        add_taint bmh BareMetalHardwareTaintKeyNoSchedule
          (\<lambda>bmh. status_event bmh EventTypeNormal HardwareNotSchedulableEventReason)
      else k)"

text \<open>Lines 190 to 242.\<close>

definition all_conditions_true :: "BareMetalHardware \<Rightarrow> bool" where
  "all_conditions_true bmh \<longleftrightarrow>
     has_status (bmh_Status bmh) ConditionTypeImageDriveValid ConditionStatusTrue \<and>
     has_status (bmh_Status bmh) ConditionTypeNicsValid ConditionStatusTrue \<and>
     has_status (bmh_Status bmh) ConditionTypeHardwareSet ConditionStatusTrue"

definition sync_ready_taint :: "BareMetalHardware \<Rightarrow> reconcile \<Rightarrow> reconcile" where
  "sync_ready_taint bmh k =
     (if all_conditions_true bmh then
        (case taint_index BareMetalHardwareTaintKeyNotReady (bmh_Taints (bmh_Spec bmh)) of
           Some taintIndex \<Rightarrow> remove_taint bmh taintIndex
             (\<lambda>bmh. status_event bmh EventTypeNormal HardwareReadyEventReason)
         | None \<Rightarrow> k)
      else if \<not> has_taint BareMetalHardwareTaintKeyNotReady (bmh_Taints (bmh_Spec bmh)) then
        add_taint bmh BareMetalHardwareTaintKeyNotReady
          (\<lambda>bmh. status_event bmh EventTypeWarning HardwareNotReadyEventReason)
      else k)"

section \<open>The reference to an instance\<close>

text \<open>
  Lines 95 to 121 and 245 to 271: a reference to an instance that is gone, or was replaced by
  another of the same name, is dropped; otherwise the instance is handed on.
\<close>

definition check_instance_ref ::
  "BareMetalHardware \<Rightarrow> BareMetalHardwareStatusInstanceRef \<Rightarrow> (BareMetalInstance \<Rightarrow> reconcile) \<Rightarrow> reconcile" where
  "check_instance_ref bmh ref k =
     (let drop_ref = status_update_BMH (bmh\<lparr>bmh_Status := (bmh_Status bmh)\<lparr>bmh_InstanceRef := None\<rparr>\<rparr>) (\<lambda>_. return_ok)
      in Call (GetBMI (ref_key ref)) (\<lambda>a. case as_BMI a of
           Inl err \<Rightarrow> if IsNotFound err then drop_ref else return_err err
         | Inr bmi \<Rightarrow> if UID bmi \<noteq> iref_UID ref then drop_ref else k bmi))"

section \<open>Conditions\<close>

definition set_hardware_condition ::
  "BareMetalHardware \<Rightarrow> ConditionType \<Rightarrow> ConditionStatus \<Rightarrow> string \<Rightarrow> string \<Rightarrow>
   (BareMetalHardware \<Rightarrow> reconcile) \<Rightarrow> reconcile" where
  "set_hardware_condition bmh ct cs reason message k =
     set_condition_now (bmh_Status bmh) ct cs reason message
       (\<lambda>st. status_update_BMH (bmh\<lparr>bmh_Status := st\<rparr>) k)"

text \<open>
  The shape of lines 338 to 376 and the like: unless the condition already has the reason, set
  it, emit an event (not for the hardware condition that is set) and stop.
\<close>

definition has_reason :: "BareMetalHardware \<Rightarrow> ConditionType \<Rightarrow> string \<Rightarrow> bool" where
  "has_reason bmh ct reason \<longleftrightarrow>
     (case GetCondition (bmh_Status bmh) ct of None \<Rightarrow> False | Some c \<Rightarrow> cond_Reason c = reason)"

definition ensure_condition ::
  "BareMetalHardware \<Rightarrow> ConditionType \<Rightarrow> ConditionStatus \<Rightarrow> string \<Rightarrow> string \<Rightarrow>
   (BareMetalHardware \<Rightarrow> reconcile) \<Rightarrow> reconcile \<Rightarrow> reconcile" where
  "ensure_condition bmh ct cs reason message stop k =
     (if \<not> has_reason bmh ct reason then set_hardware_condition bmh ct cs reason message stop else k)"

definition with_event :: "event_type \<Rightarrow> string \<Rightarrow> string \<Rightarrow> BareMetalHardware \<Rightarrow> reconcile" where
  "with_event ety reason message bmh = event (OnBMH bmh) ety reason message return_ok"

text \<open>Lines 295 to 336: is each nic, or each interface of its bond, among the discovered ones?\<close>

fun found_nic :: "string \<Rightarrow> BareMetalDiscoveryHardwareNIC list \<Rightarrow> bool" where
  "found_nic name [] = False"
| "found_nic name (hardwareNic # hardwareNics) =
     (if hwnic_Name hardwareNic = name then True else found_nic name hardwareNics)"

fun found_all :: "string list \<Rightarrow> BareMetalDiscoveryHardwareNIC list \<Rightarrow> bool" where
  "found_all [] hardwareNics = True"
| "found_all (name # names) hardwareNics =
     (if \<not> found_nic name hardwareNics then False else found_all names hardwareNics)"

fun found_all_nics :: "BareMetalHardwareNIC list \<Rightarrow> BareMetalDiscoveryHardwareNIC list \<Rightarrow> bool" where
  "found_all_nics [] hardwareNics = True"
| "found_all_nics (nic # nics) hardwareNics =
     (case nic_Bond nic of
        Some bond \<Rightarrow> if \<not> found_all (bond_Interfaces bond) hardwareNics then False else found_all_nics nics hardwareNics
      | None \<Rightarrow> if \<not> found_nic (nic_Name nic) hardwareNics then False else found_all_nics nics hardwareNics)"

text \<open>Lines 294 to 398.\<close>

definition sync_nics :: "BareMetalHardware \<Rightarrow> BareMetalDiscoveryHardware \<Rightarrow> reconcile \<Rightarrow> reconcile" where
  "sync_nics bmh hardware k =
     (if length (bmh_NICS (bmh_Spec bmh)) > 0 then
        (if found_all_nics (bmh_NICS (bmh_Spec bmh)) (items (hw_NICS hardware)) then
           ensure_condition bmh ConditionTypeNicsValid ConditionStatusTrue ValidNicsConditionReason ''nics are found''
             (with_event EventTypeNormal ValidNicsConditionReason ''Nics are found in hardware nics list'') k
         else
           ensure_condition bmh ConditionTypeNicsValid ConditionStatusFalse InvalidNicsConditionReason ''invalid nics''
             (with_event EventTypeWarning InvalidNicsConditionReason ''Could not find nics in hardware nics list'') k)
      else
        ensure_condition bmh ConditionTypeNicsValid ConditionStatusFalse NicsAreNotSetConditionReason ''nics are not set''
          (with_event EventTypeWarning NicsAreNotSetConditionReason ''NICS are not set'') k)"

text \<open>Lines 401 to 408; the loop has no effective break.\<close>

fun found_image_drive :: "string \<Rightarrow> BareMetalDiscoveryHardwareStorage list \<Rightarrow> bool \<Rightarrow> bool" where
  "found_image_drive drive [] foundImageDrive = foundImageDrive"
| "found_image_drive drive (storage # storages) foundImageDrive =
     found_image_drive drive storages (if storage_Name storage = drive then True else foundImageDrive)"

text \<open>Lines 400 to 471.\<close>

definition sync_image_drive :: "BareMetalHardware \<Rightarrow> BareMetalDiscoveryHardware \<Rightarrow> reconcile \<Rightarrow> reconcile" where
  "sync_image_drive bmh hardware k =
     (if length (bmh_ImageDrive (bmh_Spec bmh)) > 0 then
        (if found_image_drive (bmh_ImageDrive (bmh_Spec bmh)) (items (hw_Storage hardware)) False then
           ensure_condition bmh ConditionTypeImageDriveValid ConditionStatusTrue ValidImageDriveConditionReason
             ''found image drive''
             (with_event EventTypeNormal ValidImageDriveConditionReason ''Found image drive in hardware storage list'') k
         else
           ensure_condition bmh ConditionTypeImageDriveValid ConditionStatusFalse InvalidImageDriveConditionReason
             ''invalid image drive''
             (with_event EventTypeWarning InvalidImageDriveConditionReason
                ''Could not find image drive in hardware storage list'') k)
      else
        ensure_condition bmh ConditionTypeImageDriveValid ConditionStatusFalse ImageDriveIsNotSetConditionReason
          ''image drive is not set''
          (with_event EventTypeWarning ImageDriveIsNotSetConditionReason ''Image Drive is not set in the spec'') k)"

section \<open>Discovery\<close>

text \<open>Lines 494 to 530.\<close>

definition find_discovery :: "BareMetalHardware \<Rightarrow> reconcile" where
  "find_discovery bmh =
     (let uuid = bmh_SystemUUID (bmh_Spec bmh) in
      Call (ListBMD [MatchingFields ''spec.systemUUID'' uuid]) (\<lambda>a. case as_BMDs a of
        Inl err \<Rightarrow> return_err err
      | Inr [] \<Rightarrow>
          event (OnBMH bmh) EventTypeWarning HardwareDiscoveryNotFoundEventReason
            (''Could not find the discovery resource for the systemUUID of '' @ uuid) return_requeue
      | Inr [bmd] \<Rightarrow>
          (case bmd_Hardware (bmd_Status bmd) of
             None \<Rightarrow>
               event (OnBMH bmh) EventTypeWarning HardwareDiscoveryNoHardwareEventReason
                 (''Discovery for the systemUUID of '' @ uuid @ '' does not have any hardware set yet'') return_requeue
           | Some hardware \<Rightarrow>
               status_update_BMH (bmh\<lparr>bmh_Status := (bmh_Status bmh)\<lparr>bmh_Hardware := Some hardware\<rparr>\<rparr>) (\<lambda>bmh.
                 event (OnBMH bmh) EventTypeNormal HardwareDiscoveryFoundEventReason
                   (''Found discovery resource for the systemUUID of '' @ bmh_SystemUUID (bmh_Spec bmh)) return_ok))
      | Inr _ \<Rightarrow>
          event (OnBMH bmh) EventTypeWarning HardwareManyDiscoveryFoundEventReason
            (''Found multiple discovery resources for the systemUUID of '' @ uuid) return_requeue))"

section \<open>The reconciler\<close>

text \<open>Lines 67 to 140: the hardware is being deleted.\<close>

definition hardware_delete :: "BareMetalHardware \<Rightarrow> reconcile" where
  "hardware_delete bmh =
     (if \<not> has_taint BareMetalHardwareTaintKeyNoSchedule (bmh_Taints (bmh_Spec bmh)) then
        add_taint bmh BareMetalHardwareTaintKeyNoSchedule
          (\<lambda>bmh. status_event bmh EventTypeNormal HardwareNotSchedulableEventReason)
      else case bmh_InstanceRef (bmh_Status bmh) of
        Some ref \<Rightarrow> check_instance_ref bmh ref (\<lambda>bmi.
          event (OnBMH bmh) EventTypeNormal ''FailedDelete'' ''Cannot delete hardware while an instance is scheduled.''
            (Call (DeleteBMI bmi) (\<lambda>a. case as_Err a of
               Some err \<Rightarrow> return_err err | None \<Rightarrow> return_after (1 * Minute))))
      | None \<Rightarrow> update_BMH (RemoveFinalizer bmh BareMetalHardwareFinalizer) (\<lambda>_. return_ok))"

text \<open>Lines 274 to 533.\<close>

definition sync_conditions :: "BareMetalHardware \<Rightarrow> reconcile" where
  "sync_conditions bmh =
     (case bmh_Hardware (bmh_Status bmh) of
        Some hardware \<Rightarrow>
          ensure_condition bmh ConditionTypeHardwareSet ConditionStatusTrue HardwareIsSetConditionReason
            ''hardware information is set'' (\<lambda>_. return_ok)
            (sync_nics bmh hardware (sync_image_drive bmh hardware return_ok))
      | None \<Rightarrow>
          ensure_condition bmh ConditionTypeHardwareSet ConditionStatusFalse HardwareIsNotSetConditionReason
            ''hardware information is not set''
            (with_event EventTypeWarning HardwareIsNotSetConditionReason ''Hardware information is not set'')
            (find_discovery bmh))"

definition hardware_sync :: "BareMetalHardware \<Rightarrow> reconcile" where
  "hardware_sync bmh =
     sync_schedule_taint bmh (sync_ready_taint bmh
       (case bmh_InstanceRef (bmh_Status bmh) of
          Some ref \<Rightarrow> check_instance_ref bmh ref (\<lambda>_. sync_conditions bmh)
        | None \<Rightarrow> sync_conditions bmh))"

definition BareMetalHardwareReconciler_Reconcile :: "NamespacedName \<Rightarrow> reconcile" where
  "BareMetalHardwareReconciler_Reconcile req = fetch_BMH req (\<lambda>bmh.
     if \<not> IsZero (DeletionTimestamp bmh) then hardware_delete bmh else hardware_sync bmh)"

text \<open>The field index, and lines 547 to 560: an instance's changes are its hardware's.\<close>

definition bmh_systemUUID_index :: "BareMetalHardware \<Rightarrow> string" where
  "bmh_systemUUID_index bmh = bmh_SystemUUID (bmh_Spec bmh)"

definition instance_requests :: "BareMetalInstance \<Rightarrow> NamespacedName list" where
  "instance_requests bmi =
     (if length (bmi_HardwareName (bmi_Status bmi)) > 0
      then [\<lparr>nn_Namespace = Namespace bmi, nn_Name = bmi_HardwareName (bmi_Status bmi)\<rparr>] else [])"

end
