(* ===== verification/HardwareSteps.thy ===== *)
theory HardwareSteps
  imports Hardware
begin

text \<open>
  What the hardware controller does to a hardware: its steps, stated over what the spec and
  the discovered hardware ask for rather than over the code's loops; every write of a run is
  one of them; they end; and a hardware they leave alone is ready exactly when it can be used.
\<close>

section \<open>What a hardware should look like\<close>

definition nic_known :: "BareMetalDiscoveryHardware \<Rightarrow> string \<Rightarrow> bool" where
  "nic_known hardware name \<longleftrightarrow> (\<exists>n \<in> set (items (hw_NICS hardware)). hwnic_Name n = name)"

definition nics_usable :: "BareMetalHardware \<Rightarrow> BareMetalDiscoveryHardware \<Rightarrow> bool" where
  "nics_usable bmh hardware \<longleftrightarrow> (\<forall>nic \<in> set (bmh_NICS (bmh_Spec bmh)). case nic_Bond nic of
     None \<Rightarrow> nic_known hardware (nic_Name nic)
   | Some bond \<Rightarrow> \<forall>name \<in> set (bond_Interfaces bond). nic_known hardware name)"

definition drive_usable :: "BareMetalHardware \<Rightarrow> BareMetalDiscoveryHardware \<Rightarrow> bool" where
  "drive_usable bmh hardware \<longleftrightarrow>
     (\<exists>s \<in> set (items (hw_Storage hardware)). storage_Name s = bmh_ImageDrive (bmh_Spec bmh))"

text \<open>The status and reason each condition should have; none is asked of nics and drive without hardware.\<close>

definition wanted :: "BareMetalHardware \<Rightarrow> ConditionType \<Rightarrow> (ConditionStatus \<times> string) option" where
  "wanted bmh ct =
     (case bmh_Hardware (bmh_Status bmh) of
        None \<Rightarrow> if ct = ConditionTypeHardwareSet then Some (ConditionStatusFalse, HardwareIsNotSetConditionReason) else None
      | Some hardware \<Rightarrow>
          if ct = ConditionTypeHardwareSet then Some (ConditionStatusTrue, HardwareIsSetConditionReason)
          else if ct = ConditionTypeNicsValid then Some
            (if bmh_NICS (bmh_Spec bmh) = [] then (ConditionStatusFalse, NicsAreNotSetConditionReason)
             else if nics_usable bmh hardware then (ConditionStatusTrue, ValidNicsConditionReason)
             else (ConditionStatusFalse, InvalidNicsConditionReason))
          else if ct = ConditionTypeImageDriveValid then Some
            (if bmh_ImageDrive (bmh_Spec bmh) = [] then (ConditionStatusFalse, ImageDriveIsNotSetConditionReason)
             else if drive_usable bmh hardware then (ConditionStatusTrue, ValidImageDriveConditionReason)
             else (ConditionStatusFalse, InvalidImageDriveConditionReason))
          else None)"

definition new_taint :: "string \<Rightarrow> time \<Rightarrow> Taint" where
  "new_taint key t =
     \<lparr>taint_Key = key, taint_Value = [], taint_Effect = TaintEffectNoSchedule, taint_TimeAdded = Some t\<rparr>"

definition set_taints :: "BareMetalHardware \<Rightarrow> Taint list \<Rightarrow> BareMetalHardware" where
  "set_taints bmh taints = bmh\<lparr>bmh_Spec := (bmh_Spec bmh)\<lparr>bmh_Taints := taints\<rparr>\<rparr>"

abbreviation taints_of :: "BareMetalHardware \<Rightarrow> Taint list" where
  "taints_of bmh \<equiv> bmh_Taints (bmh_Spec bmh)"

section \<open>The steps\<close>

text \<open>
  The wanted taint of a key: a key that is missing is appended, the first taint of a key that
  is not wanted is removed.
\<close>

inductive taint_step :: "string \<Rightarrow> bool \<Rightarrow> Taint list \<Rightarrow> Taint list \<Rightarrow> bool" where
  add: "\<not> has_taint key taints \<Longrightarrow> taint_step key True taints (taints @ [new_taint key t])"
| remove: "taint_Key x = key \<Longrightarrow> \<forall>y \<in> set ys. taint_Key y \<noteq> key \<Longrightarrow> taint_step key False (ys @ x # zs) (ys @ zs)"

inductive hardware_step :: "BareMetalHardware \<Rightarrow> BareMetalHardware \<Rightarrow> bool" where
  schedule: "taint_step BareMetalHardwareTaintKeyNoSchedule (\<not> bmh_CanProvision (bmh_Spec bmh)) (taints_of bmh) taints \<Longrightarrow>
    hardware_step bmh (set_taints bmh taints)"
| ready: "taint_step BareMetalHardwareTaintKeyNotReady (\<not> all_conditions_true bmh) (taints_of bmh) taints \<Longrightarrow>
    hardware_step bmh (set_taints bmh taints)"
| unrefer: "bmh_InstanceRef (bmh_Status bmh) \<noteq> None \<Longrightarrow>
    hardware_step bmh (bmh\<lparr>bmh_Status := (bmh_Status bmh)\<lparr>bmh_InstanceRef := None\<rparr>\<rparr>)"
| condition: "wanted bmh ct = Some (cs, reason) \<Longrightarrow> \<not> has_reason bmh ct reason \<Longrightarrow>
    SetCondition (bmh_Status bmh) \<lparr>cond_Type = ct, cond_Status = cs, cond_LastTransitionTime = Some t,
      cond_Reason = reason, cond_Message = message\<rparr> = Inr st \<Longrightarrow>
    hardware_step bmh (bmh\<lparr>bmh_Status := st\<rparr>)"
| discover: "bmh_Hardware (bmh_Status bmh) = None \<Longrightarrow>
    hardware_step bmh (bmh\<lparr>bmh_Status := (bmh_Status bmh)\<lparr>bmh_Hardware := Some hardware\<rparr>\<rparr>)"

section \<open>The loops of the code\<close>

lemma found_nic_iff: "found_nic name ns \<longleftrightarrow> (\<exists>n \<in> set ns. hwnic_Name n = name)"
  by (induction ns) auto

lemma found_all_iff: "found_all names ns \<longleftrightarrow> (\<forall>name \<in> set names. \<exists>n \<in> set ns. hwnic_Name n = name)"
  by (induction names) (auto simp: found_nic_iff)

lemma found_all_nics_iff: "found_all_nics (bmh_NICS (bmh_Spec bmh)) (items (hw_NICS hardware)) \<longleftrightarrow> nics_usable bmh hardware"
proof -
  have "found_all_nics nics ns \<longleftrightarrow> (\<forall>nic \<in> set nics. case nic_Bond nic of
     None \<Rightarrow> \<exists>n \<in> set ns. hwnic_Name n = nic_Name nic
   | Some bond \<Rightarrow> \<forall>name \<in> set (bond_Interfaces bond). \<exists>n \<in> set ns. hwnic_Name n = name)" for nics ns
    by (induction nics) (auto simp: found_nic_iff found_all_iff split: option.splits)
  then show ?thesis unfolding nics_usable_def nic_known_def by simp
qed

lemma found_image_drive_iff:
  "found_image_drive (bmh_ImageDrive (bmh_Spec bmh)) (items (hw_Storage hardware)) False \<longleftrightarrow> drive_usable bmh hardware"
proof -
  have "found_image_drive d ss b \<longleftrightarrow> b \<or> (\<exists>s \<in> set ss. storage_Name s = d)" for d ss b
    by (induction ss arbitrary: b) auto
  then show ?thesis by (simp add: drive_usable_def)
qed

lemma taint_index_step: "taint_index key taints = Some i \<Longrightarrow> taint_step key False taints (remove_at i taints)"
  using remove_at_first_index [of "\<lambda>t. taint_Key t = key" taints i]
  by (auto simp: taint_index_def intro: taint_step.remove)

lemma taint_index_None: "taint_index key taints = None \<longleftrightarrow> \<not> has_taint key taints"
  by (auto simp: taint_index_def has_taint_iff)

section \<open>Every write is a step\<close>

text \<open>The instance a hardware refers to is gone, or was replaced by another of the same name.\<close>

definition stale_ref :: "history \<Rightarrow> BareMetalHardware \<Rightarrow> bool" where
  "stale_ref h bmh \<longleftrightarrow> (\<exists>ref. bmh_InstanceRef (bmh_Status bmh) = Some ref \<and>
     ((\<exists>err. (GetBMI (ref_key ref), ABMI (Inl err)) \<in> set h \<and> IsNotFound err) \<or>
      (\<exists>bmi. (GetBMI (ref_key ref), ABMI (Inr bmi)) \<in> set h \<and> UID bmi \<noteq> iref_UID ref)))"

definition referred_instance :: "history \<Rightarrow> BareMetalHardware \<Rightarrow> BareMetalInstance \<Rightarrow> bool" where
  "referred_instance h bmh bmi \<longleftrightarrow> (\<exists>ref. bmh_InstanceRef (bmh_Status bmh) = Some ref \<and>
     (GetBMI (ref_key ref), ABMI (Inr bmi)) \<in> set h \<and> UID bmi = iref_UID ref)"

definition discovered :: "history \<Rightarrow> BareMetalHardware \<Rightarrow> BareMetalDiscoveryHardware option \<Rightarrow> bool" where
  "discovered h bmh hardware \<longleftrightarrow> (\<exists>bmd. bmd_Hardware (bmd_Status bmd) = hardware \<and>
     (ListBMD [MatchingFields ''spec.systemUUID'' (bmh_SystemUUID (bmh_Spec bmh))], ABMDs (Inr [bmd])) \<in> set h)"

definition drop_ref :: "BareMetalHardware \<Rightarrow> BareMetalHardware" where
  "drop_ref bmh = bmh\<lparr>bmh_Status := (bmh_Status bmh)\<lparr>bmh_InstanceRef := None\<rparr>\<rparr>"

text \<open>
  A write on a hardware that is kept: one step, of the spec or of the status, with evidence
  when it drops the reference or sets the hardware.
\<close>

definition hardware_write :: "history \<Rightarrow> BareMetalHardware \<Rightarrow> call \<Rightarrow> bool" where
  "hardware_write h bmh c \<longleftrightarrow> (\<exists>b. hardware_step bmh b \<and>
     (c = UpdateBMH b \<and> bmh_Status b = bmh_Status bmh \<or> c = StatusUpdateBMH b \<and> bmh_Spec b = bmh_Spec bmh) \<and>
     (bmh_InstanceRef (bmh_Status b) \<noteq> bmh_InstanceRef (bmh_Status bmh) \<longrightarrow> stale_ref h bmh) \<and>
     (bmh_Hardware (bmh_Status b) \<noteq> bmh_Hardware (bmh_Status bmh) \<longrightarrow> discovered h bmh (bmh_Hardware (bmh_Status b))))"

text \<open>
  A write on a hardware that is being deleted: it is made unschedulable first; then a stale
  reference is dropped, or the instance on it deleted; the finalizer goes last.
\<close>

definition teardown_write :: "history \<Rightarrow> BareMetalHardware \<Rightarrow> call \<Rightarrow> bool" where
  "teardown_write h bmh c \<longleftrightarrow>
     (if \<not> has_taint BareMetalHardwareTaintKeyNoSchedule (taints_of bmh)
      then \<exists>t. c = UpdateBMH (set_taints bmh (taints_of bmh @ [new_taint BareMetalHardwareTaintKeyNoSchedule t]))
      else c = StatusUpdateBMH (drop_ref bmh) \<and> stale_ref h bmh \<or>
           (\<exists>bmi. c = DeleteBMI bmi \<and> referred_instance h bmh bmi) \<or>
           c = UpdateBMH (RemoveFinalizer bmh BareMetalHardwareFinalizer) \<and> bmh_InstanceRef (bmh_Status bmh) = None)"

definition reading_hardware :: "NamespacedName \<Rightarrow> BareMetalHardware \<Rightarrow> history \<Rightarrow> bool" where
  "reading_hardware req bmh h \<longleftrightarrow> no_writes h \<and> (\<exists>h'. h = (GetBMH req, ABMH (Inr bmh)) # h')"

definition hardware_contract :: "NamespacedName \<Rightarrow> history \<Rightarrow> call \<Rightarrow> bool" where
  "hardware_contract req h c \<longleftrightarrow> (is_write c \<longrightarrow>
     (\<exists>bmh. reading_hardware req bmh h \<and>
        (if IsZero (DeletionTimestamp bmh) then hardware_write h bmh c else teardown_write h bmh c)))"

lemma hardware_other [simp]: "\<not> is_write c \<Longrightarrow> hardware_contract req h c"
  by (simp add: hardware_contract_def)

lemma hardware_quiet: "quiet p \<Longrightarrow> always (hardware_contract req) h p"
  by (erule quiet_always) simp

lemma reading_hardware_append [simp]: "reading_hardware req bmh h \<Longrightarrow> no_writes h' \<Longrightarrow> reading_hardware req bmh (h @ h')"
  by (auto simp: reading_hardware_def)

text \<open>\<open>writes req bmh\<close>: the writes allowed to a run that has read this hardware.\<close>

definition allowed :: "BareMetalHardware \<Rightarrow> history \<Rightarrow> call \<Rightarrow> bool" where
  "allowed bmh h c \<longleftrightarrow> (if IsZero (DeletionTimestamp bmh) then hardware_write h bmh c else teardown_write h bmh c)"

lemma allowedI: "reading_hardware req bmh h \<Longrightarrow> allowed bmh h c \<Longrightarrow> hardware_contract req h c"
  by (auto simp: hardware_contract_def allowed_def)

lemma update_BMH_allowed:
  assumes "reading_hardware req bmh h" "allowed bmh h (UpdateBMH b)" "\<And>b. quiet (k b)"
  shows "always (hardware_contract req) h (update_BMH b k)"
  using allowedI [OF assms(1,2)] assms(3)
  by (auto simp: update_BMH_def intro: hardware_quiet split: sum.splits)

lemma status_update_BMH_allowed:
  assumes "reading_hardware req bmh h" "allowed bmh h (StatusUpdateBMH b)" "\<And>b. quiet (k b)"
  shows "always (hardware_contract req) h (status_update_BMH b k)"
  using allowedI [OF assms(1,2)] assms(3)
  by (auto simp: status_update_BMH_def intro: hardware_quiet split: sum.splits)

lemma quiet_status_event [simp]: "quiet (status_event bmh ety reason)" "quiet (with_event ety reason m bmh)"
  by (simp_all add: status_event_def with_event_def)

lemma add_taint_contract:
  assumes "reading_hardware req bmh h" "\<And>b. quiet (k b)"
    and "\<And>t h'. allowed bmh (h @ h') (UpdateBMH (set_taints bmh (taints_of bmh @ [new_taint key t])))"
  shows "always (hardware_contract req) h (add_taint bmh key k)"
  using assms by (auto simp: add_taint_def new_taint_def set_taints_def intro!: update_BMH_allowed [of req bmh])

lemma taint_step_allowed:
  assumes "IsZero (DeletionTimestamp bmh)" "hardware_step bmh (set_taints bmh taints)"
  shows "allowed bmh h (UpdateBMH (set_taints bmh taints))"
  using assms by (auto simp: allowed_def hardware_write_def set_taints_def)

lemma sync_taint_contract:
  assumes "reading_hardware req bmh h" "IsZero (DeletionTimestamp bmh)"
    and "\<And>taints. taint_step key keep (taints_of bmh) taints \<Longrightarrow> hardware_step bmh (set_taints bmh taints)"
    and "always (hardware_contract req) h k" "\<And>b. quiet (kr b)" "\<And>b. quiet (ka b)"
  shows "always (hardware_contract req) h
      (if keep then if \<not> has_taint key (taints_of bmh) then add_taint bmh key ka else k
       else case taint_index key (taints_of bmh) of Some taintIndex \<Rightarrow> remove_taint bmh taintIndex kr | None \<Rightarrow> k)"
proof (cases keep)
  case False
  have "allowed bmh h (UpdateBMH (bmh\<lparr>bmh_Spec := (bmh_Spec bmh)\<lparr>bmh_Taints := remove_at i (taints_of bmh)\<rparr>\<rparr>))"
    if "taint_index key (taints_of bmh) = Some i" for i
    using taint_step_allowed [OF assms(2) assms(3), of "remove_at i (taints_of bmh)"] taint_index_step [OF that] False
    by (simp add: set_taints_def)
  then show ?thesis
    using assms False by (auto simp: remove_taint_def intro!: update_BMH_allowed [of req bmh] split: option.splits)
next
  case True
  have "allowed bmh (h @ h') (UpdateBMH (set_taints bmh (taints_of bmh @ [new_taint key t])))"
    if "\<not> has_taint key (taints_of bmh)" for t h'
    using taint_step_allowed [OF assms(2) assms(3)] taint_step.add [OF that] True by simp
  then show ?thesis
    using assms True by (auto intro!: add_taint_contract)
qed

lemma check_instance_ref_contract:
  assumes "reading_hardware req bmh h" "bmh_InstanceRef (bmh_Status bmh) = Some ref"
    and "\<And>h'. stale_ref (h @ h') bmh \<Longrightarrow> allowed bmh (h @ h') (StatusUpdateBMH (drop_ref bmh))"
    and "\<And>a bmi. referred_instance (h @ [(GetBMI (ref_key ref), a)]) bmh bmi \<Longrightarrow>
      always (hardware_contract req) (h @ [(GetBMI (ref_key ref), a)]) (k bmi)"
  shows "always (hardware_contract req) h (check_instance_ref bmh ref k)"
proof -
  have gone: "stale_ref (h @ [(GetBMI (ref_key ref), a)]) bmh"
    if "as_BMI a = Inl err" "IsNotFound err" for a err
    using that assms(2) by (auto simp: stale_ref_def as_BMI_def wrong_kind_def IsNotFound_def split: answer.splits)
  have other: "stale_ref (h @ [(GetBMI (ref_key ref), a)]) bmh"
    if "as_BMI a = Inr bmi" "UID bmi \<noteq> iref_UID ref" for a bmi
    using that assms(2) by (auto simp: stale_ref_def as_BMI_def split: answer.splits)
  have same: "referred_instance (h @ [(GetBMI (ref_key ref), a)]) bmh bmi"
    if "as_BMI a = Inr bmi" "UID bmi = iref_UID ref" for a bmi
    using that assms(2) by (auto simp: referred_instance_def as_BMI_def split: answer.splits)
  have drop: "always (hardware_contract req) (h @ [(GetBMI (ref_key ref), a)])
      (status_update_BMH (drop_ref bmh) (\<lambda>_. return_ok))"
    if "stale_ref (h @ [(GetBMI (ref_key ref), a)]) bmh" for a
    using assms(1) assms(3) [OF that] by (intro status_update_BMH_allowed [of req bmh]) simp_all
  show ?thesis
    using drop [OF gone] drop [OF other] assms(4) [OF same]
    by (auto simp: check_instance_ref_def Let_def ref_key_def drop_ref_def split: sum.splits)
qed

lemma ensure_condition_contract:
  assumes "reading_hardware req bmh h" "IsZero (DeletionTimestamp bmh)" "wanted bmh ct = Some (cs, reason)"
    and "\<And>b. quiet (stop b)" "always (hardware_contract req) h k"
  shows "always (hardware_contract req) h (ensure_condition bmh ct cs reason message stop k)"
proof -
  have "allowed bmh (h @ [(ClockNow, a)]) (StatusUpdateBMH (bmh\<lparr>bmh_Status := st\<rparr>))"
    if "\<not> has_reason bmh ct reason"
      "SetCondition (bmh_Status bmh) \<lparr>cond_Type = ct, cond_Status = cs, cond_LastTransitionTime = Some t,
        cond_Reason = reason, cond_Message = message\<rparr> = Inr st" for a st t
  proof -
    have "bmh_InstanceRef st = bmh_InstanceRef (bmh_Status bmh)" "bmh_Hardware st = bmh_Hardware (bmh_Status bmh)"
      using that(2) by (auto simp: SetCondition_def split: if_splits)
    then show ?thesis
      using hardware_step.condition [OF assms(3) that] assms(2) by (auto simp: allowed_def hardware_write_def)
  qed
  then show ?thesis
    using assms
    by (auto simp: ensure_condition_def set_hardware_condition_def set_condition_now_def
        intro!: status_update_BMH_allowed [of req bmh] split: sum.splits condition_error.splits)
qed

lemma sync_nics_contract:
  assumes "reading_hardware req bmh h" "IsZero (DeletionTimestamp bmh)" "bmh_Hardware (bmh_Status bmh) = Some hardware"
    and "always (hardware_contract req) h k"
  shows "always (hardware_contract req) h (sync_nics bmh hardware k)"
  using assms
  by (auto simp: sync_nics_def found_all_nics_iff wanted_def consts_simps intro!: ensure_condition_contract)

lemma sync_image_drive_contract:
  assumes "reading_hardware req bmh h" "IsZero (DeletionTimestamp bmh)" "bmh_Hardware (bmh_Status bmh) = Some hardware"
    and "always (hardware_contract req) h k"
  shows "always (hardware_contract req) h (sync_image_drive bmh hardware k)"
  using assms
  by (auto simp: sync_image_drive_def found_image_drive_iff wanted_def consts_simps intro!: ensure_condition_contract)

lemma find_discovery_contract:
  assumes "reading_hardware req bmh h" "IsZero (DeletionTimestamp bmh)" "bmh_Hardware (bmh_Status bmh) = None"
  shows "always (hardware_contract req) h (find_discovery bmh)"
proof -
  have "allowed bmh (h @ [(ListBMD [MatchingFields ''spec.systemUUID'' (bmh_SystemUUID (bmh_Spec bmh))], a)])
      (StatusUpdateBMH (bmh\<lparr>bmh_Status := (bmh_Status bmh)\<lparr>bmh_Hardware := Some hardware\<rparr>\<rparr>))"
    if "as_BMDs a = Inr [bmd]" "bmd_Hardware (bmd_Status bmd) = Some hardware" for a bmd hardware
    using that hardware_step.discover [OF assms(3), of hardware] assms(2)
    by (auto simp: allowed_def hardware_write_def discovered_def as_BMDs_def split: answer.splits)
  then show ?thesis
    using assms(1)
    by (auto simp: find_discovery_def Let_def intro!: status_update_BMH_allowed [of req bmh]
        split: sum.splits list.splits option.splits)
qed

lemma sync_conditions_contract:
  assumes "reading_hardware req bmh h" "IsZero (DeletionTimestamp bmh)"
  shows "always (hardware_contract req) h (sync_conditions bmh)"
  using assms
  by (auto simp: sync_conditions_def wanted_def
      intro!: ensure_condition_contract find_discovery_contract sync_nics_contract sync_image_drive_contract split: option.splits)

lemma sync_ready_taint_contract:
  assumes "reading_hardware req bmh h" "IsZero (DeletionTimestamp bmh)" "always (hardware_contract req) h k"
  shows "always (hardware_contract req) h (sync_ready_taint bmh k)"
  using sync_taint_contract [where keep = "\<not> all_conditions_true bmh" and key = BareMetalHardwareTaintKeyNotReady
      and kr = "\<lambda>bmh. status_event bmh EventTypeNormal HardwareReadyEventReason"
      and ka = "\<lambda>bmh. status_event bmh EventTypeWarning HardwareNotReadyEventReason", OF assms(1,2) _ assms(3)]
    hardware_step.ready [of bmh]
  by (cases "all_conditions_true bmh") (simp_all add: sync_ready_taint_def)

lemma sync_schedule_taint_contract:
  assumes "reading_hardware req bmh h" "IsZero (DeletionTimestamp bmh)" "always (hardware_contract req) h k"
  shows "always (hardware_contract req) h (sync_schedule_taint bmh k)"
  using sync_taint_contract [where keep = "\<not> bmh_CanProvision (bmh_Spec bmh)" and key = BareMetalHardwareTaintKeyNoSchedule
      and kr = "\<lambda>bmh. status_event bmh EventTypeNormal HardwareSchedulableEventReason"
      and ka = "\<lambda>bmh. status_event bmh EventTypeNormal HardwareNotSchedulableEventReason", OF assms(1,2) _ assms(3)]
    hardware_step.schedule [of bmh]
  by (cases "bmh_CanProvision (bmh_Spec bmh)") (simp_all add: sync_schedule_taint_def)

lemma hardware_sync_contract:
  assumes "reading_hardware req bmh h" "IsZero (DeletionTimestamp bmh)"
  shows "always (hardware_contract req) h (hardware_sync bmh)"
proof -
  have drop: "allowed bmh h' (StatusUpdateBMH (drop_ref bmh))" if "stale_ref h' bmh" for h'
  proof -
    have "bmh_InstanceRef (bmh_Status bmh) \<noteq> None" using that by (auto simp: stale_ref_def)
    from hardware_step.unrefer [OF this] that assms(2) show ?thesis
      by (auto simp: allowed_def hardware_write_def drop_ref_def)
  qed
  have "always (hardware_contract req) h (case bmh_InstanceRef (bmh_Status bmh) of
      Some ref \<Rightarrow> check_instance_ref bmh ref (\<lambda>_. sync_conditions bmh) | None \<Rightarrow> sync_conditions bmh)"
    using assms drop by (auto intro!: check_instance_ref_contract sync_conditions_contract split: option.splits)
  then show ?thesis
    unfolding hardware_sync_def using assms by (intro sync_schedule_taint_contract sync_ready_taint_contract) simp_all
qed

lemma hardware_delete_contract:
  assumes "reading_hardware req bmh h" "\<not> IsZero (DeletionTimestamp bmh)"
  shows "always (hardware_contract req) h (hardware_delete bmh)"
proof (cases "has_taint BareMetalHardwareTaintKeyNoSchedule (taints_of bmh)")
  case False
  then have "allowed bmh h' (UpdateBMH (set_taints bmh (taints_of bmh @ [new_taint BareMetalHardwareTaintKeyNoSchedule t])))" for t h'
    using assms(2) by (auto simp: allowed_def teardown_write_def)
  then show ?thesis
    using assms(1) False by (simp add: hardware_delete_def add_taint_contract)
next
  case True
  show ?thesis
  proof (cases "bmh_InstanceRef (bmh_Status bmh)")
    case None
    then show ?thesis
      using True assms
      by (auto simp: hardware_delete_def allowed_def teardown_write_def intro!: update_BMH_allowed [of req bmh])
  next
    case (Some ref)
    have "allowed bmh (h @ h') (StatusUpdateBMH (drop_ref bmh))" if "stale_ref (h @ h') bmh" for h'
      using that True assms(2) by (simp add: allowed_def teardown_write_def)
    moreover have "hardware_contract req (h @ h') (DeleteBMI bmi)"
      if "referred_instance (h @ h') bmh bmi" "no_writes h'" for h' bmi
      using that True assms by (intro allowedI [of req bmh]) (auto simp: allowed_def teardown_write_def)
    ultimately show ?thesis
      using True Some assms(1)
      by (auto simp: hardware_delete_def referred_instance_def intro!: check_instance_ref_contract split: option.splits)
  qed
qed

lemma hardware_always: "always (hardware_contract req) [] (BareMetalHardwareReconciler_Reconcile req)"
  by (auto simp: BareMetalHardwareReconciler_Reconcile_def fetch_BMH_def as_BMH_def reading_hardware_def
      intro!: hardware_sync_contract hardware_delete_contract split: sum.splits answer.splits)

text \<open>
  C4: whatever the API server answers, a run of the hardware controller writes at most once. A
  hardware that is kept changes by one step: a taint, a condition, the discovered hardware
  (that of the one discovery with its system UUID), or a reference to an instance that was
  found to be gone or replaced. One that is being deleted is first made unschedulable, then
  the instance it refers to is deleted, and only without a reference it loses its finalizer.
\<close>

theorem BareMetalHardwareReconciler_contract: "always (hardware_contract req) [] (BareMetalHardwareReconciler_Reconcile req)"
  by (rule hardware_always)

section \<open>The steps end\<close>

definition wrong_condition :: "BareMetalHardware \<Rightarrow> ConditionType \<Rightarrow> bool" where
  "wrong_condition bmh ct \<longleftrightarrow> (case wanted bmh ct of None \<Rightarrow> False | Some (cs, reason) \<Rightarrow> \<not> has_reason bmh ct reason)"

definition wrong_conditions :: "BareMetalHardware \<Rightarrow> nat" where
  "wrong_conditions bmh =
     length (filter (wrong_condition bmh) [ConditionTypeHardwareSet, ConditionTypeNicsValid, ConditionTypeImageDriveValid])"

definition taint_cost :: "string \<Rightarrow> bool \<Rightarrow> Taint list \<Rightarrow> nat" where
  "taint_cost key keep taints =
     (if keep then if has_taint key taints then 0 else 1 else length (filter (\<lambda>t. taint_Key t = key) taints))"

definition taint_costs :: "BareMetalHardware \<Rightarrow> nat" where
  "taint_costs bmh =
     taint_cost BareMetalHardwareTaintKeyNoSchedule (\<not> bmh_CanProvision (bmh_Spec bmh)) (taints_of bmh) +
     taint_cost BareMetalHardwareTaintKeyNotReady (\<not> all_conditions_true bmh) (taints_of bmh)"

lemma taint_step_cost:
  assumes "taint_step key keep taints taints'"
  shows "taint_cost key keep taints' < taint_cost key keep taints"
    and "key' \<noteq> key \<Longrightarrow> taint_cost key' keep' taints' = taint_cost key' keep' taints"
  using assms by (auto simp: taint_cost_def has_taint_iff new_taint_def elim!: taint_step.cases)

lemma has_reason_SetCondition:
  assumes "SetCondition (bmh_Status bmh) c = Inr st"
  shows "has_reason (bmh\<lparr>bmh_Status := st\<rparr>) ct reason \<longleftrightarrow>
    (if ct = cond_Type c then reason = cond_Reason c else has_reason bmh ct reason)"
  using status.get_set_same [OF assms] status.get_set_other [OF assms, of ct]
  by (cases "ct = cond_Type c") (auto simp: has_reason_def)

lemma wanted_cases:
  "wanted bmh ct = Some w \<Longrightarrow>
     ct \<in> set [ConditionTypeHardwareSet, ConditionTypeNicsValid, ConditionTypeImageDriveValid]"
  by (auto simp: wanted_def split: option.splits if_splits)

lemma wanted_cong:
  assumes "bmh_Hardware (bmh_Status b) = bmh_Hardware (bmh_Status bmh)"
    and "bmh_NICS (bmh_Spec b) = bmh_NICS (bmh_Spec bmh)" "bmh_ImageDrive (bmh_Spec b) = bmh_ImageDrive (bmh_Spec bmh)"
  shows "wanted b ct = wanted bmh ct"
proof -
  have eq: "nics_usable b = nics_usable bmh" "drive_usable b = drive_usable bmh"
    using assms(2,3) by (simp_all add: nics_usable_def drive_usable_def fun_eq_iff)
  show ?thesis unfolding wanted_def assms eq ..
qed

lemma wrong_condition_step:
  assumes "wanted bmh ct = Some (cs, reason)" "\<not> has_reason bmh ct reason"
    and "SetCondition (bmh_Status bmh) \<lparr>cond_Type = ct, cond_Status = cs, cond_LastTransitionTime = Some t,
      cond_Reason = reason, cond_Message = message\<rparr> = Inr st"
  shows "wrong_conditions (bmh\<lparr>bmh_Status := st\<rparr>) < wrong_conditions bmh"
proof -
  have "bmh_Hardware st = bmh_Hardware (bmh_Status bmh)" using assms(3) by (auto simp: SetCondition_def split: if_splits)
  then have w: "wanted (bmh\<lparr>bmh_Status := st\<rparr>) ct' = wanted bmh ct'" for ct'
    by (intro wanted_cong) simp_all
  have "wrong_condition (bmh\<lparr>bmh_Status := st\<rparr>) ct' \<longleftrightarrow> ct' \<noteq> ct \<and> wrong_condition bmh ct'" for ct'
    using assms(1) by (auto simp: wrong_condition_def w has_reason_SetCondition [OF assms(3)] split: option.splits)
  then have filter: "filter (wrong_condition (bmh\<lparr>bmh_Status := st\<rparr>)) xs = filter (\<lambda>ct'. ct' \<noteq> ct) (filter (wrong_condition bmh) xs)" for xs
    by (simp add: conj_commute cong: filter_cong)
  moreover have "wrong_condition bmh ct" using assms(1,2) by (simp add: wrong_condition_def)
  ultimately have "ct \<in> set (filter (wrong_condition bmh) [ConditionTypeHardwareSet, ConditionTypeNicsValid, ConditionTypeImageDriveValid])"
    using wanted_cases [OF assms(1)] by auto
  from length_filter_less [OF this, of "\<lambda>ct'. ct' \<noteq> ct"] show ?thesis
    unfolding wrong_conditions_def filter by simp
qed

lemma wrong_conditions_cong:
  assumes "bmh_Status b = bmh_Status bmh"
    and "bmh_NICS (bmh_Spec b) = bmh_NICS (bmh_Spec bmh)" "bmh_ImageDrive (bmh_Spec b) = bmh_ImageDrive (bmh_Spec bmh)"
  shows "wrong_conditions b = wrong_conditions bmh"
proof -
  have eq: "wanted b = wanted bmh" "has_reason b = has_reason bmh"
    using assms wanted_cong [of b bmh] by (simp_all add: has_reason_def fun_eq_iff)
  have "wrong_condition b = wrong_condition bmh" by (rule ext) (unfold wrong_condition_def eq, rule refl)
  then show ?thesis by (simp add: wrong_conditions_def)
qed

lemma taint_keys: "BareMetalHardwareTaintKeyNotReady \<noteq> BareMetalHardwareTaintKeyNoSchedule"
  by (simp add: consts_simps)

lemma hardware_step_wf: "wf {(b', b). hardware_step b b'}"
proof (rule wf_subset [OF wf_measures])
  let ?fs = "[\<lambda>b. if bmh_Hardware (bmh_Status b) = None then 1 else 0,
    \<lambda>b. if bmh_InstanceRef (bmh_Status b) = None then 0 else 1, wrong_conditions, taint_costs]"
  show "{(b', b). hardware_step b b'} \<subseteq> measures ?fs"
  proof clarify
    fix b' b assume "hardware_step b b'"
    then show "(b', b) \<in> measures ?fs"
    proof cases
      case (schedule taints)
      have "taint_costs b' < taint_costs b"
        using taint_step_cost [OF schedule(2)] taint_keys schedule(1)
        by (simp add: taint_costs_def set_taints_def all_conditions_true_def)
      then show ?thesis
        using schedule(1) wrong_conditions_cong [of b' b] by (simp add: set_taints_def)
    next
      case (ready taints)
      have "taint_costs b' < taint_costs b"
        using taint_step_cost [OF ready(2)] taint_keys ready(1)
        by (simp add: taint_costs_def set_taints_def all_conditions_true_def)
      then show ?thesis
        using ready(1) wrong_conditions_cong [of b' b] by (simp add: set_taints_def)
    next
      case (condition ct cs reason t message st)
      have "bmh_Hardware st = bmh_Hardware (bmh_Status b)" "bmh_InstanceRef st = bmh_InstanceRef (bmh_Status b)"
        using condition(4) by (auto simp: SetCondition_def split: if_splits)
      then show ?thesis using condition(1) wrong_condition_step [OF condition(2-4)] by simp
    qed auto
  qed
qed

text \<open>Some run on a kept hardware writes it: its spec and metadata, or its status.\<close>

definition hardware_run :: "BareMetalHardware \<Rightarrow> BareMetalHardware \<Rightarrow> bool" where
  "hardware_run bmh bmh' \<longleftrightarrow> IsZero (DeletionTimestamp bmh) \<and>
     (\<exists>req h c. performs (BareMetalHardwareReconciler_Reconcile req) ((GetBMH req, ABMH (Inr bmh)) # h) c \<and>
        (c = UpdateBMH bmh' \<or> c = StatusUpdateBMH bmh'))"

lemma hardware_run_step:
  assumes "hardware_run bmh bmh'"
  shows "hardware_step bmh bmh'"
proof -
  obtain req h c where kept: "IsZero (DeletionTimestamp bmh)"
    and run: "performs (BareMetalHardwareReconciler_Reconcile req) ((GetBMH req, ABMH (Inr bmh)) # h) c"
    and c: "c = UpdateBMH bmh' \<or> c = StatusUpdateBMH bmh'"
    using assms by (auto simp: hardware_run_def)
  have "is_write c" using c by auto
  with performs_always [OF hardware_always run] kept
  have "hardware_write ((GetBMH req, ABMH (Inr bmh)) # h) bmh c"
    by (auto simp: hardware_contract_def reading_hardware_def)
  then show ?thesis using c by (auto simp: hardware_write_def)
qed

text \<open>
  C34: the writes of the hardware controller to a hardware that is kept and that nobody else
  changes, whatever conditions, taints and references it starts with and whatever the API
  server answers, cannot go on for ever: the discovered hardware, then the reference, then the
  conditions, then the taints come to rest.
\<close>

theorem hardware_writes_end: "wf {(bmh', bmh). hardware_run bmh bmh'}"
  by (rule wf_subset [OF hardware_step_wf]) (auto intro: hardware_run_step)

section \<open>Where they end\<close>

text \<open>Status and reason of the three conditions go together.\<close>

definition condition_pairs :: "(ConditionType \<times> ConditionStatus \<times> string) set" where
  "condition_pairs =
     {(ConditionTypeHardwareSet, ConditionStatusTrue, HardwareIsSetConditionReason),
      (ConditionTypeHardwareSet, ConditionStatusFalse, HardwareIsNotSetConditionReason),
      (ConditionTypeNicsValid, ConditionStatusTrue, ValidNicsConditionReason),
      (ConditionTypeNicsValid, ConditionStatusFalse, InvalidNicsConditionReason),
      (ConditionTypeNicsValid, ConditionStatusFalse, NicsAreNotSetConditionReason),
      (ConditionTypeImageDriveValid, ConditionStatusTrue, ValidImageDriveConditionReason),
      (ConditionTypeImageDriveValid, ConditionStatusFalse, InvalidImageDriveConditionReason),
      (ConditionTypeImageDriveValid, ConditionStatusFalse, ImageDriveIsNotSetConditionReason)}"

text \<open>
  A hardware as the controller and everything else that leaves its conditions alone (users, who
  edit the spec, and the provisioner, which sets the reference) can make it.
\<close>

inductive hardware_reachable :: "BareMetalHardware \<Rightarrow> bool" where
  new: "Conditions (bmh_Status bmh) = [] \<Longrightarrow> hardware_reachable bmh"
| step: "hardware_reachable bmh \<Longrightarrow> hardware_step bmh bmh' \<Longrightarrow> hardware_reachable bmh'"
| other: "hardware_reachable bmh \<Longrightarrow> Conditions (bmh_Status bmh') = Conditions (bmh_Status bmh) \<Longrightarrow>
    hardware_reachable bmh'"

lemma wanted_pairs: "wanted bmh ct = Some (cs, reason) \<Longrightarrow> (ct, cs, reason) \<in> condition_pairs"
  by (auto simp: wanted_def condition_pairs_def split: option.splits if_splits)

lemma reachable_pairs:
  assumes "hardware_reachable bmh" and "GetCondition (bmh_Status bmh) ct = Some c"
  shows "(ct, cond_Status c, cond_Reason c) \<in> condition_pairs"
  using assms
proof (induction arbitrary: c rule: hardware_reachable.induct)
  case (step bmh bmh')
  from step(2) show ?case
  proof cases
    case (condition ct' cs reason t message st)
    show ?thesis
    proof (cases "ct = ct'")
      case True
      then show ?thesis
        using status.get_set_same [OF condition(4)] step(4) condition(1) wanted_pairs [OF condition(2)] by auto
    next
      case False
      then show ?thesis
        using status.get_set_other [OF condition(4), of ct] step(3,4) condition(1) by auto
    qed
  qed (use step(3,4) in \<open>auto simp: set_taints_def GetCondition_def\<close>)
qed (auto simp: GetCondition_def)

definition usable :: "BareMetalHardware \<Rightarrow> BareMetalDiscoveryHardware \<Rightarrow> bool" where
  "usable bmh hardware \<longleftrightarrow> bmh_NICS (bmh_Spec bmh) \<noteq> [] \<and> nics_usable bmh hardware \<and>
     bmh_ImageDrive (bmh_Spec bmh) \<noteq> [] \<and> drive_usable bmh hardware"

lemma no_action [simp]:
  "add_taint bmh key k \<noteq> return_ok" "remove_taint bmh i kk \<noteq> return_ok"
  "set_hardware_condition bmh ct cs r m kk \<noteq> return_ok" "check_instance_ref bmh ref kkk \<noteq> return_ok"
  by (simp_all add: add_taint_def remove_taint_def set_hardware_condition_def set_condition_now_def
      check_instance_ref_def update_BMH_def return_ok_def Let_def)

lemma ensure_ok: "ensure_condition bmh ct cs reason m stop k = return_ok \<longleftrightarrow> has_reason bmh ct reason \<and> k = return_ok"
  by (simp add: ensure_condition_def)

lemma sync_conditions_ok:
  assumes "bmh_Hardware (bmh_Status bmh) = Some hardware"
  shows "sync_conditions bmh = return_ok \<longleftrightarrow> \<not> wrong_condition bmh ConditionTypeHardwareSet \<and>
    \<not> wrong_condition bmh ConditionTypeNicsValid \<and> \<not> wrong_condition bmh ConditionTypeImageDriveValid"
proof -
  have ne: "ConditionTypeNicsValid \<noteq> ConditionTypeHardwareSet" "ConditionTypeImageDriveValid \<noteq> ConditionTypeHardwareSet"
    "ConditionTypeImageDriveValid \<noteq> ConditionTypeNicsValid" by (simp_all add: consts_simps)
  show ?thesis
    using assms
    by (simp add: sync_conditions_def ensure_ok wrong_condition_def wanted_def sync_nics_def sync_image_drive_def
        found_all_nics_iff found_image_drive_iff ne)
qed

lemma wanted_status:
  assumes "hardware_reachable bmh" "wanted bmh ct = Some (cs, reason)" "\<not> wrong_condition bmh ct"
  shows "has_status (bmh_Status bmh) ct cs' \<longleftrightarrow> cs' = cs"
proof -
  obtain c where c: "GetCondition (bmh_Status bmh) ct = Some c" "cond_Reason c = reason"
    using assms(2,3) by (auto simp: wrong_condition_def has_reason_def split: option.splits)
  have "cond_Status c = cs"
    using reachable_pairs [OF assms(1) c(1)] wanted_pairs [OF assms(2)] c(2)
    by (auto simp: condition_pairs_def consts_simps)
  then show ?thesis using c(1) by (auto simp: has_status_def)
qed

text \<open>
  C35: a discovered hardware without an instance that a run leaves alone is as its spec says: it
  is tainted not-ready exactly when it cannot be used (no nics or no image drive in the spec,
  or one that discovery did not find), and unschedulable exactly when it must not be
  provisioned.
\<close>

theorem settled_hardware:
  assumes "hardware_reachable bmh" and "bmh_Hardware (bmh_Status bmh) = Some hardware"
    and "bmh_InstanceRef (bmh_Status bmh) = None" and "hardware_sync bmh = return_ok"
  shows "(has_taint BareMetalHardwareTaintKeyNotReady (taints_of bmh) \<longleftrightarrow> \<not> usable bmh hardware) \<and>
    (has_taint BareMetalHardwareTaintKeyNoSchedule (taints_of bmh) \<longleftrightarrow> \<not> bmh_CanProvision (bmh_Spec bmh))"
proof -
  have conds: "sync_conditions bmh = return_ok"
    and ready: "has_taint BareMetalHardwareTaintKeyNotReady (taints_of bmh) \<longleftrightarrow> \<not> all_conditions_true bmh"
    and schedule: "has_taint BareMetalHardwareTaintKeyNoSchedule (taints_of bmh) \<longleftrightarrow> \<not> bmh_CanProvision (bmh_Spec bmh)"
    using assms(3,4)
    by (auto simp: hardware_sync_def sync_schedule_taint_def sync_ready_taint_def taint_index_None
        split: if_splits option.splits)
  note ok = conds [unfolded sync_conditions_ok [OF assms(2)]]
  have "all_conditions_true bmh \<longleftrightarrow> usable bmh hardware"
  proof -
    obtain cs1 r1 cs2 r2 cs3 r3 where w: "wanted bmh ConditionTypeHardwareSet = Some (cs1, r1)"
      "wanted bmh ConditionTypeNicsValid = Some (cs2, r2)" "wanted bmh ConditionTypeImageDriveValid = Some (cs3, r3)"
      using assms(2) by (fastforce simp: wanted_def consts_simps)
    have "cs1 = ConditionStatusTrue" "cs2 = ConditionStatusTrue \<longleftrightarrow> bmh_NICS (bmh_Spec bmh) \<noteq> [] \<and> nics_usable bmh hardware"
      "cs3 = ConditionStatusTrue \<longleftrightarrow> bmh_ImageDrive (bmh_Spec bmh) \<noteq> [] \<and> drive_usable bmh hardware"
      using w assms(2) by (auto simp: wanted_def consts_simps split: if_splits)
    moreover note wanted_status [OF assms(1) w(1)] wanted_status [OF assms(1) w(2)] wanted_status [OF assms(1) w(3)]
    ultimately show ?thesis using ok by (auto simp: all_conditions_true_def usable_def)
  qed
  with ready schedule show ?thesis by simp
qed

definition sample_discovered :: BareMetalDiscoveryHardware where
  "sample_discovered = \<lparr>hw_CPU = \<lparr>cpu_ModelName = [], cpu_Architecture = ''x86_64'', cpu_CPUS = ''1''\<rparr>, hw_Ram = ''1G'',
     hw_Storage = Slice [\<lparr>storage_Name = ''sda'', storage_Size = ''10G'', storage_Rotational = False, storage_Trim = True,
       storage_Serial = []\<rparr>],
     hw_NICS = Slice [\<lparr>hwnic_Name = ''eth0'', hwnic_MAC = ''52:54:00:00:00:01'', hwnic_Speed = ''1G''\<rparr>]\<rparr>"

definition sample_hardware :: "StatusCondition list \<Rightarrow> BareMetalHardware" where
  "sample_hardware conds = \<lparr>Kind = ''BareMetalHardware'', APIVersion = [], Name = ''hw'', GenerateName = [],
     Namespace = ''default'', UID = ''u1'', ResourceVersion = ''1'', Labels = fmempty, OwnerReferences = [], Finalizers = [],
     DeletionTimestamp = None,
     bmh_Spec = \<lparr>bmh_SystemUUID = ''s1'', bmh_CanProvision = True, bmh_ImageDrive = ''sda'',
       bmh_NICS = [\<lparr>nic_Name = ''eth0'', nic_Primary = True, nic_Bond = None,
         nic_NetworkRef = \<lparr>ref_Name = ''net'', ref_Kind = ''BareMetalNetwork'', ref_Group = GroupVersion_Group\<rparr>\<rparr>],
       bmh_Taints = []\<rparr>,
     bmh_Status = \<lparr>Conditions = conds, bmh_InstanceRef = None, bmh_Hardware = Some sample_discovered\<rparr>\<rparr>"

definition sample_condition :: "ConditionType \<Rightarrow> string \<Rightarrow> StatusCondition" where
  "sample_condition ct reason = \<lparr>cond_Type = ct, cond_Status = ConditionStatusTrue, cond_LastTransitionTime = Some 1,
     cond_Reason = reason, cond_Message = []\<rparr>"

definition sample_conditions :: "StatusCondition list" where
  "sample_conditions = [sample_condition ConditionTypeHardwareSet HardwareIsSetConditionReason,
     sample_condition ConditionTypeNicsValid ValidNicsConditionReason,
     sample_condition ConditionTypeImageDriveValid ValidImageDriveConditionReason]"

lemma sample_step:
  assumes "wanted (sample_hardware conds) ct = Some (ConditionStatusTrue, reason)" "ct \<noteq> []"
    and "ct \<notin> cond_Type ` set conds"
  shows "hardware_step (sample_hardware conds) (sample_hardware (conds @ [sample_condition ct reason]))"
proof -
  have "put_condition c conds = conds @ [c]" if "cond_Type c \<notin> cond_Type ` set conds" for c
    using that by (induction conds) auto
  then have set: "SetCondition (bmh_Status (sample_hardware conds)) (sample_condition ct reason) =
      Inr (bmh_Status (sample_hardware (conds @ [sample_condition ct reason])))"
    using assms(2,3) by (simp add: SetCondition_def sample_hardware_def sample_condition_def consts_simps)
  have "\<not> has_reason (sample_hardware conds) ct reason"
    using assms(3) find_condition_None [of ct conds] by (simp add: has_reason_def GetCondition_def sample_hardware_def)
  from hardware_step.condition [OF assms(1) this set [unfolded sample_condition_def]] show ?thesis
    by (simp add: sample_condition_def sample_hardware_def)
qed

lemma sample_reachable: "hardware_reachable (sample_hardware sample_conditions)"
proof -
  have wanted: "wanted (sample_hardware conds) ConditionTypeHardwareSet = Some (ConditionStatusTrue, HardwareIsSetConditionReason)"
    "wanted (sample_hardware conds) ConditionTypeNicsValid = Some (ConditionStatusTrue, ValidNicsConditionReason)"
    "wanted (sample_hardware conds) ConditionTypeImageDriveValid = Some (ConditionStatusTrue, ValidImageDriveConditionReason)" for conds
    by (simp_all add: wanted_def sample_hardware_def sample_discovered_def nics_usable_def nic_known_def drive_usable_def consts_simps)
  note step = hardware_reachable.step [OF _ sample_step]
  have "hardware_reachable (sample_hardware [])" by (rule hardware_reachable.new) (simp add: sample_hardware_def)
  from step [OF step [OF step [OF this wanted(1)] wanted(2)] wanted(3)] show ?thesis
    by (simp add: sample_conditions_def sample_condition_def consts_simps)
qed

lemma settled_hardware_witness:
  "\<not> has_taint BareMetalHardwareTaintKeyNotReady (taints_of (sample_hardware sample_conditions))"
proof -
  have "hardware_sync (sample_hardware sample_conditions) = return_ok"
    by (simp add: hardware_sync_def sync_schedule_taint_def sync_ready_taint_def taint_index_def all_conditions_true_def
        has_status_def GetCondition_def sync_conditions_def ensure_ok has_reason_def sync_nics_def sync_image_drive_def
        sample_hardware_def sample_conditions_def sample_condition_def sample_discovered_def consts_simps)
  from settled_hardware [OF sample_reachable _ _ this] show ?thesis
    by (simp add: sample_hardware_def sample_discovered_def usable_def nics_usable_def nic_known_def drive_usable_def)
qed

end
