(* ===== verification/DiscoveryServer.thy ===== *)
theory DiscoveryServer
  imports Program Encoding
begin

text \<open>
  The discovery server, \<^verbatim>\<open>pkg/discovery/server.go\<close>: what a booting machine is told to boot, the
  agent that reports in, and the hardware it has discovered. The web framework is outside the
  repository: what it makes of a query, a JSON body or the server's URL is an argument of the
  handlers, and a handler ends in the reply it writes.
\<close>

section \<open>Replies\<close>

datatype http_response =
    TextReply int string
  | ErrorReply int string
  | StatusReply int go_error
  | EmptyReply int

text \<open>
  Lines 139 to 152 and eight times more: a \<^verbatim>\<open>StatusError\<close> of the API server is passed on with its
  code, anything else is an internal error.
\<close>

definition client_error :: "go_error \<Rightarrow> http_response prog" where
  "client_error err = Ret (case err of
     StatusError _ code text \<Rightarrow> if code = 0 then ErrorReply 500 text else StatusReply code err
   | PlainError text \<Rightarrow> ErrorReply 500 text)"

definition newline :: string where
  "newline = [CHR 0x0A]"

section \<open>Booting\<close>

definition hardware_with :: "string \<Rightarrow> call" where
  "hardware_with uuid = ListBMH [MatchingFields ''spec.systemUUID'' uuid]"

definition chain_again :: http_response where
  "chain_again = TextReply 200 (''#!ipxe'' @ newline @ ''echo Chaining again with systemUUID'' @ newline @
     ''chain boot?systemUUID=${uuid}'')"

definition boot_os :: http_response where
  "boot_os = TextReply 200 (''#!ipxe'' @ newline @ ''echo Booting into the OS'' @ newline @ ''sleep 10'' @ newline @ ''exit 0'')"

text \<open>Lines 188 to 202.\<close>

definition boot_agent :: "string \<Rightarrow> http_response prog" where
  "boot_agent url = Call (ReadFile ''/discovery_files/linuxkit-agent-cmdline'') (\<lambda>a. case as_File a of
     Inl err \<Rightarrow> Ret (ErrorReply 400 (err_Text err))
   | Inr cmdLineBytes \<Rightarrow> Ret (TextReply 200
       (''#!ipxe'' @ newline @ ''echo Booting into the agent'' @ newline @ ''sleep 10'' @ newline @
        ''initrd files/linuxkit-agent-initrd.img'' @ newline @ ''chain files/linuxkit-agent-kernel '' @
        strings_TrimSpace cmdLineBytes @ '' discovery_url='' @ url)))"

definition ipxeBoot :: "string \<Rightarrow> string \<Rightarrow> http_response prog" where
  "ipxeBoot url systemUUID =
     (if length systemUUID = 0 then Ret chain_again
      else Call (hardware_with systemUUID) (\<lambda>a. case as_BMHs a of
        Inl err \<Rightarrow> client_error err
      | Inr bmhs \<Rightarrow>
          (case bmhs of
             [bmh] \<Rightarrow>
               (case bmh_InstanceRef (bmh_Status bmh) of
                  None \<Rightarrow> boot_agent url
                | Some ref \<Rightarrow> Call (GetBMI (ref_key ref)) (\<lambda>a. case as_BMI a of
                    Inl err \<Rightarrow> if IsNotFound err then boot_agent url else client_error err
                  | Inr bmi \<Rightarrow>
                      if UID bmi = iref_UID ref \<and> bmi_Phase (bmi_Status bmi) = PhaseRunning then Ret boot_os
                      else boot_agent url))
           | _ \<Rightarrow> boot_agent url)))"

section \<open>The agent reports in\<close>

record readyInput =
  ready_SystemUUID :: string
  ready_IP :: string

definition ready_update :: "readyInput \<Rightarrow> BareMetalInstance \<Rightarrow> BareMetalInstance" where
  "ready_update input bmi =
     bmi\<lparr>bmi_Status := (bmi_Status bmi)\<lparr>bmi_AgentInfo := Some \<lparr>agent_IP = ready_IP input\<rparr>\<rparr>\<rparr>"

definition ready :: "string + readyInput \<Rightarrow> http_response prog" where
  "ready bound =
     (case bound of
        Inl err \<Rightarrow> Ret (ErrorReply 400 err)
      | Inr input \<Rightarrow>
          if length (ready_SystemUUID input) = 0 then Ret (ErrorReply 400 ''system uuid must be set'')
          else Call (hardware_with (ready_SystemUUID input)) (\<lambda>a. case as_BMHs a of
            Inl err \<Rightarrow> client_error err
          | Inr [] \<Rightarrow> Ret (EmptyReply 404)
          | Inr [bmh] \<Rightarrow>
              (case bmh_InstanceRef (bmh_Status bmh) of
                 None \<Rightarrow> Ret (EmptyReply 404)
               | Some ref \<Rightarrow> Call (GetBMI (ref_key ref)) (\<lambda>a. case as_BMI a of
                   Inl err \<Rightarrow> if IsNotFound err then Ret (EmptyReply 404) else client_error err
                 | Inr bmi \<Rightarrow>
                     if UID bmi \<noteq> iref_UID ref then Ret (EmptyReply 404)
                     else if bmi_Phase (bmi_Status bmi) \<noteq> PhaseProvisioning \<and> bmi_Phase (bmi_Status bmi) \<noteq> PhaseCleaning
                     then Ret (EmptyReply 404)
                     else Call (StatusUpdateBMI (ready_update input bmi)) (\<lambda>a. case as_BMI a of
                       Inl err \<Rightarrow> client_error err
                     | Inr _ \<Rightarrow> Ret (EmptyReply 204))))
          | Inr _ \<Rightarrow> Ret (ErrorReply 500 ''hardware exists but multiple times, someone messed up.'')))"

section \<open>The hardware is discovered\<close>

record discoverInput =
  discover_SystemUUID :: string
  discover_Hardware :: "BareMetalDiscoveryHardware option"

definition discovery_with :: "string \<Rightarrow> call" where
  "discovery_with uuid = ListBMD [MatchingFields ''spec.systemUUID'' uuid]"

definition new_discovery :: "string \<Rightarrow> BareMetalDiscovery" where
  "new_discovery uuid = \<lparr>Kind = [], APIVersion = [], Name = uuid, GenerateName = [], Namespace = [], UID = [],
     ResourceVersion = [], Labels = fmempty, OwnerReferences = [], Finalizers = [], DeletionTimestamp = None,
     bmd_Spec = \<lparr>bmd_SystemUUID = uuid\<rparr>, bmd_Status = \<lparr>bmd_Hardware = None\<rparr>\<rparr>"

text \<open>Lines 441 to 480.\<close>

definition record_hardware :: "BareMetalDiscoveryHardware \<Rightarrow> BareMetalDiscovery \<Rightarrow> http_response prog" where
  "record_hardware hardware bmd =
     (if bmd_Hardware (bmd_Status bmd) \<noteq> None then Ret (EmptyReply 204)
      else Call (CreateBMD bmd) (\<lambda>a. case as_BMD a of
        Inl err \<Rightarrow> client_error err
      | Inr bmd \<Rightarrow>
          Call (StatusUpdateBMD (bmd\<lparr>bmd_Status := (bmd_Status bmd)\<lparr>bmd_Hardware := Some hardware\<rparr>\<rparr>)) (\<lambda>a.
            case as_BMD a of
              Inl err \<Rightarrow> client_error err
            | Inr _ \<Rightarrow> Ret (EmptyReply 204))))"

definition discover :: "string + discoverInput \<Rightarrow> http_response prog" where
  "discover bound =
     (case bound of
        Inl err \<Rightarrow> Ret (ErrorReply 400 err)
      | Inr input \<Rightarrow>
          (let uuid = discover_SystemUUID input in
           if length uuid = 0 then Ret (ErrorReply 400 ''system uuid must be set'')
           else case discover_Hardware input of
             None \<Rightarrow> Ret (ErrorReply 400 ''hardware cannot be nil'')
           | Some hardware \<Rightarrow>
               Call (hardware_with uuid) (\<lambda>a. case as_BMHs a of
                 Inl err \<Rightarrow> client_error err
               | Inr [] \<Rightarrow>
                   Call (discovery_with uuid) (\<lambda>a. case as_BMDs a of
                     Inl err \<Rightarrow> client_error err
                   | Inr [] \<Rightarrow> record_hardware hardware (new_discovery uuid)
                   | Inr [bmd] \<Rightarrow> record_hardware hardware bmd
                   | Inr _ \<Rightarrow> Ret (ErrorReply 500 ''discovery already exists but multiple times, someone messed up.''))
               | Inr [_] \<Rightarrow> Ret (EmptyReply 204)
               | Inr _ \<Rightarrow> Ret (ErrorReply 500 ''hardware already exists but multiple times, someone messed up.''))))"

definition heartbeat :: "http_response prog" where
  "heartbeat = Ret (EmptyReply 200)"

text \<open>The routes of \<^verbatim>\<open>Run\<close>.\<close>

datatype discovery_request =
    GetIpxeBoot string
  | PostReady "string + readyInput"
  | PutHeartbeat
  | PostDiscover "string + discoverInput"

definition discovery_handle :: "string \<Rightarrow> discovery_request \<Rightarrow> http_response prog" where
  "discovery_handle url r = (case r of
     GetIpxeBoot systemUUID \<Rightarrow> ipxeBoot url systemUUID
   | PostReady bound \<Rightarrow> ready bound
   | PutHeartbeat \<Rightarrow> heartbeat
   | PostDiscover bound \<Rightarrow> discover bound)"

end
