(* ===== verification/DiscoveryRuns.thy ===== *)
theory DiscoveryRuns
  imports DiscoveryServer InstanceRuns
begin

text \<open>
  What the discovery server's handlers do, whatever the API server answers: whom they tell to
  boot into its system, which instance's agent they record, which discoveries they make, and
  that none of it disturbs the life of an instance.
\<close>

section \<open>Booting\<close>

lemma boot_agent_ends: "ends (\<lambda>h oc. \<exists>r. oc = Returned r \<and> r \<noteq> boot_os) h (boot_agent url)"
  by (simp add: boot_agent_def boot_os_def newline_def split: sum.splits)

text \<open>The one hardware with the system UUID refers to an instance that is there and satisfies \<open>P\<close>.\<close>

definition found_instance :: "string \<Rightarrow> (BareMetalInstance \<Rightarrow> bool) \<Rightarrow> history \<Rightarrow> BareMetalInstance \<Rightarrow> bool" where
  "found_instance uuid P h bmi \<longleftrightarrow> (\<exists>bmh ref.
     h = [(hardware_with uuid, ABMHs (Inr [bmh])), (GetBMI (ref_key ref), ABMI (Inr bmi))] \<and>
     bmh_InstanceRef (bmh_Status bmh) = Some ref \<and> UID bmi = iref_UID ref \<and> P bmi)"

abbreviation running :: "BareMetalInstance \<Rightarrow> bool" where
  "running bmi \<equiv> bmi_Phase (bmi_Status bmi) = PhaseRunning"

lemma as_BMHs_cases: "as_BMHs a = Inr bmhs \<longleftrightarrow> a = ABMHs (Inr bmhs)"
  by (auto simp: as_BMHs_def split: answer.splits)

lemma as_BMI_Inr: "as_BMI a = Inr bmi \<longleftrightarrow> a = ABMI (Inr bmi)"
  by (auto simp: as_BMI_def split: answer.splits)

lemma as_BMDs_cases: "as_BMDs a = Inr bmds \<longleftrightarrow> a = ABMDs (Inr bmds)"
  by (auto simp: as_BMDs_def split: answer.splits)

lemma as_BMD_Inr: "as_BMD a = Inr bmd \<longleftrightarrow> a = ABMD (Inr bmd)"
  by (auto simp: as_BMD_def split: answer.splits)

lemma client_error_reply: "\<exists>r. client_error err = Ret r \<and> (\<forall>t. r \<noteq> TextReply n t) \<and> r \<noteq> EmptyReply m"
  by (cases err) (auto simp: client_error_def)

definition boots :: "string \<Rightarrow> history \<Rightarrow> http_response outcome \<Rightarrow> bool" where
  "boots uuid h oc \<longleftrightarrow> (\<exists>r. oc = Returned r \<and> (r = boot_os \<longleftrightarrow> (\<exists>bmi. found_instance uuid running h bmi)))"

lemma boots_agent:
  assumes "\<And>a bmi. \<not> found_instance uuid running (h @ [(ReadFile ''/discovery_files/linuxkit-agent-cmdline'', a)]) bmi"
  shows "ends (boots uuid) h (boot_agent url)"
  using assms by (auto simp: boot_agent_def boots_def boot_os_def newline_def split: sum.splits)

lemma boots_client_error:
  assumes "\<And>bmi. \<not> found_instance uuid running h bmi"
  shows "ends (boots uuid) h (client_error err)"
  using assms by (cases err) (auto simp: client_error_def boots_def boot_os_def)

text \<open>
  C37: a machine is told to boot its own system exactly when the one hardware with its system
  UUID refers to an instance that is there, under the UID of the reference, and runs; in every
  other case, errors included, it is told to ask again, to boot the agent, or what went wrong.
  The handler always answers.
\<close>

theorem ipxeBoot_boots: "ends (boots systemUUID) [] (ipxeBoot url systemUUID)"
proof (cases "systemUUID = []")
  case True
  then show ?thesis
    by (simp add: ipxeBoot_def boots_def found_instance_def chain_again_def boot_os_def newline_def)
next
  case False
  have asked: "ends (boots systemUUID) (h @ [(GetBMI (ref_key ref), a)])
      (case as_BMI a of Inl err \<Rightarrow> if IsNotFound err then boot_agent url else client_error err
       | Inr bmi \<Rightarrow> if UID bmi = iref_UID ref \<and> bmi_Phase (bmi_Status bmi) = PhaseRunning then Ret boot_os else boot_agent url)"
    if "h = [(hardware_with systemUUID, ABMHs (Inr [bmh]))]" "bmh_InstanceRef (bmh_Status bmh) = Some ref" for h bmh ref a
    using that by (auto intro!: boots_agent boots_client_error simp: boots_def found_instance_def as_BMI_Inr split: sum.splits)
  have one: "ends (boots systemUUID) [(hardware_with systemUUID, ABMHs (Inr [bmh]))]
      (case bmh_InstanceRef (bmh_Status bmh) of
         None \<Rightarrow> boot_agent url
       | Some ref \<Rightarrow> Call (GetBMI (ref_key ref)) (\<lambda>a. case as_BMI a of
           Inl err \<Rightarrow> if IsNotFound err then boot_agent url else client_error err
         | Inr bmi \<Rightarrow> if UID bmi = iref_UID ref \<and> bmi_Phase (bmi_Status bmi) = PhaseRunning then Ret boot_os else boot_agent url))" for bmh
  proof (cases "bmh_InstanceRef (bmh_Status bmh)")
    case None
    then show ?thesis by (simp add: boots_agent found_instance_def)
  next
    case (Some ref)
    then show ?thesis using asked [OF refl Some] by simp
  qed
  show ?thesis
    using False one
    by (auto simp: ipxeBoot_def as_BMHs_cases split: sum.splits list.splits
        intro!: boots_agent boots_client_error) (auto simp: found_instance_def)
qed

section \<open>The agent reports in\<close>

abbreviation expects_agent :: "BareMetalInstance \<Rightarrow> bool" where
  "expects_agent bmi \<equiv> bmi_Phase (bmi_Status bmi) \<in> {PhaseProvisioning, PhaseCleaning}"

definition ready_contract :: "readyInput \<Rightarrow> history \<Rightarrow> call \<Rightarrow> bool" where
  "ready_contract input h c \<longleftrightarrow> (is_write c \<longrightarrow>
     (\<exists>bmi. found_instance (ready_SystemUUID input) expects_agent h bmi \<and> c = StatusUpdateBMI (ready_update input bmi)))"

definition ready_reply :: "readyInput \<Rightarrow> history \<Rightarrow> http_response outcome \<Rightarrow> bool" where
  "ready_reply input h oc \<longleftrightarrow> (\<exists>r. oc = Returned r \<and>
     (r = EmptyReply 204 \<longleftrightarrow> (\<exists>bmi bmi'. (StatusUpdateBMI (ready_update input bmi), ABMI (Inr bmi')) \<in> set h)))"

lemma ready_always: "always (ready_contract input) [] (ready (Inr input))"
  by (auto simp: ready_def ready_contract_def hardware_with_def found_instance_def client_error_def as_BMHs_cases as_BMI_Inr
      split: sum.splits list.splits option.splits)



text \<open>
  The write of an agent's report keeps the instance within the life that the controllers
  give it: of an instance that can be reached it makes one that can be reached, as far from its
  end as before.
\<close>

lemma agent_report_keeps:
  assumes "performs (ready (Inr input)) (h @ [(GetBMI key, ABMI (Inr bmi))]) (StatusUpdateBMI bmi')"
    and "instance_reachable matches tolerates json_error bmi"
  shows "instance_reachable matches tolerates json_error bmi' \<and>
    instance_rank (deleting bmi') (bmi_Status bmi') = instance_rank (deleting bmi) (bmi_Status bmi) \<and>
    (\<exists>info. bmi_AgentInfo (bmi_Status bmi') = Some info \<and> agent_IP info = ready_IP input)"
proof -
  have "ready_contract input (h @ [(GetBMI key, ABMI (Inr bmi))]) (StatusUpdateBMI bmi')"
    using performs_always [OF ready_always assms(1)] .
  then have "bmi' = ready_update input bmi"
    by (auto simp: ready_contract_def found_instance_def append_eq_Cons_conv)
  then show ?thesis
    using instance_reachable.agent [OF assms(2)] by (simp add: ready_update_def)
qed

lemma agent_report_keeps_witness:
  "\<exists>bmi. instance_reachable (\<lambda>_ _. True) (\<lambda>_ _. True) id (ready_update \<lparr>ready_SystemUUID = ''4c4c'', ready_IP = ''10.0.0.7''\<rparr> bmi) \<and>
     bmi_Phase (bmi_Status bmi) = PhaseProvisioning"
proof -
  let ?input = "\<lparr>ready_SystemUUID = ''4c4c'', ready_IP = ''10.0.0.7''\<rparr>"
  obtain st where st: "instance_reachable (\<lambda>_ _. True) (\<lambda>_ _. True) id (created_instance\<lparr>bmi_Status := st\<rparr>)"
    "bmi_Phase st = PhaseProvisioning"
    using provisioning_reachable by blast
  let ?bmi = "created_instance\<lparr>bmi_Status := st\<rparr>"
  have "performs (ready (Inr ?input))
      ([(hardware_with ''4c4c'', ABMHs (Inr [own_hardware ?bmi]))] @ [(GetBMI (key_of ?bmi), ABMI (Inr ?bmi))])
      (StatusUpdateBMI (ready_update ?input ?bmi))"
    using st(2) by (simp add: ready_def own_hardware_def created_instance_def ref_key_def key_of_def)
  from agent_report_keeps [OF this st(1)] st(2) show ?thesis by auto
qed

section \<open>Discoveries\<close>

text \<open>The discovery that a hardware with no discovery and no hardware object gets.\<close>

definition undiscovered :: "string \<Rightarrow> history \<Rightarrow> BareMetalDiscovery \<Rightarrow> bool" where
  "undiscovered uuid h bmd \<longleftrightarrow> (\<exists>bmds.
     h = [(hardware_with uuid, ABMHs (Inr [])), (discovery_with uuid, ABMDs (Inr bmds))] \<and>
     (bmds = [] \<and> bmd = new_discovery uuid \<or> bmds = [bmd] \<and> bmd_Hardware (bmd_Status bmd) = None))"

definition discover_contract :: "discoverInput \<Rightarrow> history \<Rightarrow> call \<Rightarrow> bool" where
  "discover_contract input h c = (case c of
     CreateBMD bmd \<Rightarrow> undiscovered (discover_SystemUUID input) h bmd
   | StatusUpdateBMD bmd' \<Rightarrow> (\<exists>h0 bmd bmd1.
       h = h0 @ [(CreateBMD bmd, ABMD (Inr bmd1))] \<and> undiscovered (discover_SystemUUID input) h0 bmd \<and>
       bmd' = bmd1\<lparr>bmd_Status := (bmd_Status bmd1)\<lparr>bmd_Hardware := discover_Hardware input\<rparr>\<rparr>)
   | _ \<Rightarrow> \<not> is_write c)"

definition known :: "string \<Rightarrow> history \<Rightarrow> bool" where
  "known uuid h \<longleftrightarrow> (\<exists>bmh. (hardware_with uuid, ABMHs (Inr [bmh])) \<in> set h) \<or>
     (\<exists>bmd. (discovery_with uuid, ABMDs (Inr [bmd])) \<in> set h \<and> bmd_Hardware (bmd_Status bmd) \<noteq> None)"

definition recorded :: "discoverInput \<Rightarrow> history \<Rightarrow> bool" where
  "recorded input h \<longleftrightarrow> (\<exists>bmd bmd'. (StatusUpdateBMD bmd, ABMD (Inr bmd')) \<in> set h \<and>
     bmd_Hardware (bmd_Status bmd) = discover_Hardware input)"

definition discover_reply :: "discoverInput \<Rightarrow> history \<Rightarrow> http_response outcome \<Rightarrow> bool" where
  "discover_reply input h oc \<longleftrightarrow> (\<exists>r. oc = Returned r \<and>
     (r = EmptyReply 204 \<longleftrightarrow> known (discover_SystemUUID input) h \<or> recorded input h))"

lemma new_discovery_hardware [simp]: "bmd_Hardware (bmd_Status (new_discovery uuid)) = None"
  by (simp add: new_discovery_def)

lemmas discover_simps = discover_def record_hardware_def hardware_with_def discovery_with_def client_error_def Let_def

lemma discover_always: "always (discover_contract input) [] (discover (Inr input))"
  by (auto simp: discover_simps discover_contract_def undiscovered_def as_BMHs_cases as_BMDs_cases as_BMD_Inr
      split: sum.splits list.splits option.splits)



text \<open>
  Of a discovery that is there without hardware, as an administrator makes it beforehand,
  the handler asks for the creation once more, with the object it listed; an API server refuses
  to create what exists, and then nothing else is written, the hardware is not recorded, and the
  machine is told the error, however often it reports.
\<close>

lemma discover_recreates:
  assumes "bmd_Hardware (bmd_Status bmd) = None" and "discover_Hardware input = Some hardware"
    and "discover_SystemUUID input \<noteq> []"
  shows "\<exists>r. run (discover (Inr input)) [ABMHs (Inr []), ABMDs (Inr [bmd]), ABMD (Inl err)] =
      ([(hardware_with (discover_SystemUUID input), ABMHs (Inr [])),
        (discovery_with (discover_SystemUUID input), ABMDs (Inr [bmd])),
        (CreateBMD bmd, ABMD (Inl err))], Returned r) \<and> client_error err = Ret r \<and> r \<noteq> EmptyReply 204"
  using assms by (cases err) (simp_all add: discover_def record_hardware_def client_error_def Let_def)

definition sample_discovery :: BareMetalDiscovery where
  "sample_discovery = (new_discovery ''4c4c'')\<lparr>UID := ''d'', ResourceVersion := ''7''\<rparr>"

definition sample_hardware :: BareMetalDiscoveryHardware where
  "sample_hardware = \<lparr>hw_CPU = \<lparr>cpu_ModelName = [], cpu_Architecture = ''amd64'', cpu_CPUS = ''4''\<rparr>, hw_Ram = ''8Gi'',
     hw_Storage = NilSlice, hw_NICS = NilSlice\<rparr>"

lemma discover_recreates_witness:
  "\<exists>r. run (discover (Inr \<lparr>discover_SystemUUID = ''4c4c'', discover_Hardware = Some sample_hardware\<rparr>))
      [ABMHs (Inr []), ABMDs (Inr [sample_discovery]), ABMD (Inl (StatusError False 409 ''exists''))] =
      ([(hardware_with ''4c4c'', ABMHs (Inr [])), (discovery_with ''4c4c'', ABMDs (Inr [sample_discovery])),
        (CreateBMD sample_discovery, ABMD (Inl (StatusError False 409 ''exists'')))], Returned r) \<and>
    client_error (StatusError False 409 ''exists'') = Ret r \<and> r \<noteq> EmptyReply 204"
  using discover_recreates [of sample_discovery "\<lparr>discover_SystemUUID = ''4c4c'', discover_Hardware = Some sample_hardware\<rparr>"]
  by (simp add: sample_discovery_def new_discovery_def)

end
