(* ===== verification/ObjectSchema.thy ===== *)
theory ObjectSchema
  imports InstanceRuns HardwareSteps WebhookLaws DiscoveryRuns
begin

text \<open>
  The schemas of the custom resources, from the \<^verbatim>\<open>kubebuilder:validation\<close> markers of
  \<^verbatim>\<open>api/v1alpha1\<close> the API server checks every object against, as types of the model's objects; and
  that no reconciler sends an object its schema refuses. Markers that Go's own types enforce
  (required fields that are always serialized) are left out.
\<close>

section \<open>The schemas\<close>

definition BondMode_enum :: "string list" where
  "BondMode_enum = [''balance-rr'', BondModeActiveBackup, ''balance-xor'', ''lacp'', ''broadcast'', ''balance-tlb'', ''balance-alb'']"

definition InstancePhase_enum :: "string list" where
  "InstancePhase_enum = [PhasePending, PhaseProvisioning, ''Imaging'', PhaseRunning, PhaseCleaning, PhaseTerminating, PhaseTerminated]"

text \<open>\<^verbatim>\<open>MinItems=1\<close> on the lists a discovered hardware must have.\<close>

definition schema_hardware :: "BareMetalDiscoveryHardware \<Rightarrow> bool" where
  "schema_hardware hardware \<longleftrightarrow> items (hw_Storage hardware) \<noteq> [] \<and> items (hw_NICS hardware) \<noteq> []"

definition schema_BMD :: "BareMetalDiscovery \<Rightarrow> bool" where
  "schema_BMD bmd \<longleftrightarrow> pred_option schema_hardware (bmd_Hardware (bmd_Status bmd))"

text \<open>
  The mode of a hardware's bond may be left out (\<open>omitted\<close>: a string that is omitted when empty),
  the webhook's default then sets it.
\<close>

definition schema_nic :: "string list \<Rightarrow> BareMetalHardwareNIC \<Rightarrow> bool" where
  "schema_nic omitted nic \<longleftrightarrow>
     pred_option (\<lambda>bond. bond_Interfaces bond \<noteq> [] \<and> bond_Mode bond \<in> set (omitted @ BondMode_enum)) (nic_Bond nic)"

definition schema_BMH :: "string list \<Rightarrow> BareMetalHardware \<Rightarrow> bool" where
  "schema_BMH omitted bmh \<longleftrightarrow> list_all (schema_nic omitted) (bmh_NICS (bmh_Spec bmh)) \<and>
     pred_option schema_hardware (bmh_Hardware (bmh_Status bmh))"

definition schema_BMI :: "BareMetalInstance \<Rightarrow> bool" where
  "schema_BMI bmi \<longleftrightarrow> bmi_Phase (bmi_Status bmi) \<in> set ([] # InstancePhase_enum)"

definition schema_bond :: "BareMetalEndpointBond \<Rightarrow> bool" where
  "schema_bond bond \<longleftrightarrow> items (bme_MACS bond) \<noteq> [] \<and> bme_BondMode bond \<in> set BondMode_enum"

definition schema_address :: "BareMetalEndpointStatusAddress \<Rightarrow> bool" where
  "schema_address a \<longleftrightarrow> items (addr_Nameservers a) \<noteq> []"

definition schema_BME :: "BareMetalEndpoint \<Rightarrow> bool" where
  "schema_BME bme \<longleftrightarrow> pred_option schema_bond (bme_Bond (bme_Spec bme)) \<and>
     pred_option schema_address (bme_Address (bme_Status bme))"

definition schema_BMN :: "BareMetalNetwork \<Rightarrow> bool" where
  "schema_BMN bmn \<longleftrightarrow> items (bmn_Nameservers (bmn_Spec bmn)) \<noteq> []"

section \<open>Typed answers and typed writes\<close>

text \<open>A stored hardware has been through the webhook's default, so its bonds have a mode.\<close>

fun typed_answer :: "answer \<Rightarrow> bool" where
  "typed_answer (ABMI (Inr bmi)) = schema_BMI bmi"
| "typed_answer (ABMH (Inr bmh)) = schema_BMH [] bmh"
| "typed_answer (ABME (Inr bme)) = schema_BME bme"
| "typed_answer (ABMN (Inr bmn)) = schema_BMN bmn"
| "typed_answer (ABMD (Inr bmd)) = schema_BMD bmd"
| "typed_answer (ABMIs (Inr bmis)) = list_all schema_BMI bmis"
| "typed_answer (ABMHs (Inr bmhs)) = list_all (schema_BMH []) bmhs"
| "typed_answer (ABMEs (Inr bmes)) = list_all schema_BME bmes"
| "typed_answer (ABMDs (Inr bmds)) = list_all schema_BMD bmds"
| "typed_answer _ = True"

fun typed_write :: "call \<Rightarrow> bool" where
  "typed_write (UpdateBMI bmi) = schema_BMI bmi"
| "typed_write (StatusUpdateBMI bmi) = schema_BMI bmi"
| "typed_write (UpdateBMH bmh) = schema_BMH [] bmh"
| "typed_write (StatusUpdateBMH bmh) = schema_BMH [] bmh"
| "typed_write (UpdateBME bme) = schema_BME bme"
| "typed_write (StatusUpdateBME bme) = schema_BME bme"
| "typed_write (CreateBME bme) = schema_BME bme"
| "typed_write (UpdateBMN bmn) = schema_BMN bmn"
| "typed_write (CreateBMD bmd) = schema_BMD bmd"
| "typed_write (StatusUpdateBMD bmd) = schema_BMD bmd"
| "typed_write _ = True"

text \<open>A tree is well typed if typed answers only ever lead it to typed writes.\<close>

definition typed_history :: "history \<Rightarrow> bool" where
  "typed_history h \<longleftrightarrow> list_all (\<lambda>(c, a). typed_answer a) h"

definition well_typed :: "'r prog \<Rightarrow> bool" where
  "well_typed p \<longleftrightarrow> always (\<lambda>h c. typed_history h \<longrightarrow> typed_write c) [] p"

lemma typed_history_simps [simp]:
  "typed_history []" "typed_history ((c, a) # h) \<longleftrightarrow> typed_answer a \<and> typed_history h"
  "typed_history (h @ h') \<longleftrightarrow> typed_history h \<and> typed_history h'"
  by (simp_all add: typed_history_def)

lemma typed_historyD: "typed_history h \<Longrightarrow> (c, a) \<in> set h \<Longrightarrow> typed_answer a"
  by (auto simp: typed_history_def list_all_iff)

lemma untyped_writes: "\<not> is_write c \<Longrightarrow> typed_write c"
  by (cases c) auto

lemma well_typedI:
  assumes "always P [] p" and "\<And>h c. P h c \<Longrightarrow> typed_history h \<Longrightarrow> is_write c \<Longrightarrow> typed_write c"
  shows "well_typed p"
  unfolding well_typed_def by (rule always_mono [OF assms(1)]) (use assms(2) untyped_writes in blast)

lemma RemoveFinalizer_fields [simp]:
  "bmi_Status (RemoveFinalizer bmi f) = bmi_Status bmi" "bmn_Spec (RemoveFinalizer bmn f) = bmn_Spec bmn"
  "bme_Spec (RemoveFinalizer bme f) = bme_Spec bme" "bme_Status (RemoveFinalizer bme f) = bme_Status bme"
  "bmh_Spec (RemoveFinalizer bmh f) = bmh_Spec bmh" "bmh_Status (RemoveFinalizer bmh f) = bmh_Status bmh"
  by (simp_all add: RemoveFinalizer_def)

section \<open>The reconcilers\<close>

lemma endpoint_controller_typed: "well_typed (EndpointController_Reconcile req)"
  by (rule well_typedI [OF endpoint_controller_always]) (auto simp: endpoint_controller_write_def schema_BME_def)

lemma instance_controller_typed: "well_typed (InstanceController_Reconcile req)"
  by (rule well_typedI [OF instance_controller_always])
    (auto simp: instance_controller_write_def schema_BMI_def InstancePhase_enum_def)

lemma phases_typed: "PhaseTerminated \<in> set InstancePhase_enum" "PhaseProvisioning \<in> set InstancePhase_enum"
  "PhaseTerminating \<in> set InstancePhase_enum" "PhaseCleaning \<in> set InstancePhase_enum" "PhaseRunning \<in> set InstancePhase_enum"
  by (simp_all add: InstancePhase_enum_def)

lemma scheduler_step_phase:
  "scheduler_step d st st' \<Longrightarrow> bmi_Phase st' = bmi_Phase st \<or> bmi_Phase st' \<in> set InstancePhase_enum"
  by (erule scheduler_stepE) (auto simp: phases_typed dest: SetCondition_fields)

lemma provisioner_step_phase:
  "provisioner_step d st st' \<Longrightarrow> bmi_Phase st' = bmi_Phase st \<or> bmi_Phase st' \<in> set InstancePhase_enum"
  by (erule provisioner_stepE) (auto simp: phases_typed dest: SetCondition_fields)

lemma scheduler_typed: "well_typed (Scheduler_Reconcile matches tolerates req)"
  by (rule well_typedI [OF scheduler_always])
    (auto simp: scheduler_contract_def schema_BMI_def dest!: scheduler_step_phase)

lemma network_typed: "well_typed (Network_Reconcile req)"
proof (rule well_typedI [OF network_always])
  fix h c
  assume c: "network_controller_step req h c" "typed_history h" "is_write c"
  then obtain bme st h' where h: "h = (GetBME req, ABME (Inr bme)) # h'" "c = StatusUpdateBME (bme\<lparr>bme_Status := st\<rparr>)"
    and st: "bme_Address st = bme_Address (bme_Status bme) \<or> bme_Address st = None \<or>
      allocated_under_lock h (bme\<lparr>bme_Status := st\<rparr>)"
    by (auto simp: network_controller_step_def)
  have "pred_option schema_address (bme_Address st)" if "allocated_under_lock h (bme\<lparr>bme_Status := st\<rparr>)"
    using that c(2)
    by (auto simp: allocated_under_lock_def schema_BMN_def schema_address_def dest!: arg_cong [of _ _ bme_Status])
  then show "typed_write c" using st c(2) h by (auto simp: schema_BME_def)
qed


lemma network_controller_typed: "well_typed (BareMetalNetworkReconciler_Reconcile req)"
  by (rule well_typedI [OF network_controller_always]) (auto simp: network_controller_write_def schema_BMN_def)

lemma discovery_controller_typed: "well_typed (BareMetalDiscoveryReconciler_Reconcile req)"
  by (simp add: well_typed_def BareMetalDiscoveryReconciler_Reconcile_def)

text \<open>The endpoint of a nic: its bond has the nic's mode and at least one MAC.\<close>

lemma endpoint_for_typed:
  assumes "endpoint_for bmi bmh nic = Endpoint bme" and "schema_nic [] nic"
  shows "schema_BME bme"
  using assms
  by (auto simp: endpoint_for_def schema_BME_def schema_bond_def schema_nic_def option.pred_map
      split: option.splits list.splits elim!: option.pred_mono_strong)

lemma provisioner_typed: "well_typed (Provisioner_Reconcile json_error req)"
proof (rule well_typedI [OF provisioner_always])
  fix h c
  assume c: "provisioner_contract req h c" "typed_history h" "is_write c"
  then obtain bmi where bmi: "reading req bmi h" "provisioner_write h bmi c" by (auto simp: provisioner_contract_def)
  have bmh: "schema_BMH [] bmh" if "hardware_read h bmi bmh" for bmh
    using typed_historyD [OF c(2)] that by (fastforce simp: hardware_read_def)
  have "schema_BMI bmi" using bmi(1) c(2) by (auto simp: reading_def)
  with bmi(2) bmh c(3) show "typed_write c"
    by (cases c) (auto simp: provisioner_write_def schema_BMI_def schema_BMH_def claims_def releases_def endpoint_missing_def
        list_all_iff dest!: provisioner_step_phase intro: endpoint_for_typed)
qed

lemma SetCondition_hardware_fields:
  assumes "SetCondition st c = Inr (st' :: BareMetalHardwareStatus)"
  shows "bmh_Hardware st' = bmh_Hardware st"
  using assms by (auto simp: SetCondition_def split: if_splits)

lemma hardware_step_nics: "hardware_step bmh b \<Longrightarrow> bmh_NICS (bmh_Spec b) = bmh_NICS (bmh_Spec bmh)"
  by (erule hardware_step.cases) (auto simp: set_taints_def)

lemma hardware_typed: "well_typed (BareMetalHardwareReconciler_Reconcile req)"
proof (rule well_typedI [OF hardware_always])
  fix h c
  assume c: "hardware_contract req h c" "typed_history h" "is_write c"
  then obtain bmh where read: "reading_hardware req bmh h"
    and cases: "if IsZero (DeletionTimestamp bmh) then hardware_write h bmh c else teardown_write h bmh c"
    by (auto simp: hardware_contract_def)
  have bmh: "schema_BMH [] bmh" using read c(2) by (auto simp: reading_hardware_def)
  have disc: "pred_option schema_hardware hw" if "discovered h bmh hw" for hw
    using typed_historyD [OF c(2)] that by (fastforce simp: discovered_def schema_BMD_def)
  show "typed_write c"
  proof (cases "IsZero (DeletionTimestamp bmh)")
    case True
    with cases obtain b where b: "hardware_step bmh b" "c = UpdateBMH b \<or> c = StatusUpdateBMH b"
      and hw: "bmh_Hardware (bmh_Status b) = bmh_Hardware (bmh_Status bmh) \<or> discovered h bmh (bmh_Hardware (bmh_Status b))"
      by (auto simp: hardware_write_def)
    then show ?thesis using bmh disc hardware_step_nics [OF b(1)] by (auto simp: schema_BMH_def)
  next
    case False
    with cases bmh show ?thesis
      by (auto simp: teardown_write_def schema_BMH_def set_taints_def drop_ref_def split: if_splits)
  qed
qed

lemma ready_typed: "well_typed (ready bound)"
proof (cases bound)
  case (Inl err)
  then show ?thesis by (simp add: ready_def well_typed_def)
next
  case (Inr input)
  have "well_typed (ready (Inr input))"
    by (rule well_typedI [OF ready_always])
      (auto simp: ready_contract_def found_instance_def ready_update_def schema_BMI_def)
  with Inr show ?thesis by simp
qed

text \<open>The webhook's default turns the schema of what users send into that of what is stored.\<close>

lemma default_modes_typed: "list_all (schema_nic []) (default_modes nics) = list_all (schema_nic [[]]) nics"
  by (induction nics) (auto simp: schema_nic_def BondMode_enum_def consts_simps split: option.splits)

lemma BMH_Default_typed:
  "IsZero (DeletionTimestamp bmh) \<Longrightarrow> schema_BMH [] (BMH_Default bmh) = schema_BMH [[]] bmh"
  by (simp add: BMH_Default_def schema_BMH_def default_modes_typed add_finalizer_fields Let_def)

section \<open>Properties\<close>


end
