(* ===== verification/Reports.thy ===== *)
theory Reports
  imports Agent DiscoveryRuns
begin

text \<open>
  The two reports a booted agent sends to the discovery server, its hardware and its address:
  how \<^verbatim>\<open>pkg/agent\<close> writes them as JSON and how the handlers of \<^verbatim>\<open>pkg/discovery/server.go\<close> bind
  them. A decoder takes the value a field has so far, since Go decodes into it: a \<^verbatim>\<open>null\<close> leaves
  a text or a struct alone, and a member that occurs twice is decoded twice.
\<close>

section \<open>Decoders\<close>

fun json_field :: "string \<Rightarrow> (json \<Rightarrow> 'a \<Rightarrow> 'a option) \<Rightarrow> (string \<times> json) list \<Rightarrow> 'a \<Rightarrow> 'a option" where
  "json_field name dec [] cur = Some cur"
| "json_field name dec ((k, v) # ms) cur =
     (if json_key_eq name k then
        (case dec v cur of None \<Rightarrow> None | Some x \<Rightarrow> json_field name dec ms x)
      else json_field name dec ms cur)"

definition dec_string :: "json \<Rightarrow> string \<Rightarrow> string option" where
  "dec_string v cur = (case v of JString s \<Rightarrow> Some s | JNull \<Rightarrow> Some cur | _ \<Rightarrow> None)"

definition dec_bool :: "json \<Rightarrow> bool \<Rightarrow> bool option" where
  "dec_bool v cur = (case v of JBool b \<Rightarrow> Some b | JNull \<Rightarrow> Some cur | _ \<Rightarrow> None)"

text \<open>
  A slice is decoded into the elements it has, and is nil after a \<^verbatim>\<open>null\<close>. (Elements beyond
  its length that its memory may still hold from a third occurrence are not modelled.)
\<close>

fun dec_elems :: "(json \<Rightarrow> 'a \<Rightarrow> 'a option) \<Rightarrow> 'a \<Rightarrow> json list \<Rightarrow> 'a list \<Rightarrow> 'a list option" where
  "dec_elems dec zero [] cur = Some []"
| "dec_elems dec zero (j # js) cur =
     (case dec j (case cur of [] \<Rightarrow> zero | c # _ \<Rightarrow> c) of
        None \<Rightarrow> None
      | Some x \<Rightarrow> map_option (\<lambda>xs. x # xs) (dec_elems dec zero js (tl cur)))"

definition dec_slice :: "(json \<Rightarrow> 'a \<Rightarrow> 'a option) \<Rightarrow> 'a \<Rightarrow> json \<Rightarrow> 'a slice \<Rightarrow> 'a slice option" where
  "dec_slice dec zero v cur = (case v of
     JNull \<Rightarrow> Some NilSlice
   | JArray js \<Rightarrow> map_option Slice (dec_elems dec zero js (items cur))
   | _ \<Rightarrow> None)"

definition dec_pointer :: "(json \<Rightarrow> 'a \<Rightarrow> 'a option) \<Rightarrow> 'a \<Rightarrow> json \<Rightarrow> 'a option \<Rightarrow> 'a option option" where
  "dec_pointer dec zero v cur = (case v of
     JNull \<Rightarrow> Some None
   | _ \<Rightarrow> map_option Some (dec v (case cur of None \<Rightarrow> zero | Some x \<Rightarrow> x)))"

definition enc_slice :: "('a \<Rightarrow> json) \<Rightarrow> 'a slice \<Rightarrow> json" where
  "enc_slice enc xs = (case xs of NilSlice \<Rightarrow> JNull | Slice ys \<Rightarrow> JArray (map enc ys))"

section \<open>The types\<close>

text \<open>
  How a quantity is read, \<open>unq\<close>, is Kubernetes' to say; it is written as the JSON string of its
  serialised text, which is \<^verbatim>\<open>0\<close> for the zero value.
\<close>

type_synonym quantity_reader = "json \<Rightarrow> Quantity option"

definition zero_quantity :: Quantity where
  "zero_quantity = ''0''"

definition dec_quantity :: "quantity_reader \<Rightarrow> json \<Rightarrow> Quantity \<Rightarrow> Quantity option" where
  "dec_quantity unq v cur = unq v"

definition marshal_CPU :: "BareMetalDiscoveryHardwareCPU \<Rightarrow> json" where
  "marshal_CPU c = JObject [(''modelName'', JString (cpu_ModelName c)),
     (''architecture'', JString (cpu_Architecture c)), (''cpus'', JString (cpu_CPUS c))]"

definition zero_CPU :: BareMetalDiscoveryHardwareCPU where
  "zero_CPU = \<lparr>cpu_ModelName = [], cpu_Architecture = [], cpu_CPUS = zero_quantity\<rparr>"

definition unmarshal_CPU ::
  "quantity_reader \<Rightarrow> json \<Rightarrow> BareMetalDiscoveryHardwareCPU \<Rightarrow> BareMetalDiscoveryHardwareCPU option" where
  "unmarshal_CPU unq v cur = (case v of
     JNull \<Rightarrow> Some cur
   | JObject ms \<Rightarrow>
       (case (json_field ''modelName'' dec_string ms (cpu_ModelName cur),
              json_field ''architecture'' dec_string ms (cpu_Architecture cur),
              json_field ''cpus'' (dec_quantity unq) ms (cpu_CPUS cur)) of
          (Some m, Some a, Some c) \<Rightarrow> Some \<lparr>cpu_ModelName = m, cpu_Architecture = a, cpu_CPUS = c\<rparr>
        | _ \<Rightarrow> None)
   | _ \<Rightarrow> None)"

definition marshal_Storage :: "BareMetalDiscoveryHardwareStorage \<Rightarrow> json" where
  "marshal_Storage s = JObject [(''name'', JString (storage_Name s)), (''size'', JString (storage_Size s)),
     (''rotational'', JBool (storage_Rotational s)), (''trim'', JBool (storage_Trim s)),
     (''serial'', JString (storage_Serial s))]"

definition zero_Storage :: BareMetalDiscoveryHardwareStorage where
  "zero_Storage = \<lparr>storage_Name = [], storage_Size = zero_quantity, storage_Rotational = False,
     storage_Trim = False, storage_Serial = []\<rparr>"

definition unmarshal_Storage ::
  "quantity_reader \<Rightarrow> json \<Rightarrow> BareMetalDiscoveryHardwareStorage \<Rightarrow> BareMetalDiscoveryHardwareStorage option" where
  "unmarshal_Storage unq v cur = (case v of
     JNull \<Rightarrow> Some cur
   | JObject ms \<Rightarrow>
       (case (json_field ''name'' dec_string ms (storage_Name cur),
              json_field ''size'' (dec_quantity unq) ms (storage_Size cur),
              json_field ''rotational'' dec_bool ms (storage_Rotational cur),
              json_field ''trim'' dec_bool ms (storage_Trim cur),
              json_field ''serial'' dec_string ms (storage_Serial cur)) of
          (Some n, Some s, Some r, Some t, Some i) \<Rightarrow>
            Some \<lparr>storage_Name = n, storage_Size = s, storage_Rotational = r, storage_Trim = t, storage_Serial = i\<rparr>
        | _ \<Rightarrow> None)
   | _ \<Rightarrow> None)"

definition marshal_NIC :: "BareMetalDiscoveryHardwareNIC \<Rightarrow> json" where
  "marshal_NIC n = JObject [(''name'', JString (hwnic_Name n)), (''mac'', JString (hwnic_MAC n)),
     (''speed'', JString (hwnic_Speed n))]"

definition zero_NIC :: BareMetalDiscoveryHardwareNIC where
  "zero_NIC = \<lparr>hwnic_Name = [], hwnic_MAC = [], hwnic_Speed = zero_quantity\<rparr>"

definition unmarshal_NIC ::
  "quantity_reader \<Rightarrow> json \<Rightarrow> BareMetalDiscoveryHardwareNIC \<Rightarrow> BareMetalDiscoveryHardwareNIC option" where
  "unmarshal_NIC unq v cur = (case v of
     JNull \<Rightarrow> Some cur
   | JObject ms \<Rightarrow>
       (case (json_field ''name'' dec_string ms (hwnic_Name cur),
              json_field ''mac'' dec_string ms (hwnic_MAC cur),
              json_field ''speed'' (dec_quantity unq) ms (hwnic_Speed cur)) of
          (Some n, Some m, Some s) \<Rightarrow> Some \<lparr>hwnic_Name = n, hwnic_MAC = m, hwnic_Speed = s\<rparr>
        | _ \<Rightarrow> None)
   | _ \<Rightarrow> None)"

definition marshal_Hardware :: "BareMetalDiscoveryHardware \<Rightarrow> json" where
  "marshal_Hardware hw = JObject [(''cpu'', marshal_CPU (hw_CPU hw)), (''ram'', JString (hw_Ram hw)),
     (''storage'', enc_slice marshal_Storage (hw_Storage hw)), (''nics'', enc_slice marshal_NIC (hw_NICS hw))]"

definition zero_Hardware :: BareMetalDiscoveryHardware where
  "zero_Hardware = \<lparr>hw_CPU = zero_CPU, hw_Ram = zero_quantity, hw_Storage = NilSlice, hw_NICS = NilSlice\<rparr>"

definition unmarshal_Hardware ::
  "quantity_reader \<Rightarrow> json \<Rightarrow> BareMetalDiscoveryHardware \<Rightarrow> BareMetalDiscoveryHardware option" where
  "unmarshal_Hardware unq v cur = (case v of
     JNull \<Rightarrow> Some cur
   | JObject ms \<Rightarrow>
       (case (json_field ''cpu'' (unmarshal_CPU unq) ms (hw_CPU cur),
              json_field ''ram'' (dec_quantity unq) ms (hw_Ram cur),
              json_field ''storage'' (dec_slice (unmarshal_Storage unq) zero_Storage) ms (hw_Storage cur),
              json_field ''nics'' (dec_slice (unmarshal_NIC unq) zero_NIC) ms (hw_NICS cur)) of
          (Some c, Some r, Some s, Some n) \<Rightarrow> Some \<lparr>hw_CPU = c, hw_Ram = r, hw_Storage = s, hw_NICS = n\<rparr>
        | _ \<Rightarrow> None)
   | _ \<Rightarrow> None)"

section \<open>The reports\<close>

text \<open>The agent's struct and, with the same tags, the server's \<^verbatim>\<open>discoverInput\<close>.\<close>

record discoveryHardware =
  dh_SystemUUID :: string
  dh_Hardware :: "BareMetalDiscoveryHardware option"

definition marshal_discoveryHardware :: "discoveryHardware \<Rightarrow> json" where
  "marshal_discoveryHardware d = JObject ((''systemUUID'', JString (dh_SystemUUID d)) #
     (case dh_Hardware d of None \<Rightarrow> [] | Some hw \<Rightarrow> [(''hardware'', marshal_Hardware hw)]))"

text \<open>gin's \<^verbatim>\<open>ShouldBindJSON\<close>: the first value of the body.\<close>

definition bind_discoverInput :: "quantity_reader \<Rightarrow> string \<Rightarrow> discoverInput option" where
  "bind_discoverInput unq body = (case json_value (2 * length body + 2) body of
     Some (JNull, _) \<Rightarrow> Some \<lparr>discover_SystemUUID = [], discover_Hardware = None\<rparr>
   | Some (JObject ms, _) \<Rightarrow>
       (case (json_field ''systemUUID'' dec_string ms [],
              json_field ''hardware'' (dec_pointer (unmarshal_Hardware unq) zero_Hardware) ms None) of
          (Some u, Some hw) \<Rightarrow> Some \<lparr>discover_SystemUUID = u, discover_Hardware = hw\<rparr>
        | _ \<Rightarrow> None)
   | _ \<Rightarrow> None)"

definition marshal_readyInput :: "readyInput \<Rightarrow> json" where
  "marshal_readyInput r = JObject [(''systemUUID'', JString (ready_SystemUUID r)), (''ip'', JString (ready_IP r))]"

definition bind_readyInput :: "string \<Rightarrow> readyInput option" where
  "bind_readyInput body = (case json_value (2 * length body + 2) body of
     Some (JNull, _) \<Rightarrow> Some \<lparr>ready_SystemUUID = [], ready_IP = []\<rparr>
   | Some (JObject ms, _) \<Rightarrow>
       (case (json_field ''systemUUID'' dec_string ms [], json_field ''ip'' dec_string ms []) of
          (Some u, Some i) \<Rightarrow> Some \<lparr>ready_SystemUUID = u, ready_IP = i\<rparr>
        | _ \<Rightarrow> None)
   | _ \<Rightarrow> None)"

text \<open>
  The handlers with the decoding in front, the whole of \<^verbatim>\<open>discover\<close> and \<^verbatim>\<open>ready\<close>; \<open>bind_error\<close> is
  the text of the decoder's error.
\<close>

definition bind_result :: "(string \<Rightarrow> string) \<Rightarrow> (string \<Rightarrow> 'a option) \<Rightarrow> string \<Rightarrow> string + 'a" where
  "bind_result bind_error bind body = (case bind body of None \<Rightarrow> Inl (bind_error body) | Some input \<Rightarrow> Inr input)"

definition server_discover :: "quantity_reader \<Rightarrow> (string \<Rightarrow> string) \<Rightarrow> string \<Rightarrow> http_response prog" where
  "server_discover unq bind_error body = discover (bind_result bind_error (bind_discoverInput unq) body)"

definition server_ready :: "(string \<Rightarrow> string) \<Rightarrow> string \<Rightarrow> http_response prog" where
  "server_ready bind_error body = ready (bind_result bind_error bind_readyInput body)"

section \<open>What is written is read back\<close>

text \<open>
  What an encoder and a decoder owe each other: of the values \<open>ok\<close> holds of, what was printed and
  parsed is decoded to the value's clean form, whatever the field held before.
\<close>

locale json_codec =
  fixes enc :: "'a \<Rightarrow> json" and dec :: "json \<Rightarrow> 'a \<Rightarrow> 'a option"
    and clean :: "'a \<Rightarrow> 'a" and ok :: "'a \<Rightarrow> bool"
  assumes enc_ok: "ok x \<Longrightarrow> json_ok (enc x)"
    and dec_enc: "ok x \<Longrightarrow> dec (json_clean (enc x)) cur = Some (clean x)"
begin

lemma enc_oks: "\<forall>x \<in> set xs. ok x \<Longrightarrow> json_oks (map enc xs)"
  by (induction xs) (simp_all add: enc_ok)

lemma dec_elems_enc:
  "\<forall>x \<in> set xs. ok x \<Longrightarrow> dec_elems dec zero (json_cleans (map enc xs)) cur = Some (map clean xs)"
  by (induction xs arbitrary: cur) (simp_all add: dec_enc)

lemma slice_codec:
  "json_codec (enc_slice enc) (dec_slice dec zero) (map_slice clean) (\<lambda>xs. \<forall>x \<in> set (items xs). ok x)"
proof
  fix xs cur assume ok: "\<forall>x \<in> set (items xs). ok x"
  then show "json_ok (enc_slice enc xs)"
    by (cases xs) (simp_all add: enc_slice_def enc_oks)
  show "dec_slice dec zero (json_clean (enc_slice enc xs)) cur = Some (map_slice clean xs)"
    using ok by (cases xs) (simp_all add: enc_slice_def dec_slice_def dec_elems_enc)
qed

lemma field:
  "json_key_eq name k \<Longrightarrow> ok x \<Longrightarrow>
     json_field name dec ((k, json_clean (enc x)) # ms) cur = json_field name dec ms (clean x)"
  by (simp add: dec_enc)

end

text \<open>A quantity that is plain text and is read as it was written.\<close>

definition reads :: "quantity_reader \<Rightarrow> Quantity \<Rightarrow> bool" where
  "reads unq q \<longleftrightarrow> utf8_text q = q \<and> unq (JString q) = Some q"

interpretation string_codec: json_codec JString dec_string utf8_text "\<lambda>s. True"
  by unfold_locales (simp_all add: dec_string_def)

interpretation bool_codec: json_codec JBool dec_bool "\<lambda>b. b" "\<lambda>b. True"
  by unfold_locales (simp_all add: dec_bool_def)

interpretation quantity_codec: json_codec JString "dec_quantity unq" "\<lambda>q. q" "reads unq" for unq
  by unfold_locales (simp_all add: dec_quantity_def reads_def)

lemmas text_codecs = string_codec.dec_enc [simplified] bool_codec.dec_enc [simplified]

lemma ascii_names [simp]:
  "utf8_text ''modelName'' = ''modelName''" "utf8_text ''architecture'' = ''architecture''" "utf8_text ''cpus'' = ''cpus''"
  "utf8_text ''name'' = ''name''" "utf8_text ''size'' = ''size''" "utf8_text ''rotational'' = ''rotational''"
  "utf8_text ''trim'' = ''trim''" "utf8_text ''serial'' = ''serial''" "utf8_text ''mac'' = ''mac''"
  "utf8_text ''speed'' = ''speed''" "utf8_text ''cpu'' = ''cpu''" "utf8_text ''ram'' = ''ram''"
  "utf8_text ''storage'' = ''storage''" "utf8_text ''nics'' = ''nics''" "utf8_text ''systemUUID'' = ''systemUUID''"
  "utf8_text ''hardware'' = ''hardware''" "utf8_text ''ip'' = ''ip''"
  by (simp_all add: utf8_text_ascii)

text \<open>Two names that do not have the same length are different, whatever the case.\<close>

lemma json_key_eq_length: "length name \<noteq> length k \<Longrightarrow> \<not> json_key_eq name k"
  by (auto simp: json_key_eq_def dest: map_eq_imp_length_eq)

lemma report_keys [simp]:
  "\<not> json_key_eq ''name'' ''size''" "\<not> json_key_eq ''size'' ''name''"
  "\<not> json_key_eq ''name'' ''trim''" "\<not> json_key_eq ''trim'' ''name''"
  "\<not> json_key_eq ''size'' ''trim''" "\<not> json_key_eq ''trim'' ''size''"
  "\<not> json_key_eq ''cpu'' ''ram''" "\<not> json_key_eq ''ram'' ''cpu''"
  by (simp_all add: json_key_eq_def ascii_lower_def)

definition clean_CPU :: "BareMetalDiscoveryHardwareCPU \<Rightarrow> BareMetalDiscoveryHardwareCPU" where
  "clean_CPU c = c\<lparr>cpu_ModelName := utf8_text (cpu_ModelName c), cpu_Architecture := utf8_text (cpu_Architecture c)\<rparr>"

definition clean_Storage :: "BareMetalDiscoveryHardwareStorage \<Rightarrow> BareMetalDiscoveryHardwareStorage" where
  "clean_Storage s = s\<lparr>storage_Name := utf8_text (storage_Name s), storage_Serial := utf8_text (storage_Serial s)\<rparr>"

definition clean_NIC :: "BareMetalDiscoveryHardwareNIC \<Rightarrow> BareMetalDiscoveryHardwareNIC" where
  "clean_NIC n = n\<lparr>hwnic_Name := utf8_text (hwnic_Name n), hwnic_MAC := utf8_text (hwnic_MAC n)\<rparr>"

interpretation CPU_codec: json_codec marshal_CPU "unmarshal_CPU unq" clean_CPU "\<lambda>c. reads unq (cpu_CPUS c)" for unq
proof
  fix c :: BareMetalDiscoveryHardwareCPU and cur assume "reads unq (cpu_CPUS c)"
  then show "unmarshal_CPU unq (json_clean (marshal_CPU c)) cur = Some (clean_CPU c)"
    by (cases c) (simp add: marshal_CPU_def unmarshal_CPU_def clean_CPU_def json_key_eq_length
        text_codecs quantity_codec.dec_enc [simplified])
qed (simp add: marshal_CPU_def)

interpretation Storage_codec:
  json_codec marshal_Storage "unmarshal_Storage unq" clean_Storage "\<lambda>s. reads unq (storage_Size s)" for unq
proof
  fix s :: BareMetalDiscoveryHardwareStorage and cur assume "reads unq (storage_Size s)"
  then show "unmarshal_Storage unq (json_clean (marshal_Storage s)) cur = Some (clean_Storage s)"
    by (cases s) (simp add: marshal_Storage_def unmarshal_Storage_def clean_Storage_def json_key_eq_length
        text_codecs quantity_codec.dec_enc [simplified])
qed (simp add: marshal_Storage_def)

interpretation NIC_codec: json_codec marshal_NIC "unmarshal_NIC unq" clean_NIC "\<lambda>n. reads unq (hwnic_Speed n)" for unq
proof
  fix n :: BareMetalDiscoveryHardwareNIC and cur assume "reads unq (hwnic_Speed n)"
  then show "unmarshal_NIC unq (json_clean (marshal_NIC n)) cur = Some (clean_NIC n)"
    by (cases n) (simp add: marshal_NIC_def unmarshal_NIC_def clean_NIC_def json_key_eq_length
        text_codecs quantity_codec.dec_enc [simplified])
qed (simp add: marshal_NIC_def)

interpretation Storages_codec: json_codec "enc_slice marshal_Storage" "dec_slice (unmarshal_Storage unq) zero_Storage"
  "map_slice clean_Storage" "\<lambda>xs. \<forall>s \<in> set (items xs). reads unq (storage_Size s)" for unq
  by (rule Storage_codec.slice_codec)

interpretation NICs_codec: json_codec "enc_slice marshal_NIC" "dec_slice (unmarshal_NIC unq) zero_NIC"
  "map_slice clean_NIC" "\<lambda>xs. \<forall>n \<in> set (items xs). reads unq (hwnic_Speed n)" for unq
  by (rule NIC_codec.slice_codec)

text \<open>Every quantity of the hardware is read as it was written.\<close>

definition readable :: "quantity_reader \<Rightarrow> BareMetalDiscoveryHardware \<Rightarrow> bool" where
  "readable unq hw \<longleftrightarrow> reads unq (cpu_CPUS (hw_CPU hw)) \<and> reads unq (hw_Ram hw) \<and>
     (\<forall>s \<in> set (items (hw_Storage hw)). reads unq (storage_Size s)) \<and>
     (\<forall>n \<in> set (items (hw_NICS hw)). reads unq (hwnic_Speed n))"

definition clean_Hardware :: "BareMetalDiscoveryHardware \<Rightarrow> BareMetalDiscoveryHardware" where
  "clean_Hardware hw = \<lparr>hw_CPU = clean_CPU (hw_CPU hw), hw_Ram = hw_Ram hw,
     hw_Storage = map_slice clean_Storage (hw_Storage hw), hw_NICS = map_slice clean_NIC (hw_NICS hw)\<rparr>"

interpretation Hardware_codec: json_codec marshal_Hardware "unmarshal_Hardware unq" clean_Hardware "readable unq" for unq
proof
  fix hw cur assume ok: "readable unq hw"
  then show "json_ok (marshal_Hardware hw)"
    using Storages_codec.enc_ok [of "hw_Storage hw" unq] NICs_codec.enc_ok [of "hw_NICS hw" unq] CPU_codec.enc_ok [of unq "hw_CPU hw"]
    by (simp add: marshal_Hardware_def readable_def)
  show "unmarshal_Hardware unq (json_clean (marshal_Hardware hw)) cur = Some (clean_Hardware hw)"
    using ok by (cases hw) (simp add: marshal_Hardware_def unmarshal_Hardware_def clean_Hardware_def readable_def
        json_key_eq_length CPU_codec.dec_enc Storages_codec.dec_enc NICs_codec.dec_enc quantity_codec.dec_enc [simplified])
qed

lemma json_value_print:
  assumes "json_ok j"
  shows "json_value (2 * length (json_print j) + 2) (json_print j) = Some (json_clean j, [])"
  using json_read(1) [OF assms, of "2 * length (json_print j) + 2" "[]"] by (simp add: json_end_def)

lemma ready_report_bound:
  "bind_readyInput (json_print (marshal_readyInput r)) =
     Some \<lparr>ready_SystemUUID = utf8_text (ready_SystemUUID r), ready_IP = utf8_text (ready_IP r)\<rparr>"
  using json_value_print [of "marshal_readyInput r"]
  by (simp add: bind_readyInput_def marshal_readyInput_def json_key_eq_length text_codecs)

lemma marshal_Hardware_object: "\<exists>ms. marshal_Hardware hw = JObject ms"
  by (simp add: marshal_Hardware_def)

lemma dec_pointer_clean:
  "readable unq hw \<Longrightarrow>
     dec_pointer (unmarshal_Hardware unq) zero_Hardware (json_clean (marshal_Hardware hw)) cur = Some (Some (clean_Hardware hw))"
  using marshal_Hardware_object [of hw] Hardware_codec.dec_enc [of unq hw] by (auto simp: dec_pointer_def)

lemma discover_report_bound:
  assumes "\<And>hw. dh_Hardware d = Some hw \<Longrightarrow> readable unq hw"
  shows "bind_discoverInput unq (json_print (marshal_discoveryHardware d)) =
     Some \<lparr>discover_SystemUUID = utf8_text (dh_SystemUUID d), discover_Hardware = map_option clean_Hardware (dh_Hardware d)\<rparr>"
proof (cases "dh_Hardware d")
  case None
  then show ?thesis
    using json_value_print [of "marshal_discoveryHardware d"]
    by (simp add: bind_discoverInput_def marshal_discoveryHardware_def json_key_eq_length text_codecs)
next
  case (Some hw)
  with assms have hw: "readable unq hw" by simp
  then have "json_ok (marshal_discoveryHardware d)"
    using Some Hardware_codec.enc_ok [OF hw] by (simp add: marshal_discoveryHardware_def)
  from json_value_print [OF this] show ?thesis
    using Some by (simp add: bind_discoverInput_def marshal_discoveryHardware_def json_key_eq_length text_codecs
        dec_pointer_clean [OF hw])
qed

text \<open>So the server writes what the agent reported, or nothing.\<close>

lemma discover_report_recorded:
  assumes "\<And>hw. dh_Hardware d = Some hw \<Longrightarrow> readable unq hw"
  shows "always (discover_contract \<lparr>discover_SystemUUID = utf8_text (dh_SystemUUID d),
      discover_Hardware = map_option clean_Hardware (dh_Hardware d)\<rparr>) []
    (server_discover unq bind_error (json_print (marshal_discoveryHardware d)))"
  using discover_report_bound [OF assms] discover_always by (simp add: server_discover_def bind_result_def)

lemma ready_report_recorded:
  "always (ready_contract \<lparr>ready_SystemUUID = utf8_text (ready_SystemUUID r), ready_IP = utf8_text (ready_IP r)\<rparr>) []
    (server_ready bind_error (json_print (marshal_readyInput r)))"
  by (simp add: server_ready_def bind_result_def ready_report_bound ready_always)

end
