(* ===== verification/AgentProbe.thy ===== *)
theory AgentProbe
  imports Reports
begin

text \<open>
  The probe of the hardware, \<^verbatim>\<open>pkg/agent/hardware.go\<close>: what a booted machine says it is made of.
  What the operating system answers is a call; how a text is read as a quantity is Kubernetes'
  to say, the parameter \<open>parse\<close>, which gives the quantity's serialised text.
\<close>

section \<open>Texts\<close>

text \<open>\<^verbatim>\<open>strings.Trim(s, "\n")\<close>.\<close>

definition trim_newlines :: "string \<Rightarrow> string" where
  "trim_newlines s = rev (dropWhile (\<lambda>c. c = CHR 0x0A) (rev (dropWhile (\<lambda>c. c = CHR 0x0A) s)))"

section \<open>The output of lsblk\<close>

record blockDevices =
  bd_Name :: string
  bd_Size :: int
  bd_Rota :: bool
  bd_Serial :: string
  bd_DiscMax :: int

definition lsblk_cmd :: "string list" where
  "lsblk_cmd = [''lsblk'', ''--json'', ''-d'', ''-b'', ''-e1,7,11'', ''-o'', ''name,size,rota,serial,disc-max'']"

text \<open>An \<^verbatim>\<open>int64\<close> takes the numbers that are written without fraction or exponent and are in range.\<close>

definition decimal_value :: "string \<Rightarrow> int" where
  "decimal_value s = foldl (\<lambda>n c. n * 10 + (of_char c - 48)) 0 s"

definition parse_int64 :: "string \<Rightarrow> int option" where
  "parse_int64 s =
     (let (neg, ds) = (case s of [] \<Rightarrow> (False, []) | c # t \<Rightarrow> if c = CHR ''-'' then (True, t) else (False, s));
          n = (if neg then - decimal_value ds else decimal_value ds)
      in if ds \<noteq> [] \<and> list_all is_digit ds \<and> - (2 ^ 63) \<le> n \<and> n < 2 ^ 63 then Some n else None)"

definition dec_int64 :: "json \<Rightarrow> int \<Rightarrow> int option" where
  "dec_int64 v cur = (case v of JNumber s \<Rightarrow> parse_int64 s | JNull \<Rightarrow> Some cur | _ \<Rightarrow> None)"

definition zero_blockDevices :: blockDevices where
  "zero_blockDevices = \<lparr>bd_Name = [], bd_Size = 0, bd_Rota = False, bd_Serial = [], bd_DiscMax = 0\<rparr>"

definition unmarshal_blockDevices :: "json \<Rightarrow> blockDevices \<Rightarrow> blockDevices option" where
  "unmarshal_blockDevices v cur = (case v of
     JNull \<Rightarrow> Some cur
   | JObject ms \<Rightarrow>
       (case (json_field ''name'' dec_string ms (bd_Name cur), json_field ''size'' dec_int64 ms (bd_Size cur),
              json_field ''rota'' dec_bool ms (bd_Rota cur), json_field ''serial'' dec_string ms (bd_Serial cur),
              json_field ''disc-max'' dec_int64 ms (bd_DiscMax cur)) of
          (Some n, Some s, Some r, Some i, Some d) \<Rightarrow>
            Some \<lparr>bd_Name = n, bd_Size = s, bd_Rota = r, bd_Serial = i, bd_DiscMax = d\<rparr>
        | _ \<Rightarrow> None)
   | _ \<Rightarrow> None)"

definition unmarshal_lsblk :: "string \<Rightarrow> blockDevices slice option" where
  "unmarshal_lsblk out = (case json_parse out of
     Some JNull \<Rightarrow> Some NilSlice
   | Some (JObject ms) \<Rightarrow> json_field ''blockdevices'' (dec_slice unmarshal_blockDevices zero_blockDevices) ms NilSlice
   | _ \<Rightarrow> None)"

section \<open>The probe\<close>

definition wrong_answer :: string where
  "wrong_answer = ''answer of the wrong kind''"

definition host_text :: "host_answer \<Rightarrow> string + string" where
  "host_text a = (case a of HText x \<Rightarrow> x | _ \<Rightarrow> Inl wrong_answer)"

definition host_memory :: "host_answer \<Rightarrow> string + 64 word" where
  "host_memory a = (case a of HMemory x \<Rightarrow> x | _ \<Rightarrow> Inl wrong_answer)"

definition host_names :: "host_answer \<Rightarrow> string + string list" where
  "host_names a = (case a of HNames x \<Rightarrow> x | _ \<Rightarrow> Inl wrong_answer)"

definition host_interfaces :: "host_answer \<Rightarrow> string + (string \<times> string) list" where
  "host_interfaces a = (case a of HInterfaces x \<Rightarrow> x | _ \<Rightarrow> Inl wrong_answer)"

definition host_address :: "host_answer \<Rightarrow> string + 8 word list" where
  "host_address a = (case a of HAddress x \<Rightarrow> x | _ \<Rightarrow> Inl wrong_answer)"

definition host_done :: "host_answer \<Rightarrow> string + unit" where
  "host_done a = (case a of HErr None \<Rightarrow> Inr () | HErr (Some e) \<Rightarrow> Inl e | _ \<Rightarrow> Inl wrong_answer)"

text \<open>A call and \<^verbatim>\<open>if err != nil { return nil, fmt.Errorf(...) }\<close>.\<close>

definition ask_host ::
  "host_call \<Rightarrow> (host_answer \<Rightarrow> string + 'b) \<Rightarrow> string \<Rightarrow> ('b \<Rightarrow> (string + 'r) prog) \<Rightarrow> (string + 'r) prog" where
  "ask_host c read message k = Call (Host c) (\<lambda>a. case read (as_Host a) of
     Inl err \<Rightarrow> Ret (Inl (message @ err)) | Inr x \<Rightarrow> k x)"

type_synonym quantity_parser = "string \<Rightarrow> Quantity option"

definition MustParse :: "quantity_parser \<Rightarrow> string \<Rightarrow> (Quantity \<Rightarrow> 'r prog) \<Rightarrow> 'r prog" where
  "MustParse parse s k = (case parse s of None \<Rightarrow> Panic (''cannot parse '' @ s) | Some q \<Rightarrow> k q)"

definition storage_of :: "blockDevices \<Rightarrow> Quantity \<Rightarrow> BareMetalDiscoveryHardwareStorage" where
  "storage_of d q = \<lparr>storage_Name = bd_Name d, storage_Size = q, storage_Rotational = bd_Rota d,
     storage_Trim = bd_DiscMax d > 0, storage_Serial = strings_TrimSpace (bd_Serial d)\<rparr>"

fun probe_storage :: "quantity_parser \<Rightarrow> blockDevices list \<Rightarrow> BareMetalDiscoveryHardwareStorage list \<Rightarrow>
    (BareMetalDiscoveryHardwareStorage list \<Rightarrow> 'r prog) \<Rightarrow> 'r prog" where
  "probe_storage parse [] storage k = k storage"
| "probe_storage parse (d # ds) storage k =
     MustParse parse (show_int (bd_Size d)) (\<lambda>q. probe_storage parse ds (storage @ [storage_of d q]) k)"

definition skipped_nic :: "string \<Rightarrow> bool" where
  "skipped_nic name \<longleftrightarrow> name = ''lo'' \<or> name = ''tunl0'' \<or> name = ''ip6tnl0''"

definition tx_queue_len_path :: "string \<Rightarrow> string" where
  "tx_queue_len_path name = ''/sys/class/net/'' @ name @ ''/tx_queue_len''"

fun probe_nics :: "quantity_parser \<Rightarrow> (string \<times> string) list \<Rightarrow> BareMetalDiscoveryHardwareNIC list \<Rightarrow>
    (BareMetalDiscoveryHardwareNIC list \<Rightarrow> (string + 'r) prog) \<Rightarrow> (string + 'r) prog" where
  "probe_nics parse [] nics k = k nics"
| "probe_nics parse ((name, mac) # ifs) nics k =
     (if skipped_nic name then probe_nics parse ifs nics k
      else
        ask_host (OpenFile (tx_queue_len_path name)) host_done
          (''error opening file to check speed for interface '' @ name @ '': '') (\<lambda>_.
        ask_host (ReadAllFile (tx_queue_len_path name)) host_text
          (''error reading file to check speed for interface '' @ name @ '': '') (\<lambda>b.
        MustParse parse (trim_newlines b @ ''M'') (\<lambda>speed.
          probe_nics parse ifs (nics @ [\<lparr>hwnic_Name = name, hwnic_MAC = mac, hwnic_Speed = speed\<rparr>]) k))))"

text \<open>
  \<^verbatim>\<open>goarch\<close> is the constant \<^verbatim>\<open>runtime.GOARCH\<close> of the build, \<open>json_error\<close> the text of the
  decoder's error.
\<close>

definition DiscoverHardware ::
  "quantity_parser \<Rightarrow> string \<Rightarrow> (string \<Rightarrow> string) \<Rightarrow> (string + discoveryHardware) prog" where
  "DiscoverHardware parse goarch json_error =
     ask_host HostInfo host_text ''error gathering host info: '' (\<lambda>hostID.
     ask_host VirtualMemory host_memory ''error gathering virtual memory: '' (\<lambda>total.
     MustParse parse (show_int (sint total)) (\<lambda>memQty.
     ask_host CpuInfo host_names ''error gathering cpu info: '' (\<lambda>models.
     MustParse parse (show_int (int (length models))) (\<lambda>cpuQty.
     Call (Host (Exec lsblk_cmd)) (\<lambda>a. case as_Host a of
       HExec out (Some err) \<Rightarrow> Ret (Inl (''error gathering storage info: '' @ err @ '', lsblk_output '' @ out))
     | HExec out None \<Rightarrow>
         (case unmarshal_lsblk out of
            None \<Rightarrow> Ret (Inl (''error parsing storage info: '' @ json_error out @ '', lsblk_output '' @ out))
          | Some devices \<Rightarrow>
              probe_storage parse (items devices) [] (\<lambda>storage.
              ask_host NetInterfaces host_interfaces ''error gathering interface memory: '' (\<lambda>ifs.
              probe_nics parse ifs [] (\<lambda>nics.
                case models of
                  [] \<Rightarrow> Panic ''index out of range''
                | modelName # _ \<Rightarrow>
                    Ret (Inr \<lparr>dh_SystemUUID = hostID, dh_Hardware = Some
                      \<lparr>hw_CPU = \<lparr>cpu_ModelName = modelName, cpu_Architecture = goarch, cpu_CPUS = cpuQty\<rparr>,
                       hw_Ram = memQty, hw_Storage = Slice storage, hw_NICS = Slice nics\<rparr>\<rparr>)))))
     | _ \<Rightarrow> Ret (Inl (''error gathering storage info: '' @ wrong_answer @ '', lsblk_output '')))))))) "

section \<open>What the probe reports\<close>

text \<open>
  The report \<open>d\<close> says what the answers in the history said: the identifier, the memory as a signed
  number, the first processor's model and their number, one drive for each device of \<^verbatim>\<open>lsblk\<close> and
  one interface for each that is not skipped, in their order; an interface's speed is the
  length of its transmit queue.
\<close>

definition heard :: "history \<Rightarrow> host_call \<Rightarrow> host_answer \<Rightarrow> bool" where
  "heard h c a \<longleftrightarrow> (Host c, AHost a) \<in> set h"

definition drive_of :: "quantity_parser \<Rightarrow> blockDevices \<Rightarrow> BareMetalDiscoveryHardwareStorage \<Rightarrow> bool" where
  "drive_of parse d s \<longleftrightarrow> parse (show_int (bd_Size d)) = Some (storage_Size s) \<and> s = storage_of d (storage_Size s)"

definition interface_of ::
  "quantity_parser \<Rightarrow> history \<Rightarrow> string \<times> string \<Rightarrow> BareMetalDiscoveryHardwareNIC \<Rightarrow> bool" where
  "interface_of parse h interf n \<longleftrightarrow> hwnic_Name n = fst interf \<and> hwnic_MAC n = snd interf \<and>
     (\<exists>b. heard h (ReadAllFile (tx_queue_len_path (fst interf))) (HText (Inr b)) \<and>
        parse (trim_newlines b @ ''M'') = Some (hwnic_Speed n))"

definition reported_nic :: "string \<times> string \<Rightarrow> bool" where
  "reported_nic interf \<longleftrightarrow> \<not> skipped_nic (fst interf)"

definition probed :: "quantity_parser \<Rightarrow> string \<Rightarrow> history \<Rightarrow> discoveryHardware \<Rightarrow> bool" where
  "probed parse goarch h d \<longleftrightarrow> (\<exists>total models out devices ifs hw storage nics.
     heard h HostInfo (HText (Inr (dh_SystemUUID d))) \<and> dh_Hardware d = Some hw \<and>
     heard h VirtualMemory (HMemory (Inr total)) \<and> parse (show_int (sint total)) = Some (hw_Ram hw) \<and>
     heard h CpuInfo (HNames (Inr models)) \<and> models \<noteq> [] \<and> cpu_ModelName (hw_CPU hw) = hd models \<and>
     cpu_Architecture (hw_CPU hw) = goarch \<and> parse (show_int (int (length models))) = Some (cpu_CPUS (hw_CPU hw)) \<and>
     heard h (Exec lsblk_cmd) (HExec out None) \<and> unmarshal_lsblk out = Some devices \<and>
     hw_Storage hw = Slice storage \<and> list_all2 (drive_of parse) (items devices) storage \<and>
     heard h NetInterfaces (HInterfaces (Inr ifs)) \<and>
     hw_NICS hw = Slice nics \<and> list_all2 (interface_of parse h) (filter reported_nic ifs) nics)"

text \<open>An answer the probe can go on with, and a history in which some answer was not one.\<close>

definition answered :: "host_call \<Rightarrow> answer \<Rightarrow> bool" where
  "answered c a \<longleftrightarrow> (case c of
     HostInfo \<Rightarrow> \<not> isl (host_text (as_Host a))
   | VirtualMemory \<Rightarrow> \<not> isl (host_memory (as_Host a))
   | CpuInfo \<Rightarrow> \<not> isl (host_names (as_Host a))
   | NetInterfaces \<Rightarrow> \<not> isl (host_interfaces (as_Host a))
   | OpenFile path \<Rightarrow> \<not> isl (host_done (as_Host a))
   | ReadAllFile path \<Rightarrow> \<not> isl (host_text (as_Host a))
   | Exec cmd \<Rightarrow> (case as_Host a of HExec out None \<Rightarrow> unmarshal_lsblk out \<noteq> None | _ \<Rightarrow> False)
   | _ \<Rightarrow> True)"

definition failed :: "history \<Rightarrow> bool" where
  "failed h \<longleftrightarrow> (\<exists>(c, a) \<in> set h. case c of Host hc \<Rightarrow> \<not> answered hc a | _ \<Rightarrow> False)"

text \<open>Kubernetes reads every whole number as a quantity.\<close>

definition accepts_integers :: "quantity_parser \<Rightarrow> bool" where
  "accepts_integers parse \<longleftrightarrow> (\<forall>i. parse (show_int i) \<noteq> None)"

definition probe_outcome ::
  "quantity_parser \<Rightarrow> string \<Rightarrow> history \<Rightarrow> (string + discoveryHardware) outcome \<Rightarrow> bool" where
  "probe_outcome parse goarch h oc = (case oc of
     Returned (Inl err) \<Rightarrow> failed h
   | Returned (Inr d) \<Rightarrow> probed parse goarch h d
   | Panicked m \<Rightarrow> heard h CpuInfo (HNames (Inr [])) \<or>
       (\<exists>path b. heard h (ReadAllFile path) (HText (Inr b)) \<and> parse (trim_newlines b @ ''M'') = None)
   | _ \<Rightarrow> False)"

lemma failed_append [simp]: "failed (h @ h') \<longleftrightarrow> failed h \<or> failed h'"
  by (auto simp: failed_def)

lemma failed_Cons [simp]: "failed ((Host hc, a) # h) \<longleftrightarrow> \<not> answered hc a \<or> failed h"
  by (auto simp: failed_def)

lemma heard_append [simp]: "heard h c a \<Longrightarrow> heard (h @ h') c a"
  by (simp add: heard_def)

lemma heard_last [simp]: "heard (h @ [(Host c, AHost a)]) c a"
  by (simp add: heard_def)

lemma interface_of_append: "interface_of parse h i n \<Longrightarrow> interface_of parse (h @ h') i n"
  by (auto simp: interface_of_def intro: heard_append)

lemma nics_append: "list_all2 (interface_of parse h) is ns \<Longrightarrow> list_all2 (interface_of parse (h @ h')) is ns"
  by (erule list_all2_mono) (rule interface_of_append)

lemma probed_append: "probed parse goarch h d \<Longrightarrow> probed parse goarch (h @ h') d"
  unfolding probed_def
  by (elim exE conjE) (intro exI conjI; (assumption | erule heard_append | erule nics_append))

lemma host_reads:
  "host_text (as_Host a) = Inr x \<longleftrightarrow> a = AHost (HText (Inr x))"
  "host_memory (as_Host a) = Inr m \<longleftrightarrow> a = AHost (HMemory (Inr m))"
  "host_names (as_Host a) = Inr ns \<longleftrightarrow> a = AHost (HNames (Inr ns))"
  "host_interfaces (as_Host a) = Inr is \<longleftrightarrow> a = AHost (HInterfaces (Inr is))"
  "host_address (as_Host a) = Inr ip \<longleftrightarrow> a = AHost (HAddress (Inr ip))"
  "as_Host a = HExec out err \<longleftrightarrow> a = AHost (HExec out err)"
  by (cases a; auto simp: as_Host_def host_text_def host_memory_def host_names_def host_interfaces_def
      host_address_def split: host_answer.splits)+

lemmas host_reads_defs = host_text_def host_memory_def host_names_def host_interfaces_def host_address_def host_done_def

lemma ends_ask_host:
  assumes "\<And>a err. isl (read (as_Host a)) \<Longrightarrow> Q (h @ [(Host c, a)]) (Returned (Inl err))"
    and "\<And>a x. read (as_Host a) = Inr x \<Longrightarrow> ends Q (h @ [(Host c, a)]) (k x)"
  shows "ends Q h (ask_host c read message k)"
  using assms by (auto simp: ask_host_def split: sum.splits)

lemma always_ask_host:
  assumes "P h (Host c)" and "\<And>a x. read (as_Host a) = Inr x \<Longrightarrow> always P (h @ [(Host c, a)]) (k x)"
  shows "always P h (ask_host c read message k)"
  using assms by (auto simp: ask_host_def split: sum.splits)

lemma ends_MustParse:
  assumes "parse s = None \<Longrightarrow> Q h (Panicked (''cannot parse '' @ s))"
    and "\<And>q. parse s = Some q \<Longrightarrow> ends Q h (k q)"
  shows "ends Q h (MustParse parse s k)"
  using assms by (auto simp: MustParse_def split: option.splits)

lemma always_MustParse:
  assumes "\<And>q. parse s = Some q \<Longrightarrow> always P h (k q)"
  shows "always P h (MustParse parse s k)"
  using assms by (auto simp: MustParse_def split: option.splits)

lemma ends_probe_storage:
  assumes "accepts_integers parse"
    and "\<And>xs. list_all2 (drive_of parse) ds xs \<Longrightarrow> ends Q h (k (storage @ xs))"
  shows "ends Q h (probe_storage parse ds storage k)"
  using assms(2)
proof (induction ds arbitrary: storage)
  case Nil
  from Nil [of "[]"] show ?case by simp
next
  case (Cons d ds)
  obtain q where q: "parse (show_int (bd_Size d)) = Some q" using assms(1) by (auto simp: accepts_integers_def)
  have "ends Q h (probe_storage parse ds (storage @ [storage_of d q]) k)"
  proof (rule Cons.IH)
    fix xs assume "list_all2 (drive_of parse) ds xs"
    then have "list_all2 (drive_of parse) (d # ds) (storage_of d q # xs)"
      using q by (simp add: drive_of_def storage_of_def)
    from Cons.prems [OF this] show "ends Q h (k ((storage @ [storage_of d q]) @ xs))" by simp
  qed
  then show ?case using q by (simp add: MustParse_def)
qed

lemma ends_probe_nics:
  assumes errors: "\<And>h' err. failed (h @ h') \<Longrightarrow> Q (h @ h') (Returned (Inl err))"
    and panics: "\<And>h' path b m. heard (h @ h') (ReadAllFile path) (HText (Inr b)) \<Longrightarrow>
      parse (trim_newlines b @ ''M'') = None \<Longrightarrow> Q (h @ h') (Panicked m)"
    and done_: "\<And>h' xs. list_all2 (interface_of parse (h @ h')) (filter reported_nic ifs) xs \<Longrightarrow>
      ends Q (h @ h') (k (nics @ xs))"
  shows "ends Q h (probe_nics parse ifs nics k)"
  using assms
proof (induction ifs arbitrary: h nics)
  case Nil
  from Nil(3) [of "[]" "[]"] show ?case by simp
next
  case (Cons i ifs)
  obtain name mac where i: "i = (name, mac)" by (cases i)
  show ?case
  proof (cases "skipped_nic name")
    case True
    then show ?thesis using Cons i by (simp add: reported_nic_def)
  next
    case False
    have reported: "filter reported_nic (i # ifs) = i # filter reported_nic ifs"
      using False i by (simp add: reported_nic_def)
    have "ends Q (h @ g) (probe_nics parse ifs (nics @ [\<lparr>hwnic_Name = name, hwnic_MAC = mac, hwnic_Speed = q\<rparr>]) k)"
      if heard: "heard (h @ g) (ReadAllFile (tx_queue_len_path name)) (HText (Inr b))"
        and q: "parse (trim_newlines b @ ''M'') = Some q" for g b q
    proof (rule Cons.IH)
      fix h' xs assume "list_all2 (interface_of parse ((h @ g) @ h')) (filter reported_nic ifs) xs"
      then have "list_all2 (interface_of parse (h @ g @ h')) (filter reported_nic (i # ifs))
          (\<lparr>hwnic_Name = name, hwnic_MAC = mac, hwnic_Speed = q\<rparr> # xs)"
        using heard_append [OF heard, of h'] q reported i by (auto simp: interface_of_def)
      from Cons.prems(3) [OF this]
      show "ends Q ((h @ g) @ h') (k ((nics @ [\<lparr>hwnic_Name = name, hwnic_MAC = mac, hwnic_Speed = q\<rparr>]) @ xs))" by simp
    next
      fix h' err assume "failed ((h @ g) @ h')"
      then show "Q ((h @ g) @ h') (Returned (Inl err))" using Cons.prems(1) [of "g @ h'"] by simp
    next
      fix h' path b m
      assume "heard ((h @ g) @ h') (ReadAllFile path) (HText (Inr b))" "parse (trim_newlines b @ ''M'') = None"
      then show "Q ((h @ g) @ h') (Panicked m)" using Cons.prems(2) [of "g @ h'" path b] by simp
    qed
    note rest = this
    let ?opened = "\<lambda>a. (Host (OpenFile (tx_queue_len_path name)), a)"
    let ?read = "\<lambda>b. (Host (ReadAllFile (tx_queue_len_path name)), AHost (HText (Inr b)))"
    have panics: "Q (h @ [?opened a, ?read b]) (Panicked m)" if "parse (trim_newlines b @ ''M'') = None" for a b m
      using Cons.prems(2) [of "[?opened a, ?read b]" "tx_queue_len_path name" b m] that by (simp add: heard_def)
    have step: "ends Q (h @ [?opened a, ?read b])
        (probe_nics parse ifs (nics @ [\<lparr>hwnic_Name = name, hwnic_MAC = mac, hwnic_Speed = q\<rparr>]) k)"
      if "parse (trim_newlines b @ ''M'') = Some q" for a b q
      using rest [of "[?opened a, ?read b]" b q] that by (simp add: heard_def)
    show ?thesis
      using False i Cons.prems(1) panics step
      by (auto simp: host_reads answered_def intro!: ends_ask_host ends_MustParse)
  qed
qed

lemma always_probe_storage:
  assumes "\<And>h xs. always P h (k xs)"
  shows "always P h (probe_storage parse ds storage k)"
  using assms by (induction ds arbitrary: storage) (auto intro: always_MustParse)

lemma always_probe_nics:
  assumes "\<And>h xs. always P h (k xs)" and "\<And>h path. P h (Host (OpenFile path))"
    and "\<And>h path. P h (Host (ReadAllFile path))"
  shows "always P h (probe_nics parse ifs nics k)"
  using assms
proof (induction ifs arbitrary: nics h)
  case (Cons i ifs)
  then show ?case by (cases i) (auto intro!: always_ask_host always_MustParse)
qed simp

text \<open>The probe reads: it runs no command but \<^verbatim>\<open>lsblk\<close>.\<close>

definition probe_call :: "call \<Rightarrow> bool" where
  "probe_call c = (case c of
     Host hc \<Rightarrow> (case hc of HostInfo \<Rightarrow> True | VirtualMemory \<Rightarrow> True | CpuInfo \<Rightarrow> True | NetInterfaces \<Rightarrow> True
       | Exec cmd \<Rightarrow> cmd = lsblk_cmd | OpenFile path \<Rightarrow> True | ReadAllFile path \<Rightarrow> True | _ \<Rightarrow> False)
   | _ \<Rightarrow> False)"

lemma probe_reads: "always (\<lambda>h. probe_call) h (DiscoverHardware parse goarch json_error)"
  by (auto simp: DiscoverHardware_def probe_call_def intro!: always_ask_host always_MustParse always_probe_storage always_probe_nics
      split: host_answer.splits option.splits list.splits)

lemma ends_report:
  assumes "heard h HostInfo (HText (Inr hostID))"
    and "heard h VirtualMemory (HMemory (Inr bytes))" "parse (show_int (sint bytes)) = Some ram"
    and "heard h CpuInfo (HNames (Inr models))" "parse (show_int (int (length models))) = Some cpus"
    and "heard h (Exec lsblk_cmd) (HExec out None)" "unmarshal_lsblk out = Some devices"
    and "list_all2 (drive_of parse) (items devices) storage"
    and "heard h NetInterfaces (HInterfaces (Inr ifs))" "list_all2 (interface_of parse h) (filter reported_nic ifs) nics"
  shows "ends (probe_outcome parse goarch) h (case models of
       [] \<Rightarrow> Panic ''index out of range''
     | modelName # _ \<Rightarrow> Ret (Inr \<lparr>dh_SystemUUID = hostID, dh_Hardware = Some
         \<lparr>hw_CPU = \<lparr>cpu_ModelName = modelName, cpu_Architecture = goarch, cpu_CPUS = cpus\<rparr>,
          hw_Ram = ram, hw_Storage = Slice storage, hw_NICS = Slice nics\<rparr>\<rparr>))"
proof (cases models)
  case Nil
  then show ?thesis using assms(4) by (simp add: probe_outcome_def)
next
  case (Cons m ms)
  let ?hw = "\<lparr>hw_CPU = \<lparr>cpu_ModelName = m, cpu_Architecture = goarch, cpu_CPUS = cpus\<rparr>,
          hw_Ram = ram, hw_Storage = Slice storage, hw_NICS = Slice nics\<rparr>"
  have "probed parse goarch h \<lparr>dh_SystemUUID = hostID, dh_Hardware = Some ?hw\<rparr>"
    unfolding probed_def
    by (rule exI [of _ bytes], rule exI [of _ models], rule exI [of _ out], rule exI [of _ devices],
        rule exI [of _ ifs], rule exI [of _ ?hw], rule exI [of _ storage], rule exI [of _ nics])
      (use assms Cons in simp)
  then show ?thesis using Cons by (simp add: probe_outcome_def)
qed

lemma ends_probe:
  assumes parse: "accepts_integers parse"
  shows "ends (probe_outcome parse goarch) h (DiscoverHardware parse goarch json_error)"
proof -
  let ?Q = "probe_outcome parse goarch :: history \<Rightarrow> (string + discoveryHardware) outcome \<Rightarrow> bool"
  have errors: "?Q h (Returned (Inl err))" if "failed h" for h err using that by (simp add: probe_outcome_def)
  have panics: "?Q h (Panicked m)"
    if "heard h (ReadAllFile path) (HText (Inr b))" "parse (trim_newlines b @ ''M'') = None" for h path b m
    using that by (auto simp: probe_outcome_def)
  have integers: "parse (show_int i) \<noteq> None" for i using parse by (simp add: accepts_integers_def)
  have nics: "ends ?Q h (probe_nics parse ifs [] (\<lambda>nics. case models of
       [] \<Rightarrow> Panic ''index out of range''
     | modelName # _ \<Rightarrow> Ret (Inr \<lparr>dh_SystemUUID = hostID, dh_Hardware = Some
         \<lparr>hw_CPU = \<lparr>cpu_ModelName = modelName, cpu_Architecture = goarch, cpu_CPUS = cpus\<rparr>,
          hw_Ram = ram, hw_Storage = Slice storage, hw_NICS = Slice nics\<rparr>\<rparr>)))"
    if "heard h HostInfo (HText (Inr hostID))"
      "heard h VirtualMemory (HMemory (Inr bytes))" "parse (show_int (sint bytes)) = Some ram"
      "heard h CpuInfo (HNames (Inr models))" "parse (show_int (int (length models))) = Some cpus"
      "heard h (Exec lsblk_cmd) (HExec out None)" "unmarshal_lsblk out = Some devices"
      "list_all2 (drive_of parse) (items devices) storage" "heard h NetInterfaces (HInterfaces (Inr ifs))"
    for h hostID bytes ram models cpus out devices storage ifs
  proof (rule ends_probe_nics [OF errors panics])
    fix h' xs assume "list_all2 (interface_of parse (h @ h')) (filter reported_nic ifs) xs"
    then show "ends ?Q (h @ h') (case models of
         [] \<Rightarrow> Panic ''index out of range''
       | modelName # _ \<Rightarrow> Ret (Inr \<lparr>dh_SystemUUID = hostID, dh_Hardware = Some
           \<lparr>hw_CPU = \<lparr>cpu_ModelName = modelName, cpu_Architecture = goarch, cpu_CPUS = cpus\<rparr>,
            hw_Ram = ram, hw_Storage = Slice storage, hw_NICS = Slice ([] @ xs)\<rparr>\<rparr>))"
      using that by (intro ends_report [where bytes = bytes and out = out and devices = devices and ifs = ifs]) simp_all
  qed
  show ?thesis
    unfolding DiscoverHardware_def
    by (auto simp: host_reads answered_def integers heard_def intro!: errors
        intro!: ends_ask_host ends_MustParse ends_probe_storage [OF parse] nics
        split: host_answer.splits option.splits)
qed

text \<open>
  C23: whatever the operating system answers, the probe returns an error only when some answer was
  one or the output of \<^verbatim>\<open>lsblk\<close> cannot be decoded, and else a report that says what was answered: the identifier, the memory, the processors, one drive for each device
  of \<^verbatim>\<open>lsblk\<close> and one interface for each that is not skipped, with the length of its transmit
  queue for its speed; it panics only when no processor was listed or the length of a queue
  is no quantity; it always ends, and does nothing but read and run \<^verbatim>\<open>lsblk\<close>.
\<close>

theorem probe_contract:
  assumes "accepts_integers parse"
  shows "ends (probe_outcome parse goarch) [] (DiscoverHardware parse goarch json_error) \<and>
    always (\<lambda>h. probe_call) [] (DiscoverHardware parse goarch json_error)"
  using probe_reads ends_probe [OF assms] by blast

definition bare_report :: discoveryHardware where
  "bare_report = \<lparr>dh_SystemUUID = ''4c4c'', dh_Hardware = Some
     \<lparr>hw_CPU = \<lparr>cpu_ModelName = ''QEMU'', cpu_Architecture = ''amd64'', cpu_CPUS = show_int 1\<rparr>,
      hw_Ram = show_int (sint (4096 :: 64 word)), hw_Storage = Slice [], hw_NICS = Slice []\<rparr>\<rparr>"

lemma probe_contract_witness:
  "\<exists>h. run (DiscoverHardware Some ''amd64'' id) (map snd h) = (h, Returned (Inr bare_report)) \<and>
     probed Some ''amd64'' h bare_report"
proof -
  let ?h = "[(Host HostInfo, AHost (HText (Inr ''4c4c''))), (Host VirtualMemory, AHost (HMemory (Inr 4096))),
    (Host CpuInfo, AHost (HNames (Inr [''QEMU'']))), (Host (Exec lsblk_cmd), AHost (HExec ''{}'' None)),
    (Host NetInterfaces, AHost (HInterfaces (Inr [(''lo'', [])])))]"
  have "unmarshal_lsblk ''{}'' = Some NilSlice"
    by (simp add: unmarshal_lsblk_def json_parse_def numeral_eq_Suc)
  then have run: "run (DiscoverHardware Some ''amd64'' id) (map snd ?h) = (?h, Returned (Inr bare_report))"
    by (simp add: DiscoverHardware_def ask_host_def host_reads_defs MustParse_def skipped_nic_def bare_report_def)
  have "accepts_integers Some" by (simp add: accepts_integers_def)
  then have "ends (probe_outcome Some ''amd64'') [] (DiscoverHardware Some ''amd64'' id)"
    using probe_contract by blast
  from ends_run [OF this run] have "probed Some ''amd64'' ?h bare_report" by (simp add: probe_outcome_def)
  with run show ?thesis by blast
qed

end
