(* ===== verification/AgentBoot.thy ===== *)
theory AgentBoot
  imports AgentProbe DiscoveryRuns
begin

text \<open>
  The agent's start, \<^verbatim>\<open>cmd/agent/main.go\<close>, \<^verbatim>\<open>SendReady\<close> of \<^verbatim>\<open>pkg/agent/manager.go\<close> and \<^verbatim>\<open>Run\<close> of
  \<^verbatim>\<open>pkg/agent/server.go\<close>: it finds the discovery server's URL, probes the hardware, reports it,
  listens, reports its address until that is taken, then serves. Log lines are left out. A
  tree is finite, so the loop that reports the address has a bound on its rounds, the fuel; a
  run that hangs is one that is still in the loop.
\<close>

section \<open>The URL of the discovery server\<close>

text \<open>\<^verbatim>\<open>strings.Split\<close> with a separator of one character.\<close>

fun strings_Split :: "char \<Rightarrow> string \<Rightarrow> string list" where
  "strings_Split sep [] = [[]]"
| "strings_Split sep (c # s) =
     (if c = sep then [] # strings_Split sep s
      else (c # hd (strings_Split sep s)) # tl (strings_Split sep s))"

text \<open>\<open>None\<close>: the last argument has no \<^verbatim>\<open>=\<close>, and indexing its parts panics.\<close>

definition cmdline_url :: "string \<Rightarrow> string option" where
  "cmdline_url cmdLineString =
     (case strings_Split (CHR ''='') (last (strings_Split (CHR '' '') cmdLineString)) of
        _ # v # _ \<Rightarrow> Some (strings_TrimSpace v)
      | _ \<Rightarrow> None)"

section \<open>Reporting the address\<close>

definition default_route :: string where
  "default_route = ''8.8.8.8:80''"

text \<open>The result is the text of the returned error.\<close>

definition SendReady :: "string \<Rightarrow> string \<Rightarrow> string option prog" where
  "SendReady discoveryURL systemUUID =
     Call (Host (DialUDP default_route)) (\<lambda>a. case host_address (as_Host a) of
       Inl err \<Rightarrow> Ret (Some (''error creating connection to find IP address: '' @ err))
     | Inr ip \<Rightarrow> deferred (Host CloseUDP)
         (let body = json_print (marshal_readyInput \<lparr>ready_SystemUUID = systemUUID, ready_IP = IP_String ip\<rparr>) in
          Call (HttpRequest ''POST'' (discoveryURL @ ''/ready'') body) (\<lambda>a. case as_Http a of
            Reply code body \<Rightarrow>
              Ret (if code = 204 then None
                   else if code = 404 then
                     Some (''there is no instance waiting for an agent with the system uuid of '' @ systemUUID)
                   else Some (''received an error from ready request '' @ body))
          | BodyError code err \<Rightarrow> Ret (Some ''error reading ready response body'')
          | _ \<Rightarrow> Ret (Some ''error sending ready request''))))"

section \<open>Serving\<close>

text \<open>The loop of \<^verbatim>\<open>Run\<close>, lines 103 to 111, then what follows it.\<close>

fun ready_loop :: "nat \<Rightarrow> string \<Rightarrow> string \<Rightarrow> 'r prog \<Rightarrow> 'r prog" where
  "ready_loop 0 url uuid p = Hang"
| "ready_loop (Suc fuel) url uuid p =
     and_then (SendReady url uuid) (\<lambda>err. case err of
       None \<Rightarrow> p
     | Some _ \<Rightarrow> Call (Host (SleepFor (30 * Second))) (\<lambda>_. ready_loop fuel url uuid p))"

definition serve_until_stop :: "string option prog" where
  "serve_until_stop =
     Call (Host ServeHttp) (\<lambda>_. Call (Host AwaitStop) (\<lambda>_. Call (Host (ShutdownHttp (5 * Second))) (\<lambda>a.
       case host_done (as_Host a) of Inl err \<Rightarrow> Ret (Some err) | Inr _ \<Rightarrow> Ret None)))"

definition agent_address :: string where
  "agent_address = '':10443''"

definition server_Run :: "nat \<Rightarrow> string \<Rightarrow> string \<Rightarrow> string option prog" where
  "server_Run fuel url uuid =
     Call (Host (Listen agent_address)) (\<lambda>a. case host_done (as_Host a) of
       Inl err \<Rightarrow> Ret (Some (''error listening on '' @ agent_address @ '': '' @ err))
     | Inr _ \<Rightarrow> deferred (Host CloseListener) (ready_loop fuel url uuid serve_until_stop))"

section \<open>The main function\<close>

text \<open>
  The result is the exit code. \<open>url_error\<close> is the error of \<^verbatim>\<open>url.Parse\<close>, whose result the code
  throws away; encoding the report cannot fail, since it is made of texts and truth values.
\<close>

definition find_url :: "string \<Rightarrow> (string \<Rightarrow> int prog) \<Rightarrow> int prog" where
  "find_url flag k =
     (if length flag = 0 then
        Call (Host (OpenFile ''/proc/cmdline'')) (\<lambda>a. case host_done (as_Host a) of
          Inl err \<Rightarrow> Ret 1
        | Inr _ \<Rightarrow> Call (Host (ReadAllFile ''/proc/cmdline'')) (\<lambda>a. case host_text (as_Host a) of
            Inl err \<Rightarrow> Ret 1
          | Inr cmdLineString \<Rightarrow>
              (case cmdline_url cmdLineString of None \<Rightarrow> Panic ''index out of range'' | Some url \<Rightarrow> k url)))
      else k flag)"

definition report_hardware :: "nat \<Rightarrow> string \<Rightarrow> discoveryHardware \<Rightarrow> int prog" where
  "report_hardware fuel url d =
     Call (HttpRequest ''POST'' (url @ ''/discover'') (json_print (marshal_discoveryHardware d))) (\<lambda>a. case as_Http a of
       Reply code body \<Rightarrow>
         if code \<noteq> 204 then Ret 1
         else and_then (server_Run fuel url (dh_SystemUUID d)) (\<lambda>err. case err of None \<Rightarrow> Ret 0 | Some _ \<Rightarrow> Ret 1)
     | _ \<Rightarrow> Ret 1)"

definition agent_main ::
  "quantity_parser \<Rightarrow> string \<Rightarrow> (string \<Rightarrow> string) \<Rightarrow> (string \<Rightarrow> string option) \<Rightarrow> string \<Rightarrow> nat \<Rightarrow> int prog" where
  "agent_main parse goarch json_error url_error flag fuel =
     find_url flag (\<lambda>url.
       case url_error url of
         Some err \<Rightarrow> Ret 1
       | None \<Rightarrow> and_then (DiscoverHardware parse goarch json_error) (\<lambda>r.
           case r of Inl err \<Rightarrow> Ret 1 | Inr d \<Rightarrow> report_hardware fuel url d))"

section \<open>The URL arrives\<close>

text \<open>A word of printable ASCII without an equals sign, as the URL of a server is.\<close>

definition graphic :: "char \<Rightarrow> bool" where
  "graphic c \<longleftrightarrow> 32 < (of_char c :: nat) \<and> (of_char c :: nat) < 127"

definition plain_url :: "string \<Rightarrow> bool" where
  "plain_url url \<longleftrightarrow> list_all (\<lambda>c. graphic c \<and> c \<noteq> CHR ''='') url"

lemma strings_Split_nonempty [simp]: "strings_Split sep s \<noteq> []"
  by (cases s) auto

lemma strings_Split_word: "sep \<notin> set s \<Longrightarrow> strings_Split sep s = [s]"
  by (induction s) auto

lemma strings_Split_parts:
  "tl (strings_Split sep (s @ sep # t)) \<noteq> [] \<and> last (strings_Split sep (s @ sep # t)) = last (strings_Split sep t)"
  by (induction s) (auto simp: last_tl)

lemmas last_strings_Split = strings_Split_parts [THEN conjunct2]

lemma strings_Split_first: "sep \<notin> set s \<Longrightarrow> strings_Split sep (s @ sep # t) = s # strings_Split sep t"
  by (induction s) auto

declare strings_Split.simps(2) [simp del]

lemma spaces_not_graphic:
  "\<forall>w \<in> set unicode_spaces. w \<noteq> [] \<and> \<not> graphic (hd w) \<and> \<not> graphic (last w)"
  by (simp add: unicode_spaces_def utf8_encode_def graphic_def upt_conv_Cons)

lemma prefix_length_graphic:
  assumes "graphic c" and "\<forall>w \<in> set ws. w \<noteq> [] \<and> \<not> graphic (hd w)"
  shows "prefix_length ws (c # s) = 0"
proof -
  have "take (length w) (c # s) \<noteq> w" if "w \<in> set ws" for w
    using assms that by (cases w) auto
  then have "find (\<lambda>w. w \<noteq> [] \<and> take (length w) (c # s) = w) ws = None"
    by (auto simp: find_None_iff)
  then show ?thesis by (simp add: prefix_length_def)
qed

lemma prefix_length_one:
  assumes "[c] \<in> set ws" and "\<forall>w \<in> set ws. w \<noteq> [] \<and> (hd w = c \<longrightarrow> w = [c])"
  shows "prefix_length ws (c # s) = 1"
proof -
  have "find (\<lambda>w. w \<noteq> [] \<and> take (length w) (c # s) = w) ws \<noteq> None"
  proof
    assume "find (\<lambda>w. w \<noteq> [] \<and> take (length w) (c # s) = w) ws = None"
    then have "\<forall>w \<in> set ws. \<not> (w \<noteq> [] \<and> take (length w) (c # s) = w)" by (auto simp: find_None_iff)
    from bspec [OF this assms(1)] show False by simp
  qed
  then obtain w where w: "find (\<lambda>w. w \<noteq> [] \<and> take (length w) (c # s) = w) ws = Some w" by blast
  then have "w \<in> set ws" "w \<noteq> []" and t: "take (length w) (c # s) = w" by (auto simp: find_Some_iff)
  moreover have "hd w = c" using t \<open>w \<noteq> []\<close> by (metis hd_take length_greater_0_conv list.sel(1))
  ultimately have "w = [c]" using assms(2) by blast
  with w show ?thesis by (simp add: prefix_length_def)
qed

lemma newline_spaces:
  "\<forall>w \<in> set unicode_spaces. length w = 1 \<or> (of_char (hd w) :: nat) \<noteq> 10 \<and> (of_char (last w) :: nat) \<noteq> 10"
  "[CHR 0x0A] \<in> set unicode_spaces"
proof -
  have "(of_char (char_of (10 :: nat) :: char) :: nat) = of_char (CHR 0x0A)" by simp
  then have "char_of (10 :: nat) = CHR 0x0A" unfolding of_char_eq_iff .
  moreover have "char_of (10 :: nat) = hd (utf8_encode 10) \<and> length (utf8_encode 10) = 1" by (simp add: utf8_encode_def)
  ultimately have "utf8_encode 10 = [CHR 0x0A]" by (cases "utf8_encode 10") auto
  then show "[CHR 0x0A] \<in> set unicode_spaces" unfolding unicode_spaces_def by simp
qed (simp add: unicode_spaces_def utf8_encode_def upt_conv_Cons)

lemma prefix_length_newline:
  "prefix_length unicode_spaces (CHR 0x0A # s) = 1" "prefix_length (map rev unicode_spaces) (CHR 0x0A # s) = 1"
proof -
  have w: "w \<noteq> [] \<and> (hd w = CHR 0x0A \<longrightarrow> w = [CHR 0x0A]) \<and> (last w = CHR 0x0A \<longrightarrow> w = [CHR 0x0A])"
    if "w \<in> set unicode_spaces" for w
    using that newline_spaces(1) spaces_not_graphic by (auto simp: length_Suc_conv)
  show "prefix_length unicode_spaces (CHR 0x0A # s) = 1"
    using w by (intro prefix_length_one newline_spaces(2)) blast
  have "rev [CHR 0x0A] \<in> set (map rev unicode_spaces)" using newline_spaces(2) unfolding set_map by (rule imageI)
  then show "prefix_length (map rev unicode_spaces) (CHR 0x0A # s) = 1"
    using w by (intro prefix_length_one) (auto simp: hd_rev)
qed

lemma prefix_length_Nil [simp]: "prefix_length ws [] = 0"
  using prefix_length_le [of ws "[]"] by simp

lemma TrimSpace_line:
  assumes "plain_url url"
  shows "strings_TrimSpace (url @ newline) = url"
proof (cases url)
  case Nil
  then show ?thesis
    by (simp add: strings_TrimSpace_def newline_def prefix_length_newline trim_prefix.simps [of _ "CHR 0x0A # _"]
        trim_prefix.simps [of _ "[]"])
next
  case (Cons c s)
  then have "graphic c" "graphic (last url)" using assms by (auto simp: plain_url_def list_all_iff)
  then have left: "trim_prefix unicode_spaces (url @ newline) = url @ newline"
    using Cons prefix_length_graphic [of c unicode_spaces] spaces_not_graphic
    by (simp add: trim_prefix.simps)
  obtain d t where dt: "rev url = d # t" using Cons by (cases "rev url") auto
  then have "last url = d" by (metis hd_rev list.sel(1))
  with \<open>graphic (last url)\<close> have "prefix_length (map rev unicode_spaces) (d # t) = 0"
    using spaces_not_graphic by (intro prefix_length_graphic) (auto simp: hd_rev)
  then have "trim_prefix (map rev unicode_spaces) (CHR 0x0A # d # t) = d # t"
    by (simp add: prefix_length_newline trim_prefix.simps [of _ "CHR 0x0A # _"] trim_prefix.simps [of _ "d # t"])
  then show ?thesis
    using left dt by (simp add: strings_TrimSpace_def newline_def rev_swap [symmetric])
qed

lemma cmdline_url_parts:
  assumes "CHR '' '' \<notin> set name" "CHR ''='' \<notin> set name" and "plain_url url"
  shows "cmdline_url (before @ CHR '' '' # name @ CHR ''='' # url @ newline) = Some url"
proof -
  have plain: "CHR '' '' \<notin> set url" "CHR ''='' \<notin> set url"
    using assms(3) unfolding plain_url_def list_all_iff graphic_def by force+
  have "CHR '' '' \<notin> set (name @ CHR ''='' # url @ newline)" "CHR ''='' \<notin> set (url @ newline)"
    using plain assms(1) by (auto simp: newline_def)
  note words = strings_Split_word [OF this(1)] strings_Split_word [OF this(2)]
  have "last (strings_Split (CHR '' '') (before @ CHR '' '' # name @ CHR ''='' # url @ newline)) = name @ CHR ''='' # url @ newline"
    unfolding last_strings_Split words(1) last_ConsL [OF refl] ..
  moreover have "strings_Split (CHR ''='') (name @ CHR ''='' # url @ newline) = [name, url @ newline]"
    unfolding strings_Split_first [OF assms(2)] words(2) ..
  ultimately show ?thesis unfolding cmdline_url_def using TrimSpace_line [OF assms(3)] by (simp only: list.case)
qed

lemma cmdline_url_last:
  assumes "plain_url url"
  shows "cmdline_url (before @ '' discovery_url='' @ url @ newline) = Some url"
  using cmdline_url_parts [of "''discovery_url''" url before] assms by simp

text \<open>
  A reply that boots the agent with the URL on the last line, the kernel's: the kernel may put
  arguments of its own before it, and ends it with a newline.
\<close>

definition boots_agent_with :: "string \<Rightarrow> http_response \<Rightarrow> bool" where
  "boots_agent_with url r \<longleftrightarrow> (\<exists>cmdLine.
     r = TextReply 200 (''#!ipxe'' @ newline @ ''echo Booting into the agent'' @ newline @ ''sleep 10'' @ newline @
       ''initrd files/linuxkit-agent-initrd.img'' @ newline @ ''chain files/linuxkit-agent-kernel '' @ cmdLine) \<and>
     (\<forall>before. cmdline_url (before @ cmdLine @ newline) = Some url))"

definition boot_answer :: "string \<Rightarrow> history \<Rightarrow> http_response outcome \<Rightarrow> bool" where
  "boot_answer url h oc \<longleftrightarrow> (\<exists>r. oc = Returned r \<and>
     (r = chain_again \<or> r = boot_os \<or> (\<exists>n t. r = ErrorReply n t) \<or> (\<exists>n e. r = StatusReply n e) \<or> boots_agent_with url r))"

lemma boot_answer_agent:
  assumes "plain_url url"
  shows "ends (boot_answer url) h (boot_agent url)"
proof -
  have "cmdline_url (before @ (cmd @ '' discovery_url='' @ url) @ newline) = Some url" for before cmd
    using cmdline_url_last [OF assms, of "before @ cmd"] by simp
  then have "boots_agent_with url (TextReply 200 (''#!ipxe'' @ newline @ ''echo Booting into the agent'' @ newline @ ''sleep 10'' @ newline @
       ''initrd files/linuxkit-agent-initrd.img'' @ newline @ ''chain files/linuxkit-agent-kernel '' @
       cmd @ '' discovery_url='' @ url))" for cmd
    unfolding boots_agent_with_def by blast
  then show ?thesis
    unfolding boot_agent_def by (auto simp: boot_answer_def split: sum.splits)
qed

lemma boot_answer_error: "ends (boot_answer url) h (client_error err)"
  by (cases err) (auto simp: client_error_def boot_answer_def)

text \<open>
  C24: the URL the discovery server knows itself by reaches the agent: every answer of the boot
  handler is the chain loop, the boot of the installed system, an error, or the script that
  boots the agent, from whose command line the agent that then starts reads exactly that URL,
  provided it is a word of printable ASCII without an equals sign.
\<close>

theorem boot_url_arrives:
  assumes "plain_url url"
  shows "ends (boot_answer url) [] (ipxeBoot url systemUUID)"
proof -
  have "ends (boot_answer url) h (Ret chain_again)" "ends (boot_answer url) h (Ret boot_os)" for h
    by (simp_all add: boot_answer_def)
  then show ?thesis
    using boot_answer_agent [OF assms] boot_answer_error
    by (auto simp: ipxeBoot_def split: sum.splits list.splits option.splits)
qed

lemma boot_url_arrives_witness:
  "ends (boot_answer ''http://10.0.0.2:8081'') [] (ipxeBoot ''http://10.0.0.2:8081'' ''4c4c'')"
  by (rule boot_url_arrives) (simp add: plain_url_def graphic_def)

section \<open>The start of the agent\<close>

text \<open>
  Kubernetes' own law of quantities: what a parsed quantity is written as is plain text, and
  reading it gives the same text back.
\<close>

definition quantity_law :: "quantity_parser \<Rightarrow> quantity_reader \<Rightarrow> bool" where
  "quantity_law parse unq \<longleftrightarrow> (\<forall>s q. parse s = Some q \<longrightarrow> reads unq q)"

lemma probed_readable:
  assumes "quantity_law parse unq" and "probed parse goarch h d" and "dh_Hardware d = Some hw"
  shows "readable unq hw"
proof -
  have law: "parse s = Some q \<Longrightarrow> reads unq q" for s q
    using assms(1) by (auto simp: quantity_law_def)
  obtain bytes models devices ifs storage nics where
    d: "parse (show_int (sint (bytes :: 64 word))) = Some (hw_Ram hw)" "parse (show_int (int (length (models :: string list)))) = Some (cpu_CPUS (hw_CPU hw))"
      "hw_Storage hw = Slice storage" "list_all2 (drive_of parse) (items devices) storage"
      "hw_NICS hw = Slice nics" "list_all2 (interface_of parse h) (filter reported_nic ifs) nics"
    using assms(2,3) unfolding probed_def by auto
  have "reads unq (storage_Size s)" if "s \<in> set storage" for s
    using d(4) that law by (auto simp: drive_of_def list_all2_conv_all_nth in_set_conv_nth)
  moreover have "reads unq (hwnic_Speed n)" if "n \<in> set nics" for n
    using d(6) that law by (auto simp: interface_of_def list_all2_conv_all_nth in_set_conv_nth)
  ultimately show ?thesis using d law by (auto simp: readable_def)
qed

definition clean_report :: "discoveryHardware \<Rightarrow> discoverInput" where
  "clean_report d = \<lparr>discover_SystemUUID = utf8_text (dh_SystemUUID d),
     discover_Hardware = map_option clean_Hardware (dh_Hardware d)\<rparr>"

definition url_known :: "string \<Rightarrow> history \<Rightarrow> string \<Rightarrow> bool" where
  "url_known flag h url \<longleftrightarrow>
     (if flag = [] then \<exists>line. heard h (ReadAllFile ''/proc/cmdline'') (HText (Inr line)) \<and> cmdline_url line = Some url
      else url = flag)"

text \<open>The server took a request: it answered 204.\<close>

definition taken :: "history \<Rightarrow> string \<Rightarrow> bool" where
  "taken h url \<longleftrightarrow> (\<exists>body text. (HttpRequest ''POST'' url body, AHttp (Reply 204 text)) \<in> set h)"

text \<open>What the agent knows once its hardware report was taken and it listens.\<close>

definition announced :: "quantity_parser \<Rightarrow> string \<Rightarrow> string \<Rightarrow> history \<Rightarrow> string \<Rightarrow> discoveryHardware \<Rightarrow> bool" where
  "announced parse goarch flag h url d \<longleftrightarrow> url_known flag h url \<and> probed parse goarch h d \<and>
     taken h (url @ ''/discover'') \<and> heard h (Listen agent_address) (HErr None)"

definition boot_contract ::
  "quantity_parser \<Rightarrow> quantity_reader \<Rightarrow> string \<Rightarrow> string \<Rightarrow> history \<Rightarrow> call \<Rightarrow> bool" where
  "boot_contract parse unq goarch flag h c = (case c of
     HttpRequest m u body \<Rightarrow> m = ''POST'' \<and> (\<exists>url d.
       u = url @ ''/discover'' \<and> url_known flag h url \<and> probed parse goarch h d \<and>
         bind_discoverInput unq body = Some (clean_report d) \<or>
       u = url @ ''/ready'' \<and> announced parse goarch flag h url d \<and>
         (\<exists>ip. heard h (DialUDP default_route) (HAddress (Inr ip)) \<and>
            bind_readyInput body = Some \<lparr>ready_SystemUUID = utf8_text (dh_SystemUUID d), ready_IP = IP_String ip\<rparr>))
   | Host ServeHttp \<Rightarrow> (\<exists>url d. announced parse goarch flag h url d \<and> taken h (url @ ''/ready''))
   | Host hc \<Rightarrow> True
   | _ \<Rightarrow> False)"

lemma boot_contract_host [simp]:
  "hc \<noteq> ServeHttp \<Longrightarrow> boot_contract parse unq goarch flag h (Host hc)"
  by (cases hc) (simp_all add: boot_contract_def)

lemma taken_append: "taken h url \<Longrightarrow> taken (h @ h') url"
  by (auto simp: taken_def)

lemma url_known_append: "url_known flag h url \<Longrightarrow> url_known flag (h @ h') url"
  by (auto simp: url_known_def intro: heard_append split: if_splits)

lemma announced_append: "announced parse goarch flag h url d \<Longrightarrow> announced parse goarch flag (h @ h') url d"
  by (simp add: announced_def taken_append url_known_append probed_append)

lemma hex_value_ascii: "hex_value c \<noteq> None \<Longrightarrow> (of_char c :: nat) < 128"
  by (auto simp: hex_value_def Let_def split: if_splits)

lemma hex_digit_ascii: "v < 16 \<Longrightarrow> (of_char (hex_digit v) :: nat) < 128"
  by (rule hex_value_ascii) (simp add: hex_value_digit)

lemma show_hex_ascii: "c \<in> set (show_hex n) \<Longrightarrow> (of_char c :: nat) < 128"
  by (rule hex_value_ascii) (rule show_hex_digits)

lemma show_nat_ascii: "c \<in> set (show_nat n) \<Longrightarrow> (of_char c :: nat) < 128"
  using show_nat_digits [of c n] by (auto simp: is_digit_def)

lemma hexString_ascii: "c \<in> set (hexString bs) \<Longrightarrow> (of_char c :: nat) < 128"
proof (induction bs)
  case (Cons b bs)
  have "unat b < 256" using unsigned_less [of b] by simp
  then have "unat b div 16 < 16" "unat b mod 16 < 16" by (simp_all add: less_mult_imp_div_less)
  then show ?case using Cons hex_digit_ascii by auto
qed simp

lemma strings_Join_ascii:
  "\<forall>s \<in> set ss. \<forall>c \<in> set s. (of_char c :: nat) < 128 \<Longrightarrow> \<forall>c \<in> set sep. (of_char c :: nat) < 128 \<Longrightarrow>
     \<forall>c \<in> set (strings_Join ss sep). (of_char c :: nat) < 128"
  by (induction ss sep rule: strings_Join.induct) auto

lemma show_groups_ascii: "\<forall>c \<in> set (show_groups gs). (of_char c :: nat) < 128"
  unfolding show_groups_def by (rule strings_Join_ascii) (auto simp: show_hex_ascii)

lemma IP_String_ascii: "\<forall>c \<in> set (IP_String ip). (of_char c :: nat) < 128"
proof -
  have v4: "\<forall>c \<in> set (strings_Join (map (\<lambda>b. show_nat (unat b)) bs) ''.''). (of_char c :: nat) < 128" for bs :: "byte list"
    by (rule strings_Join_ascii) (auto simp: show_nat_ascii)
  show ?thesis
    using v4 show_groups_ascii hexString_ascii
    by (auto simp: IP_String_def show_IPv6_def Let_def split: prod.splits)
qed

lemma IP_String_text [simp]: "utf8_text (IP_String ip) = IP_String ip"
  using IP_String_ascii by (rule utf8_text_ascii)

lemma SendReady_always:
  assumes "announced parse goarch flag h url d"
  shows "always (boot_contract parse unq goarch flag) h (SendReady url (dh_SystemUUID d))"
proof -
  have body: "boot_contract parse unq goarch flag (h @ [(Host (DialUDP default_route), AHost (HAddress (Inr ip)))])
      (HttpRequest ''POST'' (url @ ''/ready'')
        (json_print (marshal_readyInput \<lparr>ready_SystemUUID = dh_SystemUUID d, ready_IP = IP_String ip\<rparr>)))" for ip
    using announced_append [OF assms] ready_report_bound [of "\<lparr>ready_SystemUUID = dh_SystemUUID d, ready_IP = IP_String ip\<rparr>"]
    by (auto simp: boot_contract_def heard_def)
  show ?thesis
    unfolding SendReady_def Let_def
    by (auto simp: host_reads body split: sum.splits http_answer.splits)
qed

definition sent :: "string \<Rightarrow> history \<Rightarrow> history \<Rightarrow> string option outcome \<Rightarrow> bool" where
  "sent url h h' oc \<longleftrightarrow> (\<exists>g r. h' = h @ g \<and> oc = Returned r \<and> (r = None \<longrightarrow> taken h' (url @ ''/ready'')))"

lemma SendReady_ends: "ends (sent url h) h (SendReady url uuid)"
  unfolding SendReady_def Let_def
  by (auto simp: sent_def taken_def as_Http_def split: sum.splits http_answer.splits answer.splits)

lemma ready_loop_always:
  assumes "announced parse goarch flag h url d"
    and "\<And>g. taken (h @ g) (url @ ''/ready'') \<Longrightarrow> always (boot_contract parse unq goarch flag) (h @ g) p"
  shows "always (boot_contract parse unq goarch flag) h (ready_loop fuel url (dh_SystemUUID d) p)"
  using assms
proof (induction fuel arbitrary: h)
  case (Suc fuel)
  have next_round: "always (boot_contract parse unq goarch flag) ((h @ g) @ [x]) (ready_loop fuel url (dh_SystemUUID d) p)" for g x
  proof (rule Suc.IH)
    show "announced parse goarch flag ((h @ g) @ [x]) url d"
      using announced_append [OF Suc.prems(1), of "g @ [x]"] by simp
    show "always (boot_contract parse unq goarch flag) (((h @ g) @ [x]) @ g') p"
      if "taken (((h @ g) @ [x]) @ g') (url @ ''/ready'')" for g'
      using Suc.prems(2) [of "g @ [x] @ g'"] that by simp
  qed
  show ?case
    unfolding ready_loop.simps
  proof (rule always_and_then [OF SendReady_always [OF Suc.prems(1)]], rule ends_mono [OF SendReady_ends [of url h]], intro allI impI)
    fix h' oc r assume "sent url h h' oc" "oc = Returned r"
    then obtain g where g: "h' = h @ g" "r = None \<Longrightarrow> taken h' (url @ ''/ready'')" by (auto simp: sent_def)
    show "always (boot_contract parse unq goarch flag) h' (case r of None \<Rightarrow> p
        | Some _ \<Rightarrow> Call (Host (SleepFor (30 * Second))) (\<lambda>_. ready_loop fuel url (dh_SystemUUID d) p))"
      using g Suc.prems(2) [of g] next_round [of g] by (cases r) simp_all
  qed
qed simp

lemma server_Run_always:
  assumes "url_known flag h url" "probed parse goarch h d" "taken h (url @ ''/discover'')"
  shows "always (boot_contract parse unq goarch flag) h (server_Run fuel url (dh_SystemUUID d))"
proof -
  have "always (boot_contract parse unq goarch flag) h' (deferred (Host CloseListener) (ready_loop fuel url (dh_SystemUUID d) serve_until_stop))"
    if "announced parse goarch flag h' url d" for h'
  proof (rule always_deferred)
    show "always (boot_contract parse unq goarch flag) h' (ready_loop fuel url (dh_SystemUUID d) serve_until_stop)"
    proof (rule ready_loop_always [OF that])
      fix g assume "taken (h' @ g) (url @ ''/ready'')"
      then have "boot_contract parse unq goarch flag (h' @ g) (Host ServeHttp)"
        using announced_append [OF that] by (auto simp: boot_contract_def)
      then show "always (boot_contract parse unq goarch flag) (h' @ g) serve_until_stop"
        by (simp add: serve_until_stop_def split: sum.splits)
    qed
  qed simp
  moreover have "announced parse goarch flag (h @ [(Host (Listen agent_address), AHost (HErr None))]) url d"
    using assms by (simp add: announced_def taken_append url_known_append probed_append)
  moreover have "host_done (as_Host a) = Inr u \<Longrightarrow> a = AHost (HErr None)" for a u
    by (auto simp: host_done_def as_Host_def split: host_answer.splits answer.splits option.splits)
  ultimately show ?thesis by (auto simp: server_Run_def split: sum.splits)
qed

lemma report_always:
  assumes "quantity_law parse unq" and "url_known flag h url" and d: "probed parse goarch h d"
  shows "always (boot_contract parse unq goarch flag) h (report_hardware fuel url d)"
proof -
  let ?P = "boot_contract parse unq goarch flag"
  let ?post = "HttpRequest ''POST'' (url @ ''/discover'') (json_print (marshal_discoveryHardware d))"
  have "bind_discoverInput unq (json_print (marshal_discoveryHardware d)) = Some (clean_report d)"
    unfolding clean_report_def by (rule discover_report_bound) (rule probed_readable [OF assms(1) d])
  then have "?P h ?post" using assms by (auto simp: boot_contract_def)
  moreover have "always ?P (h @ [(?post, AHttp (Reply 204 reply))])
      (and_then (server_Run fuel url (dh_SystemUUID d)) (\<lambda>err. case err of None \<Rightarrow> Ret 0 | Some _ \<Rightarrow> Ret 1))" for reply
    by (rule always_and_then [OF server_Run_always ends_all])
      (use assms in \<open>auto simp: url_known_append probed_append taken_def split: option.splits\<close>)
  ultimately show ?thesis
    by (auto simp: report_hardware_def as_Http_def split: http_answer.splits answer.splits)
qed

lemma probe_then_report_always:
  assumes "accepts_integers parse" and "quantity_law parse unq" and url: "url_known flag h url"
  shows "always (boot_contract parse unq goarch flag) h (and_then (DiscoverHardware parse goarch json_error)
    (\<lambda>r. case r of Inl err \<Rightarrow> Ret 1 | Inr d \<Rightarrow> report_hardware fuel url d))"
proof (rule always_and_then)
  show "always (boot_contract parse unq goarch flag) h (DiscoverHardware parse goarch json_error)"
    by (rule always_mono [OF probe_reads])
      (auto simp: probe_call_def boot_contract_def split: call.splits host_call.splits)
  have "ends (\<lambda>h' oc. (\<exists>g. h' = h @ g) \<and> probe_outcome parse goarch h' oc) h (DiscoverHardware parse goarch json_error)"
    using ends_extends [where h = "[]", simplified] ends_probe [OF assms(1)] by blast
  then show "ends (\<lambda>h oc. \<forall>r. oc = Returned r \<longrightarrow> always (boot_contract parse unq goarch flag) h
      (case r of Inl err \<Rightarrow> Ret 1 | Inr d \<Rightarrow> report_hardware fuel url d)) h (DiscoverHardware parse goarch json_error)"
  proof (rule ends_mono, intro allI impI)
    fix h' oc r assume "(\<exists>g. h' = h @ g) \<and> probe_outcome parse goarch h' oc" "oc = Returned r"
    then show "always (boot_contract parse unq goarch flag) h' (case r of Inl err \<Rightarrow> Ret 1 | Inr d \<Rightarrow> report_hardware fuel url d)"
      using report_always [OF assms(2)] url_known_append [OF url]
      by (auto simp: probe_outcome_def split: sum.splits)
  qed
qed

lemma find_url_always:
  assumes "\<And>h url. url_known flag h url \<Longrightarrow> always (boot_contract parse unq goarch flag) h (k url)"
  shows "always (boot_contract parse unq goarch flag) [] (find_url flag k)"
proof (cases "flag = []")
  case True
  then have "url_known flag [(Host (OpenFile ''/proc/cmdline''), a), (Host (ReadAllFile ''/proc/cmdline''), AHost (HText (Inr line)))] url"
    if "cmdline_url line = Some url" for a line url
    using that by (auto simp: url_known_def heard_def)
  then show ?thesis
    using True assms by (auto simp: find_url_def host_reads split: sum.split option.split)
next
  case False
  then show ?thesis using assms by (simp add: find_url_def url_known_def)
qed

text \<open>
  C12: the start of the agent, whatever the machine and the server answer: it only posts to the
  URL it was given or read from the kernel's command line; what it posts first is bound by the
  discovery server to the very hardware the probe has found, and what it posts later to its
  system UUID and the address of the machine; the address is posted only after the hardware
  was taken and the agent listens, and it serves only after the address was taken.
\<close>

theorem agent_main_contract:
  assumes "accepts_integers parse" and "quantity_law parse unq"
  shows "always (boot_contract parse unq goarch flag) [] (agent_main parse goarch json_error url_error flag fuel)"
  unfolding agent_main_def
  by (rule find_url_always) (use probe_then_report_always [OF assms] in \<open>simp split: option.split\<close>)

text \<open>Quantities that are read as the text they are written as.\<close>

definition plain_parse :: quantity_parser where
  "plain_parse s = (if utf8_text s = s then Some s else None)"

definition plain_reader :: quantity_reader where
  "plain_reader j = (case j of JString s \<Rightarrow> Some s | _ \<Rightarrow> None)"

lemma plain_laws: "accepts_integers plain_parse" "quantity_law plain_parse plain_reader"
proof -
  have "\<forall>c \<in> set (show_int i). (of_char c :: nat) < 128" for i
    by (auto simp: show_int_def show_nat_ascii)
  then have "utf8_text (show_int i) = show_int i" for i by (rule utf8_text_ascii)
  then show "accepts_integers plain_parse" by (simp add: accepts_integers_def plain_parse_def)
  show "quantity_law plain_parse plain_reader"
    by (auto simp: quantity_law_def plain_parse_def plain_reader_def reads_def split: if_splits)
qed

lemma agent_main_contract_witness:
  "\<exists>h body d. performs (agent_main plain_parse ''amd64'' id (\<lambda>_. None) ''http://10.0.0.2:8081'' 1) h
       (HttpRequest ''POST'' ''http://10.0.0.2:8081/discover'' body) \<and>
     probed plain_parse ''amd64'' h d \<and> bind_discoverInput plain_reader body = Some (clean_report d)"
proof -
  let ?main = "agent_main plain_parse ''amd64'' id (\<lambda>_. None) ''http://10.0.0.2:8081'' 1"
  let ?h = "[(Host HostInfo, AHost (HText (Inr ''4c4c''))), (Host VirtualMemory, AHost (HMemory (Inr 4096))),
    (Host CpuInfo, AHost (HNames (Inr [''QEMU'']))), (Host (Exec lsblk_cmd), AHost (HExec ''{}'' None)),
    (Host NetInterfaces, AHost (HInterfaces (Inr [(''lo'', [])])))]"
  have lsblk: "unmarshal_lsblk ''{}'' = Some NilSlice"
    by (simp add: unmarshal_lsblk_def json_parse_def numeral_eq_Suc)
  obtain q1 q2 where q: "plain_parse (show_int (sint (4096 :: 64 word))) = Some q1" "plain_parse (show_int 1) = Some q2"
    using plain_laws(1) by (meson accepts_integers_def not_None_eq)
  then obtain body where "performs ?main ?h (HttpRequest ''POST'' ''http://10.0.0.2:8081/discover'' body)"
    using lsblk by (simp add: agent_main_def find_url_def DiscoverHardware_def ask_host_def host_reads_defs MustParse_def
        skipped_nic_def report_hardware_def)
  moreover from performs_always [OF agent_main_contract [OF plain_laws] this]
  have "\<exists>d. probed plain_parse ''amd64'' ?h d \<and> bind_discoverInput plain_reader body = Some (clean_report d)"
    by (auto simp: boot_contract_def announced_def taken_def)
  ultimately show ?thesis by blast
qed

section \<open>Reporting until it is taken\<close>

definition tries :: "history \<Rightarrow> nat" where
  "tries h = call_count (Host (DialUDP default_route)) h"

definition pauses :: "history \<Rightarrow> nat" where
  "pauses h = call_count (Host (SleepFor (30 * Second))) h"

definition retried :: "nat \<Rightarrow> string \<Rightarrow> history \<Rightarrow> unit outcome \<Rightarrow> bool" where
  "retried n url h oc \<longleftrightarrow>
     oc = Returned () \<and> taken h (url @ ''/ready'') \<and> tries h = pauses h + 1 \<and> tries h \<le> n \<or>
     oc = Hung \<and> \<not> taken h (url @ ''/ready'') \<and> tries h = n \<and> pauses h = n"

lemma count_simps [simp]:
  "tries [] = 0" "tries (h @ h') = tries h + tries h'" "pauses [] = 0" "pauses (h @ h') = pauses h + pauses h'"
  "tries ((c, a) # h) = (if c = Host (DialUDP default_route) then Suc (tries h) else tries h)"
  "pauses ((c, a) # h) = (if c = Host (SleepFor (30 * Second)) then Suc (pauses h) else pauses h)"
  by (simp_all add: tries_def pauses_def)

lemma taken_simps [simp]: "\<not> taken [] u" "taken (h @ h') u \<longleftrightarrow> taken h u \<or> taken h' u"
  "taken ((Host hc, a) # h) u \<longleftrightarrow> taken h u"
  by (auto simp: taken_def)

lemma SendReady_once:
  "ends (\<lambda>h' oc. \<exists>g r. h' = h @ g \<and> oc = Returned r \<and> tries g = 1 \<and> pauses g = 0 \<and>
     (r = None \<longleftrightarrow> taken g (url @ ''/ready''))) h (SendReady url uuid)"
  unfolding SendReady_def Let_def
  by (auto simp: taken_def as_Http_def split: sum.splits http_answer.splits answer.splits)

lemma ready_loop_retried:
  "ends (\<lambda>h' oc. \<exists>g. h' = h @ g \<and> retried n url g oc) h (ready_loop n url uuid (Ret ()))"
proof (induction n arbitrary: h)
  case 0
  then show ?case by (simp add: retried_def)
next
  case (Suc n)
  show ?case
    unfolding ready_loop.simps
  proof (rule ends_and_then, rule ends_mono [OF SendReady_once])
    fix h' oc
    assume "\<exists>g r. h' = h @ g \<and> oc = Returned r \<and> tries g = 1 \<and> pauses g = 0 \<and> (r = None \<longleftrightarrow> taken g (url @ ''/ready''))"
    then obtain g r where g: "h' = h @ g" "oc = Returned r" "tries g = 1" "pauses g = 0" "r = None \<longleftrightarrow> taken g (url @ ''/ready'')"
      by blast
    have again: "ends (\<lambda>h' oc. \<exists>g. h' = h @ g \<and> retried (Suc n) url g oc) ((h @ g) @ [(Host (SleepFor (30 * Second)), a)])
        (ready_loop n url uuid (Ret ()))" if "r \<noteq> None" for a
      by (rule ends_mono [OF Suc.IH]) (use g that in \<open>auto simp: retried_def\<close>)
    show "case oc of Returned r \<Rightarrow> ends (\<lambda>h' oc. \<exists>g. h' = h @ g \<and> retried (Suc n) url g oc) h'
         (case r of None \<Rightarrow> Ret () | Some _ \<Rightarrow> Call (Host (SleepFor (30 * Second))) (\<lambda>_. ready_loop n url uuid (Ret ())))
       | Panicked m \<Rightarrow> \<exists>g. h' = h @ g \<and> retried (Suc n) url g (Panicked m)
       | Hung \<Rightarrow> \<exists>g. h' = h @ g \<and> retried (Suc n) url g Hung | Waiting c \<Rightarrow> True"
      using g again by (cases r) (auto simp: retried_def)
  qed
qed

text \<open>
  The loop that reports the agent's address, within any number \<open>n\<close> of rounds and whatever is
  answered: it is left exactly when the server has taken the report, after one try more than
  there were pauses of thirty seconds; if it is not left, the server was tried \<open>n\<close> times, each
  try was followed by a pause and none was taken. It never panics.
\<close>

lemma ready_retries: "ends (retried n url) [] (ready_loop n url uuid (Ret ()))"
  using ready_loop_retried [of "[]" n url uuid] by simp

end
