(* ===== verification/GoMemory.thy ===== *)
theory GoMemory
  imports Prelude
begin

text \<open>
  Go's memory as the deep copies see it: values that hold references, the cells references lead
  to, and what it means that a copy shares nothing with its original. The types of this API
  are not recursive, so a value has the shape its type says, and everything below is recursion
  on the type. A slice is a reference to its whole array: no two slices overlap in part, which
  the code never makes.
\<close>

section \<open>Values, cells and types\<close>

datatype scalar = SText string | SBool bool | SInt int

text \<open>A struct is its fields by name; a pointer, a slice and a map are nil or an address.\<close>

datatype gval = Flat scalar | Ref "nat option" | Struct "string \<Rightarrow> gval"

datatype cell = Obj gval | Arr "gval list" | Dict string_map

type_synonym store = "cell list"

text \<open>\<open>TShared\<close> is a pointer that the copy of a value shares with the value, on purpose or not.\<close>

datatype ty = TFlat | TPtr ty | TShared ty | TSlice ty | TMap | TStruct "(string \<times> ty) list"

definition obj_at :: "store \<Rightarrow> nat \<Rightarrow> gval option" where
  "obj_at s a = (if a < length s then case s ! a of Obj v \<Rightarrow> Some v | _ \<Rightarrow> None else None)"

definition arr_at :: "store \<Rightarrow> nat \<Rightarrow> gval list option" where
  "arr_at s a = (if a < length s then case s ! a of Arr vs \<Rightarrow> Some vs | _ \<Rightarrow> None else None)"

definition dict_at :: "store \<Rightarrow> nat \<Rightarrow> string_map option" where
  "dict_at s a = (if a < length s then case s ! a of Dict d \<Rightarrow> Some d | _ \<Rightarrow> None else None)"

section \<open>What a value of a type is in a store\<close>

fun conform :: "store \<Rightarrow> ty \<Rightarrow> gval \<Rightarrow> bool" where
  "conform s TFlat v = (case v of Flat x \<Rightarrow> True | _ \<Rightarrow> False)"
| "conform s (TPtr t) v = (case v of Ref None \<Rightarrow> True
     | Ref (Some a) \<Rightarrow> (case obj_at s a of Some w \<Rightarrow> conform s t w | None \<Rightarrow> False) | _ \<Rightarrow> False)"
| "conform s (TShared t) v = (case v of Ref None \<Rightarrow> True
     | Ref (Some a) \<Rightarrow> (case obj_at s a of Some w \<Rightarrow> conform s t w | None \<Rightarrow> False) | _ \<Rightarrow> False)"
| "conform s (TSlice t) v = (case v of Ref None \<Rightarrow> True
     | Ref (Some a) \<Rightarrow> (case arr_at s a of Some ws \<Rightarrow> \<forall>w \<in> set ws. conform s t w | None \<Rightarrow> False) | _ \<Rightarrow> False)"
| "conform s TMap v = (case v of Ref None \<Rightarrow> True | Ref (Some a) \<Rightarrow> dict_at s a \<noteq> None | _ \<Rightarrow> False)"
| "conform s (TStruct fts) v = (case v of Struct g \<Rightarrow> \<forall>(n, t) \<in> set fts. conform s t (g n) | _ \<Rightarrow> False)"

text \<open>The tree a value stands for, whatever the addresses; nil differs from empty.\<close>

datatype tree = Leaf scalar | NilRef | Node "tree list" | Table string_map

fun content :: "store \<Rightarrow> ty \<Rightarrow> gval \<Rightarrow> tree" where
  "content s TFlat v = (case v of Flat x \<Rightarrow> Leaf x | _ \<Rightarrow> NilRef)"
| "content s (TPtr t) v = (case v of Ref (Some a) \<Rightarrow>
     (case obj_at s a of Some w \<Rightarrow> Node [content s t w] | None \<Rightarrow> NilRef) | _ \<Rightarrow> NilRef)"
| "content s (TShared t) v = (case v of Ref (Some a) \<Rightarrow>
     (case obj_at s a of Some w \<Rightarrow> Node [content s t w] | None \<Rightarrow> NilRef) | _ \<Rightarrow> NilRef)"
| "content s (TSlice t) v = (case v of Ref (Some a) \<Rightarrow>
     (case arr_at s a of Some ws \<Rightarrow> Node (map (content s t) ws) | None \<Rightarrow> NilRef) | _ \<Rightarrow> NilRef)"
| "content s TMap v = (case v of Ref (Some a) \<Rightarrow>
     (case dict_at s a of Some d \<Rightarrow> Table d | None \<Rightarrow> NilRef) | _ \<Rightarrow> NilRef)"
| "content s (TStruct fts) v = (case v of Struct g \<Rightarrow> Node (map (\<lambda>(n, t). content s t (g n)) fts) | _ \<Rightarrow> NilRef)"

text \<open>The addresses a value can reach, and those behind its shared pointers.\<close>

fun addrs :: "store \<Rightarrow> ty \<Rightarrow> gval \<Rightarrow> nat set" where
  "addrs s TFlat v = {}"
| "addrs s (TPtr t) v = (case v of Ref (Some a) \<Rightarrow>
     insert a (case obj_at s a of Some w \<Rightarrow> addrs s t w | None \<Rightarrow> {}) | _ \<Rightarrow> {})"
| "addrs s (TShared t) v = (case v of Ref (Some a) \<Rightarrow>
     insert a (case obj_at s a of Some w \<Rightarrow> addrs s t w | None \<Rightarrow> {}) | _ \<Rightarrow> {})"
| "addrs s (TSlice t) v = (case v of Ref (Some a) \<Rightarrow>
     insert a (case arr_at s a of Some ws \<Rightarrow> \<Union>w \<in> set ws. addrs s t w | None \<Rightarrow> {}) | _ \<Rightarrow> {})"
| "addrs s TMap v = (case v of Ref (Some a) \<Rightarrow> {a} | _ \<Rightarrow> {})"
| "addrs s (TStruct fts) v = (case v of Struct g \<Rightarrow> \<Union>(n, t) \<in> set fts. addrs s t (g n) | _ \<Rightarrow> {})"

fun shared :: "store \<Rightarrow> ty \<Rightarrow> gval \<Rightarrow> nat set" where
  "shared s TFlat v = {}"
| "shared s (TPtr t) v = (case v of Ref (Some a) \<Rightarrow>
     (case obj_at s a of Some w \<Rightarrow> shared s t w | None \<Rightarrow> {}) | _ \<Rightarrow> {})"
| "shared s (TShared t) v = (case v of Ref (Some a) \<Rightarrow>
     insert a (case obj_at s a of Some w \<Rightarrow> addrs s t w | None \<Rightarrow> {}) | _ \<Rightarrow> {})"
| "shared s (TSlice t) v = (case v of Ref (Some a) \<Rightarrow>
     (case arr_at s a of Some ws \<Rightarrow> \<Union>w \<in> set ws. shared s t w | None \<Rightarrow> {}) | _ \<Rightarrow> {})"
| "shared s TMap v = {}"
| "shared s (TStruct fts) v = (case v of Struct g \<Rightarrow> \<Union>(n, t) \<in> set fts. shared s t (g n) | _ \<Rightarrow> {})"

section \<open>Stores that agree\<close>

definition agree :: "store \<Rightarrow> store \<Rightarrow> nat set \<Rightarrow> bool" where
  "agree s s' A \<longleftrightarrow> (\<forall>a \<in> A. a < length s \<longrightarrow> a < length s' \<and> s' ! a = s ! a)"

lemma agree_at:
  "agree s s' A \<Longrightarrow> a \<in> A \<Longrightarrow> obj_at s a = Some v \<Longrightarrow> obj_at s' a = Some v"
  "agree s s' A \<Longrightarrow> a \<in> A \<Longrightarrow> arr_at s a = Some vs \<Longrightarrow> arr_at s' a = Some vs"
  "agree s s' A \<Longrightarrow> a \<in> A \<Longrightarrow> dict_at s a = Some d \<Longrightarrow> dict_at s' a = Some d"
  by (auto simp: agree_def obj_at_def arr_at_def dict_at_def split: if_splits)

lemma agree_subset: "agree s s' A \<Longrightarrow> B \<subseteq> A \<Longrightarrow> agree s s' B"
  by (auto simp: agree_def)

lemma agree_append [simp]: "agree s (s @ t) A"
  by (auto simp: agree_def nth_append)

lemma agree_update: "a \<notin> A \<Longrightarrow> agree s (s[a := c]) A"
  by (auto simp: agree_def) (metis nth_list_update_neq)

text \<open>What a value is depends only on the cells it reaches.\<close>

definition same_in :: "store \<Rightarrow> store \<Rightarrow> ty \<Rightarrow> gval \<Rightarrow> bool" where
  "same_in s s' t v \<longleftrightarrow> conform s' t v \<and> content s' t v = content s t v \<and> addrs s' t v = addrs s t v \<and>
     shared s' t v = shared s t v"

lemma frame: "conform s t v \<Longrightarrow> agree s s' (addrs s t v) \<Longrightarrow> same_in s s' t v"
proof (induction s t v rule: conform.induct)
  case (2 s t v)
  show ?case
  proof (cases "\<exists>a. v = Ref (Some a)")
    case True
    then obtain a w where a: "v = Ref (Some a)" "obj_at s a = Some w" "conform s t w"
      using 2 by (auto split: option.splits)
    with 2 have "agree s s' (addrs s t w)" by (auto intro: agree_subset)
    with 2 a have "same_in s s' t w" by auto
    moreover have "obj_at s' a = Some w" using 2(3) a by (intro agree_at(1) [of s s' "addrs s (TPtr t) v"]) auto
    ultimately show ?thesis using a by (simp add: same_in_def)
  qed (use 2 in \<open>auto simp: same_in_def split: gval.splits option.splits\<close>)
next
  case (3 s t v)
  show ?case
  proof (cases "\<exists>a. v = Ref (Some a)")
    case True
    then obtain a w where a: "v = Ref (Some a)" "obj_at s a = Some w" "conform s t w"
      using 3 by (auto split: option.splits)
    with 3 have "agree s s' (addrs s t w)" by (auto intro: agree_subset)
    with 3 a have "same_in s s' t w" by auto
    moreover have "obj_at s' a = Some w" using 3(3) a by (intro agree_at(1) [of s s' "addrs s (TShared t) v"]) auto
    ultimately show ?thesis using a by (simp add: same_in_def)
  qed (use 3 in \<open>auto simp: same_in_def split: gval.splits option.splits\<close>)
next
  case (4 s t v)
  show ?case
  proof (cases "\<exists>a. v = Ref (Some a)")
    case True
    then obtain a ws where a: "v = Ref (Some a)" "arr_at s a = Some ws" "\<forall>w \<in> set ws. conform s t w"
      using 4 by (auto split: option.splits)
    with 4 have "agree s s' (addrs s t w)" if "w \<in> set ws" for w using that by (auto intro: agree_subset)
    with 4 a have "\<forall>w \<in> set ws. same_in s s' t w" by auto
    moreover have "arr_at s' a = Some ws" using 4(3) a by (intro agree_at(2) [of s s' "addrs s (TSlice t) v"]) auto
    ultimately show ?thesis using a by (simp add: same_in_def)
  qed (use 4 in \<open>auto simp: same_in_def split: gval.splits option.splits\<close>)
next
  case (5 s v)
  then show ?case
    using agree_at(3) [of s s' "addrs s TMap v"]
    by (auto simp: same_in_def split: gval.splits option.splits)
next
  case (6 s fts v)
  show ?case
  proof (cases v)
    case (Struct g)
    have "same_in s s' t (g n)" if "(n, t) \<in> set fts" for n t
    proof (rule 6(1) [OF Struct that refl])
      show "conform s t (g n)" using 6(2) Struct that by auto
      show "agree s s' (addrs s t (g n))" using 6(3) Struct that by (auto intro: agree_subset)
    qed
    then show ?thesis using Struct by (auto simp: same_in_def)
  qed (use 6 in \<open>auto simp: same_in_def\<close>)
qed (auto simp: same_in_def)

lemma at_bound:
  "obj_at s a = Some w \<Longrightarrow> a < length s" "arr_at s a = Some ws \<Longrightarrow> a < length s" "dict_at s a = Some d \<Longrightarrow> a < length s"
  by (auto simp: obj_at_def arr_at_def dict_at_def split: if_splits)

lemma addrs_bound: "conform s t v \<Longrightarrow> x \<in> addrs s t v \<Longrightarrow> x < length s"
proof (induction s t v rule: conform.induct)
  case (4 s t v)
  then show ?case by (auto split: gval.splits option.splits dest: at_bound)
next
  case (6 s fts v)
  then show ?case by (cases v) fastforce+
qed (auto split: gval.splits option.splits dest: at_bound)

lemma shared_addrs: "x \<in> shared s t v \<Longrightarrow> x \<in> addrs s t v"
proof (induction s t v rule: shared.induct)
  case (4 s t v)
  then show ?case by (auto split: gval.splits option.splits) blast+
next
  case (6 s fts v)
  then show ?case by (cases v) fastforce+
qed (auto split: gval.splits option.splits)

lemmas same_append = frame [OF _ agree_append]

section \<open>Copiers\<close>

text \<open>
  A \<^verbatim>\<open>DeepCopyInto\<close> takes the value it reads and the memory, and gives the value it leaves in its
  target, and the memory. Each starts with \<^verbatim>\<open>*out = *in\<close>.
\<close>

type_synonym copier = "gval \<Rightarrow> store \<Rightarrow> gval \<times> store"

definition keep :: copier where
  "keep v s = (v, s)"

definition zero_value :: gval where
  "zero_value = Flat (SText [])"

text \<open>
  \<^verbatim>\<open>if in.F != nil { *out = new(T); (*in).DeepCopyInto(*out) }\<close>: a new cell, then its value. With
  \<open>keep\<close> this is \<^verbatim>\<open>**out = **in\<close>.
\<close>

definition copy_new :: "copier \<Rightarrow> copier" where
  "copy_new f v s = (case v of
     Ref (Some a) \<Rightarrow>
       (case obj_at s a of
          Some w \<Rightarrow> (case f w (s @ [Obj zero_value]) of (x, s') \<Rightarrow> (Ref (Some (length s)), s'[length s := Obj x]))
        | None \<Rightarrow> (v, s))
   | _ \<Rightarrow> (v, s))"

text \<open>\<^verbatim>\<open>*out = make([]T, len(*in))\<close>, then every element; with \<open>keep\<close>, \<^verbatim>\<open>copy(*out, *in)\<close>.\<close>

fun copy_elems :: "copier \<Rightarrow> gval list \<Rightarrow> store \<Rightarrow> gval list \<times> store" where
  "copy_elems f [] s = ([], s)"
| "copy_elems f (v # vs) s = (case f v s of (x, s') \<Rightarrow> (case copy_elems f vs s' of (xs, s'') \<Rightarrow> (x # xs, s'')))"

definition copy_make :: "copier \<Rightarrow> copier" where
  "copy_make f v s = (case v of
     Ref (Some a) \<Rightarrow>
       (case arr_at s a of
          Some vs \<Rightarrow> (case copy_elems f vs (s @ [Arr (replicate (length vs) zero_value)]) of
            (xs, s') \<Rightarrow> (Ref (Some (length s)), s'[length s := Arr xs]))
        | None \<Rightarrow> (v, s))
   | _ \<Rightarrow> (v, s))"

text \<open>\<^verbatim>\<open>*out = make(map[string]string, len(*in))\<close>, then every key.\<close>

definition copy_map :: copier where
  "copy_map v s = (case v of
     Ref (Some a) \<Rightarrow> (case dict_at s a of Some d \<Rightarrow> (Ref (Some (length s)), s @ [Dict d]) | None \<Rightarrow> (v, s))
   | _ \<Rightarrow> (v, s))"

text \<open>The fields that are not copied by \<^verbatim>\<open>*out = *in\<close> alone, one after the other.\<close>

fun copy_fields :: "(string \<times> copier) list \<Rightarrow> copier" where
  "copy_fields [] v s = (v, s)"
| "copy_fields ((n, f) # fs) v s = (case v of
     Struct g \<Rightarrow> (case f (g n) s of (x, s') \<Rightarrow> copy_fields fs (Struct (g(n := x))) s')
   | _ \<Rightarrow> (v, s))"

section \<open>Copies that share nothing\<close>

text \<open>
  The memory only grows; the copy has the type and the content of the original, and all it can
  reach is new, but for what is behind the shared pointers of the original, all of which it reaches.
\<close>

definition copied :: "store \<Rightarrow> ty \<Rightarrow> gval \<Rightarrow> gval \<Rightarrow> store \<Rightarrow> bool" where
  "copied s t v v' s' \<longleftrightarrow> (\<exists>r. s' = s @ r) \<and> conform s' t v' \<and> content s' t v' = content s t v \<and>
     addrs s' t v' \<subseteq> {length s..<length s'} \<union> shared s t v \<and> shared s t v \<subseteq> addrs s' t v'"

definition isolates :: "copier \<Rightarrow> ty \<Rightarrow> bool" where
  "isolates f t \<longleftrightarrow> (\<forall>s v. conform s t v \<longrightarrow> (case f v s of (v', s') \<Rightarrow> copied s t v v' s'))"

lemma isolatesI: "(\<And>s v v' s'. conform s t v \<Longrightarrow> f v s = (v', s') \<Longrightarrow> copied s t v v' s') \<Longrightarrow> isolates f t"
  by (auto simp: isolates_def split: prod.splits)

lemma isolatesD: "isolates f t \<Longrightarrow> conform s t v \<Longrightarrow> f v s = (v', s') \<Longrightarrow> copied s t v v' s'"
  by (fastforce simp: isolates_def)

fun plain :: "ty \<Rightarrow> bool" where
  "plain TFlat = True"
| "plain (TShared t) = True"
| "plain (TStruct fts) = (\<forall>(n, t) \<in> set fts. plain t)"
| "plain _ = False"

lemma plain_addrs: "plain t \<Longrightarrow> addrs s t v \<subseteq> shared s t v"
proof (induction t arbitrary: v rule: plain.induct)
  case (3 fts)
  then show ?case by (cases v) fastforce+
qed (auto split: gval.splits option.splits)

lemma copied_keep: "plain t \<Longrightarrow> conform s t v \<Longrightarrow> copied s t v v s"
  using plain_addrs shared_addrs by (auto simp: copied_def)

lemma isolates_keep: "plain t \<Longrightarrow> isolates keep t"
  by (rule isolatesI) (auto simp: keep_def copied_keep)

lemma isolates_map: "isolates copy_map TMap"
proof (rule isolatesI)
  fix s v v' s' assume "conform s TMap v" "copy_map v s = (v', s')"
  then show "copied s TMap v v' s'"
    by (auto simp: copy_map_def copied_def dict_at_def [of "_ @ _"] nth_append split: gval.splits option.splits)
qed

text \<open>What a copier does to a value of a store, it does after the store has grown.\<close>

lemma copied_later:
  assumes "isolates f t" and "conform s t v" and "f v (s @ r) = (v', s')"
  shows "(\<exists>q. s' = s @ r @ q) \<and> conform s' t v' \<and> content s' t v' = content s t v \<and>
    addrs s' t v' \<subseteq> {length s + length r..<length s'} \<union> shared s t v \<and> shared s t v \<subseteq> addrs s' t v'"
proof -
  have "same_in s (s @ r) t v" using same_append [OF assms(2)] .
  then show ?thesis
    using isolatesD [OF assms(1), of "s @ r" v v' s'] assms(3) by (auto simp: same_in_def copied_def)
qed

lemma isolates_new:
  assumes "isolates f t"
  shows "isolates (copy_new f) (TPtr t)"
proof (rule isolatesI)
  fix s v v' s' assume v: "conform s (TPtr t) v" and run: "copy_new f v s = (v', s')"
  show "copied s (TPtr t) v v' s'"
  proof (cases "\<exists>a. v = Ref (Some a)")
    case True
    then obtain a w where a: "v = Ref (Some a)" "obj_at s a = Some w" "conform s t w"
      using v by (auto split: option.splits)
    obtain x s1 where x: "f w (s @ [Obj zero_value]) = (x, s1)" by fastforce
    from copied_later [OF assms a(3) x] obtain q where q: "s1 = s @ [Obj zero_value] @ q"
      and c: "conform s1 t x" "content s1 t x = content s t w" "addrs s1 t x \<subseteq> {Suc (length s)..<length s1} \<union> shared s t w"
        "shared s t w \<subseteq> addrs s1 t x"
      by auto
    have "length s \<notin> shared s t w" using addrs_bound [OF a(3)] shared_addrs by blast
    then have "length s \<notin> addrs s1 t x" using c(3) by auto
    then have same: "same_in s1 (s1[length s := Obj x]) t x" by (intro frame [OF c(1)] agree_update)
    have "v' = Ref (Some (length s))" "s' = s1[length s := Obj x]" using run a x by (auto simp: copy_new_def)
    moreover have "s1[length s := Obj x] = s @ (Obj x # q)" using q by simp
    moreover have "obj_at (s1[length s := Obj x]) (length s) = Some x" using q by (simp add: obj_at_def nth_append)
    ultimately show ?thesis using same c a q by (auto simp: copied_def same_in_def)
  qed (use v run in \<open>auto simp: copy_new_def copied_def split: gval.splits option.splits\<close>)
qed

lemma copied_elems:
  assumes f: "isolates f t" and "\<forall>v \<in> set vs. conform s t v" and "copy_elems f vs (s @ r) = (xs, s')"
  shows "(\<exists>q. s' = s @ r @ q) \<and> (\<forall>x \<in> set xs. conform s' t x) \<and> map (content s' t) xs = map (content s t) vs \<and>
    (\<forall>x \<in> set xs. addrs s' t x \<subseteq> {length s + length r..<length s'} \<union> (\<Union>v \<in> set vs. shared s t v)) \<and>
    (\<Union>v \<in> set vs. shared s t v) \<subseteq> (\<Union>x \<in> set xs. addrs s' t x)"
  using assms(2,3)
proof (induction vs arbitrary: r xs)
  case (Cons v vs)
  obtain x s1 where x: "f v (s @ r) = (x, s1)" by fastforce
  have "conform s t v" using Cons.prems(1) by simp
  from copied_later [OF f this x] obtain q where q: "s1 = s @ r @ q"
    and c: "conform s1 t x" "content s1 t x = content s t v" "addrs s1 t x \<subseteq> {length s + length r..<length s1} \<union> shared s t v"
      "shared s t v \<subseteq> addrs s1 t x"
    by auto
  obtain ys where ys: "copy_elems f vs (s @ (r @ q)) = (ys, s')" "xs = x # ys"
    using Cons.prems(2) x q by (auto split: prod.splits)
  from Cons.IH [OF _ ys(1)] Cons.prems(1) obtain p where p: "s' = s @ (r @ q) @ p"
    and d: "\<forall>x \<in> set ys. conform s' t x" "map (content s' t) ys = map (content s t) vs"
      "\<forall>x \<in> set ys. addrs s' t x \<subseteq> {length s + length (r @ q)..<length s'} \<union> (\<Union>v \<in> set vs. shared s t v)"
      "(\<Union>v \<in> set vs. shared s t v) \<subseteq> (\<Union>x \<in> set ys. addrs s' t x)"
    by auto
  have "same_in s1 s' t x" using same_append [OF c(1), of p] p q by simp
  moreover have "addrs s' t y \<subseteq> {length s + length r..<length s'} \<union> (\<Union>v \<in> set vs. shared s t v)" if "y \<in> set ys" for y
    using d(3) that by fastforce
  ultimately show ?case using c d p q ys(2) by (fastforce simp: same_in_def)
next
  case Nil
  then show ?case by (auto intro: exI [of _ "[]"])
qed

lemma isolates_make:
  assumes "isolates f t"
  shows "isolates (copy_make f) (TSlice t)"
proof (rule isolatesI)
  fix s v v' s' assume v: "conform s (TSlice t) v" and run: "copy_make f v s = (v', s')"
  show "copied s (TSlice t) v v' s'"
  proof (cases "\<exists>a. v = Ref (Some a)")
    case True
    then obtain a ws where a: "v = Ref (Some a)" "arr_at s a = Some ws" "\<forall>w \<in> set ws. conform s t w"
      using v by (auto split: option.splits)
    let ?new = "Arr (replicate (length ws) zero_value)"
    obtain xs s1 where xs: "copy_elems f ws (s @ [?new]) = (xs, s1)" by fastforce
    from copied_elems [OF assms a(3) xs] obtain q where q: "s1 = s @ [?new] @ q"
      and c: "\<forall>x \<in> set xs. conform s1 t x" "map (content s1 t) xs = map (content s t) ws"
        "\<forall>x \<in> set xs. addrs s1 t x \<subseteq> {Suc (length s)..<length s1} \<union> (\<Union>w \<in> set ws. shared s t w)"
        "(\<Union>w \<in> set ws. shared s t w) \<subseteq> (\<Union>x \<in> set xs. addrs s1 t x)"
      by auto
    have "length s \<notin> (\<Union>w \<in> set ws. shared s t w)" using addrs_bound a(3) shared_addrs by blast
    then have "length s \<notin> addrs s1 t x" if "x \<in> set xs" for x using c(3) that by fastforce
    then have same: "\<forall>x \<in> set xs. same_in s1 (s1[length s := Arr xs]) t x"
      using c(1) by (auto intro!: frame agree_update)
    have "v' = Ref (Some (length s))" "s' = s1[length s := Arr xs]" using run a xs by (auto simp: copy_make_def)
    moreover have "s1[length s := Arr xs] = s @ (Arr xs # q)" using q by simp
    moreover have "arr_at (s1[length s := Arr xs]) (length s) = Some xs" using q by (simp add: arr_at_def nth_append)
    moreover have "map (content (s1[length s := Arr xs]) t) xs = map (content s1 t) xs"
      using same by (simp add: same_in_def)
    moreover have "addrs (s1[length s := Arr xs]) t x \<subseteq> {length s..<length s1} \<union> shared s (TSlice t) v" if "x \<in> set xs" for x
    proof -
      have "addrs (s1[length s := Arr xs]) t x = addrs s1 t x" using same that by (simp add: same_in_def)
      then show ?thesis using c(3) that a by fastforce
    qed
    moreover have "(\<Union>w \<in> set ws. shared s t w) \<subseteq> (\<Union>x \<in> set xs. addrs (s1[length s := Arr xs]) t x)"
      using c(4) same by (simp add: same_in_def)
    then have "shared s (TSlice t) v \<subseteq> addrs (s1[length s := Arr xs]) (TSlice t) v'"
      using a calculation(1,4) by auto
    moreover have "length s1 = Suc (length s + length q)" using q by simp
    ultimately show ?thesis using same c(2) a by (simp add: copied_def same_in_def UN_subset_iff)
  qed (use v run in \<open>auto simp: copy_make_def copied_def split: gval.splits option.splits\<close>)
qed

text \<open>
  A struct is copied when every field is that is not plain, each by a copier of its type.
\<close>

definition covers :: "(string \<times> copier) list \<Rightarrow> (string \<times> ty) list \<Rightarrow> bool" where
  "covers fs fts \<longleftrightarrow> distinct (map fst fts) \<and> distinct (map fst fs) \<and>
     (\<forall>(n, f) \<in> set fs. \<exists>t. (n, t) \<in> set fts \<and> isolates f t) \<and>
     (\<forall>(n, t) \<in> set fts. n \<in> fst ` set fs \<or> plain t)"

definition field_copied :: "store \<Rightarrow> gval \<Rightarrow> ty \<Rightarrow> store \<Rightarrow> gval \<Rightarrow> bool" where
  "field_copied s v t s' v' \<longleftrightarrow> conform s' t v' \<and> content s' t v' = content s t v \<and>
     addrs s' t v' \<subseteq> {length s..<length s'} \<union> shared s t v \<and> shared s t v \<subseteq> addrs s' t v'"

lemma field_copied_append: "field_copied s v t s' v' \<Longrightarrow> field_copied s v t (s' @ r) v'"
  using same_append [of s' t v' r] by (fastforce simp: field_copied_def same_in_def)

lemma copied_fields:
  assumes "\<forall>(n, f) \<in> set fs. \<exists>t. (n, t) \<in> set fts \<and> isolates f t" "distinct (map fst fts)" "distinct (map fst fs)"
    and "\<forall>(n, t) \<in> set fts. conform s t (g n)"
    and "\<forall>(n, t) \<in> set fts. if n \<in> fst ` set fs then h n = g n else field_copied s (g n) t (s @ r) (h n)"
    and "copy_fields fs (Struct h) (s @ r) = (v', s')"
  shows "\<exists>q h'. s' = s @ r @ q \<and> v' = Struct h' \<and> (\<forall>(n, t) \<in> set fts. field_copied s (g n) t s' (h' n))"
  using assms(1,3,5,6)
proof (induction fs arbitrary: h r)
  case (Cons p fs)
  obtain n f where p: "p = (n, f)" by (cases p)
  then obtain t where t: "(n, t) \<in> set fts" "isolates f t" using Cons.prems(1) by auto
  obtain x s1 where x: "f (h n) (s @ r) = (x, s1)" by fastforce
  have hn: "h n = g n" using Cons.prems(3) t(1) p by fastforce
  have "conform s t (g n)" using assms(4) t(1) by auto
  from copied_later [OF t(2) this] x hn obtain q where q: "s1 = s @ r @ q" and c: "field_copied s (g n) t s1 x"
    by (fastforce simp: field_copied_def)
  have one: "t' = t" if "(n, t') \<in> set fts" for t' using eq_key_imp_eq_value [OF assms(2) that t(1)] .
  have run: "copy_fields fs (Struct (h(n := x))) (s @ (r @ q)) = (v', s')" using Cons.prems(4) p x q by simp
  have inv: "if m \<in> fst ` set fs then (h(n := x)) m = g m else field_copied s (g m) t' (s @ (r @ q)) ((h(n := x)) m)"
    if mt: "(m, t') \<in> set fts" for m t'
  proof (cases "m = n")
    case True
    moreover have "n \<notin> fst ` set fs" using Cons.prems(2) p by simp
    ultimately show ?thesis using one mt c q by simp
  next
    case False
    have "if m \<in> fst ` set (p # fs) then h m = g m else field_copied s (g m) t' (s @ r) (h m)"
      using bspec [OF Cons.prems(3) mt] by simp
    then show ?thesis using False p field_copied_append [of s "g m" t' "s @ r" "h m" q] by (simp split: if_splits)
  qed
  then have inv: "\<forall>(m, t) \<in> set fts. if m \<in> fst ` set fs then (h(n := x)) m = g m
      else field_copied s (g m) t (s @ (r @ q)) ((h(n := x)) m)" by blast
  show ?case using Cons.IH [OF _ _ inv run] Cons.prems(1,2) by auto
qed auto

lemma isolates_fields:
  assumes "covers fs fts"
  shows "isolates (copy_fields fs) (TStruct fts)"
proof (rule isolatesI)
  fix s v v' s' assume v: "conform s (TStruct fts) v" and run: "copy_fields fs v s = (v', s')"
  then obtain g where g: "v = Struct g" "\<forall>(n, t) \<in> set fts. conform s t (g n)" by (cases v) auto
  have plain: "n \<in> fst ` set fs \<or> plain t" if "(n, t) \<in> set fts" for n t
    using assms that by (auto simp: covers_def)
  have "field_copied s (g n) t s (g n)" if "(n, t) \<in> set fts" "n \<notin> fst ` set fs" for n t
    using plain [OF that(1)] that g(2) copied_keep [of t s "g n"] by (auto simp: field_copied_def copied_def)
  then have "\<forall>(n, t) \<in> set fts. if n \<in> fst ` set fs then g n = g n else field_copied s (g n) t (s @ []) (g n)"
    by auto
  from copied_fields [OF _ _ _ g(2) this] assms run g(1) obtain q h where
    "s' = s @ q" "v' = Struct h" "\<forall>(n, t) \<in> set fts. field_copied s (g n) t s' (h n)"
    by (auto simp: covers_def)
  then show "copied s (TStruct fts) v v' s'"
    using g(1) by (fastforce simp: copied_def field_copied_def)
qed

text \<open>
  So nothing written through the copy, except behind a shared pointer, changes the original, and
  nothing written through the original changes the copy.
\<close>

lemma isolated_content: "isolates f t \<Longrightarrow> conform s t v \<Longrightarrow> f v s = (v', s') \<Longrightarrow> content s' t v' = content s t v"
  by (auto dest: isolatesD simp: copied_def)

lemma isolated_writes:
  assumes "isolates f t" and v: "conform s t v" and "f v s = (v', s')" and a: "a \<notin> shared s t v"
  shows "a \<in> addrs s' t v' \<Longrightarrow> content (s'[a := c]) t v = content s t v"
    and "a \<in> addrs s t v \<Longrightarrow> content (s'[a := c]) t v' = content s t v"
proof -
  from isolatesD [OF assms(1-3)] obtain r where r: "s' = s @ r" "conform s' t v'"
    "content s' t v' = content s t v" "addrs s' t v' \<subseteq> {length s..<length s'} \<union> shared s t v"
    by (auto simp: copied_def)
  have old: "same_in s s' t v" using same_append [OF v] r(1) by simp
  show "content (s'[a := c]) t v = content s t v" if "a \<in> addrs s' t v'"
  proof -
    have "a \<notin> addrs s' t v" using r(4) a that old addrs_bound [OF v] by (fastforce simp: same_in_def)
    then show ?thesis using frame [OF _ agree_update, of s' t v a c] old by (simp add: same_in_def)
  qed
  show "content (s'[a := c]) t v' = content s t v" if "a \<in> addrs s t v"
  proof -
    have "a \<notin> addrs s' t v'" using r(4) a that addrs_bound [OF v] by fastforce
    then show ?thesis using frame [OF r(2) agree_update, of a c] r(3) by (simp add: same_in_def)
  qed
qed

lemma isolated_shares:
  assumes "isolates f t" and v: "conform s t v" and "f v s = (v', s')"
  shows "addrs s' t v' \<inter> addrs s t v = shared s t v"
proof -
  have "addrs s' t v' \<subseteq> {length s..<length s'} \<union> shared s t v" "shared s t v \<subseteq> addrs s' t v'"
    using isolatesD [OF assms] by (simp_all add: copied_def)
  moreover have "addrs s t v \<subseteq> {..<length s}" "shared s t v \<subseteq> addrs s t v"
    using addrs_bound [OF v] shared_addrs by auto
  ultimately show ?thesis by fastforce
qed

text \<open>Where a type has shared pointers.\<close>

fun shared_paths :: "ty \<Rightarrow> string list list" where
  "shared_paths TFlat = []"
| "shared_paths (TPtr t) = shared_paths t"
| "shared_paths (TShared t) = [[]]"
| "shared_paths (TSlice t) = shared_paths t"
| "shared_paths TMap = []"
| "shared_paths (TStruct fts) = concat (map (\<lambda>(n, t). map (\<lambda>p. n # p) (shared_paths t)) fts)"

lemma no_shared_paths: "shared_paths t = [] \<Longrightarrow> shared s t v = {}"
proof (induction s t v rule: shared.induct)
  case (6 s fts v)
  then show ?case by (cases v) fastforce+
qed (auto split: gval.splits option.splits)

end
