(* ===== verification/DeepCopies.thy ===== *)
theory DeepCopies
  imports GoMemory
begin

text \<open>
  The deep copies of the API types, \<^verbatim>\<open>zz_generated.deepcopy.go\<close> of \<^verbatim>\<open>api/v1alpha1\<close>, of
  \<^verbatim>\<open>apis/condition/v1\<close> and of \<^verbatim>\<open>apis/meta/v1\<close> (the last two are written by hand): which type each
  struct has in memory, and what its \<^verbatim>\<open>DeepCopyInto\<close> copies. Everywhere else an object is a value
  and its copy the value itself; the theorem here says why that is right, and for which
  pointer it is not: the time of a condition.
\<close>

section \<open>Kubernetes' types\<close>

text \<open>
  The types of Kubernetes that the structs hold, and their deep copies, which are not in the
  repository. That they are deep is what Kubernetes promises.
\<close>

record external =
  ext_type :: ty
  ext_copy :: copier

record externals =
  x_ObjectMeta :: external
  x_ListMeta :: external
  x_Quantity :: external
  x_Taint :: external
  x_Toleration :: external

definition external_ok :: "external \<Rightarrow> bool" where
  "external_ok e \<longleftrightarrow> isolates (ext_copy e) (ext_type e) \<and> shared_paths (ext_type e) = []"

definition externals_ok :: "externals \<Rightarrow> bool" where
  "externals_ok X \<longleftrightarrow> external_ok (x_ObjectMeta X) \<and> external_ok (x_ListMeta X) \<and> external_ok (x_Quantity X) \<and>
     external_ok (x_Taint X) \<and> external_ok (x_Toleration X)"

text \<open>\<^verbatim>\<open>metav1.TypeMeta\<close> is assigned, not copied deeply: it holds two texts.\<close>

definition TypeMeta_ty :: ty where
  "TypeMeta_ty = TStruct [(''Kind'', TFlat), (''APIVersion'', TFlat)]"

section \<open>The types in memory and their copies\<close>

text \<open>
  A pointer is \<open>TShared\<close> when the copy keeps it: the \<^verbatim>\<open>*metav1.Time\<close> of a condition, whose
  \<^verbatim>\<open>DeepCopyInto\<close> is \<^verbatim>\<open>*out = *in\<close>.
\<close>

definition ObjectReference_ty :: "ty" where
  "ObjectReference_ty = TStruct [(''Name'', TFlat), (''Kind'', TFlat), (''Group'', TFlat)]"

definition ObjectReference_DeepCopyInto :: "copier" where
  "ObjectReference_DeepCopyInto = keep"

definition StatusCondition_ty :: "ty" where
  "StatusCondition_ty = TStruct [(''Type'', TFlat), (''Status'', TFlat),
     (''LastTransitionTime'', TShared TFlat), (''Reason'', TFlat), (''Message'', TFlat)]"

definition StatusCondition_DeepCopyInto :: "copier" where
  "StatusCondition_DeepCopyInto = keep"

definition StatusConditions_ty :: "ty" where
  "StatusConditions_ty = TStruct [(''Conditions'', TSlice StatusCondition_ty)]"

definition StatusConditions_DeepCopyInto :: "copier" where
  "StatusConditions_DeepCopyInto = copy_fields [(''Conditions'', copy_make StatusCondition_DeepCopyInto)]"

definition BareMetalDiscoveryHardwareCPU_ty :: "externals \<Rightarrow> ty" where
  "BareMetalDiscoveryHardwareCPU_ty X = TStruct [(''ModelName'', TFlat), (''Architecture'', TFlat),
     (''CPUS'', ext_type (x_Quantity X))]"

definition BareMetalDiscoveryHardwareCPU_DeepCopyInto :: "externals \<Rightarrow> copier" where
  "BareMetalDiscoveryHardwareCPU_DeepCopyInto X = copy_fields [(''CPUS'', ext_copy (x_Quantity X))]"

definition BareMetalDiscoveryHardwareStorage_ty :: "externals \<Rightarrow> ty" where
  "BareMetalDiscoveryHardwareStorage_ty X = TStruct [(''Name'', TFlat), (''Size'', ext_type (x_Quantity X)),
     (''Rotational'', TFlat), (''Trim'', TFlat), (''Serial'', TFlat)]"

definition BareMetalDiscoveryHardwareStorage_DeepCopyInto :: "externals \<Rightarrow> copier" where
  "BareMetalDiscoveryHardwareStorage_DeepCopyInto X = copy_fields [(''Size'', ext_copy (x_Quantity X))]"

definition BareMetalDiscoveryHardwareNIC_ty :: "externals \<Rightarrow> ty" where
  "BareMetalDiscoveryHardwareNIC_ty X = TStruct [(''Name'', TFlat), (''MAC'', TFlat),
     (''Speed'', ext_type (x_Quantity X))]"

definition BareMetalDiscoveryHardwareNIC_DeepCopyInto :: "externals \<Rightarrow> copier" where
  "BareMetalDiscoveryHardwareNIC_DeepCopyInto X = copy_fields [(''Speed'', ext_copy (x_Quantity X))]"

definition BareMetalDiscoveryHardware_ty :: "externals \<Rightarrow> ty" where
  "BareMetalDiscoveryHardware_ty X = TStruct [(''CPU'', BareMetalDiscoveryHardwareCPU_ty X),
     (''Ram'', ext_type (x_Quantity X)), (''Storage'', TSlice (BareMetalDiscoveryHardwareStorage_ty X)),
     (''NICS'', TSlice (BareMetalDiscoveryHardwareNIC_ty X))]"

definition BareMetalDiscoveryHardware_DeepCopyInto :: "externals \<Rightarrow> copier" where
  "BareMetalDiscoveryHardware_DeepCopyInto X = copy_fields [(''CPU'',
      BareMetalDiscoveryHardwareCPU_DeepCopyInto X),
     (''Ram'', ext_copy (x_Quantity X)),
     (''Storage'', copy_make (BareMetalDiscoveryHardwareStorage_DeepCopyInto X)),
     (''NICS'', copy_make (BareMetalDiscoveryHardwareNIC_DeepCopyInto X))]"

definition BareMetalDiscoverySpec_ty :: "ty" where
  "BareMetalDiscoverySpec_ty = TStruct [(''SystemUUID'', TFlat)]"

definition BareMetalDiscoverySpec_DeepCopyInto :: "copier" where
  "BareMetalDiscoverySpec_DeepCopyInto = keep"

definition BareMetalDiscoveryStatus_ty :: "externals \<Rightarrow> ty" where
  "BareMetalDiscoveryStatus_ty X = TStruct [(''Hardware'', TPtr (BareMetalDiscoveryHardware_ty X))]"

definition BareMetalDiscoveryStatus_DeepCopyInto :: "externals \<Rightarrow> copier" where
  "BareMetalDiscoveryStatus_DeepCopyInto X = copy_fields [(''Hardware'', copy_new
      (BareMetalDiscoveryHardware_DeepCopyInto X))]"

definition BareMetalDiscovery_ty :: "externals \<Rightarrow> ty" where
  "BareMetalDiscovery_ty X = TStruct [(''TypeMeta'', TypeMeta_ty),
     (''ObjectMeta'', ext_type (x_ObjectMeta X)), (''Spec'', BareMetalDiscoverySpec_ty),
     (''Status'', BareMetalDiscoveryStatus_ty X)]"

definition BareMetalDiscovery_DeepCopyInto :: "externals \<Rightarrow> copier" where
  "BareMetalDiscovery_DeepCopyInto X = copy_fields [(''TypeMeta'', keep),
     (''ObjectMeta'', ext_copy (x_ObjectMeta X)), (''Spec'', keep),
     (''Status'', BareMetalDiscoveryStatus_DeepCopyInto X)]"

definition BareMetalDiscoveryList_ty :: "externals \<Rightarrow> ty" where
  "BareMetalDiscoveryList_ty X = TStruct [(''TypeMeta'', TypeMeta_ty),
     (''ListMeta'', ext_type (x_ListMeta X)), (''Items'', TSlice (BareMetalDiscovery_ty X))]"

definition BareMetalDiscoveryList_DeepCopyInto :: "externals \<Rightarrow> copier" where
  "BareMetalDiscoveryList_DeepCopyInto X = copy_fields [(''TypeMeta'', keep),
     (''ListMeta'', ext_copy (x_ListMeta X)), (''Items'', copy_make (BareMetalDiscovery_DeepCopyInto X))]"

definition BareMetalEndpointBond_ty :: "ty" where
  "BareMetalEndpointBond_ty = TStruct [(''MACS'', TSlice TFlat), (''Mode'', TFlat)]"

definition BareMetalEndpointBond_DeepCopyInto :: "copier" where
  "BareMetalEndpointBond_DeepCopyInto = copy_fields [(''MACS'', copy_make keep)]"

definition BareMetalEndpointSpec_ty :: "ty" where
  "BareMetalEndpointSpec_ty = TStruct [(''Primary'', TFlat), (''MAC'', TFlat),
     (''Bond'', TPtr BareMetalEndpointBond_ty), (''NetworkRef'', ObjectReference_ty)]"

definition BareMetalEndpointSpec_DeepCopyInto :: "copier" where
  "BareMetalEndpointSpec_DeepCopyInto = copy_fields [(''Bond'', copy_new BareMetalEndpointBond_DeepCopyInto),
     (''NetworkRef'', ObjectReference_DeepCopyInto)]"

definition BareMetalEndpointStatusAddress_ty :: "ty" where
  "BareMetalEndpointStatusAddress_ty = TStruct [(''IP'', TFlat), (''CIDR'', TFlat), (''Gateway'', TFlat),
     (''Nameservers'', TSlice TFlat), (''Search'', TSlice TFlat)]"

definition BareMetalEndpointStatusAddress_DeepCopyInto :: "copier" where
  "BareMetalEndpointStatusAddress_DeepCopyInto = copy_fields [(''Nameservers'', copy_make keep),
     (''Search'', copy_make keep)]"

definition BareMetalEndpointStatus_ty :: "ty" where
  "BareMetalEndpointStatus_ty = TStruct [(''StatusConditions'', StatusConditions_ty),
     (''Address'', TPtr BareMetalEndpointStatusAddress_ty), (''Phase'', TFlat)]"

definition BareMetalEndpointStatus_DeepCopyInto :: "copier" where
  "BareMetalEndpointStatus_DeepCopyInto = copy_fields [(''StatusConditions'', StatusConditions_DeepCopyInto),
     (''Address'', copy_new BareMetalEndpointStatusAddress_DeepCopyInto)]"

definition BareMetalEndpoint_ty :: "externals \<Rightarrow> ty" where
  "BareMetalEndpoint_ty X = TStruct [(''TypeMeta'', TypeMeta_ty),
     (''ObjectMeta'', ext_type (x_ObjectMeta X)), (''Spec'', BareMetalEndpointSpec_ty),
     (''Status'', BareMetalEndpointStatus_ty)]"

definition BareMetalEndpoint_DeepCopyInto :: "externals \<Rightarrow> copier" where
  "BareMetalEndpoint_DeepCopyInto X = copy_fields [(''TypeMeta'', keep),
     (''ObjectMeta'', ext_copy (x_ObjectMeta X)), (''Spec'', BareMetalEndpointSpec_DeepCopyInto),
     (''Status'', BareMetalEndpointStatus_DeepCopyInto)]"

definition BareMetalEndpointList_ty :: "externals \<Rightarrow> ty" where
  "BareMetalEndpointList_ty X = TStruct [(''TypeMeta'', TypeMeta_ty),
     (''ListMeta'', ext_type (x_ListMeta X)), (''Items'', TSlice (BareMetalEndpoint_ty X))]"

definition BareMetalEndpointList_DeepCopyInto :: "externals \<Rightarrow> copier" where
  "BareMetalEndpointList_DeepCopyInto X = copy_fields [(''TypeMeta'', keep),
     (''ListMeta'', ext_copy (x_ListMeta X)), (''Items'', copy_make (BareMetalEndpoint_DeepCopyInto X))]"

definition BareMetalHardwareNICBond_ty :: "ty" where
  "BareMetalHardwareNICBond_ty = TStruct [(''Interfaces'', TSlice TFlat), (''Mode'', TFlat)]"

definition BareMetalHardwareNICBond_DeepCopyInto :: "copier" where
  "BareMetalHardwareNICBond_DeepCopyInto = copy_fields [(''Interfaces'', copy_make keep)]"

definition BareMetalHardwareNIC_ty :: "ty" where
  "BareMetalHardwareNIC_ty = TStruct [(''Name'', TFlat), (''Primary'', TFlat),
     (''Bond'', TPtr BareMetalHardwareNICBond_ty), (''NetworkRef'', ObjectReference_ty)]"

definition BareMetalHardwareNIC_DeepCopyInto :: "copier" where
  "BareMetalHardwareNIC_DeepCopyInto = copy_fields [(''Bond'', copy_new
      BareMetalHardwareNICBond_DeepCopyInto),
     (''NetworkRef'', ObjectReference_DeepCopyInto)]"

definition BareMetalHardwareSpec_ty :: "externals \<Rightarrow> ty" where
  "BareMetalHardwareSpec_ty X = TStruct [(''SystemUUID'', TFlat), (''CanProvision'', TFlat),
     (''ImageDrive'', TFlat), (''NICS'', TSlice BareMetalHardwareNIC_ty),
     (''Taints'', TSlice (ext_type (x_Taint X)))]"

definition BareMetalHardwareSpec_DeepCopyInto :: "externals \<Rightarrow> copier" where
  "BareMetalHardwareSpec_DeepCopyInto X = copy_fields [(''NICS'', copy_make
      BareMetalHardwareNIC_DeepCopyInto),
     (''Taints'', copy_make (ext_copy (x_Taint X)))]"

definition BareMetalHardwareStatusInstanceRef_ty :: "ty" where
  "BareMetalHardwareStatusInstanceRef_ty = TStruct [(''Name'', TFlat), (''Namespace'', TFlat),
     (''UID'', TFlat)]"

definition BareMetalHardwareStatusInstanceRef_DeepCopyInto :: "copier" where
  "BareMetalHardwareStatusInstanceRef_DeepCopyInto = keep"

definition BareMetalHardwareStatus_ty :: "externals \<Rightarrow> ty" where
  "BareMetalHardwareStatus_ty X = TStruct [(''StatusConditions'', StatusConditions_ty),
     (''InstanceRef'', TPtr BareMetalHardwareStatusInstanceRef_ty),
     (''Hardware'', TPtr (BareMetalDiscoveryHardware_ty X))]"

definition BareMetalHardwareStatus_DeepCopyInto :: "externals \<Rightarrow> copier" where
  "BareMetalHardwareStatus_DeepCopyInto X = copy_fields [(''StatusConditions'',
      StatusConditions_DeepCopyInto),
     (''InstanceRef'', copy_new keep),
     (''Hardware'', copy_new (BareMetalDiscoveryHardware_DeepCopyInto X))]"

definition BareMetalHardware_ty :: "externals \<Rightarrow> ty" where
  "BareMetalHardware_ty X = TStruct [(''TypeMeta'', TypeMeta_ty),
     (''ObjectMeta'', ext_type (x_ObjectMeta X)), (''Spec'', BareMetalHardwareSpec_ty X),
     (''Status'', BareMetalHardwareStatus_ty X)]"

definition BareMetalHardware_DeepCopyInto :: "externals \<Rightarrow> copier" where
  "BareMetalHardware_DeepCopyInto X = copy_fields [(''TypeMeta'', keep),
     (''ObjectMeta'', ext_copy (x_ObjectMeta X)), (''Spec'', BareMetalHardwareSpec_DeepCopyInto X),
     (''Status'', BareMetalHardwareStatus_DeepCopyInto X)]"

definition BareMetalHardwareList_ty :: "externals \<Rightarrow> ty" where
  "BareMetalHardwareList_ty X = TStruct [(''TypeMeta'', TypeMeta_ty),
     (''ListMeta'', ext_type (x_ListMeta X)), (''Items'', TSlice (BareMetalHardware_ty X))]"

definition BareMetalHardwareList_DeepCopyInto :: "externals \<Rightarrow> copier" where
  "BareMetalHardwareList_DeepCopyInto X = copy_fields [(''TypeMeta'', keep),
     (''ListMeta'', ext_copy (x_ListMeta X)), (''Items'', copy_make (BareMetalHardware_DeepCopyInto X))]"

definition BareMetalInstanceSpec_ty :: "externals \<Rightarrow> ty" where
  "BareMetalInstanceSpec_ty X = TStruct [(''Selector'', TMap),
     (''Tolerations'', TSlice (ext_type (x_Toleration X)))]"

definition BareMetalInstanceSpec_DeepCopyInto :: "externals \<Rightarrow> copier" where
  "BareMetalInstanceSpec_DeepCopyInto X = copy_fields [(''Selector'', copy_map),
     (''Tolerations'', copy_make (ext_copy (x_Toleration X)))]"

definition BareMetalInstanceStatusAgentInfo_ty :: "ty" where
  "BareMetalInstanceStatusAgentInfo_ty = TStruct [(''IP'', TFlat)]"

definition BareMetalInstanceStatusAgentInfo_DeepCopyInto :: "copier" where
  "BareMetalInstanceStatusAgentInfo_DeepCopyInto = keep"

definition BareMetalInstanceStatus_ty :: "ty" where
  "BareMetalInstanceStatus_ty = TStruct [(''StatusConditions'', StatusConditions_ty),
     (''AgentInfo'', TPtr BareMetalInstanceStatusAgentInfo_ty), (''HardwareName'', TFlat),
     (''Phase'', TFlat)]"

definition BareMetalInstanceStatus_DeepCopyInto :: "copier" where
  "BareMetalInstanceStatus_DeepCopyInto = copy_fields [(''StatusConditions'', StatusConditions_DeepCopyInto),
     (''AgentInfo'', copy_new keep)]"

definition BareMetalInstance_ty :: "externals \<Rightarrow> ty" where
  "BareMetalInstance_ty X = TStruct [(''TypeMeta'', TypeMeta_ty),
     (''ObjectMeta'', ext_type (x_ObjectMeta X)), (''Spec'', BareMetalInstanceSpec_ty X),
     (''Status'', BareMetalInstanceStatus_ty)]"

definition BareMetalInstance_DeepCopyInto :: "externals \<Rightarrow> copier" where
  "BareMetalInstance_DeepCopyInto X = copy_fields [(''TypeMeta'', keep),
     (''ObjectMeta'', ext_copy (x_ObjectMeta X)), (''Spec'', BareMetalInstanceSpec_DeepCopyInto X),
     (''Status'', BareMetalInstanceStatus_DeepCopyInto)]"

definition BareMetalInstanceList_ty :: "externals \<Rightarrow> ty" where
  "BareMetalInstanceList_ty X = TStruct [(''TypeMeta'', TypeMeta_ty),
     (''ListMeta'', ext_type (x_ListMeta X)), (''Items'', TSlice (BareMetalInstance_ty X))]"

definition BareMetalInstanceList_DeepCopyInto :: "externals \<Rightarrow> copier" where
  "BareMetalInstanceList_DeepCopyInto X = copy_fields [(''TypeMeta'', keep),
     (''ListMeta'', ext_copy (x_ListMeta X)), (''Items'', copy_make (BareMetalInstance_DeepCopyInto X))]"

definition BareMetalNetworkSpec_ty :: "ty" where
  "BareMetalNetworkSpec_ty = TStruct [(''CIDR'', TFlat), (''Gateway'', TFlat), (''Start'', TFlat),
     (''End'', TFlat), (''Nameservers'', TSlice TFlat), (''Search'', TSlice TFlat)]"

definition BareMetalNetworkSpec_DeepCopyInto :: "copier" where
  "BareMetalNetworkSpec_DeepCopyInto = copy_fields [(''Nameservers'', copy_make keep),
     (''Search'', copy_make keep)]"

definition BareMetalNetworkStatus_ty :: "ty" where
  "BareMetalNetworkStatus_ty = TStruct []"

definition BareMetalNetworkStatus_DeepCopyInto :: "copier" where
  "BareMetalNetworkStatus_DeepCopyInto = keep"

definition BareMetalNetwork_ty :: "externals \<Rightarrow> ty" where
  "BareMetalNetwork_ty X = TStruct [(''TypeMeta'', TypeMeta_ty), (''ObjectMeta'', ext_type (x_ObjectMeta X)),
     (''Spec'', BareMetalNetworkSpec_ty), (''Status'', BareMetalNetworkStatus_ty)]"

definition BareMetalNetwork_DeepCopyInto :: "externals \<Rightarrow> copier" where
  "BareMetalNetwork_DeepCopyInto X = copy_fields [(''TypeMeta'', keep),
     (''ObjectMeta'', ext_copy (x_ObjectMeta X)), (''Spec'', BareMetalNetworkSpec_DeepCopyInto),
     (''Status'', keep)]"

definition BareMetalNetworkList_ty :: "externals \<Rightarrow> ty" where
  "BareMetalNetworkList_ty X = TStruct [(''TypeMeta'', TypeMeta_ty), (''ListMeta'', ext_type (x_ListMeta X)),
     (''Items'', TSlice (BareMetalNetwork_ty X))]"

definition BareMetalNetworkList_DeepCopyInto :: "externals \<Rightarrow> copier" where
  "BareMetalNetworkList_DeepCopyInto X = copy_fields [(''TypeMeta'', keep),
     (''ListMeta'', ext_copy (x_ListMeta X)), (''Items'', copy_make (BareMetalNetwork_DeepCopyInto X))]"

section \<open>Copies behind a pointer\<close>

text \<open>
  \<^verbatim>\<open>DeepCopy\<close>: nil of nil, else a new struct that is copied into. \<^verbatim>\<open>DeepCopyObject\<close> gives the same
  as an interface, and the nil interface for a nil copy.
\<close>

definition as_Object :: "gval \<times> store \<Rightarrow> gval \<times> store" where
  "as_Object c = (if fst c \<noteq> Ref None then c else (Ref None, snd c))"

definition ObjectReference_DeepCopy :: "copier" where
  "ObjectReference_DeepCopy = copy_new ObjectReference_DeepCopyInto"

definition BareMetalDiscoveryHardwareCPU_DeepCopy :: "externals \<Rightarrow> copier" where
  "BareMetalDiscoveryHardwareCPU_DeepCopy X = copy_new (BareMetalDiscoveryHardwareCPU_DeepCopyInto X)"

definition BareMetalDiscoveryHardwareStorage_DeepCopy :: "externals \<Rightarrow> copier" where
  "BareMetalDiscoveryHardwareStorage_DeepCopy X = copy_new (BareMetalDiscoveryHardwareStorage_DeepCopyInto X)"

definition BareMetalDiscoveryHardwareNIC_DeepCopy :: "externals \<Rightarrow> copier" where
  "BareMetalDiscoveryHardwareNIC_DeepCopy X = copy_new (BareMetalDiscoveryHardwareNIC_DeepCopyInto X)"

definition BareMetalDiscoveryHardware_DeepCopy :: "externals \<Rightarrow> copier" where
  "BareMetalDiscoveryHardware_DeepCopy X = copy_new (BareMetalDiscoveryHardware_DeepCopyInto X)"

definition BareMetalDiscoverySpec_DeepCopy :: "copier" where
  "BareMetalDiscoverySpec_DeepCopy = copy_new BareMetalDiscoverySpec_DeepCopyInto"

definition BareMetalDiscoveryStatus_DeepCopy :: "externals \<Rightarrow> copier" where
  "BareMetalDiscoveryStatus_DeepCopy X = copy_new (BareMetalDiscoveryStatus_DeepCopyInto X)"

definition BareMetalDiscovery_DeepCopy :: "externals \<Rightarrow> copier" where
  "BareMetalDiscovery_DeepCopy X = copy_new (BareMetalDiscovery_DeepCopyInto X)"

definition BareMetalDiscovery_DeepCopyObject :: "externals \<Rightarrow> copier" where
  "BareMetalDiscovery_DeepCopyObject X v s = as_Object (BareMetalDiscovery_DeepCopy X v s)"

definition BareMetalDiscoveryList_DeepCopy :: "externals \<Rightarrow> copier" where
  "BareMetalDiscoveryList_DeepCopy X = copy_new (BareMetalDiscoveryList_DeepCopyInto X)"

definition BareMetalDiscoveryList_DeepCopyObject :: "externals \<Rightarrow> copier" where
  "BareMetalDiscoveryList_DeepCopyObject X v s = as_Object (BareMetalDiscoveryList_DeepCopy X v s)"

definition BareMetalEndpointBond_DeepCopy :: "copier" where
  "BareMetalEndpointBond_DeepCopy = copy_new BareMetalEndpointBond_DeepCopyInto"

definition BareMetalEndpointSpec_DeepCopy :: "copier" where
  "BareMetalEndpointSpec_DeepCopy = copy_new BareMetalEndpointSpec_DeepCopyInto"

definition BareMetalEndpointStatusAddress_DeepCopy :: "copier" where
  "BareMetalEndpointStatusAddress_DeepCopy = copy_new BareMetalEndpointStatusAddress_DeepCopyInto"

definition BareMetalEndpointStatus_DeepCopy :: "copier" where
  "BareMetalEndpointStatus_DeepCopy = copy_new BareMetalEndpointStatus_DeepCopyInto"

definition BareMetalEndpoint_DeepCopy :: "externals \<Rightarrow> copier" where
  "BareMetalEndpoint_DeepCopy X = copy_new (BareMetalEndpoint_DeepCopyInto X)"

definition BareMetalEndpoint_DeepCopyObject :: "externals \<Rightarrow> copier" where
  "BareMetalEndpoint_DeepCopyObject X v s = as_Object (BareMetalEndpoint_DeepCopy X v s)"

definition BareMetalEndpointList_DeepCopy :: "externals \<Rightarrow> copier" where
  "BareMetalEndpointList_DeepCopy X = copy_new (BareMetalEndpointList_DeepCopyInto X)"

definition BareMetalEndpointList_DeepCopyObject :: "externals \<Rightarrow> copier" where
  "BareMetalEndpointList_DeepCopyObject X v s = as_Object (BareMetalEndpointList_DeepCopy X v s)"

definition BareMetalHardwareNICBond_DeepCopy :: "copier" where
  "BareMetalHardwareNICBond_DeepCopy = copy_new BareMetalHardwareNICBond_DeepCopyInto"

definition BareMetalHardwareNIC_DeepCopy :: "copier" where
  "BareMetalHardwareNIC_DeepCopy = copy_new BareMetalHardwareNIC_DeepCopyInto"

definition BareMetalHardwareSpec_DeepCopy :: "externals \<Rightarrow> copier" where
  "BareMetalHardwareSpec_DeepCopy X = copy_new (BareMetalHardwareSpec_DeepCopyInto X)"

definition BareMetalHardwareStatusInstanceRef_DeepCopy :: "copier" where
  "BareMetalHardwareStatusInstanceRef_DeepCopy = copy_new BareMetalHardwareStatusInstanceRef_DeepCopyInto"

definition BareMetalHardwareStatus_DeepCopy :: "externals \<Rightarrow> copier" where
  "BareMetalHardwareStatus_DeepCopy X = copy_new (BareMetalHardwareStatus_DeepCopyInto X)"

definition BareMetalHardware_DeepCopy :: "externals \<Rightarrow> copier" where
  "BareMetalHardware_DeepCopy X = copy_new (BareMetalHardware_DeepCopyInto X)"

definition BareMetalHardware_DeepCopyObject :: "externals \<Rightarrow> copier" where
  "BareMetalHardware_DeepCopyObject X v s = as_Object (BareMetalHardware_DeepCopy X v s)"

definition BareMetalHardwareList_DeepCopy :: "externals \<Rightarrow> copier" where
  "BareMetalHardwareList_DeepCopy X = copy_new (BareMetalHardwareList_DeepCopyInto X)"

definition BareMetalHardwareList_DeepCopyObject :: "externals \<Rightarrow> copier" where
  "BareMetalHardwareList_DeepCopyObject X v s = as_Object (BareMetalHardwareList_DeepCopy X v s)"

definition BareMetalInstanceSpec_DeepCopy :: "externals \<Rightarrow> copier" where
  "BareMetalInstanceSpec_DeepCopy X = copy_new (BareMetalInstanceSpec_DeepCopyInto X)"

definition BareMetalInstanceStatusAgentInfo_DeepCopy :: "copier" where
  "BareMetalInstanceStatusAgentInfo_DeepCopy = copy_new BareMetalInstanceStatusAgentInfo_DeepCopyInto"

definition BareMetalInstanceStatus_DeepCopy :: "copier" where
  "BareMetalInstanceStatus_DeepCopy = copy_new BareMetalInstanceStatus_DeepCopyInto"

definition BareMetalInstance_DeepCopy :: "externals \<Rightarrow> copier" where
  "BareMetalInstance_DeepCopy X = copy_new (BareMetalInstance_DeepCopyInto X)"

definition BareMetalInstance_DeepCopyObject :: "externals \<Rightarrow> copier" where
  "BareMetalInstance_DeepCopyObject X v s = as_Object (BareMetalInstance_DeepCopy X v s)"

definition BareMetalInstanceList_DeepCopy :: "externals \<Rightarrow> copier" where
  "BareMetalInstanceList_DeepCopy X = copy_new (BareMetalInstanceList_DeepCopyInto X)"

definition BareMetalInstanceList_DeepCopyObject :: "externals \<Rightarrow> copier" where
  "BareMetalInstanceList_DeepCopyObject X v s = as_Object (BareMetalInstanceList_DeepCopy X v s)"

definition BareMetalNetworkSpec_DeepCopy :: "copier" where
  "BareMetalNetworkSpec_DeepCopy = copy_new BareMetalNetworkSpec_DeepCopyInto"

definition BareMetalNetworkStatus_DeepCopy :: "copier" where
  "BareMetalNetworkStatus_DeepCopy = copy_new BareMetalNetworkStatus_DeepCopyInto"

definition BareMetalNetwork_DeepCopy :: "externals \<Rightarrow> copier" where
  "BareMetalNetwork_DeepCopy X = copy_new (BareMetalNetwork_DeepCopyInto X)"

definition BareMetalNetwork_DeepCopyObject :: "externals \<Rightarrow> copier" where
  "BareMetalNetwork_DeepCopyObject X v s = as_Object (BareMetalNetwork_DeepCopy X v s)"

definition BareMetalNetworkList_DeepCopy :: "externals \<Rightarrow> copier" where
  "BareMetalNetworkList_DeepCopy X = copy_new (BareMetalNetworkList_DeepCopyInto X)"

definition BareMetalNetworkList_DeepCopyObject :: "externals \<Rightarrow> copier" where
  "BareMetalNetworkList_DeepCopyObject X v s = as_Object (BareMetalNetworkList_DeepCopy X v s)"

section \<open>They share nothing\<close>

lemma as_Object [simp]: "as_Object c = c"
  by (cases c) (simp add: as_Object_def)

lemma externals [simp]:
  assumes "externals_ok X"
  shows "isolates (ext_copy (x_ObjectMeta X)) (ext_type (x_ObjectMeta X))" "shared_paths (ext_type
      (x_ObjectMeta X)) = []"
    "isolates (ext_copy (x_ListMeta X)) (ext_type (x_ListMeta X))" "shared_paths (ext_type (x_ListMeta X)) =
        []"
    "isolates (ext_copy (x_Quantity X)) (ext_type (x_Quantity X))" "shared_paths (ext_type (x_Quantity X)) =
        []"
    "isolates (ext_copy (x_Taint X)) (ext_type (x_Taint X))" "shared_paths (ext_type (x_Taint X)) = []"
    "isolates (ext_copy (x_Toleration X)) (ext_type (x_Toleration X))" "shared_paths (ext_type (x_Toleration
        X)) = []"
  using assms by (simp_all add: externals_ok_def external_ok_def)

lemmas copier_rules = isolates_keep isolates_new isolates_make isolates_map

lemma TypeMeta_plain: "plain TypeMeta_ty"
  by (simp add: TypeMeta_ty_def)

lemma leaf_copies:
  "isolates ObjectReference_DeepCopyInto ObjectReference_ty"
  "isolates StatusCondition_DeepCopyInto StatusCondition_ty"
  "isolates BareMetalDiscoverySpec_DeepCopyInto BareMetalDiscoverySpec_ty"
  "isolates BareMetalHardwareStatusInstanceRef_DeepCopyInto BareMetalHardwareStatusInstanceRef_ty"
  "isolates BareMetalInstanceStatusAgentInfo_DeepCopyInto BareMetalInstanceStatusAgentInfo_ty"
  "isolates BareMetalNetworkStatus_DeepCopyInto BareMetalNetworkStatus_ty"
  by (simp_all add: isolates_keep ObjectReference_ty_def ObjectReference_DeepCopyInto_def
      StatusCondition_ty_def StatusCondition_DeepCopyInto_def BareMetalDiscoverySpec_ty_def
      BareMetalDiscoverySpec_DeepCopyInto_def BareMetalHardwareStatusInstanceRef_ty_def
      BareMetalHardwareStatusInstanceRef_DeepCopyInto_def BareMetalInstanceStatusAgentInfo_ty_def
      BareMetalInstanceStatusAgentInfo_DeepCopyInto_def BareMetalNetworkStatus_ty_def
      BareMetalNetworkStatus_DeepCopyInto_def)

lemma leaf_plain:
  "plain ObjectReference_ty"
  "plain StatusCondition_ty"
  "plain BareMetalDiscoverySpec_ty"
  "plain BareMetalHardwareStatusInstanceRef_ty"
  "plain BareMetalInstanceStatusAgentInfo_ty"
  "plain BareMetalNetworkStatus_ty"
  by (simp_all add: ObjectReference_ty_def StatusCondition_ty_def BareMetalDiscoverySpec_ty_def
      BareMetalHardwareStatusInstanceRef_ty_def BareMetalInstanceStatusAgentInfo_ty_def
      BareMetalNetworkStatus_ty_def)

lemma StatusConditions_isolates: "isolates StatusConditions_DeepCopyInto StatusConditions_ty"
  unfolding StatusConditions_DeepCopyInto_def StatusConditions_ty_def
  by (rule isolates_fields) (simp add: covers_def copier_rules leaf_copies leaf_plain TypeMeta_plain)

lemma BareMetalDiscoveryHardwareCPU_isolates:
  "externals_ok X \<Longrightarrow> isolates (BareMetalDiscoveryHardwareCPU_DeepCopyInto X) (BareMetalDiscoveryHardwareCPU_ty
      X)"
  unfolding BareMetalDiscoveryHardwareCPU_DeepCopyInto_def BareMetalDiscoveryHardwareCPU_ty_def
  by (rule isolates_fields) (simp add: covers_def copier_rules leaf_copies leaf_plain TypeMeta_plain)

lemma BareMetalDiscoveryHardwareStorage_isolates:
  "externals_ok X \<Longrightarrow> isolates (BareMetalDiscoveryHardwareStorage_DeepCopyInto X)
      (BareMetalDiscoveryHardwareStorage_ty X)"
  unfolding BareMetalDiscoveryHardwareStorage_DeepCopyInto_def BareMetalDiscoveryHardwareStorage_ty_def
  by (rule isolates_fields) (simp add: covers_def copier_rules leaf_copies leaf_plain TypeMeta_plain)

lemma BareMetalDiscoveryHardwareNIC_isolates:
  "externals_ok X \<Longrightarrow> isolates (BareMetalDiscoveryHardwareNIC_DeepCopyInto X) (BareMetalDiscoveryHardwareNIC_ty
      X)"
  unfolding BareMetalDiscoveryHardwareNIC_DeepCopyInto_def BareMetalDiscoveryHardwareNIC_ty_def
  by (rule isolates_fields) (simp add: covers_def copier_rules leaf_copies leaf_plain TypeMeta_plain)

lemma BareMetalDiscoveryHardware_isolates:
  "externals_ok X \<Longrightarrow> isolates (BareMetalDiscoveryHardware_DeepCopyInto X) (BareMetalDiscoveryHardware_ty X)"
  unfolding BareMetalDiscoveryHardware_DeepCopyInto_def BareMetalDiscoveryHardware_ty_def
  by (rule isolates_fields) (simp add: covers_def copier_rules leaf_copies leaf_plain TypeMeta_plain
      BareMetalDiscoveryHardwareCPU_isolates BareMetalDiscoveryHardwareNIC_isolates
      BareMetalDiscoveryHardwareStorage_isolates)

lemma BareMetalDiscoveryStatus_isolates:
  "externals_ok X \<Longrightarrow> isolates (BareMetalDiscoveryStatus_DeepCopyInto X) (BareMetalDiscoveryStatus_ty X)"
  unfolding BareMetalDiscoveryStatus_DeepCopyInto_def BareMetalDiscoveryStatus_ty_def
  by (rule isolates_fields) (simp add: covers_def copier_rules leaf_copies leaf_plain TypeMeta_plain
      BareMetalDiscoveryHardware_isolates)

lemma BareMetalDiscovery_isolates:
  "externals_ok X \<Longrightarrow> isolates (BareMetalDiscovery_DeepCopyInto X) (BareMetalDiscovery_ty X)"
  unfolding BareMetalDiscovery_DeepCopyInto_def BareMetalDiscovery_ty_def
  by (rule isolates_fields) (simp add: covers_def copier_rules leaf_copies leaf_plain TypeMeta_plain
      BareMetalDiscoveryStatus_isolates)

lemma BareMetalDiscoveryList_isolates:
  "externals_ok X \<Longrightarrow> isolates (BareMetalDiscoveryList_DeepCopyInto X) (BareMetalDiscoveryList_ty X)"
  unfolding BareMetalDiscoveryList_DeepCopyInto_def BareMetalDiscoveryList_ty_def
  by (rule isolates_fields) (simp add: covers_def copier_rules leaf_copies leaf_plain TypeMeta_plain
      BareMetalDiscovery_isolates)

lemma BareMetalEndpointBond_isolates: "isolates BareMetalEndpointBond_DeepCopyInto BareMetalEndpointBond_ty"
  unfolding BareMetalEndpointBond_DeepCopyInto_def BareMetalEndpointBond_ty_def
  by (rule isolates_fields) (simp add: covers_def copier_rules leaf_copies leaf_plain TypeMeta_plain)

lemma BareMetalEndpointSpec_isolates: "isolates BareMetalEndpointSpec_DeepCopyInto BareMetalEndpointSpec_ty"
  unfolding BareMetalEndpointSpec_DeepCopyInto_def BareMetalEndpointSpec_ty_def
  by (rule isolates_fields) (simp add: covers_def copier_rules leaf_copies leaf_plain TypeMeta_plain
      BareMetalEndpointBond_isolates)

lemma BareMetalEndpointStatusAddress_isolates:
  "isolates BareMetalEndpointStatusAddress_DeepCopyInto BareMetalEndpointStatusAddress_ty"
  unfolding BareMetalEndpointStatusAddress_DeepCopyInto_def BareMetalEndpointStatusAddress_ty_def
  by (rule isolates_fields) (simp add: covers_def copier_rules leaf_copies leaf_plain TypeMeta_plain)

lemma BareMetalEndpointStatus_isolates:
  "isolates BareMetalEndpointStatus_DeepCopyInto BareMetalEndpointStatus_ty"
  unfolding BareMetalEndpointStatus_DeepCopyInto_def BareMetalEndpointStatus_ty_def
  by (rule isolates_fields) (simp add: covers_def copier_rules leaf_copies leaf_plain TypeMeta_plain
      BareMetalEndpointStatusAddress_isolates StatusConditions_isolates)

lemma BareMetalEndpoint_isolates:
  "externals_ok X \<Longrightarrow> isolates (BareMetalEndpoint_DeepCopyInto X) (BareMetalEndpoint_ty X)"
  unfolding BareMetalEndpoint_DeepCopyInto_def BareMetalEndpoint_ty_def
  by (rule isolates_fields) (simp add: covers_def copier_rules leaf_copies leaf_plain TypeMeta_plain
      BareMetalEndpointSpec_isolates BareMetalEndpointStatus_isolates)

lemma BareMetalEndpointList_isolates:
  "externals_ok X \<Longrightarrow> isolates (BareMetalEndpointList_DeepCopyInto X) (BareMetalEndpointList_ty X)"
  unfolding BareMetalEndpointList_DeepCopyInto_def BareMetalEndpointList_ty_def
  by (rule isolates_fields) (simp add: covers_def copier_rules leaf_copies leaf_plain TypeMeta_plain
      BareMetalEndpoint_isolates)

lemma BareMetalHardwareNICBond_isolates:
  "isolates BareMetalHardwareNICBond_DeepCopyInto BareMetalHardwareNICBond_ty"
  unfolding BareMetalHardwareNICBond_DeepCopyInto_def BareMetalHardwareNICBond_ty_def
  by (rule isolates_fields) (simp add: covers_def copier_rules leaf_copies leaf_plain TypeMeta_plain)

lemma BareMetalHardwareNIC_isolates: "isolates BareMetalHardwareNIC_DeepCopyInto BareMetalHardwareNIC_ty"
  unfolding BareMetalHardwareNIC_DeepCopyInto_def BareMetalHardwareNIC_ty_def
  by (rule isolates_fields) (simp add: covers_def copier_rules leaf_copies leaf_plain TypeMeta_plain
      BareMetalHardwareNICBond_isolates)

lemma BareMetalHardwareSpec_isolates:
  "externals_ok X \<Longrightarrow> isolates (BareMetalHardwareSpec_DeepCopyInto X) (BareMetalHardwareSpec_ty X)"
  unfolding BareMetalHardwareSpec_DeepCopyInto_def BareMetalHardwareSpec_ty_def
  by (rule isolates_fields) (simp add: covers_def copier_rules leaf_copies leaf_plain TypeMeta_plain
      BareMetalHardwareNIC_isolates)

lemma BareMetalHardwareStatus_isolates:
  "externals_ok X \<Longrightarrow> isolates (BareMetalHardwareStatus_DeepCopyInto X) (BareMetalHardwareStatus_ty X)"
  unfolding BareMetalHardwareStatus_DeepCopyInto_def BareMetalHardwareStatus_ty_def
  by (rule isolates_fields) (simp add: covers_def copier_rules leaf_copies leaf_plain TypeMeta_plain
      BareMetalDiscoveryHardware_isolates StatusConditions_isolates)

lemma BareMetalHardware_isolates:
  "externals_ok X \<Longrightarrow> isolates (BareMetalHardware_DeepCopyInto X) (BareMetalHardware_ty X)"
  unfolding BareMetalHardware_DeepCopyInto_def BareMetalHardware_ty_def
  by (rule isolates_fields) (simp add: covers_def copier_rules leaf_copies leaf_plain TypeMeta_plain
      BareMetalHardwareSpec_isolates BareMetalHardwareStatus_isolates)

lemma BareMetalHardwareList_isolates:
  "externals_ok X \<Longrightarrow> isolates (BareMetalHardwareList_DeepCopyInto X) (BareMetalHardwareList_ty X)"
  unfolding BareMetalHardwareList_DeepCopyInto_def BareMetalHardwareList_ty_def
  by (rule isolates_fields) (simp add: covers_def copier_rules leaf_copies leaf_plain TypeMeta_plain
      BareMetalHardware_isolates)

lemma BareMetalInstanceSpec_isolates:
  "externals_ok X \<Longrightarrow> isolates (BareMetalInstanceSpec_DeepCopyInto X) (BareMetalInstanceSpec_ty X)"
  unfolding BareMetalInstanceSpec_DeepCopyInto_def BareMetalInstanceSpec_ty_def
  by (rule isolates_fields) (simp add: covers_def copier_rules leaf_copies leaf_plain TypeMeta_plain)

lemma BareMetalInstanceStatus_isolates:
  "isolates BareMetalInstanceStatus_DeepCopyInto BareMetalInstanceStatus_ty"
  unfolding BareMetalInstanceStatus_DeepCopyInto_def BareMetalInstanceStatus_ty_def
  by (rule isolates_fields) (simp add: covers_def copier_rules leaf_copies leaf_plain TypeMeta_plain
      StatusConditions_isolates)

lemma BareMetalInstance_isolates:
  "externals_ok X \<Longrightarrow> isolates (BareMetalInstance_DeepCopyInto X) (BareMetalInstance_ty X)"
  unfolding BareMetalInstance_DeepCopyInto_def BareMetalInstance_ty_def
  by (rule isolates_fields) (simp add: covers_def copier_rules leaf_copies leaf_plain TypeMeta_plain
      BareMetalInstanceSpec_isolates BareMetalInstanceStatus_isolates)

lemma BareMetalInstanceList_isolates:
  "externals_ok X \<Longrightarrow> isolates (BareMetalInstanceList_DeepCopyInto X) (BareMetalInstanceList_ty X)"
  unfolding BareMetalInstanceList_DeepCopyInto_def BareMetalInstanceList_ty_def
  by (rule isolates_fields) (simp add: covers_def copier_rules leaf_copies leaf_plain TypeMeta_plain
      BareMetalInstance_isolates)

lemma BareMetalNetworkSpec_isolates: "isolates BareMetalNetworkSpec_DeepCopyInto BareMetalNetworkSpec_ty"
  unfolding BareMetalNetworkSpec_DeepCopyInto_def BareMetalNetworkSpec_ty_def
  by (rule isolates_fields) (simp add: covers_def copier_rules leaf_copies leaf_plain TypeMeta_plain)

lemma BareMetalNetwork_isolates:
  "externals_ok X \<Longrightarrow> isolates (BareMetalNetwork_DeepCopyInto X) (BareMetalNetwork_ty X)"
  unfolding BareMetalNetwork_DeepCopyInto_def BareMetalNetwork_ty_def
  by (rule isolates_fields) (simp add: covers_def copier_rules leaf_copies leaf_plain TypeMeta_plain
      BareMetalNetworkSpec_isolates)

lemma BareMetalNetworkList_isolates:
  "externals_ok X \<Longrightarrow> isolates (BareMetalNetworkList_DeepCopyInto X) (BareMetalNetworkList_ty X)"
  unfolding BareMetalNetworkList_DeepCopyInto_def BareMetalNetworkList_ty_def
  by (rule isolates_fields) (simp add: covers_def copier_rules leaf_copies leaf_plain TypeMeta_plain
      BareMetalNetwork_isolates)

lemmas deep_copy_rules = leaf_copies
  StatusConditions_isolates
  BareMetalDiscoveryHardwareCPU_isolates
  BareMetalDiscoveryHardwareStorage_isolates
  BareMetalDiscoveryHardwareNIC_isolates
  BareMetalDiscoveryHardware_isolates
  BareMetalDiscoveryStatus_isolates
  BareMetalDiscovery_isolates
  BareMetalDiscoveryList_isolates
  BareMetalEndpointBond_isolates
  BareMetalEndpointSpec_isolates
  BareMetalEndpointStatusAddress_isolates
  BareMetalEndpointStatus_isolates
  BareMetalEndpoint_isolates
  BareMetalEndpointList_isolates
  BareMetalHardwareNICBond_isolates
  BareMetalHardwareNIC_isolates
  BareMetalHardwareSpec_isolates
  BareMetalHardwareStatus_isolates
  BareMetalHardware_isolates
  BareMetalHardwareList_isolates
  BareMetalInstanceSpec_isolates
  BareMetalInstanceStatus_isolates
  BareMetalInstance_isolates
  BareMetalInstanceList_isolates
  BareMetalNetworkSpec_isolates
  BareMetalNetwork_isolates
  BareMetalNetworkList_isolates

text \<open>All the copying functions, with the types they copy.\<close>

definition deep_copies :: "externals \<Rightarrow> (copier \<times> ty) list" where
  "deep_copies X = [(ObjectReference_DeepCopyInto, ObjectReference_ty),
     (StatusCondition_DeepCopyInto, StatusCondition_ty),
     (StatusConditions_DeepCopyInto, StatusConditions_ty),
     (BareMetalDiscoveryHardwareCPU_DeepCopyInto X, BareMetalDiscoveryHardwareCPU_ty X),
     (BareMetalDiscoveryHardwareStorage_DeepCopyInto X, BareMetalDiscoveryHardwareStorage_ty X),
     (BareMetalDiscoveryHardwareNIC_DeepCopyInto X, BareMetalDiscoveryHardwareNIC_ty X),
     (BareMetalDiscoveryHardware_DeepCopyInto X, BareMetalDiscoveryHardware_ty X),
     (BareMetalDiscoverySpec_DeepCopyInto, BareMetalDiscoverySpec_ty),
     (BareMetalDiscoveryStatus_DeepCopyInto X, BareMetalDiscoveryStatus_ty X),
     (BareMetalDiscovery_DeepCopyInto X, BareMetalDiscovery_ty X),
     (BareMetalDiscoveryList_DeepCopyInto X, BareMetalDiscoveryList_ty X),
     (BareMetalEndpointBond_DeepCopyInto, BareMetalEndpointBond_ty),
     (BareMetalEndpointSpec_DeepCopyInto, BareMetalEndpointSpec_ty),
     (BareMetalEndpointStatusAddress_DeepCopyInto, BareMetalEndpointStatusAddress_ty),
     (BareMetalEndpointStatus_DeepCopyInto, BareMetalEndpointStatus_ty),
     (BareMetalEndpoint_DeepCopyInto X, BareMetalEndpoint_ty X),
     (BareMetalEndpointList_DeepCopyInto X, BareMetalEndpointList_ty X),
     (BareMetalHardwareNICBond_DeepCopyInto, BareMetalHardwareNICBond_ty),
     (BareMetalHardwareNIC_DeepCopyInto, BareMetalHardwareNIC_ty),
     (BareMetalHardwareSpec_DeepCopyInto X, BareMetalHardwareSpec_ty X),
     (BareMetalHardwareStatusInstanceRef_DeepCopyInto, BareMetalHardwareStatusInstanceRef_ty),
     (BareMetalHardwareStatus_DeepCopyInto X, BareMetalHardwareStatus_ty X),
     (BareMetalHardware_DeepCopyInto X, BareMetalHardware_ty X),
     (BareMetalHardwareList_DeepCopyInto X, BareMetalHardwareList_ty X),
     (BareMetalInstanceSpec_DeepCopyInto X, BareMetalInstanceSpec_ty X),
     (BareMetalInstanceStatusAgentInfo_DeepCopyInto, BareMetalInstanceStatusAgentInfo_ty),
     (BareMetalInstanceStatus_DeepCopyInto, BareMetalInstanceStatus_ty),
     (BareMetalInstance_DeepCopyInto X, BareMetalInstance_ty X),
     (BareMetalInstanceList_DeepCopyInto X, BareMetalInstanceList_ty X),
     (BareMetalNetworkSpec_DeepCopyInto, BareMetalNetworkSpec_ty),
     (BareMetalNetworkStatus_DeepCopyInto, BareMetalNetworkStatus_ty),
     (BareMetalNetwork_DeepCopyInto X, BareMetalNetwork_ty X),
     (BareMetalNetworkList_DeepCopyInto X, BareMetalNetworkList_ty X),
     (ObjectReference_DeepCopy, TPtr ObjectReference_ty),
     (BareMetalDiscoveryHardwareCPU_DeepCopy X, TPtr (BareMetalDiscoveryHardwareCPU_ty X)),
     (BareMetalDiscoveryHardwareStorage_DeepCopy X, TPtr (BareMetalDiscoveryHardwareStorage_ty X)),
     (BareMetalDiscoveryHardwareNIC_DeepCopy X, TPtr (BareMetalDiscoveryHardwareNIC_ty X)),
     (BareMetalDiscoveryHardware_DeepCopy X, TPtr (BareMetalDiscoveryHardware_ty X)),
     (BareMetalDiscoverySpec_DeepCopy, TPtr BareMetalDiscoverySpec_ty),
     (BareMetalDiscoveryStatus_DeepCopy X, TPtr (BareMetalDiscoveryStatus_ty X)),
     (BareMetalDiscovery_DeepCopy X, TPtr (BareMetalDiscovery_ty X)),
     (BareMetalDiscoveryList_DeepCopy X, TPtr (BareMetalDiscoveryList_ty X)),
     (BareMetalEndpointBond_DeepCopy, TPtr BareMetalEndpointBond_ty),
     (BareMetalEndpointSpec_DeepCopy, TPtr BareMetalEndpointSpec_ty),
     (BareMetalEndpointStatusAddress_DeepCopy, TPtr BareMetalEndpointStatusAddress_ty),
     (BareMetalEndpointStatus_DeepCopy, TPtr BareMetalEndpointStatus_ty),
     (BareMetalEndpoint_DeepCopy X, TPtr (BareMetalEndpoint_ty X)),
     (BareMetalEndpointList_DeepCopy X, TPtr (BareMetalEndpointList_ty X)),
     (BareMetalHardwareNICBond_DeepCopy, TPtr BareMetalHardwareNICBond_ty),
     (BareMetalHardwareNIC_DeepCopy, TPtr BareMetalHardwareNIC_ty),
     (BareMetalHardwareSpec_DeepCopy X, TPtr (BareMetalHardwareSpec_ty X)),
     (BareMetalHardwareStatusInstanceRef_DeepCopy, TPtr BareMetalHardwareStatusInstanceRef_ty),
     (BareMetalHardwareStatus_DeepCopy X, TPtr (BareMetalHardwareStatus_ty X)),
     (BareMetalHardware_DeepCopy X, TPtr (BareMetalHardware_ty X)),
     (BareMetalHardwareList_DeepCopy X, TPtr (BareMetalHardwareList_ty X)),
     (BareMetalInstanceSpec_DeepCopy X, TPtr (BareMetalInstanceSpec_ty X)),
     (BareMetalInstanceStatusAgentInfo_DeepCopy, TPtr BareMetalInstanceStatusAgentInfo_ty),
     (BareMetalInstanceStatus_DeepCopy, TPtr BareMetalInstanceStatus_ty),
     (BareMetalInstance_DeepCopy X, TPtr (BareMetalInstance_ty X)),
     (BareMetalInstanceList_DeepCopy X, TPtr (BareMetalInstanceList_ty X)),
     (BareMetalNetworkSpec_DeepCopy, TPtr BareMetalNetworkSpec_ty),
     (BareMetalNetworkStatus_DeepCopy, TPtr BareMetalNetworkStatus_ty),
     (BareMetalNetwork_DeepCopy X, TPtr (BareMetalNetwork_ty X)),
     (BareMetalNetworkList_DeepCopy X, TPtr (BareMetalNetworkList_ty X)),
     (BareMetalDiscovery_DeepCopyObject X, TPtr (BareMetalDiscovery_ty X)),
     (BareMetalDiscoveryList_DeepCopyObject X, TPtr (BareMetalDiscoveryList_ty X)),
     (BareMetalEndpoint_DeepCopyObject X, TPtr (BareMetalEndpoint_ty X)),
     (BareMetalEndpointList_DeepCopyObject X, TPtr (BareMetalEndpointList_ty X)),
     (BareMetalHardware_DeepCopyObject X, TPtr (BareMetalHardware_ty X)),
     (BareMetalHardwareList_DeepCopyObject X, TPtr (BareMetalHardwareList_ty X)),
     (BareMetalInstance_DeepCopyObject X, TPtr (BareMetalInstance_ty X)),
     (BareMetalInstanceList_DeepCopyObject X, TPtr (BareMetalInstanceList_ty X)),
     (BareMetalNetwork_DeepCopyObject X, TPtr (BareMetalNetwork_ty X)),
     (BareMetalNetworkList_DeepCopyObject X, TPtr (BareMetalNetworkList_ty X))]"

lemmas DeepCopy_defs =
  ObjectReference_DeepCopy_def
  BareMetalDiscoveryHardwareCPU_DeepCopy_def
  BareMetalDiscoveryHardwareStorage_DeepCopy_def
  BareMetalDiscoveryHardwareNIC_DeepCopy_def
  BareMetalDiscoveryHardware_DeepCopy_def
  BareMetalDiscoverySpec_DeepCopy_def
  BareMetalDiscoveryStatus_DeepCopy_def
  BareMetalDiscovery_DeepCopy_def
  BareMetalDiscoveryList_DeepCopy_def
  BareMetalEndpointBond_DeepCopy_def
  BareMetalEndpointSpec_DeepCopy_def
  BareMetalEndpointStatusAddress_DeepCopy_def
  BareMetalEndpointStatus_DeepCopy_def
  BareMetalEndpoint_DeepCopy_def
  BareMetalEndpointList_DeepCopy_def
  BareMetalHardwareNICBond_DeepCopy_def
  BareMetalHardwareNIC_DeepCopy_def
  BareMetalHardwareSpec_DeepCopy_def
  BareMetalHardwareStatusInstanceRef_DeepCopy_def
  BareMetalHardwareStatus_DeepCopy_def
  BareMetalHardware_DeepCopy_def
  BareMetalHardwareList_DeepCopy_def
  BareMetalInstanceSpec_DeepCopy_def
  BareMetalInstanceStatusAgentInfo_DeepCopy_def
  BareMetalInstanceStatus_DeepCopy_def
  BareMetalInstance_DeepCopy_def
  BareMetalInstanceList_DeepCopy_def
  BareMetalNetworkSpec_DeepCopy_def
  BareMetalNetworkStatus_DeepCopy_def
  BareMetalNetwork_DeepCopy_def
  BareMetalNetworkList_DeepCopy_def

lemma DeepCopyObject_eq:
  "BareMetalDiscovery_DeepCopyObject X = BareMetalDiscovery_DeepCopy X"
  "BareMetalDiscoveryList_DeepCopyObject X = BareMetalDiscoveryList_DeepCopy X"
  "BareMetalEndpoint_DeepCopyObject X = BareMetalEndpoint_DeepCopy X"
  "BareMetalEndpointList_DeepCopyObject X = BareMetalEndpointList_DeepCopy X"
  "BareMetalHardware_DeepCopyObject X = BareMetalHardware_DeepCopy X"
  "BareMetalHardwareList_DeepCopyObject X = BareMetalHardwareList_DeepCopy X"
  "BareMetalInstance_DeepCopyObject X = BareMetalInstance_DeepCopy X"
  "BareMetalInstanceList_DeepCopyObject X = BareMetalInstanceList_DeepCopy X"
  "BareMetalNetwork_DeepCopyObject X = BareMetalNetwork_DeepCopy X"
  "BareMetalNetworkList_DeepCopyObject X = BareMetalNetworkList_DeepCopy X"
  by (simp_all add: fun_eq_iff BareMetalDiscovery_DeepCopyObject_def BareMetalDiscoveryList_DeepCopyObject_def
      BareMetalEndpoint_DeepCopyObject_def BareMetalEndpointList_DeepCopyObject_def
      BareMetalHardware_DeepCopyObject_def BareMetalHardwareList_DeepCopyObject_def
      BareMetalInstance_DeepCopyObject_def BareMetalInstanceList_DeepCopyObject_def
      BareMetalNetwork_DeepCopyObject_def BareMetalNetworkList_DeepCopyObject_def)

lemma deep_copies_isolate:
  assumes "externals_ok X" and "(f, t) \<in> set (deep_copies X)"
  shows "isolates f t"
proof -
  have "\<forall>(f, t) \<in> set (deep_copies X). isolates f t"
    unfolding deep_copies_def
    by (simp add: assms(1) deep_copy_rules DeepCopy_defs DeepCopyObject_eq isolates_new)
  with assms(2) show ?thesis by blast
qed

text \<open>Where each type holds a pointer that its copy shares.\<close>

lemma TypeMeta_paths: "shared_paths TypeMeta_ty = []"
  by (simp add: TypeMeta_ty_def)

lemma ObjectReference_paths: "shared_paths ObjectReference_ty = []"
  by (simp add: ObjectReference_ty_def)

lemma StatusCondition_paths: "shared_paths StatusCondition_ty = [[''LastTransitionTime'']]"
  by (simp add: StatusCondition_ty_def)

lemma StatusConditions_paths: "shared_paths StatusConditions_ty = [[''Conditions'', ''LastTransitionTime'']]"
  by (simp add: StatusConditions_ty_def StatusCondition_paths)

lemma BareMetalDiscoveryHardwareCPU_paths:
  "externals_ok X \<Longrightarrow> shared_paths (BareMetalDiscoveryHardwareCPU_ty X) = []"
  by (simp add: BareMetalDiscoveryHardwareCPU_ty_def)

lemma BareMetalDiscoveryHardwareStorage_paths:
  "externals_ok X \<Longrightarrow> shared_paths (BareMetalDiscoveryHardwareStorage_ty X) = []"
  by (simp add: BareMetalDiscoveryHardwareStorage_ty_def)

lemma BareMetalDiscoveryHardwareNIC_paths:
  "externals_ok X \<Longrightarrow> shared_paths (BareMetalDiscoveryHardwareNIC_ty X) = []"
  by (simp add: BareMetalDiscoveryHardwareNIC_ty_def)

lemma BareMetalDiscoveryHardware_paths: "externals_ok X \<Longrightarrow> shared_paths (BareMetalDiscoveryHardware_ty X) = []"
  by (simp add: BareMetalDiscoveryHardware_ty_def BareMetalDiscoveryHardwareCPU_paths
      BareMetalDiscoveryHardwareNIC_paths BareMetalDiscoveryHardwareStorage_paths)

lemma BareMetalDiscoverySpec_paths: "shared_paths BareMetalDiscoverySpec_ty = []"
  by (simp add: BareMetalDiscoverySpec_ty_def)

lemma BareMetalDiscoveryStatus_paths: "externals_ok X \<Longrightarrow> shared_paths (BareMetalDiscoveryStatus_ty X) = []"
  by (simp add: BareMetalDiscoveryStatus_ty_def BareMetalDiscoveryHardware_paths)

lemma BareMetalDiscovery_paths: "externals_ok X \<Longrightarrow> shared_paths (BareMetalDiscovery_ty X) = []"
  by (simp add: BareMetalDiscovery_ty_def BareMetalDiscoverySpec_paths BareMetalDiscoveryStatus_paths
      TypeMeta_paths)

lemma BareMetalDiscoveryList_paths: "externals_ok X \<Longrightarrow> shared_paths (BareMetalDiscoveryList_ty X) = []"
  by (simp add: BareMetalDiscoveryList_ty_def BareMetalDiscovery_paths TypeMeta_paths)

lemma BareMetalEndpointBond_paths: "shared_paths BareMetalEndpointBond_ty = []"
  by (simp add: BareMetalEndpointBond_ty_def)

lemma BareMetalEndpointSpec_paths: "shared_paths BareMetalEndpointSpec_ty = []"
  by (simp add: BareMetalEndpointSpec_ty_def BareMetalEndpointBond_paths ObjectReference_paths)

lemma BareMetalEndpointStatusAddress_paths: "shared_paths BareMetalEndpointStatusAddress_ty = []"
  by (simp add: BareMetalEndpointStatusAddress_ty_def)

lemma BareMetalEndpointStatus_paths:
  "shared_paths BareMetalEndpointStatus_ty = [[''StatusConditions'', ''Conditions'', ''LastTransitionTime'']]"
  by (simp add: BareMetalEndpointStatus_ty_def BareMetalEndpointStatusAddress_paths StatusConditions_paths)

lemma BareMetalEndpoint_paths:
  "externals_ok X \<Longrightarrow> shared_paths (BareMetalEndpoint_ty X) = [[''Status'', ''StatusConditions'',
      ''Conditions'', ''LastTransitionTime'']]"
  by (simp add: BareMetalEndpoint_ty_def BareMetalEndpointSpec_paths BareMetalEndpointStatus_paths
      TypeMeta_paths)

lemma BareMetalEndpointList_paths:
  "externals_ok X \<Longrightarrow> shared_paths (BareMetalEndpointList_ty X) = [[''Items'', ''Status'', ''StatusConditions'',
      ''Conditions'', ''LastTransitionTime'']]"
  by (simp add: BareMetalEndpointList_ty_def BareMetalEndpoint_paths TypeMeta_paths)

lemma BareMetalHardwareNICBond_paths: "shared_paths BareMetalHardwareNICBond_ty = []"
  by (simp add: BareMetalHardwareNICBond_ty_def)

lemma BareMetalHardwareNIC_paths: "shared_paths BareMetalHardwareNIC_ty = []"
  by (simp add: BareMetalHardwareNIC_ty_def BareMetalHardwareNICBond_paths ObjectReference_paths)

lemma BareMetalHardwareSpec_paths: "externals_ok X \<Longrightarrow> shared_paths (BareMetalHardwareSpec_ty X) = []"
  by (simp add: BareMetalHardwareSpec_ty_def BareMetalHardwareNIC_paths)

lemma BareMetalHardwareStatusInstanceRef_paths: "shared_paths BareMetalHardwareStatusInstanceRef_ty = []"
  by (simp add: BareMetalHardwareStatusInstanceRef_ty_def)

lemma BareMetalHardwareStatus_paths:
  "externals_ok X \<Longrightarrow> shared_paths (BareMetalHardwareStatus_ty X) = [[''StatusConditions'', ''Conditions'',
      ''LastTransitionTime'']]"
  by (simp add: BareMetalHardwareStatus_ty_def BareMetalDiscoveryHardware_paths
      BareMetalHardwareStatusInstanceRef_paths StatusConditions_paths)

lemma BareMetalHardware_paths:
  "externals_ok X \<Longrightarrow> shared_paths (BareMetalHardware_ty X) = [[''Status'', ''StatusConditions'',
      ''Conditions'', ''LastTransitionTime'']]"
  by (simp add: BareMetalHardware_ty_def BareMetalHardwareSpec_paths BareMetalHardwareStatus_paths
      TypeMeta_paths)

lemma BareMetalHardwareList_paths:
  "externals_ok X \<Longrightarrow> shared_paths (BareMetalHardwareList_ty X) = [[''Items'', ''Status'', ''StatusConditions'',
      ''Conditions'', ''LastTransitionTime'']]"
  by (simp add: BareMetalHardwareList_ty_def BareMetalHardware_paths TypeMeta_paths)

lemma BareMetalInstanceSpec_paths: "externals_ok X \<Longrightarrow> shared_paths (BareMetalInstanceSpec_ty X) = []"
  by (simp add: BareMetalInstanceSpec_ty_def)

lemma BareMetalInstanceStatusAgentInfo_paths: "shared_paths BareMetalInstanceStatusAgentInfo_ty = []"
  by (simp add: BareMetalInstanceStatusAgentInfo_ty_def)

lemma BareMetalInstanceStatus_paths:
  "shared_paths BareMetalInstanceStatus_ty = [[''StatusConditions'', ''Conditions'', ''LastTransitionTime'']]"
  by (simp add: BareMetalInstanceStatus_ty_def BareMetalInstanceStatusAgentInfo_paths StatusConditions_paths)

lemma BareMetalInstance_paths:
  "externals_ok X \<Longrightarrow> shared_paths (BareMetalInstance_ty X) = [[''Status'', ''StatusConditions'',
      ''Conditions'', ''LastTransitionTime'']]"
  by (simp add: BareMetalInstance_ty_def BareMetalInstanceSpec_paths BareMetalInstanceStatus_paths
      TypeMeta_paths)

lemma BareMetalInstanceList_paths:
  "externals_ok X \<Longrightarrow> shared_paths (BareMetalInstanceList_ty X) = [[''Items'', ''Status'', ''StatusConditions'',
      ''Conditions'', ''LastTransitionTime'']]"
  by (simp add: BareMetalInstanceList_ty_def BareMetalInstance_paths TypeMeta_paths)

lemma BareMetalNetworkSpec_paths: "shared_paths BareMetalNetworkSpec_ty = []"
  by (simp add: BareMetalNetworkSpec_ty_def)

lemma BareMetalNetworkStatus_paths: "shared_paths BareMetalNetworkStatus_ty = []"
  by (simp add: BareMetalNetworkStatus_ty_def)

lemma BareMetalNetwork_paths: "externals_ok X \<Longrightarrow> shared_paths (BareMetalNetwork_ty X) = []"
  by (simp add: BareMetalNetwork_ty_def BareMetalNetworkSpec_paths BareMetalNetworkStatus_paths
      TypeMeta_paths)

lemma BareMetalNetworkList_paths: "externals_ok X \<Longrightarrow> shared_paths (BareMetalNetworkList_ty X) = []"
  by (simp add: BareMetalNetworkList_ty_def BareMetalNetwork_paths TypeMeta_paths)

lemmas path_rules =
  ObjectReference_paths
  StatusCondition_paths
  StatusConditions_paths
  BareMetalDiscoveryHardwareCPU_paths
  BareMetalDiscoveryHardwareStorage_paths
  BareMetalDiscoveryHardwareNIC_paths
  BareMetalDiscoveryHardware_paths
  BareMetalDiscoverySpec_paths
  BareMetalDiscoveryStatus_paths
  BareMetalDiscovery_paths
  BareMetalDiscoveryList_paths
  BareMetalEndpointBond_paths
  BareMetalEndpointSpec_paths
  BareMetalEndpointStatusAddress_paths
  BareMetalEndpointStatus_paths
  BareMetalEndpoint_paths
  BareMetalEndpointList_paths
  BareMetalHardwareNICBond_paths
  BareMetalHardwareNIC_paths
  BareMetalHardwareSpec_paths
  BareMetalHardwareStatusInstanceRef_paths
  BareMetalHardwareStatus_paths
  BareMetalHardware_paths
  BareMetalHardwareList_paths
  BareMetalInstanceSpec_paths
  BareMetalInstanceStatusAgentInfo_paths
  BareMetalInstanceStatus_paths
  BareMetalInstance_paths
  BareMetalInstanceList_paths
  BareMetalNetworkSpec_paths
  BareMetalNetworkStatus_paths
  BareMetalNetwork_paths
  BareMetalNetworkList_paths

text \<open>
  The only pointers a copy shares with its original are the times of conditions.
\<close>

definition only_times :: "ty \<Rightarrow> bool" where
  "only_times t \<longleftrightarrow> (\<forall>p \<in> set (shared_paths t). p \<noteq> [] \<and> last p = ''LastTransitionTime'')"

lemma deep_copies_times:
  assumes "externals_ok X" and "(f, t) \<in> set (deep_copies X)"
  shows "only_times t"
proof -
  have "\<forall>(f, t) \<in> set (deep_copies X). only_times t"
    unfolding deep_copies_def by (simp add: assms(1) only_times_def path_rules)
  with assms(2) show ?thesis by blast
qed

text \<open>
  C25: every deep copy of the API, of any value in any memory, has the content of its original, and
  the two have exactly the cells behind the times of conditions in common: what is written
  through one of them at any other address leaves the other as it was, so a controller that changes
  its copy of an object leaves the object of the cache alone. A time of a condition is not copied.
  The deep copies of Kubernetes' own types are assumed to be deep.
\<close>

theorem deep_copy_isolated:
  assumes "externals_ok X" and "(f, t) \<in> set (deep_copies X)" and "conform s t v" and "f v s = (v', s')"
  shows "content s' t v' = content s t v \<and> addrs s' t v' \<inter> addrs s t v = shared s t v \<and> only_times t \<and>
    (\<forall>a c. a \<in> addrs s' t v' - shared s t v \<longrightarrow> content (s'[a := c]) t v = content s t v) \<and>
    (\<forall>a c. a \<in> addrs s t v - shared s t v \<longrightarrow> content (s'[a := c]) t v' = content s t v)"
  using isolated_writes [OF deep_copies_isolate [OF assms(1,2)] assms(3,4)] deep_copies_times [OF assms(1,2)]
    isolated_content [OF deep_copies_isolate [OF assms(1,2)] assms(3,4)]
    isolated_shares [OF deep_copies_isolate [OF assms(1,2)] assms(3,4)]
  by auto

text \<open>Kubernetes' types, as flat values, and a network's specification with a name server.\<close>

definition flat_external :: external where
  "flat_external = \<lparr>ext_type = TFlat, ext_copy = keep\<rparr>"

definition flat_externals :: externals where
  "flat_externals = \<lparr>x_ObjectMeta = flat_external, x_ListMeta = flat_external, x_Quantity = flat_external,
     x_Taint = flat_external, x_Toleration = flat_external\<rparr>"

lemma flat_externals_ok: "externals_ok flat_externals"
  by (simp add: externals_ok_def external_ok_def flat_externals_def flat_external_def isolates_keep)

definition network_spec :: gval where
  "network_spec = Struct ((\<lambda>_. Flat (SText []))(''Nameservers'' := Ref (Some 0), ''Search'' := Ref None))"

definition network_store :: store where
  "network_store = [Arr [Flat (SText ''8.8.8.8'')]]"

lemma deep_copy_isolated_witness:
  "\<exists>v' s'. BareMetalNetworkSpec_DeepCopyInto network_spec network_store = (v', s') \<and>
     1 \<in> addrs s' BareMetalNetworkSpec_ty v' \<and>
     content (s'[1 := Arr []]) BareMetalNetworkSpec_ty network_spec =
       content network_store BareMetalNetworkSpec_ty network_spec"
proof -
  let ?t = BareMetalNetworkSpec_ty
  obtain v' s' where run: "BareMetalNetworkSpec_DeepCopyInto network_spec network_store = (v', s')"
    by fastforce
  have v: "v' = Struct ((\<lambda>_. Flat (SText []))(''Nameservers'' := Ref (Some 1), ''Search'' := Ref None))"
    "s' = network_store @ [Arr [Flat (SText ''8.8.8.8'')]]"
    using run by (auto simp: BareMetalNetworkSpec_DeepCopyInto_def network_spec_def network_store_def
        copy_make_def arr_at_def keep_def fun_eq_iff)
  have "(BareMetalNetworkSpec_DeepCopyInto, ?t) \<in> set (deep_copies flat_externals)"
    by (simp add: deep_copies_def)
  moreover have "conform network_store ?t network_spec"
    by (simp add: BareMetalNetworkSpec_ty_def network_spec_def network_store_def arr_at_def)
  ultimately have "\<forall>a c. a \<in> addrs s' ?t v' - shared network_store ?t network_spec \<longrightarrow>
      content (s'[a := c]) ?t network_spec = content network_store ?t network_spec"
    using deep_copy_isolated [OF flat_externals_ok, of BareMetalNetworkSpec_DeepCopyInto ?t] run by blast
  moreover have "1 \<in> addrs s' ?t v'" "shared network_store ?t network_spec = {}"
    by (simp_all add: v BareMetalNetworkSpec_ty_def network_spec_def split: option.split)
  ultimately show ?thesis using run by blast
qed

text \<open>
  The time of a condition is not copied: the copy of a condition holds the same pointer, so a
  time written through the copy is the original's too.
\<close>

lemma condition_time_shared:
  assumes "conform s StatusCondition_ty (Struct g)" and "g ''LastTransitionTime'' = Ref (Some a)"
    and "obj_at s a = Some (Flat x)" and "y \<noteq> x"
    and "StatusCondition_DeepCopyInto (Struct g) s = (v', s')"
  shows "a \<in> addrs s' StatusCondition_ty v' \<and>
    content (s'[a := Obj (Flat y)]) StatusCondition_ty (Struct g) \<noteq> content s StatusCondition_ty (Struct g)"
proof -
  have "v' = Struct g" "s' = s" using assms(5) by (simp_all add: StatusCondition_DeepCopyInto_def keep_def)
  moreover have "obj_at (s[a := Obj (Flat y)]) a = Some (Flat y)"
    using at_bound(1) [OF assms(3)] by (simp add: obj_at_def)
  ultimately show ?thesis using assms(2-4) by (auto simp: StatusCondition_ty_def)
qed

end
