(* ===== verification/Wiring.thy ===== *)
theory Wiring
  imports HardwareSteps InstanceRuns DiscoveryRuns WebhookLaws
begin

text \<open>
  How the manager is put together: \<^verbatim>\<open>main.go\<close>, every \<^verbatim>\<open>SetupWithManager\<close> of \<^verbatim>\<open>controllers\<close> with its
  field index and its watches, every \<^verbatim>\<open>SetupWebhookWithManager\<close> of \<^verbatim>\<open>webhooks\<close>, and the permissions
  the controllers ask for in their \<^verbatim>\<open>kubebuilder:rbac\<close> markers. The controller runtime is a
  parameter: it takes the operations below one after the other and may refuse any of them.
\<close>

section \<open>What is handed to the controller runtime\<close>

datatype indexer =
    IndexBMD "BareMetalDiscovery \<Rightarrow> string list" | IndexBMH "BareMetalHardware \<Rightarrow> string list"
  | IndexBMI "BareMetalInstance \<Rightarrow> string list" | IndexBME "BareMetalEndpoint \<Rightarrow> string list"

datatype api_kind = KindBMD | KindBMH | KindBMI | KindBME | KindBMN

text \<open>A watch with its map function.\<close>

datatype watch = WatchBMI "BareMetalInstance \<Rightarrow> NamespacedName list"
  | WatchBMH "BareMetalHardware \<Rightarrow> NamespacedName list"

datatype reconciler = DiscoveryReconciler | HardwareReconciler | InstanceController | InstanceScheduler
  | InstanceProvisioner | EndpointController | EndpointNetworkReconciler | NetworkReconciler

record controller =
  ctl_Named :: "string option"
  ctl_For :: api_kind
  ctl_Owns :: "api_kind list"
  ctl_Watches :: "watch list"
  ctl_Reconciler :: reconciler

datatype hook = DefaultingWebhookFor api_kind | ValidatingWebhookFor api_kind

datatype assembly_op =
    GetConfig
  | NewManager string bool int
  | IndexField string indexer
  | CompleteController controller
  | RegisterHook string hook
  | AddDiscoveryServer string
  | StartManager

text \<open>
  The runtime's answer to an operation after the ones before it: an error, or nil. The
  operations that were tried are the state of the set-up.
\<close>

type_synonym runtime = "assembly_op list \<Rightarrow> assembly_op \<Rightarrow> go_error option"

type_synonym assembly = "assembly_op list \<Rightarrow> go_error option \<times> assembly_op list"

text \<open>Operations with \<^verbatim>\<open>if err != nil { return err }\<close> after each.\<close>

fun try_all :: "runtime \<Rightarrow> assembly_op list \<Rightarrow> assembly" where
  "try_all rt [] tried = (None, tried)"
| "try_all rt (op # ops) tried = (case rt tried op of
     None \<Rightarrow> try_all rt ops (tried @ [op])
   | Some err \<Rightarrow> (Some err, tried @ [op]))"

section \<open>The controllers\<close>

definition simple_controller :: "api_kind \<Rightarrow> reconciler \<Rightarrow> controller" where
  "simple_controller k r = \<lparr>ctl_Named = None, ctl_For = k, ctl_Owns = [], ctl_Watches = [], ctl_Reconciler = r\<rparr>"

definition Discovery_SetupWithManager :: "runtime \<Rightarrow> assembly" where
  "Discovery_SetupWithManager rt = try_all rt
     [IndexField ''spec.systemUUID'' (IndexBMD (\<lambda>bmd. [bmd_systemUUID_index bmd])),
      CompleteController (simple_controller KindBMD DiscoveryReconciler)]"

definition Hardware_SetupWithManager :: "runtime \<Rightarrow> assembly" where
  "Hardware_SetupWithManager rt = try_all rt
     [IndexField ''spec.systemUUID'' (IndexBMH (\<lambda>bmh. [bmh_systemUUID_index bmh])),
      CompleteController ((simple_controller KindBMH HardwareReconciler)\<lparr>ctl_Watches := [WatchBMI instance_requests]\<rparr>)]"

definition InstanceController_SetupWithManager :: "runtime \<Rightarrow> assembly" where
  "InstanceController_SetupWithManager rt = try_all rt
     [CompleteController (simple_controller KindBMI InstanceController)]"

definition Scheduler_SetupWithManager :: "runtime \<Rightarrow> assembly" where
  "Scheduler_SetupWithManager rt = try_all rt
     [IndexField ''status.hardwareName'' (IndexBMI (\<lambda>bmi. [hardwareName_index bmi])),
      CompleteController ((simple_controller KindBMI InstanceScheduler)
        \<lparr>ctl_Named := Some ''BareMetalInstanceScheduler''\<rparr>)]"

definition Provisioner_SetupWithManager :: "runtime \<Rightarrow> assembly" where
  "Provisioner_SetupWithManager rt = try_all rt
     [CompleteController \<lparr>ctl_Named = Some ''BareMetalInstanceProvisioner'', ctl_For = KindBMI,
        ctl_Owns = [KindBME], ctl_Watches = [WatchBMH hardware_requests], ctl_Reconciler = InstanceProvisioner\<rparr>]"

definition EndpointController_SetupWithManager :: "runtime \<Rightarrow> assembly" where
  "EndpointController_SetupWithManager rt = try_all rt
     [CompleteController (simple_controller KindBME EndpointController)]"

definition EndpointNetwork_SetupWithManager :: "runtime \<Rightarrow> assembly" where
  "EndpointNetwork_SetupWithManager rt = try_all rt
     [IndexField ''spec.networkRef.group,kind,name'' (IndexBME (\<lambda>bme. [network_index bme])),
      CompleteController ((simple_controller KindBME EndpointNetworkReconciler)
        \<lparr>ctl_Named := Some ''BareMetalEndpointNetwork''\<rparr>)]"

definition Network_SetupWithManager :: "runtime \<Rightarrow> assembly" where
  "Network_SetupWithManager rt = try_all rt
     [CompleteController (simple_controller KindBMN NetworkReconciler)]"

section \<open>The webhooks\<close>

text \<open>Registering a webhook gives no error.\<close>

abbreviation register :: "assembly_op list \<Rightarrow> assembly" where
  "register \<equiv> try_all (\<lambda>_ _. None)"

definition Discovery_SetupWebhook :: assembly where
  "Discovery_SetupWebhook = register
     [RegisterHook ''/mutate-baremetal-com-rmb938-v1alpha1-baremetaldiscovery'' (DefaultingWebhookFor KindBMD),
      RegisterHook ''/validate-baremetal-com-rmb938-v1alpha1-baremetaldiscovery'' (ValidatingWebhookFor KindBMD)]"

definition Hardware_SetupWebhook :: assembly where
  "Hardware_SetupWebhook = register
     [RegisterHook ''/mutate-baremetal-com-rmb938-v1alpha1-baremetalhardware'' (DefaultingWebhookFor KindBMH),
      RegisterHook ''/validate-baremetal-com-rmb938-v1alpha1-baremetalhardware'' (ValidatingWebhookFor KindBMH)]"

definition Instance_SetupWebhook :: assembly where
  "Instance_SetupWebhook = register
     [RegisterHook ''/mutate-baremetal-com-rmb938-v1alpha1-baremetalinstance'' (DefaultingWebhookFor KindBMI),
      RegisterHook ''/validate-baremetal-com-rmb938-v1alpha1-baremetalinstance'' (ValidatingWebhookFor KindBMI)]"

definition Endpoint_SetupWebhook :: assembly where
  "Endpoint_SetupWebhook = register
     [RegisterHook ''/mutate-baremetal-com-rmb938-v1alpha1-baremetalendpoint'' (DefaultingWebhookFor KindBME),
      RegisterHook ''/validate-baremetal-com-rmb938-v1alpha1-baremetalendpoint'' (ValidatingWebhookFor KindBME)]"

definition Network_SetupWebhook :: assembly where
  "Network_SetupWebhook = register
     [RegisterHook ''/mutate-baremetal-com-rmb938-v1alpha1-baremetalnetwork'' (DefaultingWebhookFor KindBMN),
      RegisterHook ''/validate-baremetal-com-rmb938-v1alpha1-baremetalnetwork'' (ValidatingWebhookFor KindBMN)]"

section \<open>The main function\<close>

text \<open>One after the other; an error ends it.\<close>

fun in_turn :: "assembly list \<Rightarrow> assembly" where
  "in_turn [] tried = (None, tried)"
| "in_turn (f # fs) tried = (case f tried of
     (None, tried) \<Rightarrow> in_turn fs tried
   | (Some err, tried) \<Rightarrow> (Some err, tried))"

text \<open>
  The result is the exit code, 1 after any error. The flags are the two arguments.
  \<^verbatim>\<open>GetConfigOrDie\<close> exits by itself. The errors of the scheme are thrown away by \<^verbatim>\<open>init\<close>, and the
  logger and the random seed leave no trace here.
\<close>

definition manager_main :: "runtime \<Rightarrow> string \<Rightarrow> bool \<Rightarrow> int \<times> assembly_op list" where
  "manager_main rt metricsAddr enableLeaderElection =
     (case in_turn
        [try_all rt [GetConfig, NewManager metricsAddr enableLeaderElection 9443],
         Discovery_SetupWithManager rt, Discovery_SetupWebhook,
         Hardware_SetupWithManager rt, Hardware_SetupWebhook,
         InstanceController_SetupWithManager rt, Scheduler_SetupWithManager rt,
         Provisioner_SetupWithManager rt, Instance_SetupWebhook,
         EndpointController_SetupWithManager rt, EndpointNetwork_SetupWithManager rt, Endpoint_SetupWebhook,
         Network_SetupWithManager rt, Network_SetupWebhook,
         try_all rt [AddDiscoveryServer '':8081''], try_all rt [StartManager]] [] of
      (None, tried) \<Rightarrow> (0, tried)
    | (Some err, tried) \<Rightarrow> (1, tried))"

section \<open>What the main function has done\<close>

text \<open>The operations in the order they are made when none is refused.\<close>

definition manager_ops :: "string \<Rightarrow> bool \<Rightarrow> assembly_op list" where
  "manager_ops metricsAddr enableLeaderElection =
     [GetConfig, NewManager metricsAddr enableLeaderElection 9443,
      IndexField ''spec.systemUUID'' (IndexBMD (\<lambda>bmd. [bmd_systemUUID_index bmd])),
      CompleteController (simple_controller KindBMD DiscoveryReconciler),
      RegisterHook ''/mutate-baremetal-com-rmb938-v1alpha1-baremetaldiscovery'' (DefaultingWebhookFor KindBMD),
      RegisterHook ''/validate-baremetal-com-rmb938-v1alpha1-baremetaldiscovery'' (ValidatingWebhookFor KindBMD),
      IndexField ''spec.systemUUID'' (IndexBMH (\<lambda>bmh. [bmh_systemUUID_index bmh])),
      CompleteController ((simple_controller KindBMH HardwareReconciler)\<lparr>ctl_Watches := [WatchBMI instance_requests]\<rparr>),
      RegisterHook ''/mutate-baremetal-com-rmb938-v1alpha1-baremetalhardware'' (DefaultingWebhookFor KindBMH),
      RegisterHook ''/validate-baremetal-com-rmb938-v1alpha1-baremetalhardware'' (ValidatingWebhookFor KindBMH),
      CompleteController (simple_controller KindBMI InstanceController),
      IndexField ''status.hardwareName'' (IndexBMI (\<lambda>bmi. [hardwareName_index bmi])),
      CompleteController ((simple_controller KindBMI InstanceScheduler)
        \<lparr>ctl_Named := Some ''BareMetalInstanceScheduler''\<rparr>),
      CompleteController \<lparr>ctl_Named = Some ''BareMetalInstanceProvisioner'', ctl_For = KindBMI,
        ctl_Owns = [KindBME], ctl_Watches = [WatchBMH hardware_requests], ctl_Reconciler = InstanceProvisioner\<rparr>,
      RegisterHook ''/mutate-baremetal-com-rmb938-v1alpha1-baremetalinstance'' (DefaultingWebhookFor KindBMI),
      RegisterHook ''/validate-baremetal-com-rmb938-v1alpha1-baremetalinstance'' (ValidatingWebhookFor KindBMI),
      CompleteController (simple_controller KindBME EndpointController),
      IndexField ''spec.networkRef.group,kind,name'' (IndexBME (\<lambda>bme. [network_index bme])),
      CompleteController ((simple_controller KindBME EndpointNetworkReconciler)
        \<lparr>ctl_Named := Some ''BareMetalEndpointNetwork''\<rparr>),
      RegisterHook ''/mutate-baremetal-com-rmb938-v1alpha1-baremetalendpoint'' (DefaultingWebhookFor KindBME),
      RegisterHook ''/validate-baremetal-com-rmb938-v1alpha1-baremetalendpoint'' (ValidatingWebhookFor KindBME),
      CompleteController (simple_controller KindBMN NetworkReconciler),
      RegisterHook ''/mutate-baremetal-com-rmb938-v1alpha1-baremetalnetwork'' (DefaultingWebhookFor KindBMN),
      RegisterHook ''/validate-baremetal-com-rmb938-v1alpha1-baremetalnetwork'' (ValidatingWebhookFor KindBMN),
      AddDiscoveryServer '':8081'', StartManager]"

text \<open>The runtime, but for the webhooks.\<close>

definition hooks_free :: "runtime \<Rightarrow> runtime" where
  "hooks_free rt tried op = (case op of RegisterHook path h \<Rightarrow> None | _ \<Rightarrow> rt tried op)"

lemma try_all_append:
  "try_all rt (ops @ ops') tried =
     (case try_all rt ops tried of (None, tried) \<Rightarrow> try_all rt ops' tried | (Some err, tried) \<Rightarrow> (Some err, tried))"
  by (induction rt ops tried rule: try_all.induct) (auto split: option.splits)

lemma in_turn_joins:
  "in_turn (try_all rt ops # try_all rt ops' # fs) tried = in_turn (try_all rt (ops @ ops') # fs) tried"
  "in_turn [try_all rt ops] tried = try_all rt ops tried"
  by (simp_all add: try_all_append split: prod.split option.split)

lemma try_all_result:
  "(case try_all rt ops tried of
      (None, tried') \<Rightarrow> tried' = tried @ ops \<and> (\<forall>i < length ops. rt (tried @ take i ops) (ops ! i) = None)
    | (Some err, tried') \<Rightarrow> (\<exists>i < length ops. tried' = tried @ take (Suc i) ops \<and>
        rt (tried @ take i ops) (ops ! i) = Some err \<and> (\<forall>j < i. rt (tried @ take j ops) (ops ! j) = None)))"
proof (induction rt ops tried rule: try_all.induct)
  case (2 rt op ops tried)
  show ?case
  proof (cases "rt tried op")
    case None
    have step: "(\<forall>i < length (op # ops). rt (tried @ take i (op # ops)) ((op # ops) ! i) = None) \<longleftrightarrow>
        (\<forall>i < length ops. rt ((tried @ [op]) @ take i ops) (ops ! i) = None)"
      using None by (simp add: All_less_Suc2)
    show ?thesis
    proof (cases "try_all rt ops (tried @ [op])")
      case (Pair e t)
      show ?thesis
      proof (cases e)
        case None
        then show ?thesis using 2 Pair step \<open>rt tried op = None\<close> by simp
      next
        case (Some err)
        then obtain i where "i < length ops" "t = (tried @ [op]) @ take (Suc i) ops"
          "rt ((tried @ [op]) @ take i ops) (ops ! i) = Some err"
          "\<forall>j < i. rt ((tried @ [op]) @ take j ops) (ops ! j) = None"
          using 2 Pair None by auto
        then show ?thesis using Some Pair \<open>rt tried op = None\<close> by (simp add: All_less_Suc2 exI [of _ "Suc i"])
      qed
    qed
  qed auto
qed simp

lemma others_free:
  "\<forall>op \<in> set ops. \<forall>path h. op \<noteq> RegisterHook path h \<Longrightarrow> try_all rt ops tried = try_all (hooks_free rt) ops tried"
  by (induction ops arbitrary: tried) (auto simp: hooks_free_def split: option.split assembly_op.split)

lemmas SetupWithManager_defs =
  Discovery_SetupWithManager_def Hardware_SetupWithManager_def InstanceController_SetupWithManager_def
  Scheduler_SetupWithManager_def Provisioner_SetupWithManager_def EndpointController_SetupWithManager_def
  EndpointNetwork_SetupWithManager_def Network_SetupWithManager_def

lemmas SetupWebhook_defs =
  Discovery_SetupWebhook_def Hardware_SetupWebhook_def Instance_SetupWebhook_def Endpoint_SetupWebhook_def
  Network_SetupWebhook_def

lemma manager_main_flat:
  "manager_main rt m e = (case try_all (hooks_free rt) (manager_ops m e) [] of
      (None, tried) \<Rightarrow> (0, tried) | (Some err, tried) \<Rightarrow> (1, tried))"
proof -
  have hooks: "register [RegisterHook p h, RegisterHook p' h'] = try_all (hooks_free rt) [RegisterHook p h, RegisterHook p' h']"
    for p h p' h' by (rule ext) (simp add: hooks_free_def)
  have others: "try_all rt ops = try_all (hooks_free rt) ops" if "\<forall>op \<in> set ops. \<forall>p h. op \<noteq> RegisterHook p h" for ops
    by (rule ext) (rule others_free [OF that])
  show ?thesis
    by (simp add: manager_main_def SetupWithManager_defs SetupWebhook_defs hooks others in_turn_joins manager_ops_def
        del: try_all.simps in_turn.simps)
qed

text \<open>
  The main function makes the operations in the fixed order of \<open>manager_ops\<close>; it stops with exit
  code 1 at the first one that is refused and makes none after it. So when the manager is
  started, every index, every controller and both webhooks of every kind are registered.
\<close>

lemma manager_main_contract:
  "case manager_main rt m e of (code, tried) \<Rightarrow>
     code = 0 \<and> tried = manager_ops m e \<and> (\<forall>i < length tried. hooks_free rt (take i tried) (tried ! i) = None) \<or>
     code = 1 \<and> (\<exists>i err. i < length (manager_ops m e) \<and> tried = take (Suc i) (manager_ops m e) \<and>
       hooks_free rt (take i tried) (tried ! i) = Some err \<and>
       (\<forall>j < i. hooks_free rt (take j tried) (tried ! j) = None))"
proof (cases "try_all (hooks_free rt) (manager_ops m e) []")
  case (Pair r tried)
  then show ?thesis
    using try_all_result [where rt = "hooks_free rt" and ops = "manager_ops m e" and tried = "[]"] by (cases r) (auto simp: manager_main_flat)
qed

lemma manager_main_example:
  "manager_main (\<lambda>_ _. None) '':8080'' False = (0, manager_ops '':8080'' False)"
proof -
  have "hooks_free (\<lambda>_ _. None) t p = None" for t p by (simp add: hooks_free_def split: assembly_op.split)
  then show ?thesis
    using manager_main_contract [where rt = "\<lambda>_ _. None" and m = "'':8080''" and e = False] by (simp split: prod.splits)
qed

section \<open>What the API calls need\<close>

text \<open>
  A rule of a role: groups, resources and verbs. The markers of the controllers, from which the
  manager's role is generated.
\<close>

type_synonym rbac_rule = "string list \<times> string list \<times> string list"

definition discovery_rbac :: "rbac_rule list" where
  "discovery_rbac =
     [([''baremetal.com.rmb938''], [''baremetaldiscoveries''], [''get'', ''list'', ''watch'', ''create'', ''update'', ''patch'', ''delete'']),
      ([''baremetal.com.rmb938''], [''baremetaldiscoveries/status''], [''get'', ''update'', ''patch''])]"

definition hardware_rbac :: "rbac_rule list" where
  "hardware_rbac =
     [([''''], [''events''], [''get'', ''list'', ''watch'', ''create'', ''update'', ''patch'']),
      ([''baremetal.com.rmb938''], [''baremetalhardwares''], [''get'', ''list'', ''watch'', ''create'', ''update'', ''patch'', ''delete'']),
      ([''baremetal.com.rmb938''], [''baremetalhardwares/status''], [''get'', ''update'', ''patch''])]"

definition instance_rbac :: "rbac_rule list" where
  "instance_rbac =
     [([''baremetal.com.rmb938''], [''baremetalinstances''], [''get'', ''list'', ''watch'', ''create'', ''update'', ''patch'', ''delete'']),
      ([''baremetal.com.rmb938''], [''baremetalinstances/status''], [''get'', ''update'', ''patch''])]"

definition endpoint_rbac :: "rbac_rule list" where
  "endpoint_rbac =
     [([''baremetal.com.rmb938''], [''baremetalendpoints''], [''get'', ''list'', ''watch'', ''create'', ''update'', ''patch'', ''delete'']),
      ([''baremetal.com.rmb938''], [''baremetalendpoints/status''], [''get'', ''update'', ''patch''])]"

definition network_rbac :: "rbac_rule list" where
  "network_rbac =
     [([''baremetal.com.rmb938''], [''baremetalnetworks''], [''get'', ''list'', ''watch'', ''create'', ''update'', ''patch'', ''delete'']),
      ([''baremetal.com.rmb938''], [''baremetalnetworks/status''], [''get'', ''update'', ''patch''])]"

definition manager_role :: "rbac_rule list" where
  "manager_role = discovery_rbac @ hardware_rbac @ instance_rbac @ endpoint_rbac @ network_rbac"

definition allows :: "rbac_rule list \<Rightarrow> string \<Rightarrow> string \<Rightarrow> string \<Rightarrow> bool" where
  "allows rules apiGroup resource verb =
     list_ex (\<lambda>(gs, rs, vs). apiGroup \<in> set gs \<and> resource \<in> set rs \<and> verb \<in> set vs) rules"

definition resource_of :: "api_kind \<Rightarrow> string" where
  "resource_of k = (case k of KindBMD \<Rightarrow> ''baremetaldiscoveries'' | KindBMH \<Rightarrow> ''baremetalhardwares''
     | KindBMI \<Rightarrow> ''baremetalinstances'' | KindBME \<Rightarrow> ''baremetalendpoints'' | KindBMN \<Rightarrow> ''baremetalnetworks'')"

text \<open>
  The resource and verbs of a call. What is read comes from an informer, which lists and watches.
\<close>

definition needs :: "call \<Rightarrow> (string \<times> string \<times> string list) option" where
  "needs c =
     (let reads = (\<lambda>k. Some (GroupVersion_Group, resource_of k, [''get'', ''list'', ''watch'']));
          does = (\<lambda>verb k. Some (GroupVersion_Group, resource_of k, [verb]));
          status = (\<lambda>k. Some (GroupVersion_Group, resource_of k @ ''/status'', [''update'']))
      in case c of
        GetBMI _ \<Rightarrow> reads KindBMI | GetBMH _ \<Rightarrow> reads KindBMH | GetBME _ \<Rightarrow> reads KindBME | GetBMN _ \<Rightarrow> reads KindBMN
      | ListBMI _ \<Rightarrow> reads KindBMI | ListBMH _ \<Rightarrow> reads KindBMH | ListBME _ \<Rightarrow> reads KindBME | ListBMD _ \<Rightarrow> reads KindBMD
      | UpdateBMI _ \<Rightarrow> does ''update'' KindBMI | UpdateBMH _ \<Rightarrow> does ''update'' KindBMH
      | UpdateBME _ \<Rightarrow> does ''update'' KindBME | UpdateBMN _ \<Rightarrow> does ''update'' KindBMN
      | StatusUpdateBMI _ \<Rightarrow> status KindBMI | StatusUpdateBMH _ \<Rightarrow> status KindBMH
      | StatusUpdateBME _ \<Rightarrow> status KindBME | StatusUpdateBMD _ \<Rightarrow> status KindBMD
      | CreateBME _ \<Rightarrow> does ''create'' KindBME | CreateBMD _ \<Rightarrow> does ''create'' KindBMD
      | DeleteBMI _ \<Rightarrow> does ''delete'' KindBMI
      | Eventf _ _ _ _ \<Rightarrow> Some ('''', ''events'', [''create'', ''patch''])
      | _ \<Rightarrow> None)"

definition permitted :: "rbac_rule list \<Rightarrow> call \<Rightarrow> bool" where
  "permitted rules c = (case needs c of None \<Rightarrow> True
     | Some (apiGroup, resource, verbs) \<Rightarrow> list_all (allows rules apiGroup resource) verbs)"

text \<open>The cache answers a field selector only from an index of that field on that kind.\<close>

definition index_kind :: "indexer \<Rightarrow> api_kind" where
  "index_kind ix = (case ix of IndexBMD _ \<Rightarrow> KindBMD | IndexBMH _ \<Rightarrow> KindBMH | IndexBMI _ \<Rightarrow> KindBMI | IndexBME _ \<Rightarrow> KindBME)"

definition has_index :: "assembly_op list \<Rightarrow> api_kind \<Rightarrow> list_option \<Rightarrow> bool" where
  "has_index ops k opt = (case opt of
     MatchingFields f v \<Rightarrow> list_ex (\<lambda>op. case op of IndexField g ix \<Rightarrow> g = f \<and> index_kind ix = k | _ \<Rightarrow> False) ops
   | _ \<Rightarrow> True)"

definition indexed :: "assembly_op list \<Rightarrow> call \<Rightarrow> bool" where
  "indexed ops c = (case c of
     ListBMD opts \<Rightarrow> list_all (has_index ops KindBMD) opts | ListBMH opts \<Rightarrow> list_all (has_index ops KindBMH) opts
   | ListBMI opts \<Rightarrow> list_all (has_index ops KindBMI) opts | ListBME opts \<Rightarrow> list_all (has_index ops KindBME) opts
   | _ \<Rightarrow> True)"

definition served :: "assembly_op list \<Rightarrow> call \<Rightarrow> bool" where
  "served ops c \<longleftrightarrow> indexed ops c \<and> permitted manager_role c"

lemmas rbac_defs = discovery_rbac_def hardware_rbac_def instance_rbac_def endpoint_rbac_def network_rbac_def

lemma manager_allows [simp]:
  "allows manager_role GroupVersion_Group (resource_of k) ''get''" "allows manager_role GroupVersion_Group (resource_of k) ''list''"
  "allows manager_role GroupVersion_Group (resource_of k) ''watch''" "allows manager_role GroupVersion_Group (resource_of k) ''create''"
  "allows manager_role GroupVersion_Group (resource_of k) ''update''" "allows manager_role GroupVersion_Group (resource_of k) ''delete''"
  "allows manager_role GroupVersion_Group (resource_of k @ ''/status'') ''update''"
  "allows manager_role [] ''events'' ''create''" "allows manager_role [] ''events'' ''patch''"
  by (cases k; simp add: allows_def manager_role_def rbac_defs resource_of_def GroupVersion_Group_def)+

lemma manager_indexes [simp]:
  "has_index (manager_ops m e) KindBMD (MatchingFields ''spec.systemUUID'' v)"
  "has_index (manager_ops m e) KindBMH (MatchingFields ''spec.systemUUID'' v)"
  "has_index (manager_ops m e) KindBMI (MatchingFields ''status.hardwareName'' v)"
  "has_index (manager_ops m e) KindBME (MatchingFields ''spec.networkRef.group,kind,name'' v)"
  "has_index ops k (InNamespace n)" "has_index ops k (MatchingLabels l)"
  by (simp_all add: has_index_def manager_ops_def index_kind_def)

lemma served_calls [simp]:
  "served ops (GetBMI n)" "served ops (GetBMH n)" "served ops (GetBME n)" "served ops (GetBMN n)"
  "served ops (UpdateBMI bmi)" "served ops (UpdateBMH bmh)" "served ops (UpdateBME bme)" "served ops (UpdateBMN bmn)"
  "served ops (StatusUpdateBMI bmi)" "served ops (StatusUpdateBMH bmh)" "served ops (StatusUpdateBME bme)"
  "served ops (StatusUpdateBMD bmd)" "served ops (CreateBME bme)" "served ops (CreateBMD bmd)" "served ops (DeleteBMI bmi)"
  "served ops (Eventf obj ety r msg)" "served ops ClockNow" "served ops (RandIntn i)" "served ops (Lock l)"
  "served ops (Unlock l)" "served ops (HttpRequest x y z)" "served ops (ReadFile f)" "served ops (Host hc)"
  "served ops (ListBMD opts) \<longleftrightarrow> list_all (has_index ops KindBMD) opts"
  "served ops (ListBMH opts) \<longleftrightarrow> list_all (has_index ops KindBMH) opts"
  "served ops (ListBMI opts) \<longleftrightarrow> list_all (has_index ops KindBMI) opts"
  "served ops (ListBME opts) \<longleftrightarrow> list_all (has_index ops KindBME) opts"
  by (simp_all add: served_def indexed_def permitted_def needs_def Let_def)

section \<open>Every call is served\<close>

lemma served_schedule_loop:
  assumes "\<And>h s. always (\<lambda>_. served (manager_ops m e)) h (k s)"
  shows "always (\<lambda>_. served (manager_ops m e)) h (schedule_loop matches tolerates bmi bmhs s k)"
  by (induction bmhs arbitrary: h s) (auto simp: assms Let_def return_err_def split: sum.split)

lemma always_deferred_simple:
  "P c \<Longrightarrow> always (\<lambda>_. P) h p \<Longrightarrow> always (\<lambda>_. P) h (deferred c p)"
  by (induction p arbitrary: h) auto

lemma served_Scheduler:
  "always (\<lambda>_. served (manager_ops m e)) h (Scheduler_Reconcile matches tolerates req)"
proof -
  let ?P = "\<lambda>_. served (manager_ops m e)"
  have pick: "always ?P h (schedule_pick bmi bmhs s)" for h bmi bmhs s
    by (simp add: schedule_pick_def status_update_BMI_def split: sum.split option.split)
  have round: "always ?P h (schedule_round matches tolerates bmi)" for h bmi
    by (auto simp: schedule_round_def pick intro!: served_schedule_loop split: sum.split)
  have set_sched: "always ?P h (set_scheduled bmi cs k)" if "\<And>h b. always ?P h (k b)" for h bmi cs k
    using that by (simp add: set_scheduled_def set_condition_now_def split: sum.split condition_error.split)
  have "always ?P h (scheduler_delete bmi)" for h bmi
    by (auto simp: scheduler_delete_def status_update_BMI_def Let_def split: sum.split option.split
        intro!: always_deferred_simple set_sched)
  moreover have "always ?P h (scheduler_pending matches tolerates bmi)" for h bmi
    by (auto simp: scheduler_pending_def status_update_BMI_def round split: sum.split option.split
        intro!: always_deferred_simple set_sched)
  ultimately show ?thesis by (simp add: Scheduler_Reconcile_def fetch_BMI_def split: sum.split)
qed

lemma served_Network: "always (\<lambda>_. served (manager_ops m e)) h (Network_Reconcile req)"
proof -
  let ?P = "\<lambda>_. served (manager_ops m e)"
  have "always ?P h (allocate_address bme bmn)" for h bme bmn
    by (simp add: allocate_address_def status_update_BME_def split: sum.split next_ip_result.split)
  then have "always ?P h (Network_dispatch bme bmn)" for h bme bmn
    by (auto simp: Network_dispatch_def network_delete_def network_address_def status_update_BME_def
        split: sum.split option.split intro!: always_deferred_simple)
  then show ?thesis
    by (simp add: Network_Reconcile_def fetch_BME_def Let_def split: sum.split)
qed

lemma served_Hardware: "always (\<lambda>_. served (manager_ops m e)) h (BareMetalHardwareReconciler_Reconcile req)"
proof -
  let ?P = "\<lambda>_. served (manager_ops m e)"
  have ensure: "always ?P h (ensure_condition bmh ct cs r msg stop k)"
    if "\<And>h b. always ?P h (stop b)" "\<And>h. always ?P h k" for h bmh ct cs r msg stop k
    using that by (simp add: ensure_condition_def set_hardware_condition_def set_condition_now_def status_update_BMH_def
        split: sum.split condition_error.split)
  have check: "always ?P h (check_instance_ref bmh ref k)" if "\<And>h b. always ?P h (k b)" for h bmh ref k
    using that by (simp add: check_instance_ref_def status_update_BMH_def Let_def split: sum.split)
  have stop: "always ?P h (with_event ety r msg b)" for h ety r msg b by (simp add: with_event_def)
  have nics: "always ?P h (sync_nics bmh hw k)" if "\<And>h. always ?P h k" for h bmh hw k
    using that by (simp add: sync_nics_def ensure stop)
  have drive: "always ?P h (sync_image_drive bmh hw k)" if "\<And>h. always ?P h k" for h bmh hw k
    using that by (simp add: sync_image_drive_def ensure stop)
  have find: "always ?P h (find_discovery bmh)" for h bmh
    by (simp add: find_discovery_def Let_def status_update_BMH_def split: sum.split list.split option.split)
  have conds: "always ?P h (sync_conditions bmh)" for h bmh
    by (simp add: sync_conditions_def ensure stop nics drive find split: option.split)
  have ready: "always ?P h (sync_ready_taint bmh k)" if "\<And>h. always ?P h k" for h bmh k
    using that by (simp add: sync_ready_taint_def remove_taint_def add_taint_def update_BMH_def status_event_def
        split: option.split sum.split)
  have sched: "always ?P h (sync_schedule_taint bmh k)" if "\<And>h. always ?P h k" for h bmh k
    using that by (simp add: sync_schedule_taint_def remove_taint_def add_taint_def update_BMH_def status_event_def
        split: option.split sum.split)
  have "always ?P h (hardware_sync bmh)" for h bmh
    by (auto simp: hardware_sync_def intro!: sched ready check conds split: option.split)
  moreover have "always ?P h (hardware_delete bmh)" for h bmh
    by (auto simp: hardware_delete_def add_taint_def update_BMH_def status_event_def intro!: check
        split: option.split sum.split)
  ultimately show ?thesis by (simp add: BareMetalHardwareReconciler_Reconcile_def fetch_BMH_def split: sum.split)
qed

lemma served_Provisioner: "always (\<lambda>_. served (manager_ops m e)) h (Provisioner_Reconcile json_error req)"
proof -
  let ?P = "\<lambda>_. served (manager_ops m e)"
  have set_cond: "always ?P h (set_instance_condition bmi ct cs r msg k)" if "\<And>h b. always ?P h (k b)" for h bmi ct cs r msg k
    using that by (simp add: set_instance_condition_def set_condition_now_def status_update_BMI_def
        split: sum.split condition_error.split)
  have get_hw: "always ?P h (get_hardware bmi k)" if "\<And>h b. always ?P h (k b)" for h bmi k
    using that by (simp add: get_hardware_def split: sum.split)
  have tell: "always ?P h (tell_agent bmi what doing url body)" for h bmi what doing url body
    by (simp add: tell_agent_def split: http_answer.split)
  have status: "always ?P h (getAgentStatus json_error ip k)" if "\<And>h r. always ?P h (k r)" for h ip k
    using that by (simp add: getAgentStatus_def split: http_answer.split option.split)
  have wrong: "always ?P h (wrong_action bmi st)" for h bmi st by (simp add: wrong_action_def)
  have cleaning: "always ?P h (cleaning_status bmi bmh st)" for h bmi bmh st
    by (simp add: cleaning_status_def wrong set_cond status_update_BMH_def split: sum.split)
  have clean: "always ?P h (clean_hardware json_error bmi bmh)" for h bmi bmh
    by (auto simp: clean_hardware_def Let_def status_update_BMI_def post_clean_def tell cleaning
        intro!: set_cond status split: sum.split option.split)
  have delete: "always ?P h (provisioner_delete json_error bmi)" for h bmi
    by (auto simp: provisioner_delete_def Let_def status_update_BMI_def intro!: set_cond get_hw clean
        split: sum.split option.split)
  have nics: "always ?P h (nic_loop bmi bmh nics)" for h bmi bmh nics
    by (induction nics arbitrary: h)
      (auto simp: all_addressed_def not_all_addressed_def intro!: set_cond split: sum.split list.split new_endpoint.split)
  have imaging: "always ?P h (imaging_status bmi bmh st)" for h bmi bmh st
    by (simp add: imaging_status_def wrong set_cond)
  have image: "always ?P h (image_hardware json_error bmi bmh)" for h bmi bmh
    by (auto simp: image_hardware_def post_image_def tell imaging intro!: status
        split: sum.split option.split built.split)
  have "always ?P h (provisioner_image json_error bmi bmh)" for h bmi bmh
    by (auto simp: provisioner_image_def Let_def status_update_BMI_def image intro!: set_cond split: sum.split option.split)
  then have "always ?P h (provision_hardware json_error bmi bmh)" for h bmi bmh
    by (auto simp: provision_hardware_def Let_def claim_hardware_def status_update_BMH_def nics intro!: set_cond
        split: sum.split option.split)
  then show ?thesis
    by (auto simp: Provisioner_Reconcile_def fetch_BMI_def intro!: delete get_hw split: sum.split option.split)
qed

lemma served_small:
  "always (\<lambda>_. served (manager_ops m e)) h (EndpointController_Reconcile req)"
  "always (\<lambda>_. served (manager_ops m e)) h (InstanceController_Reconcile req)"
  "always (\<lambda>_. served (manager_ops m e)) h (BareMetalNetworkReconciler_Reconcile req)"
  "always (\<lambda>_. served (manager_ops m e)) h (BareMetalDiscoveryReconciler_Reconcile req)"
  by (simp_all add: EndpointController_Reconcile_def InstanceController_Reconcile_def
      BareMetalNetworkReconciler_Reconcile_def BareMetalDiscoveryReconciler_Reconcile_def handler_defs split: sum.split)

lemma served_handlers:
  "always (\<lambda>_. served (manager_ops m e)) h (discovery_handle url r)"
proof -
  let ?P = "\<lambda>_. served (manager_ops m e)"
  have err: "always ?P h (client_error x)" for h x by (simp add: client_error_def)
  have "always ?P h (ipxeBoot url u)" for h u
    by (auto simp: ipxeBoot_def hardware_with_def boot_agent_def err split: sum.split list.split option.split)
  moreover have "always ?P h (ready b)" for h b
    by (auto simp: ready_def hardware_with_def err split: sum.split list.split option.split)
  moreover have "always ?P h (discover b)" for h b
    by (auto simp: discover_def hardware_with_def discovery_with_def record_hardware_def err Let_def
        split: sum.split list.split option.split)
  ultimately show ?thesis by (simp add: discovery_handle_def heartbeat_def split: discovery_request.split)
qed

lemma served_webhooks:
  "always (\<lambda>_. served (manager_ops m e)) h (BMD_ValidateCreate is_zero bmd)"
  "always (\<lambda>_. served (manager_ops m e)) h (BMH_ValidateCreate bmh)"
  by (simp_all add: BMD_ValidateCreate_def BMH_ValidateCreate_def Let_def)

text \<open>The reconciler behind a registered controller; what Kubernetes' packages decide is a parameter.\<close>

definition Reconcile_of ::
  "(string_map \<Rightarrow> string_map \<Rightarrow> bool) \<Rightarrow> (Toleration \<Rightarrow> Taint \<Rightarrow> bool) \<Rightarrow> (string \<Rightarrow> string) \<Rightarrow> reconciler \<Rightarrow>
   NamespacedName \<Rightarrow> reconcile" where
  "Reconcile_of matches tolerates json_error r = (case r of
     DiscoveryReconciler \<Rightarrow> BareMetalDiscoveryReconciler_Reconcile
   | HardwareReconciler \<Rightarrow> BareMetalHardwareReconciler_Reconcile
   | InstanceController \<Rightarrow> InstanceController_Reconcile
   | InstanceScheduler \<Rightarrow> Scheduler_Reconcile matches tolerates
   | InstanceProvisioner \<Rightarrow> Provisioner_Reconcile json_error
   | EndpointController \<Rightarrow> EndpointController_Reconcile
   | EndpointNetworkReconciler \<Rightarrow> Network_Reconcile
   | NetworkReconciler \<Rightarrow> BareMetalNetworkReconciler_Reconcile)"

lemma manager_started:
  assumes "manager_main rt m e = (code, tried)" and "StartManager \<in> set tried"
  shows "tried = manager_ops m e"
proof -
  have ops: "manager_ops m e = butlast (manager_ops m e) @ [StartManager]" "StartManager \<notin> set (butlast (manager_ops m e))"
    by (simp_all add: manager_ops_def)
  have "tried = manager_ops m e \<or> (\<exists>i < length (manager_ops m e). tried = take (Suc i) (manager_ops m e))"
    using assms(1) try_all_result [where rt = "hooks_free rt" and ops = "manager_ops m e" and tried = "[]"]
    by (auto simp: manager_main_flat split: prod.splits option.splits)
  moreover have "tried = manager_ops m e" if "i < length (manager_ops m e)" "tried = take (Suc i) (manager_ops m e)" for i
  proof (cases "Suc i = length (manager_ops m e)")
    case False
    with that(1) have "Suc i \<le> length (butlast (manager_ops m e))" by simp
    then have "tried = take (Suc i) (butlast (manager_ops m e))" using that(2) ops(1) by (metis take_append append_Nil2 diff_is_0_eq take0)
    with assms(2) ops(2) show ?thesis by (meson in_set_takeD)
  qed (use that in simp)
  ultimately show ?thesis by blast
qed

text \<open>
  C21: once the main function has started the manager, no call of any reconciler, of any handler of the
  discovery server or of any webhook, in any run, is one the API server or the cache refuses for
  want of set-up: every field selector names an index that was registered for the kind that is
  listed, and every call is within the role made of the markers, events, status and deletions
  included.
\<close>

theorem api_calls_served:
  assumes "manager_main rt m e = (code, tried)" and "StartManager \<in> set tried"
  shows "always (\<lambda>_. served tried) [] (Reconcile_of matches tolerates json_error r req) \<and>
    always (\<lambda>_. served tried) [] (discovery_handle url q) \<and>
    always (\<lambda>_. served tried) [] (BMD_ValidateCreate is_zero bmd) \<and>
    always (\<lambda>_. served tried) [] (BMH_ValidateCreate bmh)"
proof -
  have "tried = manager_ops m e" using manager_started [OF assms] .
  then show ?thesis
    by (cases r) (simp_all add: Reconcile_of_def served_small served_Hardware served_Scheduler served_Provisioner
        served_Network served_handlers served_webhooks)
qed

lemma try_all_accepted: "(\<And>t op. rt t op = None) \<Longrightarrow> try_all rt ops tried = (None, tried @ ops)"
  by (induction ops arbitrary: tried) simp_all

lemma manager_accepted: "manager_main (\<lambda>_ _. None) m e = (0, manager_ops m e)"
proof -
  have "hooks_free (\<lambda>_ _. None) t p = None" for t p by (simp add: hooks_free_def split: assembly_op.split)
  then show ?thesis by (simp add: manager_main_flat try_all_accepted)
qed

lemma manager_starts [simp]: "StartManager \<in> set (manager_ops m e)"
  by (simp add: manager_ops_def)

lemma api_calls_served_witness:
  "snd (run (Network_Reconcile (key_of pending_endpoint)) []) = Waiting (GetBME (key_of pending_endpoint)) \<and>
   served (manager_ops '':8080'' False) (GetBME (key_of pending_endpoint))"
proof -
  have "always (\<lambda>_. served (manager_ops '':8080'' False)) []
      (Reconcile_of (\<lambda>_ _. True) (\<lambda>_ _. True) id EndpointNetworkReconciler (key_of pending_endpoint))"
    using api_calls_served [OF manager_accepted manager_starts] by blast
  then show ?thesis by (simp add: Reconcile_of_def Network_Reconcile_def fetch_BME_def)
qed

section \<open>The discovery server\<close>

text \<open>
  \<^verbatim>\<open>Run\<close> of the server that the manager runs. The calls of its goroutine come first; what they end
  with is logged at most. The middleware and the static files are left out.
\<close>

definition discovery_Run :: "string \<Rightarrow> string option prog" where
  "discovery_Run address =
     (let stop = Call (Host AwaitStop) (\<lambda>_. Call (Host (ShutdownHttp (5 * Second))) (\<lambda>a.
            case as_Host a of HErr (Some err) \<Rightarrow> Ret (Some err) | _ \<Rightarrow> Ret None)) in
      Call (Host (Listen address)) (\<lambda>a. case as_Host a of
        HErr (Some err) \<Rightarrow> stop
      | _ \<Rightarrow> Call (Host ServeHttp) (\<lambda>_. stop)))"

text \<open>
  A server that could not take its port ends like any other: it waits to be stopped, and returns
  no error.
\<close>

lemma discovery_Run_unbound:
  "run (discovery_Run address) [AHost (HErr (Some err)), b, AHost (HErr None)] =
     ([(Host (Listen address), AHost (HErr (Some err))), (Host AwaitStop, b),
       (Host (ShutdownHttp (5 * Second)), AHost (HErr None))], Returned None)"
  by (simp add: discovery_Run_def Let_def)

end
