(* ===== verification/Wakes.thy ===== *)
theory Wakes
  imports Wiring
begin

text \<open>
  Which controller is woken for which object when an object changes, given the watches the main
  function registered: the hand-over between the controllers, and a wait that nothing ends.
\<close>

section \<open>Events\<close>

datatype api_object = ObjBMD BareMetalDiscovery | ObjBMH BareMetalHardware | ObjBMI BareMetalInstance
  | ObjBME BareMetalEndpoint | ObjBMN BareMetalNetwork

datatype api_event = Appears api_object | Changes api_object api_object | Vanishes api_object

fun event_objects :: "api_event \<Rightarrow> api_object list" where
  "event_objects (Appears obj) = [obj]"
| "event_objects (Changes old new) = [old, new]"
| "event_objects (Vanishes obj) = [obj]"

fun object_kind :: "api_object \<Rightarrow> api_kind" where
  "object_kind (ObjBMD bmd) = KindBMD" | "object_kind (ObjBMH bmh) = KindBMH" | "object_kind (ObjBMI bmi) = KindBMI"
| "object_kind (ObjBME bme) = KindBME" | "object_kind (ObjBMN bmn) = KindBMN"

fun object_key :: "api_object \<Rightarrow> NamespacedName" where
  "object_key (ObjBMD bmd) = key_of bmd" | "object_key (ObjBMH bmh) = key_of bmh" | "object_key (ObjBMI bmi) = key_of bmi"
| "object_key (ObjBME bme) = key_of bme" | "object_key (ObjBMN bmn) = key_of bmn"

fun object_owners :: "api_object \<Rightarrow> OwnerReference list" where
  "object_owners (ObjBMD bmd) = OwnerReferences bmd" | "object_owners (ObjBMH bmh) = OwnerReferences bmh"
| "object_owners (ObjBMI bmi) = OwnerReferences bmi" | "object_owners (ObjBME bme) = OwnerReferences bme"
| "object_owners (ObjBMN bmn) = OwnerReferences bmn"

definition kind_name :: "api_kind \<Rightarrow> string" where
  "kind_name k = (case k of KindBMD \<Rightarrow> ''BareMetalDiscovery'' | KindBMH \<Rightarrow> ''BareMetalHardware''
     | KindBMI \<Rightarrow> ''BareMetalInstance'' | KindBME \<Rightarrow> ''BareMetalEndpoint'' | KindBMN \<Rightarrow> ''BareMetalNetwork'')"

definition GroupVersion_String :: string where
  "GroupVersion_String = GroupVersion_Group @ ''/v1alpha1''"

section \<open>What the controller runtime promises\<close>

text \<open>
  \<^verbatim>\<open>For\<close>: the object itself. \<^verbatim>\<open>Owns\<close>: the owner that controls it, of the kind the controller is for.
  \<^verbatim>\<open>Watches\<close>: what the map function makes of it.
\<close>

definition owner_requests :: "api_kind \<Rightarrow> api_object \<Rightarrow> NamespacedName list" where
  "owner_requests k obj =
     map (\<lambda>r. \<lparr>nn_Namespace = nn_Namespace (object_key obj), nn_Name = owner_Name r\<rparr>)
       (filter (\<lambda>r. owner_Controller r = Some True \<and> owner_Kind r = kind_name k \<and> owner_APIVersion r = GroupVersion_String)
         (object_owners obj))"

definition watch_requests :: "watch \<Rightarrow> api_object \<Rightarrow> NamespacedName list" where
  "watch_requests w obj = (case (w, obj) of
     (WatchBMI f, ObjBMI bmi) \<Rightarrow> f bmi | (WatchBMH f, ObjBMH bmh) \<Rightarrow> f bmh | _ \<Rightarrow> [])"

definition requests :: "controller \<Rightarrow> api_object \<Rightarrow> NamespacedName list" where
  "requests ctl obj =
     (if object_kind obj = ctl_For ctl then [object_key obj] else []) @
     (if object_kind obj \<in> set (ctl_Owns ctl) then owner_requests (ctl_For ctl) obj else []) @
     concat (map (\<lambda>w. watch_requests w obj) (ctl_Watches ctl))"

text \<open>
  Who is woken by an event is the runtime's, a parameter; it is documented to be who the registered
  controllers ask for, for the old and the new object of a change.
\<close>

type_synonym wake = "api_event \<Rightarrow> (reconciler \<times> NamespacedName) set"

definition delivers :: "assembly_op list \<Rightarrow> wake \<Rightarrow> bool" where
  "delivers ops wake \<longleftrightarrow> (\<forall>ev r k. (r, k) \<in> wake ev \<longleftrightarrow>
     (\<exists>ctl obj. CompleteController ctl \<in> set ops \<and> ctl_Reconciler ctl = r \<and> obj \<in> set (event_objects ev) \<and>
        k \<in> set (requests ctl obj)))"

definition runtime_wakes :: "assembly_op list \<Rightarrow> wake" where
  "runtime_wakes ops ev = set (concat (map (\<lambda>op. case op of
     CompleteController ctl \<Rightarrow> concat (map (\<lambda>obj. map (Pair (ctl_Reconciler ctl)) (requests ctl obj)) (event_objects ev))
   | _ \<Rightarrow> []) ops))"

lemma runtime_delivers: "delivers ops (runtime_wakes ops)"
  unfolding delivers_def runtime_wakes_def
  by (auto split: assembly_op.splits)

text \<open>What a started manager wakes, by the kind of the object.\<close>

lemma manager_controllers:
  "(\<exists>ctl. CompleteController ctl \<in> set (manager_ops m e) \<and> Q ctl) \<longleftrightarrow>
     Q (simple_controller KindBMD DiscoveryReconciler) \<or>
     Q ((simple_controller KindBMH HardwareReconciler)\<lparr>ctl_Watches := [WatchBMI instance_requests]\<rparr>) \<or>
     Q (simple_controller KindBMI InstanceController) \<or>
     Q ((simple_controller KindBMI InstanceScheduler)\<lparr>ctl_Named := Some ''BareMetalInstanceScheduler''\<rparr>) \<or>
     Q \<lparr>ctl_Named = Some ''BareMetalInstanceProvisioner'', ctl_For = KindBMI, ctl_Owns = [KindBME],
        ctl_Watches = [WatchBMH hardware_requests], ctl_Reconciler = InstanceProvisioner\<rparr> \<or>
     Q (simple_controller KindBME EndpointController) \<or>
     Q ((simple_controller KindBME EndpointNetworkReconciler)\<lparr>ctl_Named := Some ''BareMetalEndpointNetwork''\<rparr>) \<or>
     Q (simple_controller KindBMN NetworkReconciler)"
  by (simp add: manager_ops_def conj_disj_distribR ex_disj_distrib)

lemma manager_wakes:
  assumes "delivers (manager_ops m e) wake"
  shows "(r, k) \<in> wake ev \<longleftrightarrow> (\<exists>obj \<in> set (event_objects ev).
    case r of
      DiscoveryReconciler \<Rightarrow> object_kind obj = KindBMD \<and> k = object_key obj
    | HardwareReconciler \<Rightarrow> object_kind obj = KindBMH \<and> k = object_key obj \<or>
        (\<exists>bmi. obj = ObjBMI bmi \<and> bmi_HardwareName (bmi_Status bmi) \<noteq> [] \<and> k = hardware_key bmi)
    | InstanceController \<Rightarrow> object_kind obj = KindBMI \<and> k = object_key obj
    | InstanceScheduler \<Rightarrow> object_kind obj = KindBMI \<and> k = object_key obj
    | InstanceProvisioner \<Rightarrow> object_kind obj = KindBMI \<and> k = object_key obj \<or>
        (\<exists>bmh ref. obj = ObjBMH bmh \<and> bmh_InstanceRef (bmh_Status bmh) = Some ref \<and> k = ref_key ref) \<or>
        object_kind obj = KindBME \<and> k \<in> set (owner_requests KindBMI obj)
    | EndpointController \<Rightarrow> object_kind obj = KindBME \<and> k = object_key obj
    | EndpointNetworkReconciler \<Rightarrow> object_kind obj = KindBME \<and> k = object_key obj
    | NetworkReconciler \<Rightarrow> object_kind obj = KindBMN \<and> k = object_key obj)"
proof -
  have "k \<in> set (hardware_requests bmh) \<longleftrightarrow> (\<exists>ref. bmh_InstanceRef (bmh_Status bmh) = Some ref \<and> k = ref_key ref)" for bmh
    by (cases "bmh_InstanceRef (bmh_Status bmh)") (simp_all add: hardware_requests_def ref_key_def)
  then have watches:
    "k \<in> set (watch_requests (WatchBMI instance_requests) obj) \<longleftrightarrow>
       (\<exists>bmi. obj = ObjBMI bmi \<and> bmi_HardwareName (bmi_Status bmi) \<noteq> [] \<and> k = hardware_key bmi)"
    "k \<in> set (watch_requests (WatchBMH hardware_requests) obj) \<longleftrightarrow>
       (\<exists>bmh ref. obj = ObjBMH bmh \<and> bmh_InstanceRef (bmh_Status bmh) = Some ref \<and> k = ref_key ref)" for obj
    by (auto simp: watch_requests_def instance_requests_def hardware_key_def split: api_object.split)
  have "(r, k) \<in> wake ev \<longleftrightarrow> (\<exists>obj \<in> set (event_objects ev). \<exists>ctl.
      CompleteController ctl \<in> set (manager_ops m e) \<and> (ctl_Reconciler ctl = r \<and> k \<in> set (requests ctl obj)))"
    using assms by (auto simp: delivers_def)
  then show ?thesis
    unfolding manager_controllers
    by (cases r) (auto simp: requests_def simple_controller_def watches split: if_splits)
qed

section \<open>The hand-over\<close>

text \<open>An instance as the cache hands it out: with its kind, under the name it was asked for.\<close>

definition cached_instance :: "history \<Rightarrow> NamespacedName \<Rightarrow> BareMetalInstance \<Rightarrow> bool" where
  "cached_instance h req bmi \<longleftrightarrow> hd h = (GetBMI req, ABMI (Inr bmi)) \<and> key_of bmi = req \<and>
     Kind bmi = ''BareMetalInstance'' \<and> APIVersion bmi = GroupVersion_String"

lemma owner_requests_iff:
  "k \<in> set (owner_requests K obj) \<longleftrightarrow> (\<exists>r \<in> set (object_owners obj). owner_Controller r = Some True \<and>
     owner_Kind r = kind_name K \<and> owner_APIVersion r = GroupVersion_String \<and>
     k = \<lparr>nn_Namespace = nn_Namespace (object_key obj), nn_Name = owner_Name r\<rparr>)"
  by (auto simp: owner_requests_def)

lemma endpoint_wakes_owner:
  assumes "endpoint_for bmi bmh nic = Endpoint bme" and "Kind bmi = ''BareMetalInstance''"
    and "APIVersion bmi = GroupVersion_String" and "OwnerReferences x = OwnerReferences bme" and "Namespace x = Namespace bme"
  shows "key_of bmi \<in> set (owner_requests KindBMI (ObjBME x))"
  using assms by (auto simp: endpoint_for_def owner_requests_iff kind_name_def key_of_def
      split: option.splits list.splits)

text \<open>
  C20: the provisioner never waits for what it set going itself: whatever it writes in a run for an
  instance wakes those who go on with it. A new status wakes the three controllers of the instance and the
  controller of its hardware; a hardware that is claimed or released wakes its controller and the
  provisioner for that instance, before and after; and of an endpoint it makes, every change wakes
  both endpoint controllers and the provisioner for the instance again.
\<close>

theorem provisioner_writes_wake:
  assumes "manager_main rt m e = (code, tried)" and "StartManager \<in> set tried" and "delivers tried wake"
    and "performs (Provisioner_Reconcile json_error req) h c" and "cached_instance h req bmi" and "is_write c"
  shows "case c of
      StatusUpdateBMI b \<Rightarrow>
        {InstanceController, InstanceScheduler, InstanceProvisioner} \<times> {req} \<subseteq> wake (Changes (ObjBMI bmi) (ObjBMI b)) \<and>
        (bmi_HardwareName (bmi_Status b) \<noteq> [] \<longrightarrow>
           (HardwareReconciler, hardware_key b) \<in> wake (Changes (ObjBMI bmi) (ObjBMI b)))
    | StatusUpdateBMH b \<Rightarrow> \<exists>old. hardware_read h bmi old \<and> (HardwareReconciler, key_of b) \<in> wake (Changes (ObjBMH old) (ObjBMH b)) \<and>
        ((\<forall>ref. bmh_InstanceRef (bmh_Status old) = Some ref \<longrightarrow> ref_key ref = req) \<longrightarrow>
           (InstanceProvisioner, req) \<in> wake (Changes (ObjBMH old) (ObjBMH b)))
    | CreateBME bme \<Rightarrow> \<forall>ev x. OwnerReferences x = OwnerReferences bme \<and> Namespace x = Namespace bme \<and>
        ObjBME x \<in> set (event_objects ev) \<longrightarrow>
        {(InstanceProvisioner, req), (EndpointController, key_of x), (EndpointNetworkReconciler, key_of x)} \<subseteq> wake ev
    | _ \<Rightarrow> False"
proof -
  have tried: "tried = manager_ops m e" by (rule manager_started [OF assms(1,2)])
  note wakes = manager_wakes [OF assms(3) [unfolded tried]]
  have "provisioner_contract req h c" using performs_always [OF provisioner_always assms(4)] .
  then obtain bmi' where r: "reading req bmi' h" "provisioner_write h bmi' c"
    using assms(6) by (auto simp: provisioner_contract_def)
  have "bmi' = bmi" using r(1) assms(5) by (auto simp: reading_def cached_instance_def)
  then have w: "provisioner_write h bmi c" and key: "key_of bmi = req" "Kind bmi = ''BareMetalInstance''"
      "APIVersion bmi = GroupVersion_String"
    using r(2) assms(5) by (simp_all add: cached_instance_def)
  show ?thesis
  proof (cases c)
    case (StatusUpdateBMI b)
    then obtain st where "b = bmi\<lparr>bmi_Status := st\<rparr>" using w by (auto simp: provisioner_write_def)
    then show ?thesis using StatusUpdateBMI key by (auto simp: wakes key_of_def)
  next
    case (StatusUpdateBMH b)
    then obtain old where old: "hardware_read h bmi old" "claims bmi old b \<or> releases h bmi old b"
      using w by (auto simp: provisioner_write_def)
    from old(2) show ?thesis
    proof
      assume "claims bmi old b"
      then show ?thesis using StatusUpdateBMH old(1) key
        by (auto simp: wakes claims_def ref_key_def key_of_def intro!: exI [of _ old])
    next
      assume "releases h bmi old b"
      then show ?thesis using StatusUpdateBMH old(1) key
        by (auto simp: wakes releases_def refers_to_def key_of_def split: option.splits intro!: exI [of _ old])
    qed
  next
    case (CreateBME bme)
    then obtain bmh nic where "endpoint_for bmi bmh nic = Endpoint bme"
      using w by (auto simp: provisioner_write_def endpoint_missing_def)
    note owner = endpoint_wakes_owner [OF this key(2,3)]
    have "(InstanceProvisioner, k) \<in> wake ev"
      if "ObjBME x \<in> set (event_objects ev)" "k \<in> set (owner_requests KindBMI (ObjBME x))" for k ev x
      unfolding wakes using that by (auto intro: bexI [of _ "ObjBME x"])
    moreover have "(EndpointController, key_of x) \<in> wake ev" "(EndpointNetworkReconciler, key_of x) \<in> wake ev"
      if "ObjBME x \<in> set (event_objects ev)" for ev x
      unfolding wakes using that by (auto intro: bexI [of _ "ObjBME x"])
    ultimately show ?thesis using owner CreateBME key(1) by auto
  qed (use w in \<open>simp_all add: provisioner_write_def\<close>)
qed

text \<open>An instance that waits for its hardware, and that hardware.\<close>

definition provisioning_instance :: BareMetalInstance where
  "provisioning_instance = created_instance\<lparr>APIVersion := GroupVersion_String,
     bmi_Status := \<lparr>Conditions = [scheduled_condition ConditionStatusTrue 1], bmi_AgentInfo = None,
       bmi_HardwareName = ''h'', bmi_Phase = PhaseProvisioning\<rparr>\<rparr>"

lemma provisioning_facts:
  "GetCondition (bmi_Status provisioning_instance) ConditionTypeInstanceScheduled = Some (scheduled_condition ConditionStatusTrue 1)"
  "scheduled (bmi_Status provisioning_instance)" "IsZero (DeletionTimestamp provisioning_instance)"
  "bmi_Phase (bmi_Status provisioning_instance) = PhaseProvisioning"
  "Kind provisioning_instance = ''BareMetalInstance''" "APIVersion provisioning_instance = GroupVersion_String"
  by (simp_all add: provisioning_instance_def created_instance_def GetCondition_def scheduled_condition_def has_status_def)

lemma provisioner_writes_wake_witness:
  "\<exists>old b. b \<noteq> old \<and> (InstanceProvisioner, key_of provisioning_instance) \<in>
     runtime_wakes (manager_ops '':8080'' False) (Changes (ObjBMH old) (ObjBMH b))"
proof -
  let ?bmi = provisioning_instance and ?bmh = "hw_named ''h'' None"
  let ?b = "?bmh\<lparr>bmh_Status := (bmh_Status ?bmh)\<lparr>bmh_InstanceRef :=
    Some \<lparr>iref_Name = Name ?bmi, iref_Namespace = Namespace ?bmi, iref_UID = UID ?bmi\<rparr>\<rparr>\<rparr>"
  let ?h = "[(GetBMI (key_of ?bmi), ABMI (Inr ?bmi)), (GetBMH (hardware_key ?bmi), ABMH (Inr ?bmh))]"
  have "performs (Provisioner_Reconcile id (key_of ?bmi)) ?h (StatusUpdateBMH ?b)"
    using provisioning_facts
    by (simp add: performs_def Provisioner_Reconcile_def fetch_BMI_def get_hardware_def provision_hardware_def Let_def
        claim_hardware_def status_update_BMH_def hw_named_def scheduled_condition_def)
  moreover have "cached_instance ?h (key_of ?bmi) ?bmi" using provisioning_facts by (simp add: cached_instance_def)
  ultimately have "\<exists>old. hardware_read ?h ?bmi old \<and>
      ((\<forall>ref. bmh_InstanceRef (bmh_Status old) = Some ref \<longrightarrow> ref_key ref = key_of ?bmi) \<longrightarrow>
       (InstanceProvisioner, key_of ?bmi) \<in> runtime_wakes (manager_ops '':8080'' False) (Changes (ObjBMH old) (ObjBMH ?b)))"
    using provisioner_writes_wake [OF manager_accepted manager_starts runtime_delivers] by fastforce
  then have "(InstanceProvisioner, key_of ?bmi) \<in> runtime_wakes (manager_ops '':8080'' False) (Changes (ObjBMH ?bmh) (ObjBMH ?b))"
    by (auto simp: hardware_read_def hw_named_def)
  moreover have "?b \<noteq> ?bmh" by (simp add: hw_named_def)
  ultimately show ?thesis by blast
qed

section \<open>A wait that nothing ends\<close>

text \<open>
  C22: when the hardware of an instance that is being provisioned is gone, the provisioner reports
  that and returns without an error and without asking to be run again; a hardware that is made
  later, under whatever name, wakes nobody for the instance, since the webhook accepts it only without
  a reference to an instance. The instance stays until something else happens to it.
\<close>

theorem missing_hardware_unawaited:
  assumes "manager_main rt m e = (code, tried)" and "StartManager \<in> set tried" and "delivers tried wake"
    and "IsZero (DeletionTimestamp bmi)" and "bmi_Phase (bmi_Status bmi) = PhaseProvisioning" and "scheduled (bmi_Status bmi)"
    and "IsNotFound err" and "run (BMH_ValidateCreate bmh) [a] = (tr, Returned NoError)"
  shows "(\<exists>ev. \<not> is_write ev \<and>
      run (Provisioner_Reconcile json_error req) [ABMI (Inr bmi), ABMH (Inl err), b] =
        ([(GetBMI req, ABMI (Inr bmi)), (GetBMH (hardware_key bmi), ABMH (Inl err)), (ev, b)],
         Returned (no_requeue, None))) \<and>
    (\<forall>k. (InstanceProvisioner, k) \<notin> wake (Appears (ObjBMH bmh)))"
proof -
  have tried: "tried = manager_ops m e" by (rule manager_started [OF assms(1,2)])
  note wakes = manager_wakes [OF assms(3) [unfolded tried]]
  have "\<exists>ev. \<not> is_write ev \<and> run (Provisioner_Reconcile json_error req) [ABMI (Inr bmi), ABMH (Inl err), b] =
      ([(GetBMI req, ABMI (Inr bmi)), (GetBMH (hardware_key bmi), ABMH (Inl err)), (ev, b)], Returned (no_requeue, None))"
    using assms(4-7)
    by (auto simp: Provisioner_Reconcile_def fetch_BMI_def get_hardware_def provision_hardware_def Let_def event_def
        return_ok_def has_status_def split: option.splits)
  moreover have "(InstanceProvisioner, k) \<notin> wake (Appears (ObjBMH bmh))" for k
    using assms(8) by (auto simp: wakes BMH_ValidateCreate_def Let_def split: if_splits)
  ultimately show ?thesis by blast
qed

lemma missing_hardware_unawaited_witness:
  "snd (run (Provisioner_Reconcile id (key_of provisioning_instance))
      [ABMI (Inr provisioning_instance), ABMH (Inl (StatusError True 404 ''not found'')), AUnit]) =
    Returned (no_requeue, None) \<and>
   (InstanceProvisioner, key_of provisioning_instance) \<notin>
     runtime_wakes (manager_ops '':8080'' False) (Appears (ObjBMH (hw_named ''h'' None)))"
proof -
  have "run (BMH_ValidateCreate (hw_named ''h'' None)) [ABMHs (Inr [])] =
      ([(ListBMH [MatchingFields ''spec.systemUUID'' []], ABMHs (Inr []))], Returned NoError)"
    by (simp add: BMH_ValidateCreate_def Let_def hw_named_def existing_errors_def validateNICs_def)
  from missing_hardware_unawaited [OF manager_accepted manager_starts runtime_delivers provisioning_facts(3,4,2) _ this,
      of "StatusError True 404 ''not found''" id "key_of provisioning_instance" AUnit "'':8080''" False]
  show ?thesis by (auto simp: IsNotFound_def)
qed

end
