(* ===== verification/Rests.thy ===== *)
theory Rests
  imports ProvisionerSteps HardwareSteps EndpointLifecycle Scheduler
begin

text \<open>
  When a controller rests: the runs that end without an error, without a write and without asking
  to be run again, and what each of them leaves its object waiting for.
\<close>

section \<open>Runs that do not rest\<close>

primrec busy :: "reconcile \<Rightarrow> bool" where
  "busy (Ret r) = (r \<noteq> (no_requeue, None))"
| "busy (Panic m) = True"
| "busy Hang = True"
| "busy (Call c k) = (is_write c \<or> (\<forall>a. busy (k a)))"

definition rested :: "history \<Rightarrow> (Result \<times> go_error option) outcome \<Rightarrow> bool" where
  "rested h oc \<longleftrightarrow> oc = Returned (no_requeue, None) \<and> no_writes h"

text \<open>What a run that rests has to show for it.\<close>

definition rests_only :: "(history \<Rightarrow> bool) \<Rightarrow> history \<Rightarrow> (Result \<times> go_error option) outcome \<Rightarrow> bool" where
  "rests_only Q h oc \<longleftrightarrow> (rested h oc \<longrightarrow> Q h)"

lemma rested_simps [simp]:
  "rested h (Returned r) \<longleftrightarrow> r = (no_requeue, None) \<and> no_writes h" "\<not> rested h (Panicked m)" "\<not> rested h Hung"
  by (simp_all add: rested_def)

lemma rests_only_simps [simp]:
  "rests_only Q h (Returned r) \<longleftrightarrow> (r = (no_requeue, None) \<and> no_writes h \<longrightarrow> Q h)"
  "rests_only Q h (Panicked m)" "rests_only Q h Hung"
  by (simp_all add: rests_only_def)

lemma busy_ends: "busy p \<or> \<not> no_writes h \<Longrightarrow> ends (rests_only Q) h p"
  by (induction p arbitrary: h) auto

lemma busy_returns [simp]:
  "busy (return_err e)" "busy return_requeue" "busy (return_after d) \<longleftrightarrow> d \<noteq> 0" "\<not> busy return_ok"
  "busy (event obj ety r m p) \<longleftrightarrow> busy p"
  by (simp_all add: return_defs event_def no_requeue_def)

lemma busy_parts [simp]:
  "busy (status_update_BMI bmi k)" "busy (status_update_BMH bmh k')" "busy (set_instance_condition bmi ct cs r m k)"
  "busy (tell_agent bmi what doing url body)" "busy (wrong_action bmi st)" "busy (cleaning_status bmi bmh st)"
  "busy (post_clean bmi bmh ip)" "busy (post_image bmi bmh ip nd)" "busy (imaging_status bmi bmh st)"
  "busy (claim_hardware bmi bmh)" "busy (not_all_addressed bmi)" "busy (all_addressed bmi)"
  by (simp_all add: status_update_BMI_def status_update_BMH_def set_instance_condition_def set_condition_now_def
      tell_agent_def wrong_action_def cleaning_status_def post_clean_def post_image_def imaging_status_def
      claim_hardware_def not_all_addressed_def all_addressed_def Second_def Minute_def
      split: sum.split condition_error.split http_answer.split)

lemma busy_deferred: "busy p \<Longrightarrow> busy (deferred c p)"
  by (induction p) auto

lemma busy_agent: "(\<And>r. busy (k r)) \<Longrightarrow> busy (getAgentStatus json_error ip k)"
  by (simp add: getAgentStatus_def)

lemma busy_clean: "busy (clean_hardware json_error bmi bmh)"
  by (auto simp: clean_hardware_def Let_def Second_def Minute_def intro!: busy_agent split: option.split sum.split)

lemma busy_image: "busy (image_hardware json_error bmi bmh)"
  by (auto simp: image_hardware_def Second_def Minute_def intro!: busy_agent split: option.split sum.split built.split)

section \<open>The provisioner\<close>

text \<open>The nics for which several endpoints of the instance were listed.\<close>

definition several_endpoints :: "history \<Rightarrow> BareMetalInstance \<Rightarrow> bool" where
  "several_endpoints h bmi \<longleftrightarrow> (\<exists>nic a bmes. (ListBME [MatchingLabels (nic_labels bmi nic)], a) \<in> set h \<and>
     as_BMEs a = Inr bmes \<and> length (our_endpoints (UID bmi) bmes) > 1)"

definition networked_unknown :: "BareMetalInstanceStatus \<Rightarrow> bool" where
  "networked_unknown st \<longleftrightarrow> (\<exists>c. GetCondition st ConditionTypeInstanceNetworked = Some c \<and>
     cond_Status c \<notin> {ConditionStatusTrue, ConditionStatusFalse})"

definition rest_reason :: "history \<Rightarrow> BareMetalInstance \<Rightarrow> bool" where
  "rest_reason h bmi \<longleftrightarrow> (let st = bmi_Status bmi in
     \<not> scheduled st \<or>
     (if \<not> IsZero (DeletionTimestamp bmi) then terminating st \<or> has_status st ConditionTypeInstanceCleaned ConditionStatusError
      else bmi_Phase st \<noteq> PhaseProvisioning \<or> has_status st ConditionTypeInstanceImaged ConditionStatusError \<or>
        networked_unknown st \<or> several_endpoints h bmi \<or> hardware_gone h bmi \<or>
        (\<exists>bmh. hardware_read h bmi bmh \<and> (\<not> IsZero (DeletionTimestamp bmh) \<or> refers_to_other bmh bmi))))"

definition instance_gone :: "NamespacedName \<Rightarrow> history \<Rightarrow> bool" where
  "instance_gone req h \<longleftrightarrow> (\<exists>a err. h = [(GetBMI req, a)] \<and> as_BMI a = Inl err \<and> IsNotFound err)"

definition provisioner_may_rest :: "NamespacedName \<Rightarrow> history \<Rightarrow> bool" where
  "provisioner_may_rest req h \<longleftrightarrow> instance_gone req h \<or> (\<exists>bmi h'. h = (GetBMI req, ABMI (Inr bmi)) # h' \<and> rest_reason h bmi)"

lemma rests_nic_loop:
  assumes "\<And>a bmes h' nic. as_BMEs a = Inr bmes \<Longrightarrow> length (our_endpoints (UID bmi) bmes) > 1 \<Longrightarrow>
      (ListBME [MatchingLabels (nic_labels bmi nic)], a) \<in> set h' \<Longrightarrow> Q (h @ h')"
  shows "ends (rests_only Q) (h @ h') (nic_loop bmi bmh nics)"
proof (induction nics arbitrary: h')
  case (Cons nic nics)
  have more: "Q (h @ h' @ (ListBME [MatchingLabels (nic_labels bmi nic)], a) # r)"
    if "as_BMEs a = Inr bmes" "our_endpoints (UID bmi) bmes = x # y # zs" for a bmes x y zs r
    using assms [OF that(1), of nic "h' @ (ListBME [MatchingLabels (nic_labels bmi nic)], a) # r"] that(2) by simp
  show ?case
    using Cons.IH [of "h' @ [(ListBME [MatchingLabels (nic_labels bmi nic)], a)]" for a]
    by (auto simp: event_def return_ok_def more intro!: busy_ends split: sum.split list.split new_endpoint.split)
qed (simp add: busy_ends)

lemma rest_reason_append: "rest_reason h bmi \<Longrightarrow> rest_reason (h @ h') bmi"
  by (auto simp: rest_reason_def Let_def several_endpoints_def) blast+

lemma rests_stop:
  assumes "h = (GetBMI req, ABMI (Inr bmi)) # h'" and "rest_reason h bmi"
  shows "ends (rests_only (provisioner_may_rest req)) h return_ok"
    and "ends (rests_only (provisioner_may_rest req)) h (event obj ety r m return_ok)"
  using assms rest_reason_append [OF assms(2)] by (auto simp: return_ok_def event_def provisioner_may_rest_def)

lemma rests_image:
  assumes "h = (GetBMI req, ABMI (Inr bmi)) # h'" and "IsZero (DeletionTimestamp bmi)"
  shows "ends (rests_only (provisioner_may_rest req)) h (provisioner_image json_error bmi b)"
proof -
  have "rest_reason h bmi" if "has_status (bmi_Status bmi) ConditionTypeInstanceImaged ConditionStatusError"
    using that assms(2) by (simp add: rest_reason_def Let_def)
  then show ?thesis
    by (simp add: provisioner_image_def Let_def busy_ends busy_image rests_stop [OF assms(1)] has_status_def split: option.split)
qed

lemma rests_provision:
  assumes h: "h = (GetBMI req, ABMI (Inr bmi)) # h'" and zero: "IsZero (DeletionTimestamp bmi)"
    and read: "hardware_read h bmi b"
  shows "ends (rests_only (provisioner_may_rest req)) h (provision_hardware json_error bmi (Some b))"
proof -
  have reasons: "\<not> IsZero (DeletionTimestamp b) \<Longrightarrow> rest_reason h bmi" "refers_to_other b bmi \<Longrightarrow> rest_reason h bmi"
    "networked_unknown (bmi_Status bmi) \<Longrightarrow> rest_reason h bmi"
    using zero read by (auto simp: rest_reason_def Let_def)
  have "provisioner_may_rest req (h @ r)" if "several_endpoints (h @ r) bmi" for r
    using that h zero by (auto simp: provisioner_may_rest_def rest_reason_def Let_def)
  then have nics: "ends (rests_only (provisioner_may_rest req)) (h @ []) (nic_loop bmi b nics)" for nics
    by (intro rests_nic_loop) (auto simp: several_endpoints_def)
  show ?thesis
    unfolding provision_hardware_def Let_def option.case refers_to_other_def [symmetric]
    using nics reasons
    by (simp add: networked_unknown_def Second_def rests_stop [OF h] busy_ends rests_image [OF h zero] split: option.split)
qed

lemma rests_delete:
  assumes "h = (GetBMI req, ABMI (Inr bmi)) # h'" and "\<not> IsZero (DeletionTimestamp bmi)"
  shows "ends (rests_only (provisioner_may_rest req)) h (provisioner_delete json_error bmi)"
proof -
  have reasons: "terminating (bmi_Status bmi) \<Longrightarrow> rest_reason h bmi"
    "has_status (bmi_Status bmi) ConditionTypeInstanceCleaned ConditionStatusError \<Longrightarrow> rest_reason h bmi"
    using assms(2) by (simp_all add: rest_reason_def Let_def)
  have "busy (get_hardware bmi (clean_hardware json_error bmi))"
    by (simp add: get_hardware_def busy_clean split: sum.split)
  then show ?thesis
    unfolding provisioner_delete_def Let_def terminating_def [symmetric]
    using reasons by (simp add: has_status_def rests_stop [OF assms(1)] busy_ends split: option.split)
qed

lemma provisioner_rests:
  "ends (rests_only (provisioner_may_rest req)) [] (Provisioner_Reconcile json_error req)"
proof -
  have "ends (rests_only (provisioner_may_rest req)) h (get_hardware bmi (provision_hardware json_error bmi))"
    if h: "h = [(GetBMI req, ABMI (Inr bmi))]" and zero: "IsZero (DeletionTimestamp bmi)" for h bmi
  proof -
    have "ends (rests_only (provisioner_may_rest req)) (h @ [(GetBMH (hardware_key bmi), a)]) (provision_hardware json_error bmi (Some b))"
      if "as_BMH a = Inr b" for a b
      by (rule rests_provision) (use h zero that in \<open>auto simp: hardware_read_def as_BMH_def split: answer.splits\<close>)
    moreover have "ends (rests_only (provisioner_may_rest req)) (h @ [(GetBMH (hardware_key bmi), a)]) (provision_hardware json_error bmi None)"
      if "as_BMH a = Inl err" "IsNotFound err" for a err
    proof -
      have "a = ABMH (Inl err)" using that by (cases a) (auto simp: as_BMH_def wrong_kind_def IsNotFound_def)
      then have "rest_reason (h @ [(GetBMH (hardware_key bmi), a)]) bmi"
        using that(2) zero by (auto simp: rest_reason_def Let_def hardware_gone_def)
      then show ?thesis using h rests_stop(2) [of "h @ [(GetBMH (hardware_key bmi), a)]" req bmi]
        by (simp add: provision_hardware_def Let_def)
    qed
    ultimately show ?thesis by (auto simp: get_hardware_def intro!: busy_ends split: sum.split)
  qed
  moreover have "rest_reason [(GetBMI req, ABMI (Inr bmi))] bmi"
    if "\<not> scheduled (bmi_Status bmi) \<or> IsZero (DeletionTimestamp bmi) \<and> bmi_Phase (bmi_Status bmi) \<noteq> PhaseProvisioning" for bmi
    using that by (auto simp: rest_reason_def Let_def)
  ultimately have found: "ends (rests_only (provisioner_may_rest req)) [(GetBMI req, ABMI (Inr bmi))]
      (if \<not> scheduled (bmi_Status bmi) then return_ok
       else if \<not> IsZero (DeletionTimestamp bmi) then provisioner_delete json_error bmi
       else if bmi_Phase (bmi_Status bmi) \<noteq> PhaseProvisioning then return_ok
       else get_hardware bmi (provision_hardware json_error bmi))" for bmi
    by (simp add: rests_stop rests_delete)
  have unscheduled: "(case GetCondition st ct of None \<Rightarrow> True | Some c \<Rightarrow> cond_Status c \<noteq> cs) \<longleftrightarrow> \<not> has_status st ct cs"
    for st :: BareMetalInstanceStatus and ct cs by (simp add: has_status_def split: option.split)
  have gone: "IgnoreNotFound err = None \<longleftrightarrow> IsNotFound err" for err by (simp add: IgnoreNotFound_def)
  have answer: "a = ABMI (Inr bmi)" if "as_BMI a = Inr bmi" for a bmi using that by (cases a) (auto simp: as_BMI_def)
  let ?go = "\<lambda>bmi. if \<not> scheduled (bmi_Status bmi) then return_ok
       else if \<not> IsZero (DeletionTimestamp bmi) then provisioner_delete json_error bmi
       else if bmi_Phase (bmi_Status bmi) \<noteq> PhaseProvisioning then return_ok
       else get_hardware bmi (provision_hardware json_error bmi)"
  have "ends (rests_only (provisioner_may_rest req)) [(GetBMI req, a)]
      (case as_BMI a of Inl err \<Rightarrow> Ret (no_requeue, IgnoreNotFound err) | Inr bmi \<Rightarrow> ?go bmi)" for a
  proof (cases "as_BMI a")
    case (Inl err)
    then show ?thesis by (auto simp: gone provisioner_may_rest_def instance_gone_def)
  next
    case (Inr bmi)
    then show ?thesis using found [of bmi] answer [OF Inr] by (simp only: sum.case)
  qed
  then show ?thesis unfolding Provisioner_Reconcile_def fetch_BMI_def unscheduled by simp
qed

section \<open>The scheduler\<close>

definition scheduler_may_rest :: "NamespacedName \<Rightarrow> history \<Rightarrow> bool" where
  "scheduler_may_rest req h \<longleftrightarrow> instance_gone req h \<or>
     (\<exists>bmi. h = [(GetBMI req, ABMI (Inr bmi))] \<and>
        (if \<not> IsZero (DeletionTimestamp bmi)
         then bmi_Phase (bmi_Status bmi) = PhaseTerminated \<or>
           scheduled (bmi_Status bmi) \<and> bmi_Phase (bmi_Status bmi) \<noteq> PhaseTerminating
         else bmi_Phase (bmi_Status bmi) \<noteq> PhasePending))"

lemma busy_schedule_loop: "(\<And>s. busy (k s)) \<Longrightarrow> busy (schedule_loop matches tolerates bmi bmhs s k)"
  by (induction bmhs arbitrary: s) (auto simp: Let_def split: sum.split)

lemma busy_schedule_round: "busy (schedule_round matches tolerates bmi)"
  by (auto simp: schedule_round_def schedule_pick_def Minute_def Second_def intro!: busy_schedule_loop split: sum.split option.split)

lemma busy_set_scheduled: "(\<And>b. busy (k b)) \<Longrightarrow> busy (set_scheduled bmi cs k)"
  by (simp add: set_scheduled_def set_condition_now_def split: sum.split condition_error.split)

lemma not_scheduled:
  "(case GetCondition st ct of None \<Rightarrow> True | Some c \<Rightarrow> cond_Status c \<noteq> cs) \<longleftrightarrow> \<not> has_status st ct cs"
  by (simp add: has_status_def split: option.split)

lemma scheduler_rests:
  "ends (rests_only (scheduler_may_rest req)) [] (Scheduler_Reconcile matches tolerates req)"
proof -
  let ?go = "\<lambda>bmi. if \<not> IsZero (DeletionTimestamp bmi) then scheduler_delete bmi else scheduler_pending matches tolerates bmi"
  have delete: "ends (rests_only (scheduler_may_rest req)) [(GetBMI req, ABMI (Inr bmi))] (scheduler_delete bmi)"
    if "\<not> IsZero (DeletionTimestamp bmi)" for bmi
    using that unfolding scheduler_delete_def not_scheduled Let_def
    by (simp add: busy_ends busy_deferred busy_set_scheduled) (simp add: return_ok_def scheduler_may_rest_def)
  have pending: "ends (rests_only (scheduler_may_rest req)) [(GetBMI req, ABMI (Inr bmi))] (scheduler_pending matches tolerates bmi)"
    if "IsZero (DeletionTimestamp bmi)" for bmi
  proof (cases "bmi_Phase (bmi_Status bmi) = PhasePending")
    case True
    then show ?thesis
      by (simp add: scheduler_pending_def busy_ends busy_deferred busy_set_scheduled busy_schedule_round split: option.split)
  next
    case False
    then show ?thesis using that by (simp add: scheduler_pending_def return_ok_def scheduler_may_rest_def)
  qed
  have "ends (rests_only (scheduler_may_rest req)) [(GetBMI req, a)]
      (case as_BMI a of Inl err \<Rightarrow> Ret (no_requeue, IgnoreNotFound err) | Inr bmi \<Rightarrow> ?go bmi)" for a
  proof (cases "as_BMI a")
    case (Inl err)
    then show ?thesis by (auto simp: scheduler_may_rest_def instance_gone_def IgnoreNotFound_def)
  next
    case (Inr bmi)
    then have "a = ABMI (Inr bmi)" by (cases a) (auto simp: as_BMI_def)
    then show ?thesis using Inr delete pending by simp
  qed
  then show ?thesis by (simp add: Scheduler_Reconcile_def fetch_BMI_def)
qed

section \<open>The network controller of the endpoints\<close>

definition network_may_rest :: "NamespacedName \<Rightarrow> history \<Rightarrow> bool" where
  "network_may_rest req h \<longleftrightarrow>
     (\<exists>a err. h = [(GetBME req, a)] \<and> as_BME a = Inl err \<and> IsNotFound err) \<or>
     (\<exists>bme h'. h = (GetBME req, ABME (Inr bme)) # h' \<and>
        (bme_Phase (bme_Status bme) = [] \<or> ref_Group (bme_NetworkRef (bme_Spec bme)) \<noteq> GroupVersion_Group \<or>
         ref_Kind (bme_NetworkRef (bme_Spec bme)) \<noteq> ''BareMetalNetwork'' \<or>
         bme_Phase (bme_Status bme) =
           (if IsZero (DeletionTimestamp bme) then EndpointPhaseAddressed else EndpointPhaseDeleted)))"

lemma busy_BME [simp]: "busy (status_update_BME bme k)"
  by (simp add: status_update_BME_def)

lemma busy_allocate: "busy (allocate_address bme bmn)"
  by (simp add: allocate_address_def split: sum.split next_ip_result.split)

lemma dispatch_rests:
  assumes "h = (GetBME req, ABME (Inr bme)) # h'"
  shows "ends (rests_only (network_may_rest req)) h (Network_dispatch bme bmn)"
proof -
  have "ends (rests_only (network_may_rest req)) h return_ok"
    if "bme_Phase (bme_Status bme) = (if IsZero (DeletionTimestamp bme) then EndpointPhaseAddressed else EndpointPhaseDeleted)"
    using that assms by (simp add: return_ok_def network_may_rest_def)
  then show ?thesis
    by (simp add: Network_dispatch_def network_delete_def network_address_def busy_ends busy_deferred busy_allocate
        split: option.split)
qed

lemma network_rests: "ends (rests_only (network_may_rest req)) [] (Network_Reconcile req)"
proof -
  have "ends (rests_only (network_may_rest req)) [(GetBME req, a)] (case as_BME a of
      Inl err \<Rightarrow> Ret (no_requeue, IgnoreNotFound err) | Inr bme \<Rightarrow> k bme)"
    if k: "\<And>bme. ends (rests_only (network_may_rest req)) [(GetBME req, ABME (Inr bme))] (k bme)" for a k
  proof (cases "as_BME a")
    case (Inl err)
    then show ?thesis by (auto simp: network_may_rest_def IgnoreNotFound_def)
  next
    case (Inr bme)
    then have "a = ABME (Inr bme)" by (cases a) (auto simp: as_BME_def)
    then show ?thesis using Inr k by simp
  qed
  note fetched = this
  show ?thesis
    unfolding Network_Reconcile_def fetch_BME_def Let_def
    by (simp only: ends.simps append_Nil, intro allI fetched)
      (auto simp: busy_ends event_def intro!: dispatch_rests split: sum.split,
       simp_all add: return_ok_def network_may_rest_def)
qed

section \<open>The hardware controller\<close>

text \<open>Nothing is left to set: the hardware is discovered, its conditions and taints are as wanted.\<close>

definition in_order :: "BareMetalHardware \<Rightarrow> bool" where
  "in_order bmh \<longleftrightarrow> bmh_Hardware (bmh_Status bmh) \<noteq> None \<and>
     list_all (\<lambda>ct. \<not> wrong_condition bmh ct) [ConditionTypeHardwareSet, ConditionTypeNicsValid, ConditionTypeImageDriveValid] \<and>
     has_taint BareMetalHardwareTaintKeyNoSchedule (taints_of bmh) = (\<not> bmh_CanProvision (bmh_Spec bmh)) \<and>
     has_taint BareMetalHardwareTaintKeyNotReady (taints_of bmh) = (\<not> all_conditions_true bmh)"

definition hardware_may_rest :: "NamespacedName \<Rightarrow> history \<Rightarrow> bool" where
  "hardware_may_rest req h \<longleftrightarrow>
     (\<exists>a err. h = [(GetBMH req, a)] \<and> as_BMH a = Inl err \<and> IsNotFound err) \<or>
     (\<exists>bmh h'. h = (GetBMH req, ABMH (Inr bmh)) # h' \<and> IsZero (DeletionTimestamp bmh) \<and> in_order bmh)"

lemma busy_hardware [simp]:
  "busy (update_BMH bmh k)" "busy (add_taint bmh key k)" "busy (remove_taint bmh i k)"
  "busy (set_hardware_condition bmh ct cs r m k)" "busy (find_discovery bmh)"
  by (simp_all add: update_BMH_def add_taint_def remove_taint_def set_hardware_condition_def set_condition_now_def
      find_discovery_def Let_def split: sum.split condition_error.split list.split option.split)

lemma busy_or_through:
  "ensure_condition bmh ct cs r m stop k = k \<or> busy (ensure_condition bmh ct cs r m stop k)"
  "has_taint BareMetalHardwareTaintKeyNoSchedule (taints_of bmh) = (\<not> bmh_CanProvision (bmh_Spec bmh)) \<and>
     sync_schedule_taint bmh k = k \<or> busy (sync_schedule_taint bmh k)"
  "has_taint BareMetalHardwareTaintKeyNotReady (taints_of bmh) = (\<not> all_conditions_true bmh) \<and>
     sync_ready_taint bmh k = k \<or> busy (sync_ready_taint bmh k)"
  by (auto simp: ensure_condition_def sync_schedule_taint_def sync_ready_taint_def taint_index_None split: option.split)

lemma conditions_in_order:
  "busy (sync_conditions bmh) \<or> sync_conditions bmh = return_ok \<and> bmh_Hardware (bmh_Status bmh) \<noteq> None \<and>
     list_all (\<lambda>ct. \<not> wrong_condition bmh ct) [ConditionTypeHardwareSet, ConditionTypeNicsValid, ConditionTypeImageDriveValid]"
proof (cases "bmh_Hardware (bmh_Status bmh)")
  case None
  then show ?thesis
    by (simp add: sync_conditions_def) (metis busy_or_through(1) busy_hardware(5))
next
  case (Some hardware)
  have "sync_image_drive bmh hardware k = k \<or> busy (sync_image_drive bmh hardware k)" for k
    using busy_or_through(1) by (auto simp: sync_image_drive_def)
  moreover have "sync_nics bmh hardware k = k \<or> busy (sync_nics bmh hardware k)" for k
    using busy_or_through(1) by (auto simp: sync_nics_def)
  ultimately have "sync_conditions bmh = return_ok \<or> busy (sync_conditions bmh)"
    using Some by (simp add: sync_conditions_def) (metis busy_or_through(1))
  then show ?thesis using sync_conditions_ok [OF Some] Some by auto
qed

lemma hardware_sync_rests:
  assumes "h = [(GetBMH req, ABMH (Inr bmh))]" and "IsZero (DeletionTimestamp bmh)"
  shows "ends (rests_only (hardware_may_rest req)) h (hardware_sync bmh)"
proof -
  let ?after = "case bmh_InstanceRef (bmh_Status bmh) of
      Some ref \<Rightarrow> check_instance_ref bmh ref (\<lambda>_. sync_conditions bmh) | None \<Rightarrow> sync_conditions bmh"
  consider "busy (hardware_sync bmh)" | "hardware_sync bmh = ?after"
      "has_taint BareMetalHardwareTaintKeyNoSchedule (taints_of bmh) = (\<not> bmh_CanProvision (bmh_Spec bmh))"
      "has_taint BareMetalHardwareTaintKeyNotReady (taints_of bmh) = (\<not> all_conditions_true bmh)"
    unfolding hardware_sync_def by (metis busy_or_through(2,3))
  then show ?thesis
  proof cases
    case 2
    have conds: "ends (rests_only (hardware_may_rest req)) (h @ r) (sync_conditions bmh)" for r
      using conditions_in_order [of bmh]
    proof
      assume "sync_conditions bmh = return_ok \<and> bmh_Hardware (bmh_Status bmh) \<noteq> None \<and>
        list_all (\<lambda>ct. \<not> wrong_condition bmh ct) [ConditionTypeHardwareSet, ConditionTypeNicsValid, ConditionTypeImageDriveValid]"
      then show ?thesis using 2(2,3) assms by (simp add: return_ok_def hardware_may_rest_def in_order_def)
    qed (simp add: busy_ends)
    have "ends (rests_only (hardware_may_rest req)) h (check_instance_ref bmh ref (\<lambda>_. sync_conditions bmh))" for ref
      by (simp add: check_instance_ref_def Let_def busy_ends conds split: sum.split)
    then show ?thesis using conds [of "[]"] by (simp add: 2(1) split: option.split)
  qed (simp add: busy_ends)
qed

lemma hardware_delete_rests: "busy (hardware_delete bmh)"
  by (simp add: hardware_delete_def check_instance_ref_def Let_def Minute_def Second_def split: option.split sum.split)

lemma hardware_rests: "ends (rests_only (hardware_may_rest req)) [] (BareMetalHardwareReconciler_Reconcile req)"
proof -
  have "ends (rests_only (hardware_may_rest req)) [(GetBMH req, a)] (case as_BMH a of
      Inl err \<Rightarrow> Ret (no_requeue, IgnoreNotFound err)
    | Inr bmh \<Rightarrow> if \<not> IsZero (DeletionTimestamp bmh) then hardware_delete bmh else hardware_sync bmh)" for a
  proof (cases "as_BMH a")
    case (Inl err)
    then show ?thesis by (auto simp: hardware_may_rest_def IgnoreNotFound_def)
  next
    case (Inr bmh)
    then have "a = ABMH (Inr bmh)" by (cases a) (auto simp: as_BMH_def)
    then show ?thesis using Inr by (simp add: busy_ends hardware_delete_rests hardware_sync_rests)
  qed
  then show ?thesis by (simp add: BareMetalHardwareReconciler_Reconcile_def fetch_BMH_def)
qed

section \<open>All of them\<close>

text \<open>
  C7: a controller comes to rest in a run, without error, write or request to be run again, only when
  there is nothing it can do: the object is gone, is not its to act on yet or any more, or is in
  order. The hardware controller rests only when conditions and taints are as they should be and
  never while the hardware is being deleted; the provisioner also when the hardware of its instance is gone,
  is being deleted or refers to another instance, or when several endpoints exist for one nic.
\<close>

theorem controllers_rest:
  "ends (rests_only (provisioner_may_rest req)) [] (Provisioner_Reconcile json_error req) \<and>
   ends (rests_only (scheduler_may_rest req)) [] (Scheduler_Reconcile matches tolerates req) \<and>
   ends (rests_only (hardware_may_rest req)) [] (BareMetalHardwareReconciler_Reconcile req) \<and>
   ends (rests_only (network_may_rest req)) [] (Network_Reconcile req)"
  by (intro conjI provisioner_rests scheduler_rests hardware_rests network_rests)

end
