(* ===== verification/Spec2Isabelle.thy ===== *)
theory Spec2Isabelle
  imports AgentActions NetworkData ClusterRuns ObjectSchema AgentBoot DeepCopies Wakes Rests
begin

text \<open>
  A model of kube-baremetal, a set of Kubernetes controllers that provision bare metal: users
  describe hardware, networks and instances as custom resources; the controllers schedule an
  instance on a hardware, give it addresses, make an agent that booted on the machine write
  the image, and clean the disks when the instance goes.

  \<^bold>\<open>How the program is modelled.\<close> Go code that talks to something outside (the API server, the
  clock, the event recorder, a mutex, an agent over HTTP, the host's disks) is an interaction
  tree, \<^verbatim>\<open>'r prog\<close> of theory \<^verbatim>\<open>Program\<close>: it returns, panics, runs for ever, or makes a call
  and goes on with any answer. Nothing is assumed of the answers, so a theorem about all runs
  (\<^verbatim>\<open>always\<close> for the calls, \<^verbatim>\<open>ends\<close> for the outcomes, \<^verbatim>\<open>performs\<close> for one run) covers every
  error, conflict and race that an API server can show one run. Objects are records with the
  fields the code reads (\<^verbatim>\<open>Objects\<close>); Go's nil slices, nil pointers and indexing out of range
  are kept apart; errors are values; integers that wrap are words.

  \<^bold>\<open>Theories and sources.\<close>
  \<^item> \<^verbatim>\<open>Prelude\<close>, \<^verbatim>\<open>Program\<close>: shared lemmas, collections of simplification rules, interaction trees.
  \<^item> \<^verbatim>\<open>Objects\<close>, \<^verbatim>\<open>Conditions\<close>: \<^verbatim>\<open>api/v1alpha1\<close>, \<^verbatim>\<open>apis\<close>, \<^verbatim>\<open>api/helpers.go\<close>.
  \<^item> \<^verbatim>\<open>NetIP\<close>, \<^verbatim>\<open>NetIP_Facts\<close>, \<^verbatim>\<open>NetIP_String\<close>: the part of Go's package \<^verbatim>\<open>net\<close> the code uses.
  \<^item> \<^verbatim>\<open>EndpointNetwork\<close>, \<^verbatim>\<open>AddressPool\<close>, \<^verbatim>\<open>EndpointLifecycle\<close>: \<^verbatim>\<open>controllers/baremetalendpoint/network.go\<close>,
    its search for addresses, and the life of an endpoint.
  \<^item> \<^verbatim>\<open>Controllers\<close>: the four small controllers that set first phases and remove finalizers.
  \<^item> \<^verbatim>\<open>Scheduler\<close>: \<^verbatim>\<open>controllers/baremetalinstance/scheduler.go\<close>.
  \<^item> \<^verbatim>\<open>Provisioner\<close>, \<^verbatim>\<open>NetworkData\<close>, \<^verbatim>\<open>ProvisionerSteps\<close>: \<^verbatim>\<open>provisioner.go\<close> and \<^verbatim>\<open>types.go\<close> beside it.
  \<^item> \<^verbatim>\<open>InstanceLifecycle\<close>, \<^verbatim>\<open>InstanceRuns\<close>: the life of an instance under the three controllers that
    write its status.
  \<^item> \<^verbatim>\<open>Hardware\<close>, \<^verbatim>\<open>HardwareSteps\<close>: \<^verbatim>\<open>controllers/baremetalhardware_controller.go\<close>.
  \<^item> \<^verbatim>\<open>Encoding\<close>, \<^verbatim>\<open>Agent\<close>, \<^verbatim>\<open>AgentActions\<close>: \<^verbatim>\<open>pkg/agent\<close>: the manager, the HTTP server, the JSON
    and base 64 it speaks, the image and the clean action with their partition tables.
  \<^item> \<^verbatim>\<open>DiscoveryServer\<close>, \<^verbatim>\<open>DiscoveryRuns\<close>: \<^verbatim>\<open>pkg/discovery/server.go\<close>.
  \<^item> \<^verbatim>\<open>Reports\<close>: the JSON of what the agent reports to the discovery server, written by \<^verbatim>\<open>pkg/agent\<close>
    and bound by \<^verbatim>\<open>pkg/discovery\<close>.
  \<^item> \<^verbatim>\<open>AgentProbe\<close>, \<^verbatim>\<open>AgentBoot\<close>: \<^verbatim>\<open>pkg/agent/hardware.go\<close>; \<^verbatim>\<open>cmd/agent/main.go\<close>, \<^verbatim>\<open>SendReady\<close> of
    \<^verbatim>\<open>manager.go\<close> and \<^verbatim>\<open>Run\<close> of \<^verbatim>\<open>server.go\<close> in \<^verbatim>\<open>pkg/agent\<close>.
  \<^item> \<^verbatim>\<open>Admission\<close>, \<^verbatim>\<open>Webhooks\<close>, \<^verbatim>\<open>WebhookLaws\<close>: \<^verbatim>\<open>webhook/admission\<close> and the five webhooks of
    \<^verbatim>\<open>webhooks\<close>.
  \<^item> \<^verbatim>\<open>AddressCluster\<close>, \<^verbatim>\<open>ClusterRuns\<close>: any number of workers of the network controller, interleaved
    with users over one API server, its resource versions, the informer cache the workers
    read from, and the address lock.
  \<^item> \<^verbatim>\<open>ObjectSchema\<close>: the schemas that the \<^verbatim>\<open>kubebuilder\<close> markers of \<^verbatim>\<open>api/v1alpha1\<close> make, as predicates.
  \<^item> \<^verbatim>\<open>Wiring\<close>, \<^verbatim>\<open>Wakes\<close>: \<^verbatim>\<open>main.go\<close>, every \<^verbatim>\<open>SetupWithManager\<close> with its field index and watches, the
    registration of the webhooks, the \<^verbatim>\<open>kubebuilder:rbac\<close> markers; who is woken by which change.
  \<^item> \<^verbatim>\<open>Rests\<close>: the runs of the four large controllers that end with nothing to do.
  \<^item> \<^verbatim>\<open>GoMemory\<close>, \<^verbatim>\<open>DeepCopies\<close>: cells, references and copies; the deep copies of all API types.
    Only here an object is more than a value.

  \<^bold>\<open>What the lemmas show.\<close> Every reconciler has a contract: each run writes at most once, only
  the object it read or one it is in charge of, and the write is one step of an explicit step
  relation, backed by what was read before. On the steps, measures bound the number of writes,
  invariants tie phases, conditions and references together, and for instances some run leads
  on from every reachable state to one of four ends. The address search returns the least
  free address of the range and always stops, the last IPv6 address excepted; between the
  workers of one cluster no address is given twice when the cache has caught up at each
  listing, and a run shows that it may be when the cache lags. The encodings round trip, so
  what the provisioner sends is what the agent acts on, and what the agent has probed is what
  the discovery server records. An action that reports success has done all of its steps. What
  the reconcilers write obeys the schemas when what they read does. The webhooks' laws hold of
  any chain of accepted updates. A deep copy shares nothing with its original but the times of
  its conditions, which is why objects can be values everywhere else. Once the main function has started the
  manager, every field that a run lists by is indexed and every call is within its role, and what
  the provisioner writes wakes whoever goes on with it. A controller ends a run without a write, an
  error or a requeue only in the situations \<^verbatim>\<open>Rests\<close> lists.
  Where the code does something else than its comments say, a theorem states what it does:
  the scheduler's pointer to its loop variable, the range that wraps, the full partition table,
  the truncated sector, the user data, the endpoint webhook, the discovery created twice.

  \<^bold>\<open>Interfaces\<close> are locales: \<^verbatim>\<open>condition_object\<close> (objects with conditions), the IP text of Go, the
  encodings (\<^verbatim>\<open>json_codec\<close>, composed from fields to reports), the update laws of the webhooks; each is
  interpreted on the model's definitions.

  \<^bold>\<open>Bounds and fuel.\<close> The address search is a partial function, whose value \<^verbatim>\<open>None\<close> is a loop that
  never stops. The JSON parser is given the length of its input as fuel, and every call takes
  a character, so it is enough. The loop in which the agent reports its address has any number
  of rounds as fuel, and a theorem says what happens within any number. All other loops are
  structural.

  \<^bold>\<open>Not modelled.\<close> The log middleware of the two servers and log lines: output. The controller
  runtime is a parameter of \<^verbatim>\<open>Wiring\<close>, and whom it wakes one of \<^verbatim>\<open>Wakes\<close>, assumed to be as documented. The
  two reconcilers of \<^verbatim>\<open>controllers\<close> that say they are dummies are never set up. The generated webhook stubs have empty bodies. The
  deep copies of Kubernetes' types are parameters, assumed to be deep. Label selectors, tolerations, how a text is read as a quantity and
  whether it is zero, \<^verbatim>\<open>url.Parse\<close>, whose result is thrown away, and the web framework's reading
  of queries are not in the repository; they are parameters.
\<close>

section \<open>Properties across components\<close>

text \<open>
  C40: the two mutexes of the program, the address lock and the schedule lock: every run of the
  controller that uses one, whatever it is answered, gives it back as often as it took it and
  takes it at most once, whether it returns or panics; only a search for an address that never
  stops keeps its lock.
\<close>

theorem locks_released:
  "ends (lock_balanced addressLock) [] (Network_Reconcile req) \<and>
   ends (lock_balanced scheduleLock) [] (Scheduler_Reconcile matches tolerates req)"
  using Network_Reconcile_lock Scheduler_Reconcile_lock by blast

end
